(* ===== verification/Prelude.thy ===== *)
theory Prelude
  imports Complex_Main
begin

text \<open>
  The part of Go the plugin is written in: byte strings and the functions of package
  \<^verbatim>\<open>strings\<close> it calls, the values a \<^verbatim>\<open>map[string]any\<close> can hold, error values with
  their wrapping chain, and effectful calls as functions on an arbitrary world type.

  Strings are lists of bytes. Case mapping and white space are those of ASCII: bytes above 127
  are left alone, where Go would decode UTF-8 first. A \<^verbatim>\<open>float64\<close> is a rational number or
  one of the three special values; conversion to \<^verbatim>\<open>int64\<close> truncates, and out of range it gives
  the minimum, as Go does on amd64.
\<close>

named_theorems io_simps "unfolding of the effect combinators"
named_theorems str_simps "string functions"

section \<open>Strings\<close>

definition lower_char :: "char \<Rightarrow> char" where
  "lower_char c = (let n = (of_char c :: nat) in if 65 \<le> n \<and> n \<le> 90 then char_of (n + 32) else c)"

definition upper_char :: "char \<Rightarrow> char" where
  "upper_char c = (let n = (of_char c :: nat) in if 97 \<le> n \<and> n \<le> 122 then char_of (n - 32) else c)"

definition to_lower :: "string \<Rightarrow> string" where
  "to_lower s = List.map lower_char s"

definition to_upper :: "string \<Rightarrow> string" where
  "to_upper s = List.map upper_char s"

definition equal_fold :: "string \<Rightarrow> string \<Rightarrow> bool" where
  "equal_fold a b = (to_lower a = to_lower b)"

definition has_prefix :: "string \<Rightarrow> string \<Rightarrow> bool" where
  "has_prefix s p = (take (length p) s = p)"

definition has_suffix :: "string \<Rightarrow> string \<Rightarrow> bool" where
  "has_suffix s p = has_prefix (rev s) (rev p)"

definition trim_prefix :: "string \<Rightarrow> string \<Rightarrow> string" where
  "trim_prefix s p = (if has_prefix s p then drop (length p) s else s)"

definition cut_prefix :: "string \<Rightarrow> string \<Rightarrow> string option" where
  "cut_prefix s p = (if has_prefix s p then Some (drop (length p) s) else None)"

definition trim_suffix :: "string \<Rightarrow> string \<Rightarrow> string" where
  "trim_suffix s p = (if has_suffix s p then take (length s - length p) s else s)"

fun str_contains :: "string \<Rightarrow> string \<Rightarrow> bool" where
  "str_contains [] p = (p = [])"
| "str_contains (c # s) p = (has_prefix (c # s) p \<or> str_contains s p)"

definition contains_any :: "string \<Rightarrow> char list \<Rightarrow> bool" where
  "contains_any s cs = list_ex (\<lambda>c. List.member cs c) s"

text \<open>\<open>split_on\<close> is \<^verbatim>\<open>strings.Split\<close> for a separator of one byte, \<open>cut_at\<close> is \<^verbatim>\<open>strings.Cut\<close>.\<close>

fun split_on :: "char \<Rightarrow> string \<Rightarrow> string list" where
  "split_on d [] = [[]]"
| "split_on d (c # s) =
     (if c = d then [] # split_on d s
      else case split_on d s of [] \<Rightarrow> [[c]] | x # xs \<Rightarrow> (c # x) # xs)"

fun cut_at :: "char \<Rightarrow> string \<Rightarrow> (string \<times> string) option" where
  "cut_at d [] = None"
| "cut_at d (c # s) =
     (if c = d then Some ([], s) else map_option (\<lambda>(a, b). (c # a, b)) (cut_at d s))"

lemma cut_at_append: "c \<notin> set a \<Longrightarrow> cut_at c (a @ c # b) = Some (a, b)"
  by (induction a) auto

lemma cut_at_SomeD: "cut_at c s = Some (a, b) \<Longrightarrow> s = a @ c # b \<and> c \<notin> set a"
  by (induction s arbitrary: a) (auto split: if_splits)

definition is_space :: "char \<Rightarrow> bool" where
  "is_space c = (let n = (of_char c :: nat) in n = 32 \<or> (9 \<le> n \<and> n \<le> 13))"

definition trim_left :: "string \<Rightarrow> string" where
  "trim_left s = dropWhile is_space s"

definition trim_space :: "string \<Rightarrow> string" where
  "trim_space s = rev (trim_left (rev (trim_left s)))"

definition replace_char :: "char \<Rightarrow> char \<Rightarrow> string \<Rightarrow> string" where
  "replace_char a b s = List.map (\<lambda>c. if c = a then b else c) s"

fun str_join :: "string \<Rightarrow> string list \<Rightarrow> string" where
  "str_join sep [] = []"
| "str_join sep [x] = x"
| "str_join sep (x # y # ys) = x @ sep @ str_join sep (y # ys)"

text \<open>The decimal text of an integer, as \<^verbatim>\<open>fmt.Sprint\<close> and \<^verbatim>\<open>strconv.Itoa\<close> give it.\<close>

fun show_nat :: "nat \<Rightarrow> string" where
  "show_nat n = (if n < 10 then [char_of (48 + n)] else show_nat (n div 10) @ [char_of (48 + n mod 10)])"

declare show_nat.simps [simp del]

definition show_int :: "int \<Rightarrow> string" where
  "show_int i = (if i < 0 then CHR ''-'' # show_nat (nat (- i)) else show_nat (nat i))"

subsection \<open>Facts about strings\<close>

lemma lower_char_idem [simp]: "lower_char (lower_char c) = lower_char c"
proof (cases "65 \<le> (of_char c :: nat) \<and> (of_char c :: nat) \<le> 90")
  case True
  then have "(of_char (char_of ((of_char c :: nat) + 32)) :: nat) = of_char c + 32"
    by simp
  with True show ?thesis
    by (simp add: lower_char_def Let_def)
next
  case False
  then have "lower_char c = c"
    by (auto simp: lower_char_def Let_def)
  then show ?thesis by simp
qed

lemma to_lower_idem [simp]: "to_lower (to_lower s) = to_lower s"
  by (simp add: to_lower_def)

lemma to_lower_Nil [simp]: "to_lower [] = []"
  by (simp add: to_lower_def)

lemma to_lower_append: "to_lower (a @ b) = to_lower a @ to_lower b"
  by (simp add: to_lower_def)

lemma length_to_lower [simp]: "length (to_lower s) = length s"
  by (simp add: to_lower_def)

lemma equal_fold_refl [simp]: "equal_fold a a"
  by (simp add: equal_fold_def)

lemma equal_fold_sym: "equal_fold a b = equal_fold b a"
  by (auto simp: equal_fold_def)

lemma equal_fold_trans: "equal_fold a b \<Longrightarrow> equal_fold b c \<Longrightarrow> equal_fold a c"
  by (simp add: equal_fold_def)

lemma upper_lower_char [simp]: "upper_char (lower_char c) = upper_char c"
proof (cases "65 \<le> (of_char c :: nat) \<and> (of_char c :: nat) \<le> 90")
  case True
  then have "(of_char (char_of ((of_char c :: nat) + 32)) :: nat) = of_char c + 32"
    by simp
  with True show ?thesis
    by (simp add: lower_char_def upper_char_def Let_def)
next
  case False
  then have "lower_char c = c"
    by (auto simp: lower_char_def Let_def)
  then show ?thesis by simp
qed

lemma lower_upper_char [simp]: "lower_char (upper_char c) = lower_char c"
proof (cases "97 \<le> (of_char c :: nat) \<and> (of_char c :: nat) \<le> 122")
  case True
  define n where "n = (of_char c :: nat)"
  have n: "97 \<le> n" "n \<le> 122" and c: "c = char_of n"
    using True by (simp_all add: n_def)
  have m: "65 \<le> n - 32" "n - 32 \<le> 90" "n - 32 + 32 = n"
    using n by arith+
  have "(of_char (char_of (n - 32) :: char) :: nat) = n - 32" and "(of_char (char_of n :: char) :: nat) = n"
    using n by auto
  with n m show ?thesis
    unfolding c by (simp add: lower_char_def upper_char_def Let_def)
next
  case False
  then have "upper_char c = c"
    by (auto simp: upper_char_def Let_def)
  then show ?thesis by simp
qed

lemma to_lower_upper [simp]: "to_lower (to_upper s) = to_lower s"
  by (simp add: to_lower_def to_upper_def)

lemma to_upper_lower [simp]: "to_upper (to_lower s) = to_upper s"
  by (simp add: to_lower_def to_upper_def)

lemma equal_fold_upper: "equal_fold a b = (to_upper a = to_upper b)"
  unfolding equal_fold_def by (metis to_lower_upper to_upper_lower)

lemma to_upper_idem [simp]: "to_upper (to_upper s) = to_upper s"
  using equal_fold_upper [of "to_upper s" s] by (simp add: equal_fold_def)

lemma has_prefix_iff: "has_prefix s p = (\<exists>t. s = p @ t)"
  unfolding has_prefix_def by (metis append_eq_conv_conj append_take_drop_id)

lemma has_prefix_append [simp]: "has_prefix (p @ t) p"
  by (simp add: has_prefix_def)

lemma has_suffix_iff: "has_suffix s p = (\<exists>t. s = t @ p)"
proof
  assume "has_suffix s p"
  then obtain t where "rev s = rev p @ t"
    by (auto simp: has_suffix_def has_prefix_iff)
  then have "s = rev t @ p"
    by (metis rev_append rev_rev_ident)
  then show "\<exists>t. s = t @ p" by blast
next
  assume "\<exists>t. s = t @ p"
  then show "has_suffix s p"
    by (auto simp: has_suffix_def)
qed

lemma cut_prefix_append [simp]: "cut_prefix (p @ t) p = Some t"
  by (simp add: cut_prefix_def)

lemma cut_prefix_SomeD: "cut_prefix s p = Some t \<Longrightarrow> s = p @ t"
  by (auto simp: cut_prefix_def has_prefix_iff split: if_splits)

lemma trim_space_Nil [simp]: "trim_space [] = []"
  by (simp add: trim_space_def trim_left_def)

lemma trim_left_idem [simp]: "trim_left (trim_left s) = trim_left s"
  by (simp add: trim_left_def)

lemma trim_left_rev_stable: "trim_left s = s \<Longrightarrow> trim_left (rev (trim_left (rev s))) = rev (trim_left (rev s))"
proof -
  assume s: "trim_left s = s"
  show ?thesis
  proof (cases "rev (trim_left (rev s))")
    case Nil
    then show ?thesis by (simp only: Nil) (simp add: trim_left_def)
  next
    case (Cons c t)
    obtain ws where "rev s = ws @ trim_left (rev s)"
      unfolding trim_left_def by (metis takeWhile_dropWhile_id)
    then have "s = (c # t) @ rev ws"
      using Cons by (metis rev_append rev_rev_ident)
    with s have "\<not> is_space c"
      by (auto simp: trim_left_def split: if_splits) (metis dropWhile_eq_Cons_conv)
    then show ?thesis using Cons by (simp add: trim_left_def)
  qed
qed

lemma trim_space_idem [simp]: "trim_space (trim_space s) = trim_space s"
proof -
  have "trim_left (trim_space s) = trim_space s"
    unfolding trim_space_def by (rule trim_left_rev_stable) simp
  then show ?thesis
    by (simp add: trim_space_def)
qed

section \<open>Values\<close>

text \<open>
  A slice is nil or not: \<^verbatim>\<open>len\<close> and \<^verbatim>\<open>range\<close> do not tell nil from empty, \<^verbatim>\<open>reflect.DeepEqual\<close>
  and the JSON encoder do. \<open>gval\<close> is what an \<^verbatim>\<open>any\<close> holds; a map is an association list
  (iterating over it follows the list, in whatever order it has), \<open>GNilMap\<close> is a nil map.
\<close>

datatype 'a slice = NilSlice | Slice "'a list"

fun elems :: "'a slice \<Rightarrow> 'a list" where
  "elems NilSlice = []"
| "elems (Slice xs) = xs"

datatype f64 = Fin rat | PosInf | NegInf | NaN

datatype gval =
    GNil
  | GBool bool
  | GInt int
  | GInt64 int
  | GFloat f64
  | GStr string
  | GStrs "string slice"
  | GInts "int slice"
  | GAnys "gval slice"
  | GMap "(string \<times> gval) list"
  | GMaps "(string \<times> gval) list slice"
  | GNilMap

type_synonym cfg = "(string \<times> gval) list"

definition rat_trunc :: "rat \<Rightarrow> int" where
  "rat_trunc q = (if 0 \<le> q then \<lfloor>q\<rfloor> else \<lceil>q\<rceil>)"

definition min_int64 :: int where
  "min_int64 = - 9223372036854775808"

definition f64_to_int :: "f64 \<Rightarrow> int" where
  "f64_to_int f = (case f of
     Fin q \<Rightarrow> (let n = rat_trunc q in
       if min_int64 \<le> n \<and> n \<le> 9223372036854775807 then n else min_int64)
   | _ \<Rightarrow> min_int64)"

text \<open>\<^verbatim>\<open>float64(n)\<close> for an integer of magnitude at most \<open>2 ^ 53\<close>, where it is exact.\<close>

definition f64_of_int :: "int \<Rightarrow> f64" where
  "f64_of_int n = Fin (of_int n)"

text \<open>\<open>f64_integral t\<close> is \<^verbatim>\<open>t == float64(int64(t))\<close>.\<close>

definition f64_integral :: "f64 \<Rightarrow> bool" where
  "f64_integral f = (case f of Fin q \<Rightarrow> of_int (f64_to_int f) = q | _ \<Rightarrow> False)"

text \<open>The type assertions \<^verbatim>\<open>m[k].(string)\<close>, \<^verbatim>\<open>.(bool)\<close>, \<^verbatim>\<open>.([]any)\<close>, \<^verbatim>\<open>.(map[string]any)\<close>.\<close>

fun as_str :: "gval option \<Rightarrow> string option" where
  "as_str (Some (GStr s)) = Some s"
| "as_str _ = None"

fun as_bool :: "gval option \<Rightarrow> bool option" where
  "as_bool (Some (GBool b)) = Some b"
| "as_bool _ = None"

fun as_anys :: "gval option \<Rightarrow> gval slice option" where
  "as_anys (Some (GAnys xs)) = Some xs"
| "as_anys _ = None"

fun as_map :: "gval option \<Rightarrow> cfg option" where
  "as_map (Some (GMap m)) = Some m"
| "as_map (Some GNilMap) = Some []"
| "as_map _ = None"

definition str_or_empty :: "gval option \<Rightarrow> string" where
  "str_or_empty v = (case as_str v of Some s \<Rightarrow> s | None \<Rightarrow> [])"

lemma f64_to_int_of_int [simp]:
  "min_int64 \<le> n \<Longrightarrow> n \<le> 9223372036854775807 \<Longrightarrow> f64_to_int (f64_of_int n) = n"
  by (simp add: f64_to_int_def f64_of_int_def rat_trunc_def Let_def)

lemma f64_integral_of_int [simp]:
  "min_int64 \<le> n \<Longrightarrow> n \<le> 9223372036854775807 \<Longrightarrow> f64_integral (f64_of_int n)"
  using f64_to_int_of_int [of n] by (simp add: f64_integral_def f64_of_int_def)

lemma f64_integral_trunc: "f64_integral (Fin q) \<Longrightarrow> of_int (f64_to_int (Fin q)) = q"
  by (simp add: f64_integral_def)

section \<open>Errors\<close>

text \<open>
  The sentinels are those of package \<^verbatim>\<open>interfaces\<close>. A \<open>GodoError\<close> is a
  \<^verbatim>\<open>*godo.ErrorResponse\<close>: the status code of its response, absent when the response is nil,
  and its message. \<open>Errorf\<close> and \<open>Wrapf\<close> are \<^verbatim>\<open>fmt.Errorf\<close> without and with a \<^verbatim>\<open>%w\<close> verb: the
  format string, its other arguments and the wrapped error; \<open>Wraps\<close> is an error that unwraps to
  two. A \<open>UrlError\<close> is a \<^verbatim>\<open>*url.Error\<close>, the error of an HTTP request: its operation, the URL and
  the error it wraps.
\<close>

datatype sentinel =
    ErrResourceNotFound | ErrResourceAlreadyExists | ErrUnauthorized | ErrForbidden
  | ErrValidation | ErrRateLimited | ErrTransient | ErrImageNotInRegistry
  | ErrProviderMethodUnimplemented

datatype grpc_code = InvalidArgument | FailedPrecondition | Unimplemented

datatype s3_kind = NoSuchKey | NotFound | OtherS3

datatype go_error =
    Sentinel sentinel
  | GodoError "int option" string
  | GrpcStatus grpc_code string "farg list"
  | S3Error s3_kind string
  | CtxCanceled
  | CtxDeadlineExceeded
  | Opaque string
  | UrlError string string go_error
  | Errorf string "farg list"
  | Wrapf string "farg list" go_error
  | Wraps string "farg list" go_error go_error
and farg = FStr string | FInt int | FVal gval | FErr go_error

fun errors_is :: "go_error \<Rightarrow> sentinel \<Rightarrow> bool" where
  "errors_is (Sentinel t) s = (t = s)"
| "errors_is (Wrapf _ _ e) s = errors_is e s"
| "errors_is (UrlError _ _ e) s = errors_is e s"
| "errors_is (Wraps _ _ e1 e2) s = (errors_is e1 s \<or> errors_is e2 s)"
| "errors_is _ s = False"

text \<open>
  \<^verbatim>\<open>errors.As\<close> with a \<^verbatim>\<open>*godo.ErrorResponse\<close> target: the first one of the chain, given as
  its status and message.
\<close>

fun errors_as_godo :: "go_error \<Rightarrow> (int option \<times> string) option" where
  "errors_as_godo (GodoError st msg) = Some (st, msg)"
| "errors_as_godo (Wrapf _ _ e) = errors_as_godo e"
| "errors_as_godo (UrlError _ _ e) = errors_as_godo e"
| "errors_as_godo (Wraps _ _ e1 e2) = (case errors_as_godo e1 of Some x \<Rightarrow> Some x | None \<Rightarrow> errors_as_godo e2)"
| "errors_as_godo _ = None"

text \<open>The same for a \<^verbatim>\<open>*url.Error\<close>: its operation, URL and inner error.\<close>

fun errors_as_url :: "go_error \<Rightarrow> (string \<times> string \<times> go_error) option" where
  "errors_as_url (UrlError op u e) = Some (op, u, e)"
| "errors_as_url (Wrapf _ _ e) = errors_as_url e"
| "errors_as_url (Wraps _ _ e1 e2) = (case errors_as_url e1 of Some x \<Rightarrow> Some x | None \<Rightarrow> errors_as_url e2)"
| "errors_as_url _ = None"

text \<open>The text of a health message: a literal, an error's text, or a formatted text.\<close>

datatype message = Text string | ErrorText go_error | Format string "farg list"

section \<open>Effects\<close>

text \<open>
  A call returns a value or an error, or panics; it changes the world. A program may also never
  return: that is \<open>None\<close>.
\<close>

datatype 'a res = Ok 'a | Err go_error | Panic string

type_synonym ('w, 'a) io = "'w \<Rightarrow> ('a res \<times> 'w) option"

definition io_ok :: "'a \<Rightarrow> ('w, 'a) io" where
  "io_ok x = (\<lambda>w. Some (Ok x, w))"

definition io_err :: "go_error \<Rightarrow> ('w, 'a) io" where
  "io_err e = (\<lambda>w. Some (Err e, w))"

definition io_panic :: "string \<Rightarrow> ('w, 'a) io" where
  "io_panic p = (\<lambda>w. Some (Panic p, w))"

definition io_res :: "'a res \<Rightarrow> ('w, 'a) io" where
  "io_res r = (\<lambda>w. Some (r, w))"

text \<open>\<open>io_bind m f\<close>: run \<open>m\<close>, return its error if it fails, else go on with \<open>f\<close>.\<close>

definition io_bind :: "('w, 'a) io \<Rightarrow> ('a \<Rightarrow> ('w, 'b) io) \<Rightarrow> ('w, 'b) io" where
  "io_bind m f = (\<lambda>w. case m w of
     None \<Rightarrow> None
   | Some (Ok x, w') \<Rightarrow> f x w'
   | Some (Err e, w') \<Rightarrow> Some (Err e, w')
   | Some (Panic p, w') \<Rightarrow> Some (Panic p, w'))"

text \<open>\<open>io_handle m ok bad\<close>: both the result and the error of \<open>m\<close> are looked at.\<close>

definition io_handle :: "('w, 'a) io \<Rightarrow> ('a \<Rightarrow> ('w, 'b) io) \<Rightarrow> (go_error \<Rightarrow> ('w, 'b) io) \<Rightarrow> ('w, 'b) io" where
  "io_handle m ok bad = (\<lambda>w. case m w of
     None \<Rightarrow> None
   | Some (Ok x, w') \<Rightarrow> ok x w'
   | Some (Err e, w') \<Rightarrow> bad e w'
   | Some (Panic p, w') \<Rightarrow> Some (Panic p, w'))"

text \<open>Using a pointer: nil panics.\<close>

definition io_deref :: "'a option \<Rightarrow> ('a \<Rightarrow> ('w, 'b) io) \<Rightarrow> ('w, 'b) io" where
  "io_deref p f = (case p of None \<Rightarrow> io_panic ''nil pointer dereference'' | Some x \<Rightarrow> f x)"

text \<open>\<open>io_wrap g m\<close>: return \<open>g\<close> of the error of \<open>m\<close>, if it fails.\<close>

definition io_wrap :: "(go_error \<Rightarrow> go_error) \<Rightarrow> ('w, 'a) io \<Rightarrow> ('w, 'a) io" where
  "io_wrap g m = io_handle m io_ok (\<lambda>e. io_err (g e))"

text \<open>A question to the world that does not change it, such as \<^verbatim>\<open>ctx.Err()\<close>.\<close>

definition io_ask :: "('w \<Rightarrow> 'a) \<Rightarrow> ('w, 'a) io" where
  "io_ask q = (\<lambda>w. Some (Ok (q w), w))"

fun of_opt_err :: "go_error option \<Rightarrow> unit res" where
  "of_opt_err None = Ok ()"
| "of_opt_err (Some e) = Err e"

fun res_bind :: "'a res \<Rightarrow> ('a \<Rightarrow> 'b res) \<Rightarrow> 'b res" where
  "res_bind (Ok x) f = f x"
| "res_bind (Err e) f = Err e"
| "res_bind (Panic p) f = Panic p"

fun res_wrap :: "(go_error \<Rightarrow> go_error) \<Rightarrow> 'a res \<Rightarrow> 'a res" where
  "res_wrap g (Err e) = Err (g e)"
| "res_wrap g r = r"

declare io_ok_def [io_simps] io_err_def [io_simps] io_panic_def [io_simps] io_res_def [io_simps]
  io_bind_def [io_simps] io_handle_def [io_simps] io_wrap_def [io_simps] io_ask_def [io_simps]

lemma io_deref_simps [simp]:
  "io_deref (Some x) f = f x" "io_deref None f = io_panic ''nil pointer dereference''"
  by (simp_all add: io_deref_def)

lemma res_bind_Ok_iff: "res_bind r f = Ok y \<longleftrightarrow> (\<exists>x. r = Ok x \<and> f x = Ok y)"
  by (cases r) auto

lemma res_wrap_Ok_iff [simp]: "res_wrap g r = Ok x \<longleftrightarrow> r = Ok x"
  by (cases r) auto

lemma of_opt_err_Ok [simp]: "of_opt_err e = Ok u \<longleftrightarrow> e = None"
  by (cases e) auto

lemma io_bind_Ok [simp]: "io_bind (io_ok x) f = f x"
  by (simp add: io_simps)

lemma io_bind_err [simp]: "io_bind (io_err e) f = io_err e"
  by (simp add: io_simps)

lemma io_bind_assoc: "io_bind (io_bind m f) g = io_bind m (\<lambda>x. io_bind (f x) g)"
  by (auto simp: io_simps fun_eq_iff split: option.splits prod.splits res.splits)

lemma io_bind_OkE:
  assumes "io_bind m f w = Some (Ok y, w2)"
  obtains x w1 where "m w = Some (Ok x, w1)" and "f x w1 = Some (Ok y, w2)"
  using assms by (auto simp: io_simps split: option.splits prod.splits res.splits)

lemma io_wrap_OkE:
  assumes "io_wrap g m w = Some (Ok y, w2)"
  obtains "m w = Some (Ok y, w2)"
  using assms by (auto simp: io_simps split: option.splits prod.splits res.splits)

lemma io_bind_res: "io_bind (io_res r) f w =
    (case r of Ok x \<Rightarrow> f x w | Err e \<Rightarrow> Some (Err e, w) | Panic p \<Rightarrow> Some (Panic p, w))"
  by (simp add: io_simps split: res.splits)

lemma io_bind_SomeD:
  "m w = Some (Ok x, w1) \<Longrightarrow> io_bind m f w = f x w1"
  by (simp add: io_simps)

lemma io_wrap_SomeD:
  "m w = Some (Ok x, w1) \<Longrightarrow> io_wrap g m w = Some (Ok x, w1)"
  by (simp add: io_simps)

section \<open>Paginated listings\<close>

text \<open>
  The plugin reads every collection of the API page by page, in the loop
  \<^verbatim>\<open>for { xs, resp, err := List(page); ...; if last { break }; page++ }\<close>. A response says whether
  its page is the last one; a nil response or nil links count as the last page.
\<close>

record links =
  is_last_page :: bool
  has_next :: bool
  current_page :: "int res"

definition last_page :: "links option \<Rightarrow> bool" where
  "last_page l = (case l of None \<Rightarrow> True | Some k \<Rightarrow> is_last_page k)"

type_synonym ('w, 'a) lister = "nat \<Rightarrow> ('w, 'a list \<times> links option) io"

fun first_match :: "('a \<Rightarrow> bool) \<Rightarrow> 'a list \<Rightarrow> 'a option" where
  "first_match p [] = None"
| "first_match p (x # xs) = (if p x then Some x else first_match p xs)"

partial_function (option) find_page ::
  "('w, 'a) lister \<Rightarrow> ('a \<Rightarrow> bool) \<Rightarrow> nat \<Rightarrow> 'w \<Rightarrow> ('a option res \<times> 'w) option" where
  "find_page list p page w =
     (case list page w of
        None \<Rightarrow> None
      | Some (r, w') \<Rightarrow>
        (case r of
           Ok (xs, l) \<Rightarrow>
             (if first_match p xs \<noteq> None then Some (Ok (first_match p xs), w')
              else if last_page l then Some (Ok None, w')
              else find_page list p (Suc page) w')
         | Err e \<Rightarrow> Some (Err e, w')
         | Panic m \<Rightarrow> Some (Panic m, w')))"

partial_function (option) collect_pages ::
  "('w, 'a) lister \<Rightarrow> nat \<Rightarrow> 'a list \<Rightarrow> 'w \<Rightarrow> ('a list res \<times> 'w) option" where
  "collect_pages list page acc w =
     (case list page w of
        None \<Rightarrow> None
      | Some (r, w') \<Rightarrow>
        (case r of
           Ok (xs, l) \<Rightarrow>
             (if last_page l then Some (Ok (acc @ xs), w')
              else collect_pages list (Suc page) (acc @ xs) w')
         | Err e \<Rightarrow> Some (Err e, w')
         | Panic m \<Rightarrow> Some (Panic m, w')))"

lemma first_match_None: "first_match p xs = None \<longleftrightarrow> (\<forall>x \<in> set xs. \<not> p x)"
  by (induction xs) auto

lemma first_match_Some: "first_match p xs = Some x \<Longrightarrow> x \<in> set xs \<and> p x"
  by (induction xs) (auto split: if_splits)

lemma first_match_append:
  "first_match p (xs @ ys) = (case first_match p xs of None \<Rightarrow> first_match p ys | Some x \<Rightarrow> Some x)"
  by (induction xs) auto

text \<open>
  What the loops rely on: the pages of a collection, numbered from 1, are returned in order and
  unchanged, exactly the last one is marked as last, and listing does not change the collection.
\<close>

locale paged_list =
  fixes list :: "('w, 'a) lister"
    and pages :: "'w \<Rightarrow> 'a list list"
  assumes pages_nonempty: "pages w \<noteq> []"
    and list_page: "i < length (pages w) \<Longrightarrow>
      \<exists>l. list (Suc i) w = Some (Ok (pages w ! i, l), w) \<and> last_page l = (Suc i = length (pages w))"
begin

lemma find_page_from:
  "i < length (pages w) \<Longrightarrow>
   find_page list p (Suc i) w = Some (Ok (first_match p (concat (drop i (pages w)))), w)"
proof (induction "length (pages w) - i" arbitrary: i)
  case 0
  then show ?case by simp
next
  case (Suc n)
  obtain l where l: "list (Suc i) w = Some (Ok (pages w ! i, l), w)"
    "last_page l = (Suc i = length (pages w))"
    using list_page [OF Suc.prems] by blast
  have d: "drop i (pages w) = pages w ! i # drop (Suc i) (pages w)"
    using Suc.prems by (simp add: Cons_nth_drop_Suc)
  show ?case
  proof (cases "Suc i = length (pages w)")
    case True
    then show ?thesis
      using l d by (simp add: find_page.simps first_match_append split: option.splits)
  next
    case False
    then have "Suc i < length (pages w)" "n = length (pages w) - Suc i"
      using Suc by auto
    then have "find_page list p (Suc (Suc i)) w = Some (Ok (first_match p (concat (drop (Suc i) (pages w)))), w)"
      using Suc.hyps(1) by blast
    then show ?thesis
      using l d False by (simp add: find_page.simps [of list p "Suc i"] first_match_append split: option.splits)
  qed
qed

lemma find_page_all: "find_page list p 1 w = Some (Ok (first_match p (concat (pages w))), w)"
  using find_page_from [of 0 w p] pages_nonempty [of w] by simp

lemma collect_pages_from:
  "i < length (pages w) \<Longrightarrow>
   collect_pages list (Suc i) acc w = Some (Ok (acc @ concat (drop i (pages w))), w)"
proof (induction "length (pages w) - i" arbitrary: i acc)
  case 0
  then show ?case by simp
next
  case (Suc n)
  obtain l where l: "list (Suc i) w = Some (Ok (pages w ! i, l), w)"
    "last_page l = (Suc i = length (pages w))"
    using list_page [OF Suc.prems] by blast
  have d: "drop i (pages w) = pages w ! i # drop (Suc i) (pages w)"
    using Suc.prems by (simp add: Cons_nth_drop_Suc)
  show ?case
  proof (cases "Suc i = length (pages w)")
    case True
    then show ?thesis
      using l d by (simp add: collect_pages.simps)
  next
    case False
    then have "Suc i < length (pages w)" "n = length (pages w) - Suc i"
      using Suc by auto
    then have "collect_pages list (Suc (Suc i)) (acc @ pages w ! i) w
        = Some (Ok ((acc @ pages w ! i) @ concat (drop (Suc i) (pages w))), w)"
      using Suc.hyps(1) by blast
    then show ?thesis
      using l d False by (simp add: collect_pages.simps [of list "Suc i"])
  qed
qed

lemma collect_pages_all: "collect_pages list 1 [] w = Some (Ok (concat (pages w)), w)"
  using collect_pages_from [of 0 w "[]"] pages_nonempty [of w] by simp

end

text \<open>The listing of a collection that is already cut into pages: the concrete clients use it.\<close>

definition nonempty_pages :: "'a list list \<Rightarrow> 'a list list" where
  "nonempty_pages ps = (if ps = [] then [[]] else ps)"

definition page_lister :: "('w \<Rightarrow> 'a list list) \<Rightarrow> ('w, 'a) lister" where
  "page_lister f page = (\<lambda>w.
     let ps = nonempty_pages (f w)
     in if 1 \<le> page \<and> page \<le> length ps
        then Some (Ok (ps ! (page - 1),
               Some \<lparr>is_last_page = (page = length ps), has_next = (page < length ps),
                     current_page = Ok (int page)\<rparr>), w)
        else Some (Ok ([], None), w))"

interpretation static_pages: paged_list "page_lister f" "\<lambda>w. nonempty_pages (f w)" for f
proof
  fix w :: 'a
  show "nonempty_pages (f w) \<noteq> []"
    by (simp add: nonempty_pages_def)
next
  fix i and w :: 'a
  assume "i < length (nonempty_pages (f w))"
  then show "\<exists>l. page_lister f (Suc i) w = Some (Ok (nonempty_pages (f w) ! i, l), w)
      \<and> last_page l = (Suc i = length (nonempty_pages (f w)))"
    by (simp add: page_lister_def last_page_def Let_def)
qed

end
