(* ===== verification/Resource.thy ===== *)
theory Resource
  imports Prelude
begin

text \<open>
  The records of package \<^verbatim>\<open>interfaces\<close> that cross every driver: the desired spec, the reference
  to a live resource, the output recorded in state, the result of a diff. The locales state what
  the engine and the provider expect of a driver's \<^verbatim>\<open>Diff\<close>.
\<close>

record resource_spec =
  spec_Name :: string
  spec_Type :: string
  spec_Config :: cfg

record resource_ref =
  ref_Name :: string
  ref_Type :: string
  ref_ProviderID :: string

record resource_output =
  out_Name :: string
  out_Type :: string
  out_ProviderID :: string
  out_Outputs :: cfg
  out_Sensitive :: "(string \<times> bool) list"
  out_Status :: string

text \<open>What the engine recorded of a resource.\<close>

record resource_state =
  rst_ID :: string
  rst_Name :: string
  rst_Type :: string
  rst_Provider :: string
  rst_ProviderID :: string
  rst_Outputs :: cfg
  rst_CreatedAt :: string
  rst_UpdatedAt :: string

record field_change =
  fc_Path :: string
  fc_Old :: gval
  fc_New :: gval
  fc_ForceNew :: bool

record diff_result =
  NeedsUpdate :: bool
  NeedsReplace :: bool
  Changes :: "field_change list"

record health_result =
  Healthy :: bool
  Message :: message

text \<open>What every \<^verbatim>\<open>Diff\<close> answers when the resource does not exist yet.\<close>

definition diff_absent :: diff_result where
  "diff_absent = \<lparr>NeedsUpdate = True, NeedsReplace = False, Changes = []\<rparr>"

definition change :: "string \<Rightarrow> gval \<Rightarrow> gval \<Rightarrow> field_change" where
  "change p old new = \<lparr>fc_Path = p, fc_Old = old, fc_New = new, fc_ForceNew = False\<rparr>"

definition change_new :: "string \<Rightarrow> gval \<Rightarrow> gval \<Rightarrow> field_change" where
  "change_new p old new = \<lparr>fc_Path = p, fc_Old = old, fc_New = new, fc_ForceNew = True\<rparr>"

lemma change_ForceNew [simp]: "\<not> fc_ForceNew (change p a b)" "fc_ForceNew (change_new p a b)"
  by (simp_all add: change_def change_new_def)

lemma change_Path [simp]: "fc_Path (change p a b) = p" "fc_Path (change_new p a b) = p"
  by (simp_all add: change_def change_new_def)

definition hasForceNewChange :: "field_change list \<Rightarrow> bool" where
  "hasForceNewChange changes = list_ex fc_ForceNew changes"

text \<open>
  Most \<^verbatim>\<open>Diff\<close> methods go through the fields one after the other and, where a field differs,
  append its change; a change that cannot be made in place also sets \<^verbatim>\<open>needsReplace\<close>. One such
  step is \<open>diff_step\<close>; \<open>diff_result_of\<close> is the result returned at the end.
\<close>

type_synonym diff_state = "field_change list \<times> bool"

definition diff_step :: "bool \<Rightarrow> field_change \<Rightarrow> diff_state \<Rightarrow> diff_state" where
  "diff_step differs c st = (if differs then (fst st @ [c], snd st \<or> fc_ForceNew c) else st)"

definition diff_result_of :: "diff_state \<Rightarrow> diff_result" where
  "diff_result_of st = \<lparr>NeedsUpdate = (fst st \<noteq> []), NeedsReplace = snd st, Changes = fst st\<rparr>"

definition diff_marks :: "diff_state \<Rightarrow> bool" where
  "diff_marks st = (snd st = list_ex fc_ForceNew (fst st))"

lemma diff_marks_start [simp, intro]: "diff_marks ([], False)"
  by (simp add: diff_marks_def)

lemma diff_marks_step [simp, intro]: "diff_marks st \<Longrightarrow> diff_marks (diff_step d c st)"
  by (auto simp: diff_marks_def diff_step_def)

lemma diff_step_nil: "fst (diff_step d c st) = [] \<longleftrightarrow> fst st = [] \<and> \<not> d"
  by (simp add: diff_step_def)

lemma diff_step_replace: "snd (diff_step d c st) \<longleftrightarrow> snd st \<or> (d \<and> fc_ForceNew c)"
  by (simp add: diff_step_def)

lemma diff_step_skip [simp]: "diff_step False c st = st"
  by (simp add: diff_step_def)

lemma diff_result_of_contract:
  "diff_marks st \<Longrightarrow> NeedsReplace (diff_result_of st) = (\<exists>c \<in> set (Changes (diff_result_of st)). fc_ForceNew c)"
  "Changes (diff_result_of st) = [] \<longleftrightarrow> \<not> NeedsUpdate (diff_result_of st)"
  by (simp_all add: diff_result_of_def diff_marks_def list_ex_iff)

text \<open>
  The contract of \<^verbatim>\<open>Diff\<close>. A resource that does not exist needs an update. A replacement is
  asked for exactly when some change cannot be made in place, and reported changes always ask for
  an update. A \<open>field_differ\<close> moreover names a field whenever it asks for an update.
\<close>

locale differ =
  fixes diff :: "resource_spec \<Rightarrow> resource_output option \<Rightarrow> diff_result res"
  assumes diff_none: "diff s None = Ok d \<Longrightarrow> d = diff_absent"
    and diff_replace: "diff s (Some cur) = Ok d \<Longrightarrow> NeedsReplace d = (\<exists>c \<in> set (Changes d). fc_ForceNew c)"
    and diff_update: "diff s (Some cur) = Ok d \<Longrightarrow> Changes d \<noteq> [] \<Longrightarrow> NeedsUpdate d"
begin

lemma replace_needs_update:
  assumes "diff s cur = Ok d" and "NeedsReplace d"
  shows "NeedsUpdate d"
proof (cases cur)
  case None
  then show ?thesis
    using assms diff_none [of s d] by (simp add: diff_absent_def)
next
  case (Some c)
  then have "Changes d \<noteq> []"
    using assms diff_replace [of s c d] by auto
  then show ?thesis
    using assms Some diff_update [of s c d] by simp
qed

lemma in_place_no_force_new:
  assumes "diff s cur = Ok d" and "\<not> NeedsReplace d"
  shows "\<forall>c \<in> set (Changes d). \<not> fc_ForceNew c"
proof (cases cur)
  case None
  then show ?thesis
    using assms diff_none [of s d] by (simp add: diff_absent_def)
next
  case (Some c)
  then show ?thesis
    using assms diff_replace [of s c d] by auto
qed

end

locale field_differ = differ +
  assumes diff_names_field: "diff s (Some cur) = Ok d \<Longrightarrow> NeedsUpdate d \<Longrightarrow> Changes d \<noteq> []"
begin

lemma update_iff_changes: "diff s (Some cur) = Ok d \<Longrightarrow> NeedsUpdate d = (Changes d \<noteq> [])"
  using diff_names_field diff_update by blast

end

end
