(* ===== verification/Errors.thy ===== *)
theory Errors
  imports Prelude
begin

text \<open>
  The classification of API errors (\<^verbatim>\<open>internal/drivers/errors.go\<close>): an HTTP status is mapped
  to one of the sentinels of package \<^verbatim>\<open>interfaces\<close>, so that callers can decide with
  \<^verbatim>\<open>errors.Is\<close> what happened.
\<close>

definition sentinelForStatus :: "int \<Rightarrow> sentinel option" where
  "sentinelForStatus code =
     (if code = 401 then Some ErrUnauthorized
      else if code = 403 then Some ErrForbidden
      else if code = 404 \<or> code = 405 then Some ErrResourceNotFound
      else if code = 409 then Some ErrResourceAlreadyExists
      else if code = 400 \<or> code = 422 then Some ErrValidation
      else if code = 429 then Some ErrRateLimited
      else if 500 \<le> code \<and> code \<le> 599 then Some ErrTransient
      else None)"

text \<open>
  Every caller passes a non-nil error. Only an error that is itself a \<^verbatim>\<open>*godo.ErrorResponse\<close> is
  classified (the code uses a type assertion, not \<^verbatim>\<open>errors.As\<close>); the original error is kept in
  the text, not in the chain.
\<close>

definition WrapGodoError :: "go_error \<Rightarrow> go_error" where
  "WrapGodoError err =
     (case err of
        GodoError (Some status) msg \<Rightarrow>
          (case sentinelForStatus status of
             None \<Rightarrow> err
           | Some s \<Rightarrow> Wrapf ''%w: %v'' [FErr err] (Sentinel s))
      | _ \<Rightarrow> err)"

lemma errors_is_WrapGodoError:
  "errors_is (WrapGodoError err) s =
     (case err of GodoError (Some status) msg \<Rightarrow> sentinelForStatus status = Some s
      | _ \<Rightarrow> errors_is err s)"
  by (auto simp: WrapGodoError_def split: go_error.splits option.splits)

lemma WrapGodoError_status:
  "errors_is (WrapGodoError (GodoError (Some st) msg)) s \<longleftrightarrow> sentinelForStatus st = Some s"
  by (simp add: errors_is_WrapGodoError)

lemma WrapGodoError_other [simp]:
  "errors_as_godo err = None \<Longrightarrow> WrapGodoError err = err"
  by (cases err) (auto simp: WrapGodoError_def)

end
