(* ===== verification/ConfigUtil.thy ===== *)
theory ConfigUtil
  imports Resource "HOL-Library.List_Lexorder" "HOL-Library.Char_ord" "HOL-Library.Multiset"
begin

text \<open>
  Reading a resource's configuration (\<^verbatim>\<open>internal/drivers/util.go\<close>, \<^verbatim>\<open>shared.go\<close>, and the coercers
  of \<^verbatim>\<open>volume.go\<close> and \<^verbatim>\<open>firewall.go\<close>). A Go function returning a value, a presence flag and an error
  is modelled by a \<open>res\<close> of the first two: the callers look at the error first.
\<close>

definition isUUIDLike :: "string \<Rightarrow> bool" where
  "isUUIDLike s = (length s = 36 \<and> s ! 8 = CHR ''-'' \<and> s ! 13 = CHR ''-'' \<and> s ! 18 = CHR ''-'' \<and> s ! 23 = CHR ''-'')"

definition intFromConfig :: "cfg \<Rightarrow> string \<Rightarrow> int \<Rightarrow> int \<times> bool" where
  "intFromConfig config key defaultVal =
     (case map_of config key of
        Some (GInt t) \<Rightarrow> (t, True)
      | Some (GInt64 t) \<Rightarrow> (t, True)
      | Some (GFloat t) \<Rightarrow> (f64_to_int t, True)
      | _ \<Rightarrow> (defaultVal, False))"

definition intStrictFromConfig :: "cfg \<Rightarrow> string \<Rightarrow> string \<Rightarrow> int \<Rightarrow> (int \<times> bool) res" where
  "intStrictFromConfig config key errLabel defaultVal =
     (case map_of config key of
        None \<Rightarrow> Ok (defaultVal, False)
      | Some v \<Rightarrow>
        (case v of
           GInt t \<Rightarrow> Ok (t, True)
         | GInt64 t \<Rightarrow> Ok (t, True)
         | GFloat t \<Rightarrow>
             (if \<not> f64_integral t
              then Err (Errorf ''%s: fractional value %v rejected; specify an integer'' [FStr errLabel, FVal v])
              else Ok (f64_to_int t, True))
         | _ \<Rightarrow> Err (Errorf ''%s: expected integer, got %T'' [FStr errLabel, FVal v])))"

definition strFromConfig :: "cfg \<Rightarrow> string \<Rightarrow> string \<Rightarrow> string" where
  "strFromConfig config key defaultVal =
     (case as_str (map_of config key) of
        Some v \<Rightarrow> if v \<noteq> [] then v else defaultVal
      | None \<Rightarrow> defaultVal)"

definition boolFromConfig :: "cfg \<Rightarrow> string \<Rightarrow> bool \<Rightarrow> bool" where
  "boolFromConfig config key defaultVal =
     (case as_bool (map_of config key) of Some v \<Rightarrow> v | None \<Rightarrow> defaultVal)"

fun nonempty_strings :: "gval list \<Rightarrow> string list" where
  "nonempty_strings [] = []"
| "nonempty_strings (GStr s # es) = (if s \<noteq> [] then s # nonempty_strings es else nonempty_strings es)"
| "nonempty_strings (_ # es) = nonempty_strings es"

definition strSliceFromConfig :: "cfg \<Rightarrow> string \<Rightarrow> string slice" where
  "strSliceFromConfig config key =
     (case map_of config key of
        Some (GStrs t) \<Rightarrow> Slice (filter (\<lambda>s. s \<noteq> []) (elems t))
      | Some (GAnys t) \<Rightarrow> Slice (nonempty_strings (elems t))
      | _ \<Rightarrow> NilSlice)"

text \<open>The reference is cut at the first colon after the last slash.\<close>

definition splitImageRef :: "string \<Rightarrow> string list" where
  "splitImageRef img =
     (let name = rev (takeWhile (\<lambda>c. c \<noteq> CHR ''/'') (rev img));
          path = take (length img - length name) img
      in case cut_at (CHR '':'') name of
           None \<Rightarrow> [img]
         | Some (repo, tag) \<Rightarrow> [path @ repo, tag])"

definition imageRepo :: "string \<Rightarrow> string" where
  "imageRepo img = hd (splitImageRef img)"

definition imageTag :: "string \<Rightarrow> string" where
  "imageTag img =
     (let parts = splitImageRef img in if length parts = 2 then parts ! 1 else ''latest'')"

definition outputsAsInt :: "gval option \<Rightarrow> int" where
  "outputsAsInt v =
     (case v of
        Some (GInt t) \<Rightarrow> t
      | Some (GInt64 t) \<Rightarrow> t
      | Some (GFloat t) \<Rightarrow> f64_to_int t
      | _ \<Rightarrow> 0)"

fun ints_of :: "gval list \<Rightarrow> int list" where
  "ints_of [] = []"
| "ints_of (GInt n # xs) = n # ints_of xs"
| "ints_of (GInt64 n # xs) = n # ints_of xs"
| "ints_of (GFloat n # xs) = f64_to_int n # ints_of xs"
| "ints_of (_ # xs) = ints_of xs"

fun strings_of :: "gval list \<Rightarrow> string list" where
  "strings_of [] = []"
| "strings_of (GStr s # xs) = s # strings_of xs"
| "strings_of (_ # xs) = strings_of xs"

text \<open>\<^verbatim>\<open>append([]int(nil), t...)\<close> is nil for an empty \<^verbatim>\<open>t\<close>, a fresh copy otherwise.\<close>

definition copy_slice :: "'a slice \<Rightarrow> 'a slice" where
  "copy_slice t = (if elems t = [] then NilSlice else Slice (elems t))"

definition outputsAsIntSlice :: "gval option \<Rightarrow> int slice" where
  "outputsAsIntSlice v =
     (case v of
        Some (GInts t) \<Rightarrow> copy_slice t
      | Some (GAnys t) \<Rightarrow> Slice (ints_of (elems t))
      | _ \<Rightarrow> NilSlice)"

definition outputsAsStringSlice :: "gval option \<Rightarrow> string slice" where
  "outputsAsStringSlice v =
     (case v of
        Some (GStrs t) \<Rightarrow> copy_slice t
      | Some (GAnys t) \<Rightarrow> Slice (strings_of (elems t))
      | _ \<Rightarrow> NilSlice)"

text \<open>\<open>equalIntSet\<close> and \<open>equalStringSet\<close> compare sorted copies element by element.\<close>

definition equalIntSet :: "int list \<Rightarrow> int list \<Rightarrow> bool" where
  "equalIntSet a b =
     (if length a \<noteq> length b then False
      else let sa = sort a; sb = sort b in list_all (\<lambda>i. sa ! i = sb ! i) [0..<length sa])"

definition equalStringSet :: "string list \<Rightarrow> string list \<Rightarrow> bool" where
  "equalStringSet a b =
     (if length a \<noteq> length b then False
      else let sa = sort a; sb = sort b in list_all (\<lambda>i. sa ! i = sb ! i) [0..<length sa])"

subsection \<open>Facts\<close>

lemma sorted_copies_agree:
  fixes a b :: "'a::linorder list"
  assumes "length a = length b"
  shows "list_all (\<lambda>i. sort a ! i = sort b ! i) [0..<length (sort a)] \<longleftrightarrow> mset a = mset b"
proof
  assume "list_all (\<lambda>i. sort a ! i = sort b ! i) [0..<length (sort a)]"
  then have "sort a = sort b"
    using assms by (intro nth_equalityI) (auto simp: list_all_iff)
  then show "mset a = mset b" by (metis mset_sort)
next
  assume "mset a = mset b"
  then have "sort a = sort b" by (metis mset_sort properties_for_sort sorted_sort)
  then show "list_all (\<lambda>i. sort a ! i = sort b ! i) [0..<length (sort a)]"
    by (simp add: list_all_iff)
qed

lemma equalIntSet_iff [simp]: "equalIntSet a b \<longleftrightarrow> mset a = mset b"
proof (cases "length a = length b")
  case True
  then show ?thesis
    using sorted_copies_agree [OF True] by (simp add: equalIntSet_def Let_def)
next
  case False
  then show ?thesis
    using mset_eq_length by (auto simp: equalIntSet_def)
qed

lemma equalStringSet_iff [simp]: "equalStringSet a b \<longleftrightarrow> mset a = mset b"
proof (cases "length a = length b")
  case True
  then show ?thesis
    using sorted_copies_agree [OF True] by (simp add: equalStringSet_def Let_def)
next
  case False
  then show ?thesis
    using mset_eq_length by (auto simp: equalStringSet_def)
qed

lemma elems_copy_slice [simp]: "elems (copy_slice t) = elems t"
  by (simp add: copy_slice_def)

lemma strings_of_map_GStr [simp]: "strings_of (map GStr ss) = ss"
  by (induction ss) auto

lemma ints_of_map_GFloat:
  "\<forall>n \<in> set ns. min_int64 \<le> n \<and> n \<le> 9223372036854775807 \<Longrightarrow> ints_of (map (\<lambda>n. GFloat (f64_of_int n)) ns) = ns"
  by (induction ns) auto

lemma splitImageRef_cases:
  obtains (untagged) "splitImageRef r = [r]"
  | (tagged) a b where "splitImageRef r = [a, b]" "a @ CHR '':'' # b = r" "CHR ''/'' \<notin> set b"
proof -
  define name where "name = rev (takeWhile (\<lambda>c. c \<noteq> CHR ''/'') (rev r))"
  define path where "path = take (length r - length name) r"
  have "rev r = takeWhile (\<lambda>c. c \<noteq> CHR ''/'') (rev r) @ dropWhile (\<lambda>c. c \<noteq> CHR ''/'') (rev r)"
    by simp
  then have r: "r = rev (dropWhile (\<lambda>c. c \<noteq> CHR ''/'') (rev r)) @ name"
    unfolding name_def by (metis rev_append rev_rev_ident)
  then have p: "r = path @ name"
    unfolding path_def by (metis add_diff_cancel_right' append_eq_conv_conj length_append)
  have nm: "CHR ''/'' \<notin> set name"
    unfolding name_def by (auto dest: set_takeWhileD)
  have cut: "cut_at d s = Some (x, y) \<Longrightarrow> s = x @ d # y" for d s x y
    by (induction s arbitrary: x y) (auto split: if_splits)
  show thesis
  proof (cases "cut_at (CHR '':'') name")
    case None
    then show thesis
      using untagged by (simp add: splitImageRef_def name_def Let_def)
  next
    case (Some xy)
    then obtain x y where xy: "cut_at (CHR '':'') name = Some (x, y)" by (cases xy) auto
    then have n: "name = x @ CHR '':'' # y" by (rule cut)
    have "splitImageRef r = [path @ x, y]"
      using xy by (simp add: splitImageRef_def name_def path_def Let_def)
    then show thesis
      using tagged p n nm by auto
  qed
qed

end
