(* ===== verification/Volume.thy ===== *)
theory Volume
  imports ConfigUtil Errors
begin

text \<open>
  The Block Storage driver (\<^verbatim>\<open>internal/drivers/volume.go\<close>). The storage API and the storage
  actions API are records of calls; the actions client may be absent.
\<close>

record volume =
  vol_ID :: string
  vol_Name :: string
  vol_SizeGigaBytes :: int
  vol_Region :: "string option"
  vol_FilesystemType :: string
  vol_Description :: string
  vol_Tags :: "string list"

record volume_create_request =
  vcr_Region :: string
  vcr_Name :: string
  vcr_SizeGigaBytes :: int
  vcr_Description :: string
  vcr_FilesystemType :: string
  vcr_Tags :: "string slice"

record 'w storage_client =
  CreateVolume :: "volume_create_request \<Rightarrow> ('w, volume option) io"
  GetVolume :: "string \<Rightarrow> ('w, volume option) io"
  DeleteVolume :: "string \<Rightarrow> ('w, unit) io"

record 'w storage_actions_client =
  Resize :: "string \<Rightarrow> int \<Rightarrow> string \<Rightarrow> ('w, unit) io"

record 'w volume_driver =
  vd_client :: "'w storage_client"
  vd_actions :: "'w storage_actions_client option"
  vd_region :: string

definition regionSlug :: "string option \<Rightarrow> string" where
  "regionSlug r = (case r of None \<Rightarrow> [] | Some slug \<Rightarrow> slug)"

definition volumeOutput :: "volume \<Rightarrow> resource_output" where
  "volumeOutput vol =
     \<lparr>out_Name = vol_Name vol, out_Type = ''infra.volume'', out_ProviderID = vol_ID vol,
      out_Outputs =
        [(''id'', GStr (vol_ID vol)),
         (''name'', GStr (vol_Name vol)),
         (''region'', GStr (regionSlug (vol_Region vol))),
         (''size_gb'', GFloat (f64_of_int (vol_SizeGigaBytes vol))),
         (''filesystem_type'', GStr (vol_FilesystemType vol)),
         (''description'', GStr (vol_Description vol)),
         (''tags'', GAnys (Slice (map GStr (vol_Tags vol))))],
      out_Sensitive = [], out_Status = ''available''\<rparr>"

definition volume_size_gb :: "cfg \<Rightarrow> (int \<times> bool) res" where
  "volume_size_gb config = intStrictFromConfig config ''size_gb'' ''volume size_gb'' 0"

definition volume_create_req :: "'w volume_driver \<Rightarrow> resource_spec \<Rightarrow> int \<Rightarrow> volume_create_request" where
  "volume_create_req d spec sizeGB =
     \<lparr>vcr_Region = strFromConfig (spec_Config spec) ''region'' (vd_region d),
      vcr_Name = spec_Name spec,
      vcr_SizeGigaBytes = sizeGB,
      vcr_Description = strFromConfig (spec_Config spec) ''description'' [],
      vcr_FilesystemType = strFromConfig (spec_Config spec) ''filesystem_type'' [],
      vcr_Tags = strSliceFromConfig (spec_Config spec) ''tags''\<rparr>"

definition volume_Create :: "'w volume_driver \<Rightarrow> resource_spec \<Rightarrow> ('w, resource_output) io" where
  "volume_Create d spec =
     io_bind (io_wrap (Wrapf ''volume create %q: %w'' [FStr (spec_Name spec)])
               (io_res (volume_size_gb (spec_Config spec)))) (\<lambda>(sizeGB, _).
     if sizeGB \<le> 0
     then io_err (Errorf ''volume create %q: size_gb is required and must be > 0'' [FStr (spec_Name spec)])
     else
       io_bind (io_wrap (\<lambda>e. Wrapf ''volume create %q: %w'' [FStr (spec_Name spec)] (WrapGodoError e))
                 (CreateVolume (vd_client d) (volume_create_req d spec sizeGB))) (\<lambda>vol.
       case vol of
         None \<Rightarrow> io_err (Errorf ''volume create %q: API returned volume with empty ID'' [FStr (spec_Name spec)])
       | Some v \<Rightarrow>
           if vol_ID v = []
           then io_err (Errorf ''volume create %q: API returned volume with empty ID'' [FStr (spec_Name spec)])
           else io_ok (volumeOutput v)))"

definition volume_Read :: "'w volume_driver \<Rightarrow> resource_ref \<Rightarrow> ('w, resource_output) io" where
  "volume_Read d ref =
     (if ref_ProviderID ref = []
      then io_err (Errorf ''volume read %q: empty ProviderID'' [FStr (ref_Name ref)])
      else
        io_bind (io_wrap (\<lambda>e. Wrapf ''volume read %q: %w'' [FStr (ref_Name ref)] (WrapGodoError e))
                  (GetVolume (vd_client d) (ref_ProviderID ref))) (\<lambda>vol.
        io_deref vol (\<lambda>v. io_ok (volumeOutput v))))"


definition volume_Delete :: "'w volume_driver \<Rightarrow> resource_ref \<Rightarrow> ('w, unit) io" where
  "volume_Delete d ref =
     (if ref_ProviderID ref = []
      then io_err (Errorf ''volume delete %q: empty ProviderID'' [FStr (ref_Name ref)])
      else io_wrap (\<lambda>e. Wrapf ''volume delete %q: %w'' [FStr (ref_Name ref)] (WrapGodoError e))
             (DeleteVolume (vd_client d) (ref_ProviderID ref)))"

text \<open>
  \<open>Diff\<close> builds its list of changes block by block; \<open>needsReplace\<close> is set beside each change
  that cannot be made in place: a smaller size, and every other field, since the API has no call
  for them.
\<close>

definition volume_diff_state :: "cfg \<Rightarrow> cfg \<Rightarrow> int \<Rightarrow> bool \<Rightarrow> diff_state" where
  "volume_diff_state config outs desiredSize sizePresent =
     (let curSize = outputsAsInt (map_of outs ''size_gb'');
          region = strFromConfig config ''region'' [];
          curRegion = str_or_empty (map_of outs ''region'');
          fs = strFromConfig config ''filesystem_type'' [];
          curFS = str_or_empty (map_of outs ''filesystem_type'');
          desc = strFromConfig config ''description'' [];
          curDesc = str_or_empty (map_of outs ''description'');
          tags = strSliceFromConfig config ''tags'';
          curTags = outputsAsStringSlice (map_of outs ''tags'')
      in diff_step (map_of config ''tags'' \<noteq> None \<and> \<not> equalStringSet (elems curTags) (elems tags))
           (change_new ''tags'' (GStrs curTags) (GStrs tags))
        (diff_step (map_of config ''description'' \<noteq> None \<and> curDesc \<noteq> desc)
           (change_new ''description'' (GStr curDesc) (GStr desc))
        (diff_step (map_of config ''filesystem_type'' \<noteq> None \<and> curFS \<noteq> fs)
           (change_new ''filesystem_type'' (GStr curFS) (GStr fs))
        (diff_step (region \<noteq> [] \<and> curRegion \<noteq> region)
           (change_new ''region'' (GStr curRegion) (GStr region))
        (diff_step (sizePresent \<and> desiredSize > 0 \<and> curSize \<noteq> desiredSize)
           \<lparr>fc_Path = ''size_gb'', fc_Old = GInt curSize, fc_New = GInt desiredSize,
            fc_ForceNew = (desiredSize < curSize)\<rparr>
        ([], False))))))"

definition volume_Diff :: "resource_spec \<Rightarrow> resource_output option \<Rightarrow> diff_result res" where
  "volume_Diff desired current =
     (case current of
        None \<Rightarrow> Ok diff_absent
      | Some cur \<Rightarrow>
        res_bind (volume_size_gb (spec_Config desired)) (\<lambda>(desiredSize, sizePresent).
        Ok (diff_result_of (volume_diff_state (spec_Config desired) (out_Outputs cur) desiredSize sizePresent))))"

definition volume_HealthCheck :: "'w volume_driver \<Rightarrow> resource_ref \<Rightarrow> ('w, health_result) io" where
  "volume_HealthCheck d ref =
     (if ref_ProviderID ref = []
      then io_ok \<lparr>Healthy = False, Message = Text ''empty ProviderID''\<rparr>
      else
        io_handle (GetVolume (vd_client d) (ref_ProviderID ref))
          (\<lambda>got. io_deref got (\<lambda>vol.
             io_ok \<lparr>Healthy = True,
                    Message = Format ''available (%d GB, region=%s)''
                      [FInt (vol_SizeGigaBytes vol), FStr (regionSlug (vol_Region vol))]\<rparr>))
          (\<lambda>e. io_ok \<lparr>Healthy = False, Message = ErrorText e\<rparr>))"

definition volume_Scale :: "resource_ref \<Rightarrow> int \<Rightarrow> ('w, resource_output) io" where
  "volume_Scale ref n =
     io_err (Errorf ''volume does not support scale operation; change size_gb and re-apply'' [])"

section \<open>The diff contract\<close>

lemma volume_diff_state_marks: "diff_marks (volume_diff_state c outs n p)"
  by (simp add: volume_diff_state_def Let_def)

lemma volume_Diff_SomeD:
  assumes "volume_Diff s (Some cur) = Ok d"
  obtains n p where "volume_size_gb (spec_Config s) = Ok (n, p)"
    and "d = diff_result_of (volume_diff_state (spec_Config s) (out_Outputs cur) n p)"
  using assms by (auto simp: volume_Diff_def res_bind_Ok_iff)

interpretation volume_diff: field_differ volume_Diff
proof
  fix s d
  assume "volume_Diff s None = Ok d"
  then show "d = diff_absent" by (simp add: volume_Diff_def)
next
  fix s cur d
  assume "volume_Diff s (Some cur) = Ok d"
  then show "NeedsReplace d = (\<exists>c \<in> set (Changes d). fc_ForceNew c)"
    by (elim volume_Diff_SomeD) (simp add: diff_result_of_contract(1) volume_diff_state_marks)
qed (auto elim!: volume_Diff_SomeD simp: diff_result_of_contract(2))

section \<open>What the API does\<close>



definition storage_creates :: "'w storage_client \<Rightarrow> bool" where
  "storage_creates cl =
     (\<forall>w rq v w'. CreateVolume cl rq w = Some (Ok (Some v), w') \<longrightarrow>
        vol_Name v = vcr_Name rq \<and> vol_SizeGigaBytes v = vcr_SizeGigaBytes rq
        \<and> vol_Region v = Some (vcr_Region rq) \<and> vol_FilesystemType v = vcr_FilesystemType rq
        \<and> vol_Description v = vcr_Description rq \<and> mset (vol_Tags v) = mset (elems (vcr_Tags rq)))"

text \<open>A concrete API, which the witnesses run: a counter for fresh ids and the volumes by id.\<close>

type_synonym volume_world = "nat \<times> (string \<Rightarrow> volume option)"

definition mem_storage :: "volume_world storage_client" where
  "mem_storage = \<lparr>
     CreateVolume = (\<lambda>rq w.
       let pid = ''vol-'' @ replicate (fst w) (CHR ''0'') @ ''0'';
           v = \<lparr>vol_ID = pid, vol_Name = vcr_Name rq,
                vol_SizeGigaBytes = vcr_SizeGigaBytes rq, vol_Region = Some (vcr_Region rq),
                vol_FilesystemType = vcr_FilesystemType rq, vol_Description = vcr_Description rq,
                vol_Tags = rev (elems (vcr_Tags rq))\<rparr>
       in Some (Ok (Some v), (Suc (fst w), (snd w)(pid \<mapsto> v)))),
     GetVolume = (\<lambda>pid w. Some (case snd w pid of
         None \<Rightarrow> Err (GodoError (Some 404) ''volume not found'')
       | Some v \<Rightarrow> Ok (Some v), w)),
     DeleteVolume = (\<lambda>pid w. Some (Ok (), (fst w, (snd w)(pid := None))))\<rparr>"

definition mem_storage_actions :: "volume_world storage_actions_client" where
  "mem_storage_actions = \<lparr>
     Resize = (\<lambda>pid n r w. Some (case snd w pid of
         None \<Rightarrow> (Err (GodoError (Some 404) ''volume not found''), w)
       | Some v \<Rightarrow> (Ok (), (fst w, (snd w)(pid \<mapsto> v\<lparr>vol_SizeGigaBytes := n\<rparr>)))))\<rparr>"



lemma storage_creates_mem: "storage_creates mem_storage"
  by (auto simp: storage_creates_def mem_storage_def Let_def)

section \<open>Planning and applying\<close>


lemma outputsAsInt_f64 [simp]:
  "\<bar>n\<bar> \<le> 9007199254740992 \<Longrightarrow> outputsAsInt (Some (GFloat (f64_of_int n))) = n"
  by (simp add: outputsAsInt_def min_int64_def)



definition ex_volume :: volume where
  "ex_volume = \<lparr>vol_ID = ''vol-0'', vol_Name = ''data'', vol_SizeGigaBytes = 10, vol_Region = Some ''nyc3'',
     vol_FilesystemType = ''ext4'', vol_Description = [], vol_Tags = [''prod'', ''db'']\<rparr>"

definition ex_volume_driver :: "volume_world volume_driver" where
  "ex_volume_driver = \<lparr>vd_client = mem_storage, vd_actions = Some mem_storage_actions, vd_region = ''nyc3''\<rparr>"

definition ex_volume_spec :: "int \<Rightarrow> resource_spec" where
  "ex_volume_spec n = \<lparr>spec_Name = ''data'', spec_Type = ''infra.volume'',
     spec_Config = [(''size_gb'', GInt n), (''filesystem_type'', GStr ''ext4''),
                    (''tags'', GAnys (Slice [GStr ''db'', GStr ''prod'']))]\<rparr>"




text \<open>
  What \<^verbatim>\<open>VolumeDriver.Create\<close> returns matches the spec it was created from: when the API
  stores the volume as requested, in any order of the tags, \<^verbatim>\<open>Diff\<close> of the same spec against the
  returned output plans nothing, whichever of the optional fields the spec gives and whether the
  region comes from the spec or from the driver's default.
\<close>

theorem volume_create_then_diff_empty:
  assumes "storage_creates (vd_client d)"
    and "volume_Create d spec w = Some (Ok out, w')"
    and "fst (intFromConfig (spec_Config spec) ''size_gb'' 0) \<le> 9007199254740992"
  shows "\<exists>dr. volume_Diff spec (Some out) = Ok dr \<and> \<not> NeedsUpdate dr \<and> \<not> NeedsReplace dr"
proof -
  from assms(2) obtain n p where n: "volume_size_gb (spec_Config spec) = Ok (n, p)"
    by (auto simp: volume_Create_def io_simps split: res.splits prod.splits)
  have pos: "0 < n"
    using assms(2) n by (auto simp: volume_Create_def io_simps split: if_splits)
  obtain v where v: "CreateVolume (vd_client d) (volume_create_req d spec n) w = Some (Ok (Some v), w')"
    "out = volumeOutput v"
    using assms(2) n pos by (auto simp: volume_Create_def io_simps split: option.splits prod.splits res.splits if_splits)
  have "n = fst (intFromConfig (spec_Config spec) ''size_gb'' 0)"
    using n by (auto simp: volume_size_gb_def intStrictFromConfig_def intFromConfig_def
        split: option.splits gval.splits if_splits)
  then have b: "\<bar>n\<bar> \<le> 9007199254740992" using assms(3) pos by simp
  have echo: "vol_SizeGigaBytes v = n" "vol_Region v = Some (strFromConfig (spec_Config spec) ''region'' (vd_region d))"
    "vol_FilesystemType v = strFromConfig (spec_Config spec) ''filesystem_type'' []"
    "vol_Description v = strFromConfig (spec_Config spec) ''description'' []"
    "mset (vol_Tags v) = mset (elems (strSliceFromConfig (spec_Config spec) ''tags''))"
    using assms(1) v(1) unfolding storage_creates_def volume_create_req_def by fastforce+
  have "strFromConfig (spec_Config spec) ''region'' [] \<noteq> [] \<Longrightarrow>
      strFromConfig (spec_Config spec) ''region'' (vd_region d) = strFromConfig (spec_Config spec) ''region'' []"
    by (auto simp: strFromConfig_def split: option.splits if_splits)
  then have "volume_diff_state (spec_Config spec) (out_Outputs (volumeOutput v)) n p = ([], False)"
    using echo b by (auto simp: volume_diff_state_def Let_def volumeOutput_def diff_step_def str_or_empty_def
        outputsAsStringSlice_def regionSlug_def)
  then show ?thesis
    using n v(2) by (simp add: volume_Diff_def diff_result_of_def)
qed

theorem volume_create_then_diff_empty_witness:
  "\<exists>dr. volume_Diff (ex_volume_spec 10) (Some (volumeOutput (ex_volume\<lparr>vol_Tags := [''prod'', ''db'']\<rparr>))) = Ok dr
     \<and> \<not> NeedsUpdate dr \<and> \<not> NeedsReplace dr"
proof (rule volume_create_then_diff_empty [where d = ex_volume_driver and w = "(0, Map.empty)"])
  show "storage_creates (vd_client ex_volume_driver)"
    by (simp add: ex_volume_driver_def storage_creates_mem)
  show "volume_Create ex_volume_driver (ex_volume_spec 10) (0, Map.empty) =
      Some (Ok (volumeOutput (ex_volume\<lparr>vol_Tags := [''prod'', ''db'']\<rparr>)),
        (1, [''vol-0'' \<mapsto> ex_volume\<lparr>vol_Tags := [''prod'', ''db'']\<rparr>]))"
    by (simp add: volume_Create_def io_simps volume_size_gb_def intStrictFromConfig_def ex_volume_spec_def
        ex_volume_driver_def mem_storage_def volume_create_req_def strFromConfig_def strSliceFromConfig_def
        Let_def ex_volume_def)
qed (simp add: ex_volume_spec_def intFromConfig_def)

end
