(* ===== verification/Json.thy ===== *)
theory Json
  imports Resource
begin

text \<open>
  Package \<^verbatim>\<open>encoding/json\<close> at the level of documents: a document is a tree, and its text is not
  modelled. \<open>json_of\<close> is \<^verbatim>\<open>json.Marshal\<close> of an \<^verbatim>\<open>any\<close> (a float that is not a number has no
  encoding), \<open>of_json\<close> is \<^verbatim>\<open>json.Unmarshal\<close> into an \<^verbatim>\<open>any\<close>, which makes every number a
  \<^verbatim>\<open>float64\<close> and every array a \<^verbatim>\<open>[]any\<close>. \<open>json_norm\<close> is what a value becomes on the way.
\<close>

datatype json = JNull | JBool bool | JNum rat | JStr string | JArr "json list" | JObj "(string \<times> json) list"

fun all_some :: "'a option list \<Rightarrow> 'a list option" where
  "all_some [] = Some []"
| "all_some (None # xs) = None"
| "all_some (Some x # xs) = map_option (\<lambda>ys. x # ys) (all_some xs)"

definition with_keys :: "(string \<times> 'a) list \<Rightarrow> 'b list \<Rightarrow> (string \<times> 'b) list" where
  "with_keys m vs = zip (map fst m) vs"

function json_of :: "gval \<Rightarrow> json option" where
  "json_of GNil = Some JNull"
| "json_of (GBool b) = Some (JBool b)"
| "json_of (GInt n) = Some (JNum (of_int n))"
| "json_of (GInt64 n) = Some (JNum (of_int n))"
| "json_of (GFloat f) = (case f of Fin q \<Rightarrow> Some (JNum q) | _ \<Rightarrow> None)"
| "json_of (GStr s) = Some (JStr s)"
| "json_of (GStrs NilSlice) = Some JNull"
| "json_of (GStrs (Slice ss)) = Some (JArr (map JStr ss))"
| "json_of (GInts NilSlice) = Some JNull"
| "json_of (GInts (Slice ns)) = Some (JArr (map (\<lambda>n. JNum (of_int n)) ns))"
| "json_of (GAnys NilSlice) = Some JNull"
| "json_of (GAnys (Slice vs)) = map_option JArr (all_some (map json_of vs))"
| "json_of (GMap m) = map_option (\<lambda>vs. JObj (with_keys m vs)) (all_some (map (\<lambda>kv. json_of (snd kv)) m))"
| "json_of (GMaps NilSlice) = Some JNull"
| "json_of (GMaps (Slice ms)) = map_option JArr (all_some (map (\<lambda>m. json_of (GMap m)) ms))"
| "json_of GNilMap = Some JNull"
  by pat_completeness auto

lemma size_snd_le: "kv \<in> set m \<Longrightarrow> size (snd kv) \<le> size_list (size_prod (\<lambda>_. 0) size) m"
proof (induction m)
  case (Cons a m)
  then show ?case by (cases a) (auto simp del: size_prod_simp simp: size_prod_def intro: le_SucI trans_le_add2)
qed simp

lemma size_elem_lt: "v \<in> set vs \<Longrightarrow> f v < Suc (size_list f vs)"
  by (induction vs) auto

termination json_of
proof (relation "measure size")
  show "m \<in> set ms \<Longrightarrow> (GMap m, GMaps (Slice ms)) \<in> measure size" for m ms
    using size_elem_lt [of m ms "size_list (size_prod (\<lambda>_. 0) size)"] by simp
qed (use size_elem_lt [where f = size] size_snd_le le_imp_less_Suc in fastforce)+

fun of_json :: "json \<Rightarrow> gval" where
  "of_json JNull = GNil"
| "of_json (JBool b) = GBool b"
| "of_json (JNum q) = GFloat (Fin q)"
| "of_json (JStr s) = GStr s"
| "of_json (JArr js) = GAnys (Slice (map of_json js))"
| "of_json (JObj kvs) = GMap (map (\<lambda>(k, j). (k, of_json j)) kvs)"

function json_norm :: "gval \<Rightarrow> gval" where
  "json_norm GNil = GNil"
| "json_norm (GBool b) = GBool b"
| "json_norm (GInt n) = GFloat (f64_of_int n)"
| "json_norm (GInt64 n) = GFloat (f64_of_int n)"
| "json_norm (GFloat f) = GFloat f"
| "json_norm (GStr s) = GStr s"
| "json_norm (GStrs NilSlice) = GNil"
| "json_norm (GStrs (Slice ss)) = GAnys (Slice (map GStr ss))"
| "json_norm (GInts NilSlice) = GNil"
| "json_norm (GInts (Slice ns)) = GAnys (Slice (map (\<lambda>n. GFloat (f64_of_int n)) ns))"
| "json_norm (GAnys NilSlice) = GNil"
| "json_norm (GAnys (Slice vs)) = GAnys (Slice (map json_norm vs))"
| "json_norm (GMap m) = GMap (with_keys m (map (\<lambda>kv. json_norm (snd kv)) m))"
| "json_norm (GMaps NilSlice) = GNil"
| "json_norm (GMaps (Slice ms)) = GAnys (Slice (map (\<lambda>m. json_norm (GMap m)) ms))"
| "json_norm GNilMap = GNil"
  by pat_completeness auto

termination json_norm
proof (relation "measure size")
  show "m \<in> set ms \<Longrightarrow> (GMap m, GMaps (Slice ms)) \<in> measure size" for m ms
    using size_elem_lt [of m ms "size_list (size_prod (\<lambda>_. 0) size)"] by simp
qed (use size_elem_lt [where f = size] size_snd_le le_imp_less_Suc in fastforce)+

definition norm_map :: "cfg \<Rightarrow> cfg" where
  "norm_map m = map (\<lambda>(k, v). (k, json_norm v)) m"

lemma all_some_Some_iff: "all_some xs = Some ys \<longleftrightarrow> xs = map Some ys"
  by (induction xs arbitrary: ys rule: all_some.induct) auto

lemma all_some_map: "all_some (map f xs) = Some ys \<Longrightarrow> list_all2 (\<lambda>x y. f x = Some y) xs ys"
  by (auto simp: all_some_Some_iff list_all2_conv_all_nth dest: map_eq_imp_length_eq)
    (metis length_map nth_map)

lemma with_keys_map: "with_keys m (map (\<lambda>kv. f (snd kv)) m) = map (\<lambda>(k, v). (k, f v)) m"
  by (induction m) (auto simp: with_keys_def)

lemma map_with_keys: "map (\<lambda>(k, j). (k, f j)) (with_keys m vs) = with_keys m (map f vs)"
  by (auto simp: with_keys_def zip_map2 case_prod_unfold)

lemma map_list_all2:
  "list_all2 P xs ys \<Longrightarrow> (\<And>x y. x \<in> set xs \<Longrightarrow> P x y \<Longrightarrow> g y = h x) \<Longrightarrow> map g ys = map h xs"
  by (induction xs ys rule: list_all2_induct) auto

text \<open>Encoding and decoding a value gives its normal form, and normal forms are stable.\<close>

lemma of_json_of: "json_of v = Some j \<Longrightarrow> of_json j = json_norm v"
proof (induction v arbitrary: j rule: json_of.induct)
  case (12 vs)
  then obtain js where js: "j = JArr js" "list_all2 (\<lambda>x y. json_of x = Some y) vs js"
    by (auto dest: all_some_map)
  then show ?case
    using map_list_all2 [OF js(2), of of_json json_norm] 12(1) by simp
next
  case (13 m)
  then obtain js where js: "j = JObj (with_keys m js)" "list_all2 (\<lambda>x y. json_of (snd x) = Some y) m js"
    by (auto dest: all_some_map)
  then have "map of_json js = map (\<lambda>kv. json_norm (snd kv)) m"
    using 13(1) by (intro map_list_all2 [OF js(2)]) blast
  then show ?case
    using js(1) by (simp add: map_with_keys)
next
  case (15 ms)
  then obtain js where js: "j = JArr js" "list_all2 (\<lambda>x y. json_of (GMap x) = Some y) ms js"
    by (auto simp del: json_of.simps(13) dest: all_some_map)
  then show ?case
    using map_list_all2 [OF js(2), of of_json "\<lambda>m. json_norm (GMap m)"] 15(1) by simp
qed (auto simp: f64_of_int_def split: f64.splits)

lemma json_norm_GMap [simp]: "json_norm (GMap m) = GMap (norm_map m)"
  by (simp add: with_keys_map norm_map_def)

declare json_norm.simps(13) [simp del]

lemma map_of_norm_map: "map_of (norm_map m) k = map_option json_norm (map_of m k)"
  by (induction m) (auto simp: norm_map_def)

lemma json_norm_idem [simp]: "json_norm (json_norm v) = json_norm v"
  by (induction v rule: json_norm.induct) (auto simp: norm_map_def)

lemma norm_map_idem [simp]: "norm_map (norm_map m) = norm_map m"
  using json_norm_idem [of "GMap m"] by (simp del: json_norm_idem)

lemma json_norm_str [simp]: "as_str (map_option json_norm v) = as_str v"
proof (cases v)
  case (Some x)
  then show ?thesis by (cases x rule: json_norm.cases) auto
qed simp

lemma outputs_str_stable: "str_or_empty (map_of (norm_map m) k) = str_or_empty (map_of m k)"
  by (simp add: str_or_empty_def map_of_norm_map)

lemma json_of_bool_str [simp]: "as_bool (map_option json_norm v) = as_bool v"
proof (cases v)
  case (Some x)
  then show ?thesis by (cases x rule: json_norm.cases) auto
qed simp

text \<open>What the state keeps of an output: its map goes through JSON.\<close>

definition after_json :: "resource_output \<Rightarrow> resource_output" where
  "after_json out = out\<lparr>out_Outputs := norm_map (out_Outputs out)\<rparr>"

end
