(* ===== verification/StateBackend.thy ===== *)
theory StateBackend
  imports Json
begin

text \<open>
  The Spaces state store (\<^verbatim>\<open>internal/statebackend/spaces.go\<close>): state records as JSON objects and
  advisory locks as empty marker objects in an S3 bucket. The S3 client is a record of calls; its
  locales state what S3 documents about conditional and plain writes, reads and deletions.
\<close>

section \<open>Records\<close>

record iac_state =
  st_ResourceID :: string
  st_ResourceType :: string
  st_Provider :: string
  st_ProviderRef :: string
  st_ProviderID :: string
  st_ConfigHash :: string
  st_Status :: string
  st_Outputs :: "cfg option"
  st_Config :: "cfg option"
  st_Dependencies :: "string slice"
  st_CreatedAt :: string
  st_UpdatedAt :: string
  st_Error :: string

definition zero_state :: iac_state where
  "zero_state = \<lparr>st_ResourceID = [], st_ResourceType = [], st_Provider = [], st_ProviderRef = [],
     st_ProviderID = [], st_ConfigHash = [], st_Status = [], st_Outputs = None, st_Config = None,
     st_Dependencies = NilSlice, st_CreatedAt = [], st_UpdatedAt = [], st_Error = []\<rparr>"

text \<open>
  The JSON form of a record, from the struct tags: fields in order, those marked
  \<^verbatim>\<open>omitempty\<close> left out when empty. Objects with a repeated key are not modelled.
\<close>

definition omit_empty :: "string \<Rightarrow> string \<Rightarrow> (string \<times> json) list" where
  "omit_empty k s = (if s = [] then [] else [(k, JStr s)])"

definition marshal_map :: "cfg option \<Rightarrow> json option" where
  "marshal_map m = (case m of None \<Rightarrow> Some JNull | Some kvs \<Rightarrow> json_of (GMap kvs))"

definition marshal_state :: "iac_state \<Rightarrow> json option" where
  "marshal_state st =
     (case marshal_map (st_Outputs st) of
        None \<Rightarrow> None
      | Some outputs \<Rightarrow>
        (case marshal_map (st_Config st) of
           None \<Rightarrow> None
         | Some config \<Rightarrow> Some (JObj (
             [(''resource_id'', JStr (st_ResourceID st)),
              (''resource_type'', JStr (st_ResourceType st)),
              (''provider'', JStr (st_Provider st))]
             @ omit_empty ''provider_ref'' (st_ProviderRef st)
             @ omit_empty ''provider_id'' (st_ProviderID st)
             @ omit_empty ''config_hash'' (st_ConfigHash st)
             @ [(''status'', JStr (st_Status st)), (''outputs'', outputs), (''config'', config)]
             @ (if elems (st_Dependencies st) = [] then []
                else [(''dependencies'', JArr (map JStr (elems (st_Dependencies st))))])
             @ [(''created_at'', JStr (st_CreatedAt st)), (''updated_at'', JStr (st_UpdatedAt st))]
             @ omit_empty ''error'' (st_Error st)))))"

text \<open>
  Decoding into the struct: each member of the document sets the field whose tag it matches,
  without regard to case; null leaves a string alone and sets a map or slice to nil; a value of
  another type is an error.
\<close>

definition set_str :: "json \<Rightarrow> (string \<Rightarrow> 'a \<Rightarrow> 'a) \<Rightarrow> 'a \<Rightarrow> 'a option" where
  "set_str j upd st = (case j of JNull \<Rightarrow> Some st | JStr s \<Rightarrow> Some (upd s st) | _ \<Rightarrow> None)"

definition unmarshal_map :: "json \<Rightarrow> cfg option option" where
  "unmarshal_map j = (case j of JNull \<Rightarrow> Some None
     | JObj kvs \<Rightarrow> Some (Some (map (\<lambda>(k, v). (k, of_json v)) kvs)) | _ \<Rightarrow> None)"

fun json_str :: "json \<Rightarrow> string option" where
  "json_str (JStr s) = Some s"
| "json_str JNull = Some []"
| "json_str _ = None"

definition unmarshal_strs :: "json \<Rightarrow> string slice option" where
  "unmarshal_strs j = (case j of JNull \<Rightarrow> Some NilSlice
     | JArr js \<Rightarrow> map_option Slice (all_some (map json_str js)) | _ \<Rightarrow> None)"

definition set_state_field :: "string \<Rightarrow> json \<Rightarrow> iac_state \<Rightarrow> iac_state option" where
  "set_state_field k j st =
     (if equal_fold k ''resource_id'' then set_str j (\<lambda>s. st_ResourceID_update (\<lambda>_. s)) st
      else if equal_fold k ''resource_type'' then set_str j (\<lambda>s. st_ResourceType_update (\<lambda>_. s)) st
      else if equal_fold k ''provider'' then set_str j (\<lambda>s. st_Provider_update (\<lambda>_. s)) st
      else if equal_fold k ''provider_ref'' then set_str j (\<lambda>s. st_ProviderRef_update (\<lambda>_. s)) st
      else if equal_fold k ''provider_id'' then set_str j (\<lambda>s. st_ProviderID_update (\<lambda>_. s)) st
      else if equal_fold k ''config_hash'' then set_str j (\<lambda>s. st_ConfigHash_update (\<lambda>_. s)) st
      else if equal_fold k ''status'' then set_str j (\<lambda>s. st_Status_update (\<lambda>_. s)) st
      else if equal_fold k ''outputs'' then map_option (\<lambda>m. st\<lparr>st_Outputs := m\<rparr>) (unmarshal_map j)
      else if equal_fold k ''config'' then map_option (\<lambda>m. st\<lparr>st_Config := m\<rparr>) (unmarshal_map j)
      else if equal_fold k ''dependencies'' then map_option (\<lambda>ds. st\<lparr>st_Dependencies := ds\<rparr>) (unmarshal_strs j)
      else if equal_fold k ''created_at'' then set_str j (\<lambda>s. st_CreatedAt_update (\<lambda>_. s)) st
      else if equal_fold k ''updated_at'' then set_str j (\<lambda>s. st_UpdatedAt_update (\<lambda>_. s)) st
      else if equal_fold k ''error'' then set_str j (\<lambda>s. st_Error_update (\<lambda>_. s)) st
      else Some st)"

fun set_state_fields :: "(string \<times> json) list \<Rightarrow> iac_state \<Rightarrow> iac_state option" where
  "set_state_fields [] st = Some st"
| "set_state_fields ((k, j) # kvs) st = Option.bind (set_state_field k j st) (set_state_fields kvs)"

definition unmarshal_state :: "json \<Rightarrow> iac_state option" where
  "unmarshal_state j = (case j of JNull \<Rightarrow> Some zero_state
     | JObj kvs \<Rightarrow> set_state_fields kvs zero_state | _ \<Rightarrow> None)"

section \<open>The S3 client\<close>

text \<open>
  The content of an object is a JSON document or some other text; reading the body of a response
  can fail. \<open>ErrorString\<close> is the text of an error the client returns.
\<close>

datatype content = JsonDoc json | RawText string

datatype s3_body = Body content | BodyFails go_error

record list_output =
  lo_Contents :: "string option list"
  lo_IsTruncated :: "bool option"
  lo_NextContinuationToken :: "string option"

record 'w s3_client =
  GetObject :: "string \<Rightarrow> string \<Rightarrow> ('w, s3_body) io"
  PutObject :: "string \<Rightarrow> string \<Rightarrow> content \<Rightarrow> string option \<Rightarrow> string option \<Rightarrow> ('w, unit) io"
  DeleteObject :: "string \<Rightarrow> string \<Rightarrow> ('w, unit) io"
  ListObjectsV2 :: "string \<Rightarrow> string \<Rightarrow> string option \<Rightarrow> ('w, list_output) io"
  HeadObject :: "string \<Rightarrow> string \<Rightarrow> ('w, unit) io"
  ErrorString :: "go_error \<Rightarrow> string"

record 'w spaces_store =
  ss_client :: "'w s3_client"
  ss_bucket :: string
  ss_prefix :: string

definition NewSpacesIaCStateStoreWithClient :: "'w s3_client \<Rightarrow> string \<Rightarrow> string \<Rightarrow> 'w spaces_store" where
  "NewSpacesIaCStateStoreWithClient client bucket prefix =
     \<lparr>ss_client = client, ss_bucket = bucket, ss_prefix = (if prefix = [] then ''iac-state/'' else prefix)\<rparr>"

definition regionOrDefault :: "string \<Rightarrow> string" where
  "regionOrDefault region = (if region = [] then ''us-east-1'' else region)"

text \<open>
  \<open>NewSpacesIaCStateStore\<close> takes the environment and the SDK's client construction (region, keys,
  endpoint) as arguments.
\<close>

definition NewSpacesIaCStateStore ::
  "(string \<Rightarrow> string) \<Rightarrow> (string \<Rightarrow> string \<Rightarrow> string \<Rightarrow> string \<Rightarrow> 'w s3_client res)
   \<Rightarrow> string \<Rightarrow> string \<Rightarrow> string \<Rightarrow> string \<Rightarrow> string \<Rightarrow> string \<Rightarrow> 'w spaces_store res" where
  "NewSpacesIaCStateStore getenv sdk region bucket prefix accessKey secretKey endpoint0 =
     (if bucket = [] then Err (Errorf ''iac spaces state: bucket must not be empty'' [])
      else
        let prefix = (if prefix = [] then ''iac-state/'' else prefix);
            accessKey = (if accessKey = [] then getenv ''DO_SPACES_ACCESS_KEY'' else accessKey);
            secretKey = (if secretKey = [] then getenv ''DO_SPACES_SECRET_KEY'' else secretKey);
            endpoint = (if endpoint0 = [] \<and> region \<noteq> []
                        then ''https://'' @ region @ ''.digitaloceanspaces.com'' else endpoint0)
        in if endpoint = [] then Err (Errorf ''iac spaces state: either region or endpoint must be set'' [])
           else res_bind (res_wrap (Wrapf ''iac spaces state: load config: %w'' [])
                  (sdk (regionOrDefault region) accessKey secretKey endpoint)) (\<lambda>client.
                Ok \<lparr>ss_client = client, ss_bucket = bucket, ss_prefix = prefix\<rparr>))"

section \<open>Keys and filters\<close>

definition sanitizeID :: "string \<Rightarrow> string" where
  "sanitizeID i = replace_char (CHR 0x5C) (CHR ''_'') (replace_char (CHR ''/'') (CHR ''_'') i)"

definition stateKey :: "'w spaces_store \<Rightarrow> string \<Rightarrow> string" where
  "stateKey s resourceID = ss_prefix s @ sanitizeID resourceID @ ''.json''"

definition lockKey :: "'w spaces_store \<Rightarrow> string \<Rightarrow> string" where
  "lockKey s resourceID = ss_prefix s @ sanitizeID resourceID @ ''.lock''"

definition matchesFilter :: "iac_state \<Rightarrow> (string \<times> string) list \<Rightarrow> bool" where
  "matchesFilter st f = list_all (\<lambda>(k, v).
     if k = ''resource_type'' then st_ResourceType st = v
     else if k = ''provider'' then st_Provider st = v
     else if k = ''status'' then st_Status st = v
     else True) f"

definition isPreconditionFailedErr :: "'w s3_client \<Rightarrow> go_error \<Rightarrow> bool" where
  "isPreconditionFailedErr c e =
     (str_contains (ErrorString c e) ''PreconditionFailed'' \<or> str_contains (ErrorString c e) ''412'')"

fun errors_as_s3 :: "go_error \<Rightarrow> s3_kind option" where
  "errors_as_s3 (S3Error k _) = Some k"
| "errors_as_s3 (Wrapf _ _ e) = errors_as_s3 e"
| "errors_as_s3 (Wraps _ _ e1 e2) = (case errors_as_s3 e1 of Some x \<Rightarrow> Some x | None \<Rightarrow> errors_as_s3 e2)"
| "errors_as_s3 _ = None"

definition isNotFoundErr :: "'w s3_client \<Rightarrow> go_error \<Rightarrow> bool" where
  "isNotFoundErr c e =
     (errors_as_s3 e = Some NoSuchKey \<or> errors_as_s3 e = Some NotFound
      \<or> (let msg = to_lower (ErrorString c e)
         in str_contains msg ''notfound'' \<or> str_contains msg ''nosuchkey'' \<or> str_contains msg ''not found''))"

section \<open>Operations\<close>

definition read_state :: "s3_body \<Rightarrow> (go_error \<Rightarrow> go_error) \<Rightarrow> (go_error \<Rightarrow> go_error) \<Rightarrow> iac_state res" where
  "read_state body bad_read bad_json =
     (case body of
        BodyFails e \<Rightarrow> Err (bad_read e)
      | Body (RawText t) \<Rightarrow> Err (bad_json (Opaque ''invalid character''))
      | Body (JsonDoc j) \<Rightarrow>
          (case unmarshal_state j of
             None \<Rightarrow> Err (bad_json (Opaque ''json: cannot unmarshal''))
           | Some st \<Rightarrow> Ok st))"

definition GetState :: "'w spaces_store \<Rightarrow> string \<Rightarrow> ('w, iac_state option) io" where
  "GetState s resourceID =
     io_handle (GetObject (ss_client s) (ss_bucket s) (stateKey s resourceID))
       (\<lambda>body. io_bind (io_res (read_state body
            (Wrapf ''iac spaces state: GetState %q: read body: %w'' [FStr resourceID])
            (Wrapf ''iac spaces state: GetState %q: unmarshal: %w'' [FStr resourceID])))
          (\<lambda>st. io_ok (Some st)))
       (\<lambda>e. if isNotFoundErr (ss_client s) e then io_ok None
            else io_err (Wrapf ''iac spaces state: GetState %q: %w'' [FStr resourceID] e))"

definition SaveState :: "'w spaces_store \<Rightarrow> iac_state option \<Rightarrow> ('w, unit) io" where
  "SaveState s state =
     (case state of
        None \<Rightarrow> io_err (Errorf ''iac spaces state: SaveState: state must not be nil'' [])
      | Some st \<Rightarrow>
        if st_ResourceID st = []
        then io_err (Errorf ''iac spaces state: SaveState: resource_id must not be empty'' [])
        else (case marshal_state st of
            None \<Rightarrow> io_err (Wrapf ''iac spaces state: SaveState %q: marshal: %w'' [FStr (st_ResourceID st)]
                       (Opaque ''json: unsupported value''))
          | Some data \<Rightarrow>
              io_wrap (Wrapf ''iac spaces state: SaveState %q: put: %w'' [FStr (st_ResourceID st)])
                (PutObject (ss_client s) (ss_bucket s) (stateKey s (st_ResourceID st)) (JsonDoc data)
                   (Some ''application/json'') None)))"

text \<open>One page of \<open>ListStates\<close>: objects that cannot be read or decoded are skipped.\<close>

fun list_objects :: "'w spaces_store \<Rightarrow> (string \<times> string) list \<Rightarrow> string option list \<Rightarrow> iac_state list \<Rightarrow> ('w, iac_state list) io" where
  "list_objects s f [] results = io_ok results"
| "list_objects s f (obj # objs) results =
     (let key = (case obj of None \<Rightarrow> [] | Some k \<Rightarrow> k)
      in if has_suffix key ''.lock'' \<or> \<not> has_suffix key ''.json''
         then list_objects s f objs results
         else io_handle (GetObject (ss_client s) (ss_bucket s) key)
                (\<lambda>body. case read_state body id id of
                    Ok st \<Rightarrow> list_objects s f objs (if matchesFilter st f then results @ [st] else results)
                  | _ \<Rightarrow> list_objects s f objs results)
                (\<lambda>_. list_objects s f objs results))"

partial_function (option) list_states ::
  "'w spaces_store \<Rightarrow> (string \<times> string) list \<Rightarrow> string option \<Rightarrow> iac_state list \<Rightarrow> 'w \<Rightarrow> (iac_state list res \<times> 'w) option" where
  "list_states s f token results w =
     (case ListObjectsV2 (ss_client s) (ss_bucket s) (ss_prefix s) token w of
        None \<Rightarrow> None
      | Some (r, w1) \<Rightarrow>
        (case r of
           Err e \<Rightarrow> Some (Err (Wrapf ''iac spaces state: ListStates: %w'' [] e), w1)
         | Panic p \<Rightarrow> Some (Panic p, w1)
         | Ok out \<Rightarrow>
           (case list_objects s f (lo_Contents out) results w1 of
              None \<Rightarrow> None
            | Some (r2, w2) \<Rightarrow>
              (case r2 of
                 Err e \<Rightarrow> Some (Err e, w2)
               | Panic p \<Rightarrow> Some (Panic p, w2)
               | Ok results' \<Rightarrow>
                   (if lo_IsTruncated out \<noteq> Some True then Some (Ok results', w2)
                    else list_states s f (lo_NextContinuationToken out) results' w2)))))"

definition ListStates :: "'w spaces_store \<Rightarrow> (string \<times> string) list \<Rightarrow> ('w, iac_state list) io" where
  "ListStates s f = list_states s f None []"

definition DeleteState :: "'w spaces_store \<Rightarrow> string \<Rightarrow> ('w, unit) io" where
  "DeleteState s resourceID =
     io_handle (HeadObject (ss_client s) (ss_bucket s) (stateKey s resourceID))
       (\<lambda>_. io_wrap (Wrapf ''iac spaces state: DeleteState %q: %w'' [FStr resourceID])
              (DeleteObject (ss_client s) (ss_bucket s) (stateKey s resourceID)))
       (\<lambda>e. if isNotFoundErr (ss_client s) e
            then io_err (Errorf ''iac spaces state: DeleteState %q: not found'' [FStr resourceID])
            else io_err (Wrapf ''iac spaces state: DeleteState %q: head: %w'' [FStr resourceID] e))"

text \<open>\<open>now\<close> is the time stamp written into the lock object.\<close>

definition Lock :: "string \<Rightarrow> 'w spaces_store \<Rightarrow> string \<Rightarrow> ('w, unit) io" where
  "Lock now s resourceID =
     io_handle (PutObject (ss_client s) (ss_bucket s) (lockKey s resourceID) (RawText now) None (Some ''*''))
       io_ok
       (\<lambda>e. if isPreconditionFailedErr (ss_client s) e
            then io_err (Errorf ''iac spaces state: Lock %q: resource is already locked'' [FStr resourceID])
            else io_err (Wrapf ''iac spaces state: Lock %q: put: %w'' [FStr resourceID] e))"

definition unlock_head :: "'w spaces_store \<Rightarrow> string \<Rightarrow> ('w, unit) io" where
  "unlock_head s resourceID =
     io_handle (HeadObject (ss_client s) (ss_bucket s) (lockKey s resourceID))
       io_ok
       (\<lambda>e. if isNotFoundErr (ss_client s) e
            then io_err (Errorf ''iac spaces state: Unlock %q: not locked'' [FStr resourceID])
            else io_err (Wrapf ''iac spaces state: Unlock %q: head: %w'' [FStr resourceID] e))"

definition unlock_delete :: "'w spaces_store \<Rightarrow> string \<Rightarrow> ('w, unit) io" where
  "unlock_delete s resourceID =
     io_wrap (Wrapf ''iac spaces state: Unlock %q: %w'' [FStr resourceID])
       (DeleteObject (ss_client s) (ss_bucket s) (lockKey s resourceID))"

definition Unlock :: "'w spaces_store \<Rightarrow> string \<Rightarrow> ('w, unit) io" where
  "Unlock s resourceID = io_bind (unlock_head s resourceID) (\<lambda>_. unlock_delete s resourceID)"

end
