(* ===== verification/StateContract.thy ===== *)
theory StateContract
  imports StateBackend
begin

text \<open>
  What the Spaces state store promises. The locales \<open>s3_safe\<close> and \<open>s3_objects\<close> are the contract of
  the S3 service, in a world where calls may fail and in one where they do not; \<open>state_store\<close> is
  the contract of the interface \<^verbatim>\<open>IaCStateStore\<close>, which the gRPC server is written against. The
  store provides the second from the first. The client used in the repository's own tests is the
  concrete instance.
\<close>

section \<open>Keys\<close>

lemma stateKey_inj: "stateKey s a = stateKey s b \<longleftrightarrow> sanitizeID a = sanitizeID b"
  by (simp add: stateKey_def)

lemma lockKey_inj: "lockKey s a = lockKey s b \<longleftrightarrow> sanitizeID a = sanitizeID b"
  by (simp add: lockKey_def)

lemma state_not_lock [simp]: "stateKey s a \<noteq> lockKey s b" "lockKey s b \<noteq> stateKey s a"
proof -
  have "stateKey s a \<noteq> lockKey s b"
  proof
    assume "stateKey s a = lockKey s b"
    then have "rev (stateKey s a) = rev (lockKey s b)" by simp
    then show False by (simp add: stateKey_def lockKey_def)
  qed
  then show "stateKey s a \<noteq> lockKey s b" "lockKey s b \<noteq> stateKey s a" by metis+
qed

lemma sanitizeID_chars: "CHR ''/'' \<notin> set (sanitizeID i)" "CHR 0x5C \<notin> set (sanitizeID i)"
  by (auto simp: sanitizeID_def replace_char_def split: if_splits)

lemma sanitizeID_idem [simp]: "sanitizeID (sanitizeID i) = sanitizeID i"
  by (simp add: sanitizeID_def replace_char_def)

section \<open>What a record becomes in the bucket\<close>

definition norm_state :: "iac_state \<Rightarrow> iac_state" where
  "norm_state st = st\<lparr>st_Outputs := map_option norm_map (st_Outputs st),
     st_Config := map_option norm_map (st_Config st),
     st_Dependencies := (if elems (st_Dependencies st) = [] then NilSlice else st_Dependencies st)\<rparr>"

lemma unmarshal_marshal_map:
  "marshal_map m = Some j \<Longrightarrow> unmarshal_map j = Some (map_option norm_map m)"
proof (cases m)
  case (Some kvs)
  assume "marshal_map m = Some j"
  then have j: "json_of (GMap kvs) = Some j"
    by (simp only: Some marshal_map_def option.case)
  then obtain js where js: "j = JObj js" by auto
  have "of_json j = json_norm (GMap kvs)"
    using j by (rule of_json_of)
  then show ?thesis
    by (simp add: js Some unmarshal_map_def)
qed (auto simp: marshal_map_def unmarshal_map_def)

lemma all_some_json_str [simp]: "all_some (map (json_str \<circ> JStr) ss) = Some ss"
  by (induction ss) auto

lemma set_state_fields_append:
  "set_state_fields (xs @ ys) st = Option.bind (set_state_fields xs st) (set_state_fields ys)"
  by (induction xs arbitrary: st) (auto split: prod.splits bind_splits)

lemma set_field_simps:
  "set_state_field ''resource_id'' j st = set_str j (\<lambda>s. st_ResourceID_update (\<lambda>_. s)) st"
  "set_state_field ''resource_type'' j st = set_str j (\<lambda>s. st_ResourceType_update (\<lambda>_. s)) st"
  "set_state_field ''provider'' j st = set_str j (\<lambda>s. st_Provider_update (\<lambda>_. s)) st"
  "set_state_field ''provider_ref'' j st = set_str j (\<lambda>s. st_ProviderRef_update (\<lambda>_. s)) st"
  "set_state_field ''provider_id'' j st = set_str j (\<lambda>s. st_ProviderID_update (\<lambda>_. s)) st"
  "set_state_field ''config_hash'' j st = set_str j (\<lambda>s. st_ConfigHash_update (\<lambda>_. s)) st"
  "set_state_field ''status'' j st = set_str j (\<lambda>s. st_Status_update (\<lambda>_. s)) st"
  "set_state_field ''outputs'' j st = map_option (\<lambda>m. st\<lparr>st_Outputs := m\<rparr>) (unmarshal_map j)"
  "set_state_field ''config'' j st = map_option (\<lambda>m. st\<lparr>st_Config := m\<rparr>) (unmarshal_map j)"
  "set_state_field ''dependencies'' j st = map_option (\<lambda>m. st\<lparr>st_Dependencies := m\<rparr>) (unmarshal_strs j)"
  "set_state_field ''created_at'' j st = set_str j (\<lambda>s. st_CreatedAt_update (\<lambda>_. s)) st"
  "set_state_field ''updated_at'' j st = set_str j (\<lambda>s. st_UpdatedAt_update (\<lambda>_. s)) st"
  "set_state_field ''error'' j st = set_str j (\<lambda>s. st_Error_update (\<lambda>_. s)) st"
  by (simp_all add: set_state_field_def equal_fold_def to_lower_def lower_char_def)

lemma set_omit_empty:
  "set_state_fields (omit_empty k s) st = (if s = [] then Some st else set_state_field k (JStr s) st)"
  by (cases "set_state_field k (JStr s) st") (auto simp: omit_empty_def)

lemma unmarshal_marshal_state:
  assumes "marshal_state st = Some j"
  shows "unmarshal_state j = Some (norm_state st)"
proof -
  obtain outputs config where m: "marshal_map (st_Outputs st) = Some outputs" "marshal_map (st_Config st) = Some config"
    using assms by (auto simp: marshal_state_def split: option.splits)
  note [simp] = unmarshal_marshal_map [OF m(1)] unmarshal_marshal_map [OF m(2)]
  show ?thesis
    using assms m
    by (cases "st_Dependencies st")
      (auto simp: marshal_state_def unmarshal_state_def set_state_fields_append set_omit_empty set_field_simps
        set_str_def unmarshal_strs_def norm_state_def zero_state_def)
qed

section \<open>The S3 service\<close>

text \<open>
  \<open>s3_safe\<close>: calls may fail, and a failed call may still have taken effect; but a conditional write
  succeeds only where there was no object, and no call touches another object. \<open>objs w\<close> are the
  objects of the store's bucket.
\<close>

locale s3_safe =
  fixes cl :: "'w s3_client" and bucket :: string and objs :: "'w \<Rightarrow> string \<Rightarrow> content option"
  assumes get_pure: "GetObject cl bucket k w = Some (rg, w') \<Longrightarrow> objs w' = objs w"
    and head_pure: "HeadObject cl bucket k w = Some (rh, w') \<Longrightarrow> objs w' = objs w"
    and list_pure: "ListObjectsV2 cl bucket p tok w = Some (rl, w') \<Longrightarrow> objs w' = objs w"
    and put_safe: "PutObject cl bucket k c ct None w = Some (rp, w') \<Longrightarrow>
          objs w' = objs w \<or> objs w' = (objs w)(k \<mapsto> c)"
    and put_new_safe: "PutObject cl bucket k c ct (Some ''*'') w = Some (rp, w') \<Longrightarrow>
          objs w' = objs w \<or> objs w k = None \<and> objs w' = (objs w)(k \<mapsto> c)"
    and put_new_ok: "PutObject cl bucket k c ct (Some ''*'') w = Some (Ok u, w') \<Longrightarrow>
          objs w k = None \<and> objs w' = (objs w)(k \<mapsto> c)"
    and delete_safe: "DeleteObject cl bucket k w = Some (rd, w') \<Longrightarrow>
          objs w' = objs w \<or> objs w' = (objs w)(k := None)"

text \<open>\<open>s3_objects\<close>: moreover, no call fails without reason.\<close>

locale s3_objects = s3_safe +
  assumes get_hit: "objs w k = Some c \<Longrightarrow> GetObject cl bucket k w = Some (Ok (Body c), w)"
    and get_miss: "objs w k = None \<Longrightarrow> \<exists>m. GetObject cl bucket k w = Some (Err (S3Error NoSuchKey m), w)"
    and head_hit: "objs w k = Some c \<Longrightarrow> HeadObject cl bucket k w = Some (Ok (), w)"
    and head_miss: "objs w k = None \<Longrightarrow> \<exists>m. HeadObject cl bucket k w = Some (Err (S3Error NotFound m), w)"
    and put_obj: "\<exists>w'. PutObject cl bucket k c ct None w = Some (Ok (), w') \<and> objs w' = (objs w)(k \<mapsto> c)"
    and put_absent: "objs w k = None \<Longrightarrow>
          \<exists>w'. PutObject cl bucket k c ct (Some ''*'') w = Some (Ok (), w') \<and> objs w' = (objs w)(k \<mapsto> c)"
    and put_present: "objs w k \<noteq> None \<Longrightarrow>
          \<exists>e. PutObject cl bucket k c ct (Some ''*'') w = Some (Err e, w)
            \<and> str_contains (ErrorString cl e) ''PreconditionFailed''"
    and delete_obj: "\<exists>w'. DeleteObject cl bucket k w = Some (Ok (), w') \<and> objs w' = (objs w)(k := None)"

section \<open>The contract of the store\<close>

text \<open>Sequences of calls through the interface, and what they return to the caller.\<close>

record 'w state_store_ops =
  si_GetState :: "string \<Rightarrow> ('w, iac_state option) io"
  si_SaveState :: "iac_state option \<Rightarrow> ('w, unit) io"
  si_DeleteState :: "string \<Rightarrow> ('w, unit) io"
  si_Lock :: "string \<Rightarrow> ('w, unit) io"
  si_Unlock :: "string \<Rightarrow> ('w, unit) io"

datatype store_op = OpGet string | OpSave iac_state | OpDelete string | OpLock string | OpUnlock string

datatype store_ret = Found "iac_state option" | Done | Failed

definition done_or_failed :: "(unit res \<times> 'w) option \<Rightarrow> (store_ret \<times> 'w) option" where
  "done_or_failed x = map_option (\<lambda>(r, w). (case r of Ok _ \<Rightarrow> Done | _ \<Rightarrow> Failed, w)) x"

fun run_op :: "'w state_store_ops \<Rightarrow> store_op \<Rightarrow> 'w \<Rightarrow> (store_ret \<times> 'w) option" where
  "run_op si (OpGet i) w = map_option (\<lambda>(r, w). (case r of Ok st \<Rightarrow> Found st | _ \<Rightarrow> Failed, w)) (si_GetState si i w)"
| "run_op si (OpSave st) w = done_or_failed (si_SaveState si (Some st) w)"
| "run_op si (OpDelete i) w = done_or_failed (si_DeleteState si i w)"
| "run_op si (OpLock i) w = done_or_failed (si_Lock si i w)"
| "run_op si (OpUnlock i) w = done_or_failed (si_Unlock si i w)"

fun run_ops :: "'w state_store_ops \<Rightarrow> store_op list \<Rightarrow> 'w \<Rightarrow> (store_ret list \<times> 'w) option" where
  "run_ops si [] w = Some ([], w)"
| "run_ops si (x # xs) w =
     (case run_op si x w of
        None \<Rightarrow> None
      | Some (r, w1) \<Rightarrow> map_option (\<lambda>(rs, w2). (r # rs, w2)) (run_ops si xs w1))"

text \<open>
  The abstract store: a record and a lock per key. Saving replaces the record, deleting needs one,
  locking needs the lock to be free and unlocking needs it to be held.
\<close>

record abstract_store =
  as_recs :: "string \<Rightarrow> iac_state option"
  as_held :: "string \<Rightarrow> bool"

fun spec_op :: "(string \<Rightarrow> string) \<Rightarrow> (iac_state \<Rightarrow> iac_state option) \<Rightarrow> store_op \<Rightarrow> abstract_store
    \<Rightarrow> store_ret \<times> abstract_store" where
  "spec_op key put (OpGet i) a = (Found (as_recs a (key i)), a)"
| "spec_op key put (OpSave st) a =
     (case put st of None \<Rightarrow> (Failed, a)
      | Some st' \<Rightarrow> (Done, a\<lparr>as_recs := (as_recs a)(key (st_ResourceID st) \<mapsto> st')\<rparr>))"
| "spec_op key put (OpDelete i) a =
     (if as_recs a (key i) = None then (Failed, a) else (Done, a\<lparr>as_recs := (as_recs a)(key i := None)\<rparr>))"
| "spec_op key put (OpLock i) a =
     (if as_held a (key i) then (Failed, a) else (Done, a\<lparr>as_held := (as_held a)(key i := True)\<rparr>))"
| "spec_op key put (OpUnlock i) a =
     (if as_held a (key i) then (Done, a\<lparr>as_held := (as_held a)(key i := False)\<rparr>) else (Failed, a))"

fun spec_ops :: "(string \<Rightarrow> string) \<Rightarrow> (iac_state \<Rightarrow> iac_state option) \<Rightarrow> store_op list \<Rightarrow> abstract_store
    \<Rightarrow> store_ret list \<times> abstract_store" where
  "spec_ops key put [] a = ([], a)"
| "spec_ops key put (x # xs) a =
     (let (r, a1) = spec_op key put x a; (rs, a2) = spec_ops key put xs a1 in (r # rs, a2))"

text \<open>
  The interface \<^verbatim>\<open>IaCStateStore\<close> over an abstract view: \<open>recs w\<close> is the record kept under each key,
  \<open>held w\<close> whether the key is locked; ids that have the same \<open>key\<close> share both. \<open>fine\<close> is the
  store's invariant and \<open>stored\<close> what a record becomes by being saved.
\<close>

locale state_store =
  fixes get :: "string \<Rightarrow> ('w, iac_state option) io"
    and save :: "iac_state option \<Rightarrow> ('w, unit) io"
    and del :: "string \<Rightarrow> ('w, unit) io"
    and lck :: "string \<Rightarrow> ('w, unit) io"
    and unl :: "string \<Rightarrow> ('w, unit) io"
    and key :: "string \<Rightarrow> string"
    and storable :: "iac_state \<Rightarrow> bool"
    and stored :: "iac_state \<Rightarrow> iac_state"
    and fine :: "'w \<Rightarrow> bool"
    and recs :: "'w \<Rightarrow> string \<Rightarrow> iac_state option"
    and held :: "'w \<Rightarrow> string \<Rightarrow> bool"
  assumes get_law: "fine w \<Longrightarrow> get i w = Some (Ok (recs w (key i)), w)"
    and save_law: "fine w \<Longrightarrow> storable st \<Longrightarrow> \<exists>w'. save (Some st) w = Some (Ok (), w') \<and> fine w'
          \<and> recs w' = (recs w)(key (st_ResourceID st) \<mapsto> stored st) \<and> held w' = held w"
    and save_bad: "\<not> storable st \<Longrightarrow> \<exists>e. save (Some st) w = Some (Err e, w)"
    and del_law: "fine w \<Longrightarrow> recs w (key i) = Some st \<Longrightarrow> \<exists>w'. del i w = Some (Ok (), w') \<and> fine w'
          \<and> recs w' = (recs w)(key i := None) \<and> held w' = held w"
    and del_absent: "fine w \<Longrightarrow> recs w (key i) = None \<Longrightarrow> \<exists>e. del i w = Some (Err e, w)"
    and lck_free: "fine w \<Longrightarrow> \<not> held w (key i) \<Longrightarrow> \<exists>w'. lck i w = Some (Ok (), w') \<and> fine w'
          \<and> recs w' = recs w \<and> held w' = (held w)(key i := True)"
    and lck_held: "fine w \<Longrightarrow> held w (key i) \<Longrightarrow> \<exists>e. lck i w = Some (Err e, w)"
    and unl_held: "fine w \<Longrightarrow> held w (key i) \<Longrightarrow> \<exists>w'. unl i w = Some (Ok (), w') \<and> fine w'
          \<and> recs w' = recs w \<and> held w' = (held w)(key i := False)"
    and unl_free: "fine w \<Longrightarrow> \<not> held w (key i) \<Longrightarrow> \<exists>e. unl i w = Some (Err e, w)"
begin

lemma run_op_refines:
  assumes "fine w"
  shows "\<exists>w'. run_op \<lparr>si_GetState = get, si_SaveState = save, si_DeleteState = del, si_Lock = lck, si_Unlock = unl\<rparr> x w
      = Some (fst (spec_op key (\<lambda>st. if storable st then Some (stored st) else None) x
                 \<lparr>as_recs = recs w, as_held = held w\<rparr>), w') \<and> fine w'
    \<and> \<lparr>as_recs = recs w', as_held = held w'\<rparr> = snd (spec_op key (\<lambda>st. if storable st then Some (stored st) else None) x
                 \<lparr>as_recs = recs w, as_held = held w\<rparr>)"
proof (cases x)
  case (OpGet i)
  then show ?thesis using get_law [OF assms] assms by simp
next
  case (OpSave st)
  then show ?thesis
    using save_law [OF assms, of st] save_bad [of st w] assms
    by (cases "storable st") (auto simp: done_or_failed_def)
next
  case (OpDelete i)
  then show ?thesis
    using del_law [OF assms, of i] del_absent [OF assms, of i] assms
    by (cases "recs w (key i)") (auto simp: done_or_failed_def)
next
  case (OpLock i)
  then show ?thesis
    using lck_free [OF assms, of i] lck_held [OF assms, of i] assms
    by (cases "held w (key i)") (auto simp: done_or_failed_def)
next
  case (OpUnlock i)
  then show ?thesis
    using unl_held [OF assms, of i] unl_free [OF assms, of i] assms
    by (cases "held w (key i)") (auto simp: done_or_failed_def)
qed

lemma run_ops_refines:
  "fine w \<Longrightarrow> \<exists>w' rs. run_ops \<lparr>si_GetState = get, si_SaveState = save, si_DeleteState = del, si_Lock = lck, si_Unlock = unl\<rparr> xs w
      = Some (rs, w') \<and> fine w'
    \<and> spec_ops key (\<lambda>st. if storable st then Some (stored st) else None) xs \<lparr>as_recs = recs w, as_held = held w\<rparr>
        = (rs, \<lparr>as_recs = recs w', as_held = held w'\<rparr>)"
proof (induction xs arbitrary: w)
  case (Cons x xs)
  obtain w1 where w1: "run_op \<lparr>si_GetState = get, si_SaveState = save, si_DeleteState = del, si_Lock = lck, si_Unlock = unl\<rparr> x w
      = Some (fst (spec_op key (\<lambda>st. if storable st then Some (stored st) else None) x
                 \<lparr>as_recs = recs w, as_held = held w\<rparr>), w1)" "fine w1"
    "\<lparr>as_recs = recs w1, as_held = held w1\<rparr> = snd (spec_op key (\<lambda>st. if storable st then Some (stored st) else None) x
                 \<lparr>as_recs = recs w, as_held = held w\<rparr>)"
    using run_op_refines [OF Cons.prems, of x] by blast
  then show ?case
    using Cons.IH [OF w1(2)] by (auto simp: case_prod_unfold Let_def)
qed simp

lemma get_after_save:
  assumes "fine w" "storable st"
  shows "\<exists>w'. save (Some st) w = Some (Ok (), w') \<and> fine w'
    \<and> get i w' = Some (Ok (if key i = key (st_ResourceID st) then Some (stored st) else recs w (key i)), w')"
  using save_law [OF assms] by (auto simp: get_law)

lemma get_after_delete:
  assumes "fine w" "recs w (key i) = Some st"
  shows "\<exists>w'. del i w = Some (Ok (), w') \<and> fine w'
    \<and> get j w' = Some (Ok (if key j = key i then None else recs w (key j)), w')"
  using del_law [OF assms] by (auto simp: get_law)

lemma lock_unlock:
  assumes "fine w" "\<not> held w (key i)"
  shows "\<exists>w1 w2. lck i w = Some (Ok (), w1) \<and> (\<exists>e. lck i w1 = Some (Err e, w1))
    \<and> unl i w1 = Some (Ok (), w2) \<and> fine w2 \<and> held w2 = held w \<and> recs w2 = recs w"
proof -
  obtain w1 where w1: "lck i w = Some (Ok (), w1)" "fine w1" "recs w1 = recs w" "held w1 = (held w)(key i := True)"
    using lck_free [OF assms] by blast
  then have h: "held w1 (key i)" by simp
  obtain w2 where w2: "unl i w1 = Some (Ok (), w2)" "fine w2" "recs w2 = recs w1" "held w2 = (held w1)(key i := False)"
    using unl_held [OF w1(2) h] by blast
  have "held w2 = held w"
    using w1(4) w2(4) assms(2) by (auto simp: fun_eq_iff)
  then show ?thesis
    using w1 w2 lck_held [OF w1(2) h] by auto
qed

end

section \<open>The Spaces store keeps the contract\<close>

definition recs_of :: "'w spaces_store \<Rightarrow> (string \<Rightarrow> content option) \<Rightarrow> string \<Rightarrow> iac_state option" where
  "recs_of s m k = (case m (ss_prefix s @ k @ ''.json'') of Some (JsonDoc j) \<Rightarrow> unmarshal_state j | _ \<Rightarrow> None)"

definition held_of :: "'w spaces_store \<Rightarrow> (string \<Rightarrow> content option) \<Rightarrow> string \<Rightarrow> bool" where
  "held_of s m k = (m (ss_prefix s @ k @ ''.lock'') \<noteq> None)"

text \<open>The store's invariant: every object under a state key is a record.\<close>

definition records_only :: "'w spaces_store \<Rightarrow> (string \<Rightarrow> content option) \<Rightarrow> bool" where
  "records_only s m = (\<forall>k c. m (ss_prefix s @ k @ ''.json'') = Some c \<longrightarrow>
     (\<exists>j st. c = JsonDoc j \<and> unmarshal_state j = Some st))"

definition storable :: "iac_state \<Rightarrow> bool" where
  "storable st = (st_ResourceID st \<noteq> [] \<and> marshal_state st \<noteq> None)"

lemma json_not_lock [simp]:
  "a @ ''.json'' \<noteq> b @ ''.lock''" "b @ ''.lock'' \<noteq> a @ ''.json''"
proof -
  have "a @ ''.json'' \<noteq> b @ ''.lock''"
  proof
    assume "a @ ''.json'' = b @ ''.lock''"
    then have "rev (a @ ''.json'') = rev (b @ ''.lock'')" by simp
    then show False by simp
  qed
  then show "a @ ''.json'' \<noteq> b @ ''.lock''" "b @ ''.lock'' \<noteq> a @ ''.json''" by metis+
qed

lemma prefixed_json_not_lock [simp]:
  "p @ a @ ''.json'' \<noteq> p @ b @ ''.lock''" "p @ b @ ''.lock'' \<noteq> p @ a @ ''.json''"
  using json_not_lock by simp_all

locale spaces_on_s3 = s3_objects "ss_client s" "ss_bucket s" objs
  for s :: "'w spaces_store" and objs :: "'w \<Rightarrow> string \<Rightarrow> content option" +
  fixes now :: string
begin

lemma not_found_kinds [simp]:
  "isNotFoundErr c (S3Error NoSuchKey m)" "isNotFoundErr c (S3Error NotFound m)"
  by (simp_all add: isNotFoundErr_def)

lemma get_state_law:
  assumes "records_only s (objs w)"
  shows "GetState s i w = Some (Ok (recs_of s (objs w) (sanitizeID i)), w)"
proof (cases "objs w (stateKey s i)")
  case None
  obtain m where "GetObject (ss_client s) (ss_bucket s) (stateKey s i) w = Some (Err (S3Error NoSuchKey m), w)"
    using get_miss [OF None] by blast
  then show ?thesis
    using None by (simp add: GetState_def io_simps recs_of_def stateKey_def)
next
  case (Some c)
  then obtain j st where c: "c = JsonDoc j" "unmarshal_state j = Some st"
    using assms unfolding records_only_def stateKey_def by blast
  then show ?thesis
    using Some get_hit [OF Some] by (simp add: GetState_def io_simps recs_of_def stateKey_def read_state_def)
qed

lemma save_state_law:
  assumes "records_only s (objs w)" "storable st"
  shows "\<exists>w'. SaveState s (Some st) w = Some (Ok (), w') \<and> records_only s (objs w')
    \<and> recs_of s (objs w') = (recs_of s (objs w))(sanitizeID (st_ResourceID st) \<mapsto> norm_state st)
    \<and> held_of s (objs w') = held_of s (objs w)"
proof -
  obtain j where j: "marshal_state st = Some j" and ne: "st_ResourceID st \<noteq> []"
    using assms(2) by (auto simp: storable_def)
  note u = unmarshal_marshal_state [OF j]
  obtain w' where w': "PutObject (ss_client s) (ss_bucket s) (stateKey s (st_ResourceID st)) (JsonDoc j)
      (Some ''application/json'') None w = Some (Ok (), w')"
    "objs w' = (objs w)(stateKey s (st_ResourceID st) \<mapsto> JsonDoc j)"
    using put_obj by blast
  have "SaveState s (Some st) w = Some (Ok (), w')"
    using j ne w'(1) by (simp add: SaveState_def io_simps)
  moreover have "records_only s (objs w')"
    using assms(1) w'(2) u by (auto simp: records_only_def)
  moreover have "recs_of s (objs w') = (recs_of s (objs w))(sanitizeID (st_ResourceID st) \<mapsto> norm_state st)"
    using w'(2) u by (auto simp: recs_of_def stateKey_def fun_eq_iff)
  moreover have "held_of s (objs w') = held_of s (objs w)"
    using w'(2) by (auto simp: held_of_def stateKey_def fun_eq_iff)
  ultimately show ?thesis by blast
qed

lemma save_bad_law:
  "\<not> storable st \<Longrightarrow> \<exists>e. SaveState s (Some st) w = Some (Err e, w)"
  by (auto simp: SaveState_def storable_def io_simps)

lemma delete_state_law:
  assumes "records_only s (objs w)" "recs_of s (objs w) (sanitizeID i) = Some st"
  shows "\<exists>w'. DeleteState s i w = Some (Ok (), w') \<and> records_only s (objs w')
    \<and> recs_of s (objs w') = (recs_of s (objs w))(sanitizeID i := None)
    \<and> held_of s (objs w') = held_of s (objs w)"
proof -
  obtain c where c: "objs w (stateKey s i) = Some c"
    using assms(2) by (auto simp: recs_of_def stateKey_def split: option.splits)
  obtain w' where w': "DeleteObject (ss_client s) (ss_bucket s) (stateKey s i) w = Some (Ok (), w')"
    "objs w' = (objs w)(stateKey s i := None)"
    using delete_obj by blast
  have "DeleteState s i w = Some (Ok (), w')"
    using head_hit [OF c] w'(1) by (simp add: DeleteState_def io_simps)
  moreover have "records_only s (objs w')"
    using assms(1) w'(2) by (auto simp: records_only_def)
  moreover have "recs_of s (objs w') = (recs_of s (objs w))(sanitizeID i := None)"
    using w'(2) by (auto simp: recs_of_def stateKey_def fun_eq_iff)
  moreover have "held_of s (objs w') = held_of s (objs w)"
    using w'(2) by (auto simp: held_of_def stateKey_def fun_eq_iff)
  ultimately show ?thesis by blast
qed

lemma delete_absent_law:
  assumes "records_only s (objs w)" "recs_of s (objs w) (sanitizeID i) = None"
  shows "\<exists>e. DeleteState s i w = Some (Err e, w)"
proof -
  have "objs w (stateKey s i) = None"
    using assms unfolding records_only_def recs_of_def stateKey_def by (fastforce split: option.splits)
  then obtain m where "HeadObject (ss_client s) (ss_bucket s) (stateKey s i) w = Some (Err (S3Error NotFound m), w)"
    using head_miss by blast
  then show ?thesis by (simp add: DeleteState_def io_simps)
qed

lemma lock_free_law:
  assumes "records_only s (objs w)" "\<not> held_of s (objs w) (sanitizeID i)"
  shows "\<exists>w'. Lock now s i w = Some (Ok (), w') \<and> records_only s (objs w')
    \<and> recs_of s (objs w') = recs_of s (objs w)
    \<and> held_of s (objs w') = (held_of s (objs w))(sanitizeID i := True)"
proof -
  have free: "objs w (lockKey s i) = None"
    using assms(2) by (simp add: held_of_def lockKey_def)
  then obtain w' where w': "PutObject (ss_client s) (ss_bucket s) (lockKey s i) (RawText now) None (Some ''*'') w = Some (Ok (), w')"
    "objs w' = (objs w)(lockKey s i \<mapsto> RawText now)"
    using put_absent by blast
  have "Lock now s i w = Some (Ok (), w')"
    using w'(1) by (simp add: Lock_def io_simps)
  moreover have "records_only s (objs w')"
    using assms(1) w'(2) by (auto simp: records_only_def lockKey_def)
  moreover have "recs_of s (objs w') = recs_of s (objs w)"
    using w'(2) by (auto simp: recs_of_def lockKey_def fun_eq_iff)
  moreover have "held_of s (objs w') = (held_of s (objs w))(sanitizeID i := True)"
    using w'(2) by (auto simp: held_of_def lockKey_def fun_eq_iff)
  ultimately show ?thesis by blast
qed

lemma lock_held_law:
  assumes "held_of s (objs w) (sanitizeID i)"
  shows "Lock now s i w = Some (Err (Errorf ''iac spaces state: Lock %q: resource is already locked'' [FStr i]), w)"
proof -
  have "objs w (lockKey s i) \<noteq> None"
    using assms by (simp add: held_of_def lockKey_def)
  then obtain e where "PutObject (ss_client s) (ss_bucket s) (lockKey s i) (RawText now) None (Some ''*'') w = Some (Err e, w)"
    "str_contains (ErrorString (ss_client s) e) ''PreconditionFailed''"
    using put_present by blast
  then show ?thesis by (simp add: Lock_def io_simps isPreconditionFailedErr_def)
qed

lemma unlock_held_law:
  assumes "records_only s (objs w)" "held_of s (objs w) (sanitizeID i)"
  shows "\<exists>w'. Unlock s i w = Some (Ok (), w') \<and> records_only s (objs w')
    \<and> recs_of s (objs w') = recs_of s (objs w)
    \<and> held_of s (objs w') = (held_of s (objs w))(sanitizeID i := False)"
proof -
  obtain c where c: "objs w (lockKey s i) = Some c"
    using assms(2) by (auto simp: held_of_def lockKey_def)
  obtain w' where w': "DeleteObject (ss_client s) (ss_bucket s) (lockKey s i) w = Some (Ok (), w')"
    "objs w' = (objs w)(lockKey s i := None)"
    using delete_obj by blast
  have "Unlock s i w = Some (Ok (), w')"
    using head_hit [OF c] w'(1) by (simp add: Unlock_def unlock_head_def unlock_delete_def io_simps)
  moreover have "records_only s (objs w')"
    using assms(1) w'(2) by (auto simp: records_only_def lockKey_def)
  moreover have "recs_of s (objs w') = recs_of s (objs w)"
    using w'(2) by (auto simp: recs_of_def lockKey_def fun_eq_iff)
  moreover have "held_of s (objs w') = (held_of s (objs w))(sanitizeID i := False)"
    using w'(2) by (auto simp: held_of_def lockKey_def fun_eq_iff)
  ultimately show ?thesis by blast
qed

lemma unlock_free_law:
  assumes "\<not> held_of s (objs w) (sanitizeID i)"
  shows "Unlock s i w = Some (Err (Errorf ''iac spaces state: Unlock %q: not locked'' [FStr i]), w)"
proof -
  have "objs w (lockKey s i) = None"
    using assms by (simp add: held_of_def lockKey_def)
  then obtain m where "HeadObject (ss_client s) (ss_bucket s) (lockKey s i) w = Some (Err (S3Error NotFound m), w)"
    using head_miss by blast
  then show ?thesis by (simp add: Unlock_def unlock_head_def io_simps)
qed

end

sublocale spaces_on_s3 \<subseteq> store: state_store "GetState s" "SaveState s" "DeleteState s" "Lock now s" "Unlock s"
  sanitizeID storable norm_state "\<lambda>w. records_only s (objs w)" "\<lambda>w. recs_of s (objs w)" "\<lambda>w. held_of s (objs w)"
proof
qed (simp_all add: get_state_law save_state_law save_bad_law delete_state_law delete_absent_law lock_free_law
    lock_held_law unlock_held_law unlock_free_law)

context spaces_on_s3
begin

lemmas sequences_refine = store.run_ops_refines
lemmas save_then_get = store.get_after_save

end

section \<open>The client of the tests\<close>

text \<open>
  \<^verbatim>\<open>mockS3Client\<close> of \<^verbatim>\<open>internal/statebackend/spaces_test.go\<close>: the objects by key, conditional
  writes honoured, listing in one page.
\<close>

type_synonym mock_world = "(string \<times> content) list"

definition mock_put :: "string \<Rightarrow> content \<Rightarrow> mock_world \<Rightarrow> mock_world" where
  "mock_put k c w = (k, c) # filter (\<lambda>(k', _). k' \<noteq> k) w"

definition mock_s3 :: "mock_world s3_client" where
  "mock_s3 = \<lparr>
     GetObject = (\<lambda>b k w. Some (case map_of w k of
         None \<Rightarrow> Err (S3Error NoSuchKey (''NoSuchKey: '' @ k)) | Some c \<Rightarrow> Ok (Body c), w)),
     PutObject = (\<lambda>b k c ct inm w.
         if inm = Some ''*'' \<and> map_of w k \<noteq> None
         then Some (Err (Opaque (''PreconditionFailed: object '' @ k @ '' already exists'')), w)
         else Some (Ok (), mock_put k c w)),
     DeleteObject = (\<lambda>b k w. Some (Ok (), filter (\<lambda>(k', _). k' \<noteq> k) w)),
     ListObjectsV2 = (\<lambda>b p tok w. Some (Ok \<lparr>lo_Contents = map (\<lambda>kc. Some (fst kc)) (filter (\<lambda>kc. has_prefix (fst kc) p) w),
         lo_IsTruncated = Some False, lo_NextContinuationToken = None\<rparr>, w)),
     HeadObject = (\<lambda>b k w. Some (case map_of w k of
         None \<Rightarrow> Err (S3Error NotFound (''NotFound: '' @ k)) | Some c \<Rightarrow> Ok (), w)),
     ErrorString = (\<lambda>e. case e of S3Error NoSuchKey m \<Rightarrow> ''NoSuchKey: '' @ m
         | S3Error NotFound m \<Rightarrow> ''NotFound: '' @ m | S3Error OtherS3 m \<Rightarrow> m | Opaque m \<Rightarrow> m | _ \<Rightarrow> [])\<rparr>"

lemma map_of_filter_other: "map_of (filter (\<lambda>(k', _). k' \<noteq> k) w) = (map_of w)(k := None)"
  by (induction w) (auto simp: fun_eq_iff)

lemma map_of_mock_put: "map_of (mock_put k c w) = (map_of w)(k \<mapsto> c)"
  by (simp add: mock_put_def map_of_filter_other)

lemma str_contains_append: "str_contains (p @ t) p"
  by (cases "p @ t") (auto simp: has_prefix_def append_eq_Cons_conv intro: has_prefix_append)

lemma mock_s3_safe: "s3_safe mock_s3 b map_of"
  by unfold_locales (auto simp: mock_s3_def map_of_filter_other map_of_mock_put split: if_splits)

interpretation mock: spaces_on_s3 "NewSpacesIaCStateStoreWithClient mock_s3 b p" map_of now for b p now
proof -
  have 1: "s3_safe (ss_client (NewSpacesIaCStateStoreWithClient mock_s3 b p)) (ss_bucket (NewSpacesIaCStateStoreWithClient mock_s3 b p)) map_of"
    by (simp add: NewSpacesIaCStateStoreWithClient_def mock_s3_safe)
  have 2: "str_contains (''PreconditionFailed: object '' @ k @ '' already exists'') ''PreconditionFailed''" for k
    using str_contains_append [of "''PreconditionFailed''" "'': object '' @ k @ '' already exists''"] by simp
  show "spaces_on_s3 (NewSpacesIaCStateStoreWithClient mock_s3 b p) map_of"
    unfolding spaces_on_s3_def s3_objects_def
    using 1 2 by (simp add: s3_objects_axioms_def NewSpacesIaCStateStoreWithClient_def mock_s3_def
        map_of_filter_other map_of_mock_put)
qed

end
