(* ===== verification/StateProtocol.thy ===== *)
theory StateProtocol
  imports StateContract
begin

text \<open>
  Several clients of one Spaces state store, interleaved call by call: the lock as a protocol over
  S3 calls that may fail, the listing of the records, and the properties of the store.
\<close>

section \<open>The lock protocol\<close>

text \<open>
  A client acquires with \<open>Lock\<close> and releases with \<open>Unlock\<close>, whose two calls other clients can get
  between: after the first it is \<open>Releasing\<close>. A client whose \<open>Unlock\<close> fails does not hold the lock
  any more as far as it knows. Any client may at any time run the other operations, on this or
  other records, and lock or unlock other records.
\<close>

datatype phase = Idle | Holding | Releasing

datatype other_op = OtherGet string | OtherSave "iac_state option" | OtherList "(string \<times> string) list"
  | OtherDelete string | OtherLock string string | OtherUnlock string

fun run_other :: "'w spaces_store \<Rightarrow> other_op \<Rightarrow> 'w \<Rightarrow> 'w option" where
  "run_other s (OtherGet i) w = map_option snd (GetState s i w)"
| "run_other s (OtherSave st) w = map_option snd (SaveState s st w)"
| "run_other s (OtherList f) w = map_option snd (ListStates s f w)"
| "run_other s (OtherDelete i) w = map_option snd (DeleteState s i w)"
| "run_other s (OtherLock now i) w = map_option snd (Lock now s i w)"
| "run_other s (OtherUnlock i) w = map_option snd (Unlock s i w)"

fun spares :: "string \<Rightarrow> other_op \<Rightarrow> bool" where
  "spares rid (OtherLock now i) = (sanitizeID i \<noteq> sanitizeID rid)"
| "spares rid (OtherUnlock i) = (sanitizeID i \<noteq> sanitizeID rid)"
| "spares rid _ = True"

type_synonym 'w lock_system = "'w \<times> (nat \<Rightarrow> phase)"

inductive lock_step :: "'w spaces_store \<Rightarrow> string \<Rightarrow> 'w lock_system \<Rightarrow> 'w lock_system \<Rightarrow> bool"
  for s :: "'w spaces_store" and rid :: string where
  acquire: "ph c = Idle \<Longrightarrow> Lock now s rid w = Some (Ok (), w') \<Longrightarrow> lock_step s rid (w, ph) (w', ph(c := Holding))"
| refused: "ph c = Idle \<Longrightarrow> Lock now s rid w = Some (r, w') \<Longrightarrow> r \<noteq> Ok () \<Longrightarrow> lock_step s rid (w, ph) (w', ph)"
| release: "ph c = Holding \<Longrightarrow> unlock_head s rid w = Some (Ok (), w') \<Longrightarrow> lock_step s rid (w, ph) (w', ph(c := Releasing))"
| abandon: "ph c = Holding \<Longrightarrow> unlock_head s rid w = Some (r, w') \<Longrightarrow> r \<noteq> Ok () \<Longrightarrow> lock_step s rid (w, ph) (w', ph(c := Idle))"
| released: "ph c = Releasing \<Longrightarrow> unlock_delete s rid w = Some (r, w') \<Longrightarrow> lock_step s rid (w, ph) (w', ph(c := Idle))"
| other: "spares rid x \<Longrightarrow> run_other s x w = Some w' \<Longrightarrow> lock_step s rid (w, ph) (w', ph)"

inductive_cases lock_stepE: "lock_step s rid (w, ph) (w', ph')"

lemma io_handle_SomeE:
  assumes "io_handle m f g w = Some (r, w')"
  obtains x w1 where "m w = Some (Ok x, w1)" "f x w1 = Some (r, w')"
  | e w1 where "m w = Some (Err e, w1)" "g e w1 = Some (r, w')"
  | p where "m w = Some (Panic p, w')" "r = Panic p"
  using assms by (auto simp: io_handle_def split: option.splits prod.splits res.splits)

context s3_safe
begin

lemma Lock_effect:
  assumes "ss_client s = cl" "ss_bucket s = bucket" "Lock now s i w = Some (r, w')"
  shows "objs w' = objs w \<or> objs w (lockKey s i) = None \<and> objs w' = (objs w)(lockKey s i \<mapsto> RawText now)"
  using assms(3) unfolding Lock_def assms(1,2)
  by (auto simp: io_ok_def io_err_def split: if_splits elim!: io_handle_SomeE dest: put_new_safe)

lemma Lock_Ok_effect:
  assumes "ss_client s = cl" "ss_bucket s = bucket" "Lock now s i w = Some (Ok (), w')"
  shows "objs w (lockKey s i) = None \<and> objs w' = (objs w)(lockKey s i \<mapsto> RawText now)"
  using assms(3) unfolding Lock_def assms(1,2)
  by (auto simp: io_ok_def io_err_def split: if_splits elim!: io_handle_SomeE dest: put_new_ok)

lemma unlock_head_effect:
  assumes "ss_client s = cl" "ss_bucket s = bucket" "unlock_head s i w = Some (r, w')"
  shows "objs w' = objs w"
  using assms(3) unfolding unlock_head_def assms(1,2)
  by (auto simp: io_ok_def io_err_def split: if_splits elim!: io_handle_SomeE dest: head_pure)

lemma unlock_delete_effect:
  assumes "ss_client s = cl" "ss_bucket s = bucket" "unlock_delete s i w = Some (r, w')"
  shows "objs w' = objs w \<or> objs w' = (objs w)(lockKey s i := None)"
  using assms(3) unfolding unlock_delete_def io_wrap_def assms(1,2)
  by (auto simp: io_ok_def io_err_def elim!: io_handle_SomeE dest: delete_safe)

lemma Unlock_effect:
  assumes "ss_client s = cl" "ss_bucket s = bucket" "Unlock s i w = Some (r, w')"
  shows "objs w' = objs w \<or> objs w' = (objs w)(lockKey s i := None)"
proof -
  obtain r1 w1 where h: "unlock_head s i w = Some (r1, w1)"
    using assms(3) by (auto simp: Unlock_def io_bind_def split: option.splits)
  then have "(\<exists>r2. unlock_delete s i w1 = Some (r2, w')) \<or> w' = w1"
    using assms(3) by (cases r1) (auto simp: Unlock_def io_bind_def)
  then show ?thesis
    using unlock_head_effect [OF assms(1,2) h] unlock_delete_effect [OF assms(1,2), of i w1] by auto
qed

lemma GetState_effect:
  assumes "ss_client s = cl" "ss_bucket s = bucket" "GetState s i w = Some (r, w')"
  shows "objs w' = objs w"
  using assms(3) unfolding GetState_def assms(1,2)
  by (auto simp: io_ok_def io_err_def io_bind_res split: if_splits res.splits elim!: io_handle_SomeE dest: get_pure)

lemma SaveState_effect:
  assumes "ss_client s = cl" "ss_bucket s = bucket" "SaveState s st w = Some (r, w')"
  shows "objs w' = objs w \<or> (\<exists>i c. objs w' = (objs w)(stateKey s i \<mapsto> c))"
  using assms(3) unfolding SaveState_def io_wrap_def assms(1,2)
  by (auto simp: io_ok_def io_err_def split: option.splits if_splits elim!: io_handle_SomeE dest!: put_safe)

lemma DeleteState_effect:
  assumes "ss_client s = cl" "ss_bucket s = bucket" "DeleteState s i w = Some (r, w')"
  shows "objs w' = objs w \<or> objs w' = (objs w)(stateKey s i := None)"
  using assms(3) unfolding DeleteState_def io_wrap_def assms(1,2)
  by (auto simp: io_ok_def io_err_def split: if_splits elim!: io_handle_SomeE dest!: head_pure delete_safe)

lemma list_objects_effect:
  assumes "ss_client s = cl" "ss_bucket s = bucket"
  shows "list_objects s f ks acc w = Some (r, w') \<Longrightarrow> objs w' = objs w"
proof (induction ks arbitrary: acc w)
  case (Cons k ks)
  then show ?case
    unfolding list_objects.simps assms
    by (auto simp: Let_def split: if_splits res.splits elim!: io_handle_SomeE dest!: get_pure Cons.IH)
qed (simp add: io_ok_def)

lemma list_states_effect:
  assumes "list_states s f tok acc w = Some y"
  shows "ss_client s = cl \<Longrightarrow> ss_bucket s = bucket \<Longrightarrow> objs (snd y) = objs w"
proof (rule list_states.raw_induct [OF _ assms, where P = "\<lambda>s f tok acc w y. ss_client s = cl \<longrightarrow> ss_bucket s = bucket
      \<longrightarrow> objs (snd y) = objs w", rule_format])
  fix rec s f tok acc w y
  assume IH: "\<And>s f tok acc w y. rec s f tok acc w = Some y \<Longrightarrow> ss_client s = cl \<Longrightarrow> ss_bucket s = bucket
      \<Longrightarrow> objs (snd y) = objs w"
    and s: "ss_client s = cl" "ss_bucket s = bucket"
    and body: "(case ListObjectsV2 (ss_client s) (ss_bucket s) (ss_prefix s) tok w of
        None \<Rightarrow> None
      | Some (r, w1) \<Rightarrow>
        (case r of
           Err e \<Rightarrow> Some (Err (Wrapf ''iac spaces state: ListStates: %w'' [] e), w1)
         | Panic p \<Rightarrow> Some (Panic p, w1)
         | Ok out \<Rightarrow>
           (case list_objects s f (lo_Contents out) acc w1 of
              None \<Rightarrow> None
            | Some (r2, w2) \<Rightarrow>
              (case r2 of
                 Err e \<Rightarrow> Some (Err e, w2)
               | Panic p \<Rightarrow> Some (Panic p, w2)
               | Ok results' \<Rightarrow>
                   (if lo_IsTruncated out \<noteq> Some True then Some (Ok results', w2)
                    else rec s f (lo_NextContinuationToken out) results' w2))))) = Some y"
  show "objs (snd y) = objs w"
    using body unfolding s
    by (auto split: option.splits prod.splits res.splits if_splits
        dest!: list_pure list_objects_effect [OF s] IH [OF _ s])
qed auto

lemma other_effect:
  assumes "ss_client s = cl" "ss_bucket s = bucket" "spares rid x" "run_other s x w = Some w'"
  shows "objs w' (lockKey s rid) = objs w (lockKey s rid)"
proof (cases x)
  case (OtherGet i)
  then show ?thesis using assms GetState_effect [OF assms(1,2)] by fastforce
next
  case (OtherSave st)
  then show ?thesis using assms(4) by (auto dest!: SaveState_effect [OF assms(1,2)])
next
  case (OtherList f)
  then show ?thesis
    using assms(4) list_states_effect [of s f None "[]" w] assms(1,2) by (auto simp: ListStates_def)
next
  case (OtherDelete i)
  then show ?thesis using assms(4) by (auto dest!: DeleteState_effect [OF assms(1,2)])
next
  case (OtherLock now i)
  then show ?thesis
    using assms(3,4) by (auto simp: lockKey_inj dest!: Lock_effect [OF assms(1,2)])
next
  case (OtherUnlock i)
  then show ?thesis
    using assms(3,4) by (auto simp: lockKey_inj dest!: Unlock_effect [OF assms(1,2)])
qed

definition lock_inv :: "'w spaces_store \<Rightarrow> string \<Rightarrow> 'w lock_system \<Rightarrow> bool" where
  "lock_inv s rid sys = ((\<forall>c d. snd sys c \<noteq> Idle \<longrightarrow> snd sys d \<noteq> Idle \<longrightarrow> c = d)
     \<and> (\<forall>c. snd sys c \<noteq> Idle \<longrightarrow> objs (fst sys) (lockKey s rid) \<noteq> None))"

lemma lock_inv_step:
  assumes "ss_client s = cl" "ss_bucket s = bucket" "lock_step s rid x y" "lock_inv s rid x"
  shows "lock_inv s rid y"
  using assms(3,4)
proof (induction rule: lock_step.induct)
  case (acquire ph c now w w')
  have o: "objs w (lockKey s rid) = None" "objs w' (lockKey s rid) \<noteq> None"
    using Lock_Ok_effect [OF assms(1,2) acquire.hyps(2)] by auto
  then have "\<forall>d. ph d = Idle"
    using acquire.prems by (auto simp: lock_inv_def)
  then show ?case using o by (auto simp: lock_inv_def)
next
  case (refused ph c now w r w')
  then show ?case
    using Lock_effect [OF assms(1,2) refused.hyps(2)] by (auto simp: lock_inv_def)
next
  case (release ph c w w')
  then show ?case
    using unlock_head_effect [OF assms(1,2) release.hyps(2)] by (auto simp: lock_inv_def)
next
  case (abandon ph c w r w')
  then show ?case
    using unlock_head_effect [OF assms(1,2) abandon.hyps(2)] by (auto simp: lock_inv_def)
next
  case (released ph c w r w')
  then have "\<forall>d. (ph(c := Idle)) d = Idle"
    by (auto simp: lock_inv_def)
  then show ?case by (auto simp: lock_inv_def)
next
  case (other x w w' ph)
  then show ?case
    using other_effect [OF assms(1,2) other.hyps] by (auto simp: lock_inv_def)
qed

lemma lock_inv_reachable:
  assumes "ss_client s = cl" "ss_bucket s = bucket" "(lock_step s rid)\<^sup>*\<^sup>* (w0, \<lambda>_. Idle) y"
  shows "lock_inv s rid y"
  using assms(3)
proof (induction rule: rtranclp_induct)
  case base
  then show ?case by (simp add: lock_inv_def)
next
  case (step y z)
  then show ?case using lock_inv_step [OF assms(1,2)] by blast
qed

end

section \<open>Listing\<close>

text \<open>
  The record an object holds, as \<open>ListStates\<close> sees it: lock objects, objects of other kinds and
  objects that do not decode count as none.
\<close>

definition record_at :: "(string \<Rightarrow> content option) \<Rightarrow> string \<Rightarrow> iac_state option" where
  "record_at m key =
     (if has_suffix key ''.lock'' \<or> \<not> has_suffix key ''.json'' then None
      else case m key of Some (JsonDoc j) \<Rightarrow> unmarshal_state j | _ \<Rightarrow> None)"

fun listed :: "(string \<Rightarrow> content option) \<Rightarrow> (string \<times> string) list \<Rightarrow> string list \<Rightarrow> iac_state list" where
  "listed m f [] = []"
| "listed m f (k # ks) =
     (case record_at m k of
        Some st \<Rightarrow> if matchesFilter st f then st # listed m f ks else listed m f ks
      | None \<Rightarrow> listed m f ks)"

lemma listed_append: "listed m f (xs @ ys) = listed m f xs @ listed m f ys"
  by (induction xs) (auto split: option.splits)

lemma set_listed: "set (listed m f ks) = {st. \<exists>k \<in> set ks. record_at m k = Some st \<and> matchesFilter st f}"
  by (induction ks) (auto split: option.splits)

text \<open>
  S3's contract for listings: the keys under the prefix come in pages, each page but the last is
  truncated and carries the token of the next one.
\<close>

locale s3_listing = spaces_on_s3 s objs now
  for s :: "'w spaces_store" and objs :: "'w \<Rightarrow> string \<Rightarrow> content option" and now :: string +
  fixes pages :: "'w \<Rightarrow> string list list" and tok :: "'w \<Rightarrow> nat \<Rightarrow> string option"
  assumes first_token: "tok w 0 = None"
    and some_page: "pages w \<noteq> []"
    and list_at: "i < length (pages w) \<Longrightarrow>
      ListObjectsV2 (ss_client s) (ss_bucket s) (ss_prefix s) (tok w i) w =
        Some (Ok \<lparr>lo_Contents = map Some (pages w ! i), lo_IsTruncated = Some (Suc i < length (pages w)),
                 lo_NextContinuationToken = tok w (Suc i)\<rparr>, w)"
    and listed_keys: "set (concat (pages w)) = {k. objs w k \<noteq> None \<and> has_prefix k (ss_prefix s)}"
begin

lemma list_objects_all:
  "list_objects s f (map Some ks) acc w = Some (Ok (acc @ listed (objs w) f ks), w)"
proof (induction ks arbitrary: acc)
  case Nil
  then show ?case by (simp add: io_ok_def)
next
  case (Cons k ks)
  show ?case
  proof (cases "objs w k")
    case None
    obtain m where "GetObject (ss_client s) (ss_bucket s) k w = Some (Err (S3Error NoSuchKey m), w)"
      using get_miss [OF None] by blast
    then show ?thesis
      using Cons None by (simp add: io_handle_def record_at_def)
  next
    case (Some c)
    then show ?thesis
      using Cons get_hit [OF Some]
      by (auto simp: io_handle_def record_at_def read_state_def split: content.splits option.splits)
  qed
qed

lemma list_states_from:
  "i < length (pages w) \<Longrightarrow> list_states s f (tok w i) acc w
     = Some (Ok (acc @ listed (objs w) f (concat (drop i (pages w)))), w)"
proof (induction "length (pages w) - i" arbitrary: i acc)
  case 0
  then show ?case by simp
next
  case (Suc n)
  have d: "drop i (pages w) = pages w ! i # drop (Suc i) (pages w)"
    using Suc.prems by (simp add: Cons_nth_drop_Suc)
  show ?case
  proof (cases "Suc i < length (pages w)")
    case True
    then show ?thesis
      using Suc.hyps(1) [of "Suc i"] Suc.hyps(2) d
      by (simp add: list_states.simps [of s f "tok w i"] list_at [OF Suc.prems] list_objects_all listed_append)
  next
    case False
    then show ?thesis
      using d by (simp add: list_states.simps [of s f "tok w i"] list_at [OF Suc.prems] list_objects_all listed_append)
  qed
qed

lemma ListStates_all: "ListStates s f w = Some (Ok (listed (objs w) f (concat (pages w))), w)"
  using list_states_from [of 0 w f "[]"] some_page [of w] first_token [of w] by (simp add: ListStates_def)

lemma ListStates_set:
  "\<exists>sts. ListStates s f w = Some (Ok sts, w)
    \<and> set sts = {st. \<exists>k. has_prefix k (ss_prefix s) \<and> record_at (objs w) k = Some st \<and> matchesFilter st f}"
proof -
  have *: "record_at (objs w) k = Some st \<Longrightarrow> objs w k \<noteq> None" for k st
    by (auto simp: record_at_def split: if_splits option.splits)
  have "set (listed (objs w) f (concat (pages w)))
      = {st. \<exists>k. has_prefix k (ss_prefix s) \<and> record_at (objs w) k = Some st \<and> matchesFilter st f}"
    unfolding set_listed listed_keys using * by blast
  then show ?thesis
    using ListStates_all [of f w] by blast
qed

end

interpretation mock_listing: s3_listing "NewSpacesIaCStateStoreWithClient mock_s3 b p" map_of now
  "\<lambda>w. [filter (\<lambda>k. has_prefix k (if p = [] then ''iac-state/'' else p)) (map fst w)]" "\<lambda>w i. None" for b p now
proof
qed (auto simp: NewSpacesIaCStateStoreWithClient_def mock_s3_def filter_map comp_def map_of_eq_None_iff)

section \<open>Properties of the store\<close>

definition spaces_ops :: "string \<Rightarrow> 'w spaces_store \<Rightarrow> 'w state_store_ops" where
  "spaces_ops now s = \<lparr>si_GetState = GetState s, si_SaveState = SaveState s, si_DeleteState = DeleteState s,
     si_Lock = Lock now s, si_Unlock = Unlock s\<rparr>"

definition abstract_of :: "'w spaces_store \<Rightarrow> (string \<Rightarrow> content option) \<Rightarrow> abstract_store" where
  "abstract_of s m = \<lparr>as_recs = recs_of s m, as_held = held_of s m\<rparr>"

text \<open>
  C2: the Spaces store refines the abstract keyed store. For every sequence of GetState, SaveState,
  DeleteState, Lock and Unlock calls on a bucket whose state objects are records, the calls return
  and their results and final contents are those of a store with one record and one lock per
  sanitized id: saving replaces, deleting needs a record, locking needs a free lock, unlocking needs
  a held one, locks and records never touch each other, and a saved record comes back in its JSON
  normal form. The hypothesis is S3's contract when no call fails.
\<close>

theorem spaces_store_refines:
  assumes "spaces_on_s3 s objs" and "records_only s (objs w)"
  shows "\<exists>rs w'. run_ops (spaces_ops now s) xs w = Some (rs, w') \<and> records_only s (objs w')
    \<and> spec_ops sanitizeID (\<lambda>st. if storable st then Some (norm_state st) else None) xs (abstract_of s (objs w))
        = (rs, abstract_of s (objs w'))"
  using spaces_on_s3.sequences_refine [OF assms, of now xs]
  unfolding spaces_ops_def abstract_of_def by blast

text \<open>
  C1: the lock excludes. However the calls of any number of clients interleave, whichever calls fail
  (a failed call may or may not have taken effect), and whatever else is done to this and to other
  records, two clients never hold the lock of a record at the same time, and while a client holds
  it (or is about to delete it) its lock object is there, so every \<^verbatim>\<open>Lock\<close> by another client is
  refused. The hypothesis is S3's contract for conditional writes.
\<close>

theorem lock_mutual_exclusion:
  assumes "s3_safe (ss_client s) (ss_bucket s) objs"
    and "(lock_step s rid)\<^sup>*\<^sup>* (w0, \<lambda>_. Idle) (w, ph)"
    and "ph c \<noteq> Idle"
  shows "(\<forall>d. ph d \<noteq> Idle \<longrightarrow> d = c) \<and> objs w (lockKey s rid) \<noteq> None
    \<and> (\<forall>now w'. Lock now s rid w \<noteq> Some (Ok (), w'))"
proof -
  have inv: "s3_safe.lock_inv objs s rid (w, ph)"
    by (rule s3_safe.lock_inv_reachable [OF assms(1) refl refl assms(2)])
  then have "objs w (lockKey s rid) \<noteq> None" "\<forall>d. ph d \<noteq> Idle \<longrightarrow> d = c"
    using assms(3) by (auto simp: s3_safe.lock_inv_def [OF assms(1)])
  moreover have "Lock now s rid w \<noteq> Some (Ok (), w')" for now w'
    using s3_safe.Lock_Ok_effect [OF assms(1) refl refl, of now rid w w'] calculation by auto
  ultimately show ?thesis by blast
qed

definition ex_store :: "mock_world spaces_store" where
  "ex_store = NewSpacesIaCStateStoreWithClient mock_s3 ''bucket'' []"

lemma ex_lock_run:
  "(lock_step ex_store ''db'')\<^sup>*\<^sup>* ([], \<lambda>_. Idle)
     ([(''iac-state/db.lock'', RawText ''t1'')], (\<lambda>_. Idle)(1 := Holding))"
proof (rule r_into_rtranclp)
  show "lock_step ex_store ''db'' ([], \<lambda>_. Idle) ([(''iac-state/db.lock'', RawText ''t1'')], (\<lambda>_. Idle)(1 := Holding))"
    by (rule lock_step.acquire [where now = "''t1''"])
      (simp_all add: ex_store_def NewSpacesIaCStateStoreWithClient_def mock_s3_def Lock_def lockKey_def sanitizeID_def
        replace_char_def io_simps mock_put_def)
qed

theorem lock_mutual_exclusion_witness:
  "map_of [(''iac-state/db.lock'', RawText ''t1'')] (lockKey ex_store ''db'') \<noteq> None
    \<and> (\<forall>now w'. Lock now ex_store ''db'' [(''iac-state/db.lock'', RawText ''t1'')] \<noteq> Some (Ok (), w'))"
proof -
  have safe: "s3_safe (ss_client ex_store) (ss_bucket ex_store) map_of"
    by (simp add: ex_store_def NewSpacesIaCStateStoreWithClient_def mock_s3_safe)
  show ?thesis
    using lock_mutual_exclusion [OF safe ex_lock_run, of 1] by simp
qed

definition ex_state :: iac_state where
  "ex_state = zero_state\<lparr>st_ResourceID := ''db'', st_Status := ''active'', st_Config := Some [(''size'', GInt 1)]\<rparr>"

theorem spaces_store_refines_witness:
  "\<exists>rs w'. run_ops (spaces_ops ''t1'' ex_store) [OpLock ''db'', OpSave ex_state, OpLock ''db'', OpGet ''db''] [] = Some (rs, w')
    \<and> records_only ex_store (map_of w')
    \<and> spec_ops sanitizeID (\<lambda>st. if storable st then Some (norm_state st) else None)
        [OpLock ''db'', OpSave ex_state, OpLock ''db'', OpGet ''db''] (abstract_of ex_store (map_of []))
        = (rs, abstract_of ex_store (map_of w'))"
  unfolding ex_store_def
  by (rule spaces_store_refines [OF mock.spaces_on_s3_axioms]) (simp add: records_only_def)

text \<open>
  Two resource ids share a record exactly when they agree after sanitization. After a record is
  saved, \<^verbatim>\<open>GetState\<close> of every id whose sanitized form is that of the record's id returns it, and
  every other id is unaffected; \<^verbatim>\<open>a/b\<close>, \<^verbatim>\<open>a_b\<close> and a backslash in place of the slash are one
  record.
\<close>

theorem save_get_aliasing:
  assumes "spaces_on_s3 s objs" and "records_only s (objs w)" and "storable st"
  shows "sanitizeID ''a/b'' = sanitizeID ''a_b'' \<and>
    (\<exists>w'. SaveState s (Some st) w = Some (Ok (), w')
      \<and> GetState s i w' = Some (Ok (if sanitizeID i = sanitizeID (st_ResourceID st) then Some (norm_state st)
                                    else recs_of s (objs w) (sanitizeID i)), w'))"
proof
  show "sanitizeID ''a/b'' = sanitizeID ''a_b''" by code_simp
qed (use spaces_on_s3.save_then_get [OF assms, of i] in blast)

theorem save_get_aliasing_witness:
  "sanitizeID ''a/b'' = sanitizeID ''a_b'' \<and>
    (\<exists>w'. SaveState ex_store (Some (ex_state\<lparr>st_ResourceID := ''a_b''\<rparr>)) [] = Some (Ok (), w')
      \<and> GetState ex_store ''a/b'' w' = Some (Ok (if sanitizeID ''a/b'' = sanitizeID (st_ResourceID (ex_state\<lparr>st_ResourceID := ''a_b''\<rparr>))
            then Some (norm_state (ex_state\<lparr>st_ResourceID := ''a_b''\<rparr>))
            else recs_of ex_store (map_of []) (sanitizeID ''a/b'')), w'))"
  unfolding ex_store_def
  by (rule save_get_aliasing [OF mock.spaces_on_s3_axioms])
    (simp_all add: records_only_def storable_def ex_state_def zero_state_def marshal_state_def marshal_map_def)

text \<open>
  C37: \<^verbatim>\<open>ListStates\<close> terminates and is complete: on a listing in any number of pages it returns
  exactly the decodable records under the store's prefix that satisfy the filter, lock objects and
  foreign objects left out.
\<close>

theorem list_states_complete:
  assumes "s3_listing s objs pages tok"
  shows "\<exists>sts. ListStates s f w = Some (Ok sts, w)
    \<and> set sts = {st. \<exists>k. has_prefix k (ss_prefix s) \<and> record_at (objs w) k = Some st \<and> matchesFilter st f}"
  by (rule s3_listing.ListStates_set [OF assms])

theorem list_states_complete_witness:
  "\<exists>sts. ListStates ex_store [(''status'', ''active'')] [(''iac-state/db.json'', JsonDoc (JObj [])), (''x.json'', RawText ''x'')]
      = Some (Ok sts, [(''iac-state/db.json'', JsonDoc (JObj [])), (''x.json'', RawText ''x'')])
    \<and> set sts = {st. \<exists>k. has_prefix k (ss_prefix ex_store)
        \<and> record_at (map_of [(''iac-state/db.json'', JsonDoc (JObj [])), (''x.json'', RawText ''x'')]) k = Some st
        \<and> matchesFilter st [(''status'', ''active'')]}"
  unfolding ex_store_def by (rule list_states_complete [OF mock_listing.s3_listing_axioms])

end
