(* ===== verification/StateServer.thy ===== *)
theory StateServer
  imports StateProtocol
begin

text \<open>
  The gRPC server of the state backend (\<^verbatim>\<open>internal/statebackend_server.go\<close>). Its world is the
  store configured so far, if any, and the world of the S3 client. The free-form maps of a record
  cross the wire as JSON bytes: absent, a JSON document, or bytes that are no JSON.
\<close>

section \<open>Messages\<close>

datatype json_bytes = NoBytes | JsonBytes json | BadBytes string

record pb_state =
  pb_ResourceId :: string
  pb_ResourceType :: string
  pb_Provider :: string
  pb_ProviderRef :: string
  pb_ProviderId :: string
  pb_ConfigHash :: string
  pb_Status :: string
  pb_OutputsJson :: json_bytes
  pb_ConfigJson :: json_bytes
  pb_Dependencies :: "string list"
  pb_CreatedAt :: string
  pb_UpdatedAt :: string
  pb_Error :: string

definition marshalIaCMap :: "cfg option \<Rightarrow> json_bytes res" where
  "marshalIaCMap m = (case m of
     None \<Rightarrow> Ok NoBytes
   | Some kvs \<Rightarrow> (case json_of (GMap kvs) of
       None \<Rightarrow> Err (Opaque ''json: unsupported value'') | Some j \<Rightarrow> Ok (JsonBytes j)))"

definition unmarshalIaCMap :: "json_bytes \<Rightarrow> cfg option res" where
  "unmarshalIaCMap b = (case b of
     NoBytes \<Rightarrow> Ok None
   | JsonBytes j \<Rightarrow> (case unmarshal_map j of
       None \<Rightarrow> Err (Opaque ''json: cannot unmarshal'') | Some m \<Rightarrow> Ok m)
   | BadBytes t \<Rightarrow> Err (Opaque ''invalid character''))"

definition iacStateToPB :: "iac_state option \<Rightarrow> pb_state option res" where
  "iacStateToPB state = (case state of
     None \<Rightarrow> Ok None
   | Some st \<Rightarrow>
     res_bind (res_wrap (Wrapf ''marshal outputs: %w'' []) (marshalIaCMap (st_Outputs st))) (\<lambda>outputsJSON.
     res_bind (res_wrap (Wrapf ''marshal config: %w'' []) (marshalIaCMap (st_Config st))) (\<lambda>configJSON.
     Ok (Some \<lparr>pb_ResourceId = st_ResourceID st, pb_ResourceType = st_ResourceType st,
       pb_Provider = st_Provider st, pb_ProviderRef = st_ProviderRef st, pb_ProviderId = st_ProviderID st,
       pb_ConfigHash = st_ConfigHash st, pb_Status = st_Status st, pb_OutputsJson = outputsJSON,
       pb_ConfigJson = configJSON, pb_Dependencies = elems (st_Dependencies st),
       pb_CreatedAt = st_CreatedAt st, pb_UpdatedAt = st_UpdatedAt st, pb_Error = st_Error st\<rparr>))))"

definition iacStateFromPB :: "pb_state option \<Rightarrow> iac_state res" where
  "iacStateFromPB msg = (case msg of
     None \<Rightarrow> Err (Errorf ''iac state must not be nil'' [])
   | Some s \<Rightarrow>
     res_bind (res_wrap (Wrapf ''unmarshal outputs: %w'' []) (unmarshalIaCMap (pb_OutputsJson s))) (\<lambda>outputs.
     res_bind (res_wrap (Wrapf ''unmarshal config: %w'' []) (unmarshalIaCMap (pb_ConfigJson s))) (\<lambda>config.
     Ok \<lparr>st_ResourceID = pb_ResourceId s, st_ResourceType = pb_ResourceType s,
       st_Provider = pb_Provider s, st_ProviderRef = pb_ProviderRef s, st_ProviderID = pb_ProviderId s,
       st_ConfigHash = pb_ConfigHash s, st_Status = pb_Status s, st_Outputs = outputs, st_Config = config,
       st_Dependencies = (if pb_Dependencies s = [] then NilSlice else Slice (pb_Dependencies s)),
       st_CreatedAt = pb_CreatedAt s, st_UpdatedAt = pb_UpdatedAt s, st_Error = pb_Error s\<rparr>)))"

section \<open>Configuration\<close>

record spaces_config =
  sc_Region :: string
  sc_Bucket :: string
  sc_Prefix :: string
  sc_AccessKey :: string
  sc_SecretKey :: string
  sc_Endpoint :: string

definition set_config_field :: "string \<Rightarrow> json \<Rightarrow> spaces_config \<Rightarrow> spaces_config option" where
  "set_config_field k j c =
     (if equal_fold k ''region'' then set_str j (\<lambda>s. sc_Region_update (\<lambda>_. s)) c
      else if equal_fold k ''bucket'' then set_str j (\<lambda>s. sc_Bucket_update (\<lambda>_. s)) c
      else if equal_fold k ''prefix'' then set_str j (\<lambda>s. sc_Prefix_update (\<lambda>_. s)) c
      else if equal_fold k ''accessKey'' then set_str j (\<lambda>s. sc_AccessKey_update (\<lambda>_. s)) c
      else if equal_fold k ''secretKey'' then set_str j (\<lambda>s. sc_SecretKey_update (\<lambda>_. s)) c
      else if equal_fold k ''endpoint'' then set_str j (\<lambda>s. sc_Endpoint_update (\<lambda>_. s)) c
      else Some c)"

fun set_config_fields :: "(string \<times> json) list \<Rightarrow> spaces_config \<Rightarrow> spaces_config option" where
  "set_config_fields [] c = Some c"
| "set_config_fields ((k, j) # kvs) c = Option.bind (set_config_field k j c) (set_config_fields kvs)"

definition unmarshal_config :: "json_bytes \<Rightarrow> spaces_config option" where
  "unmarshal_config b =
     (let zero = \<lparr>sc_Region = [], sc_Bucket = [], sc_Prefix = [], sc_AccessKey = [], sc_SecretKey = [], sc_Endpoint = []\<rparr>
      in case b of JsonBytes JNull \<Rightarrow> Some zero | JsonBytes (JObj kvs) \<Rightarrow> set_config_fields kvs zero | _ \<Rightarrow> None)"

record 'w server =
  srv_store :: "'w spaces_store option"
  srv_objs :: 'w

definition doStateBackendName :: string where
  "doStateBackendName = ''spaces''"

definition with_store :: "('w spaces_store \<Rightarrow> ('w, 'a) io) \<Rightarrow> ('w server, 'a) io" where
  "with_store f = (\<lambda>sw. case srv_store sw of
     None \<Rightarrow> Some (Err (GrpcStatus FailedPrecondition
               ''digitalocean state backend: spaces backend is not configured'' []), sw)
   | Some store \<Rightarrow> map_option (\<lambda>(r, w). (r, sw\<lparr>srv_objs := w\<rparr>)) (f store (srv_objs sw)))"

definition Configure ::
  "(string \<Rightarrow> string) \<Rightarrow> (string \<Rightarrow> string \<Rightarrow> string \<Rightarrow> string \<Rightarrow> 'w s3_client res)
   \<Rightarrow> string \<Rightarrow> json_bytes \<Rightarrow> ('w server, unit) io" where
  "Configure getenv sdk backend config_json = (\<lambda>sw.
     if backend \<noteq> doStateBackendName
     then Some (Err (GrpcStatus InvalidArgument
            ''digitalocean state backend: Configure for backend %q - this plugin serves only %q''
            [FStr backend, FStr doStateBackendName]), sw)
     else case unmarshal_config config_json of
       None \<Rightarrow> Some (Err (GrpcStatus InvalidArgument ''digitalocean state backend: decode Configure config: %v''
                 [FErr (Opaque ''json: cannot unmarshal'')]), sw)
     | Some cfg \<Rightarrow>
         if sc_Bucket cfg = []
         then Some (Err (GrpcStatus InvalidArgument
                ''digitalocean state backend: spaces backend requires 'bucket' config'' []), sw)
         else case NewSpacesIaCStateStore getenv sdk (sc_Region cfg) (sc_Bucket cfg) (sc_Prefix cfg)
                     (sc_AccessKey cfg) (sc_SecretKey cfg) (sc_Endpoint cfg) of
           Err e \<Rightarrow> Some (Err (GrpcStatus InvalidArgument
                      ''digitalocean state backend: construct spaces store: %v'' [FErr e]), sw)
         | Panic p \<Rightarrow> Some (Panic p, sw)
         | Ok store \<Rightarrow> Some (Ok (), sw\<lparr>srv_store := Some store\<rparr>))"

section \<open>The state calls\<close>

definition rpc_GetState :: "string \<Rightarrow> ('w server, pb_state option \<times> bool) io" where
  "rpc_GetState resourceId = with_store (\<lambda>store.
     io_bind (GetState store resourceId) (\<lambda>st.
       case st of
         None \<Rightarrow> io_ok (None, False)
       | Some s \<Rightarrow> io_bind (io_wrap (Wrapf ''digitalocean state backend: encode GetState response: %w'' [])
                   (io_res (iacStateToPB (Some s)))) (\<lambda>pb. io_ok (pb, True))))"

definition rpc_SaveState :: "pb_state option \<Rightarrow> ('w server, unit) io" where
  "rpc_SaveState msg = with_store (\<lambda>store.
     io_bind (io_wrap (Wrapf ''digitalocean state backend: decode SaveState request: %w'' [])
               (io_res (iacStateFromPB msg))) (\<lambda>st.
       SaveState store (Some st)))"

fun states_to_pb :: "iac_state list \<Rightarrow> pb_state option list res" where
  "states_to_pb [] = Ok []"
| "states_to_pb (st # sts) =
     res_bind (res_wrap (Wrapf ''digitalocean state backend: encode ListStates response: %w'' [])
                (iacStateToPB (Some st))) (\<lambda>pb.
     res_bind (states_to_pb sts) (\<lambda>pbs. Ok (pb # pbs)))"

definition rpc_ListStates :: "(string \<times> string) list \<Rightarrow> ('w server, pb_state option list) io" where
  "rpc_ListStates f = with_store (\<lambda>store.
     io_bind (ListStates store f) (\<lambda>sts. io_res (states_to_pb sts)))"

definition rpc_DeleteState :: "string \<Rightarrow> ('w server, unit) io" where
  "rpc_DeleteState resourceId = with_store (\<lambda>store. DeleteState store resourceId)"

definition rpc_Lock :: "string \<Rightarrow> string \<Rightarrow> ('w server, unit) io" where
  "rpc_Lock now resourceId = with_store (\<lambda>store. Lock now store resourceId)"

definition rpc_Unlock :: "string \<Rightarrow> ('w server, unit) io" where
  "rpc_Unlock resourceId = with_store (\<lambda>store. Unlock store resourceId)"

definition ListBackendNames :: "string list" where
  "ListBackendNames = [doStateBackendName]"

section \<open>Facts\<close>







section \<open>Properties of the server\<close>




text \<open>
  Until the host has delivered the configuration every state call returns a
  \<^verbatim>\<open>FailedPrecondition\<close> status and does nothing, and a \<^verbatim>\<open>Configure\<close> that fails leaves an
  existing store in place.
\<close>

theorem server_needs_configuration:
  assumes "srv_store sw = None"
  shows "\<exists>msg. (\<forall>i. rpc_GetState i sw = Some (Err (GrpcStatus FailedPrecondition msg []), sw))
    \<and> (\<forall>m. rpc_SaveState m sw = Some (Err (GrpcStatus FailedPrecondition msg []), sw))
    \<and> (\<forall>f. rpc_ListStates f sw = Some (Err (GrpcStatus FailedPrecondition msg []), sw))
    \<and> (\<forall>i. rpc_DeleteState i sw = Some (Err (GrpcStatus FailedPrecondition msg []), sw))
    \<and> (\<forall>now i. rpc_Lock now i sw = Some (Err (GrpcStatus FailedPrecondition msg []), sw))
    \<and> (\<forall>i. rpc_Unlock i sw = Some (Err (GrpcStatus FailedPrecondition msg []), sw))
    \<and> (\<forall>getenv sdk b c sw2 e sw2'. Configure getenv sdk b c sw2 = Some (Err e, sw2') \<longrightarrow> sw2' = sw2)"
  using assms
  by (auto simp: rpc_GetState_def rpc_SaveState_def rpc_ListStates_def rpc_DeleteState_def rpc_Lock_def
      rpc_Unlock_def with_store_def Configure_def split: option.splits if_splits res.splits)

theorem server_needs_configuration_witness:
  "\<exists>msg. (\<forall>i. rpc_GetState i \<lparr>srv_store = None, srv_objs = ([] :: mock_world)\<rparr>
        = Some (Err (GrpcStatus FailedPrecondition msg []), \<lparr>srv_store = None, srv_objs = []\<rparr>))"
  using server_needs_configuration [of "\<lparr>srv_store = None, srv_objs = ([] :: mock_world)\<rparr>"] by simp blast

end
