(* ===== verification/Heal.thy ===== *)
theory Heal
  imports ConfigUtil Errors
begin

text \<open>
  What the drivers whose API wants a UUID have in common: looking a resource up by name in the
  paginated list of its kind, and healing a stale state that recorded something else than a UUID.
  Each driver has its own copy of these two functions, which differ in the texts of their errors.
\<close>

definition find_by_name ::
  "string \<Rightarrow> string \<Rightarrow> ('w, 'a) lister \<Rightarrow> ('a \<Rightarrow> string) \<Rightarrow> ('a \<Rightarrow> resource_output) \<Rightarrow> string \<Rightarrow> ('w, resource_output) io" where
  "find_by_name list_fmt missing_fmt lst name_of output name =
     io_bind (io_wrap (\<lambda>e. Wrapf list_fmt [] (WrapGodoError e))
               (find_page lst (\<lambda>x. name_of x = name) 1)) (\<lambda>r.
     case r of
       Some x \<Rightarrow> io_ok (output x)
     | None \<Rightarrow> io_err (Wrapf missing_fmt [FStr name] (Sentinel ErrResourceNotFound)))"

definition heal :: "string \<Rightarrow> (string \<Rightarrow> ('w, resource_output) io) \<Rightarrow> resource_ref \<Rightarrow> ('w, string) io" where
  "heal fmt by_name ref =
     (if isUUIDLike (ref_ProviderID ref) then io_ok (ref_ProviderID ref)
      else io_bind (io_wrap (Wrapf fmt [FStr (ref_Name ref)]) (by_name (ref_Name ref))) (\<lambda>out.
           io_ok (out_ProviderID out)))"

lemma heal_uuid: "isUUIDLike (ref_ProviderID ref) \<Longrightarrow> heal fmt by_name ref = io_ok (ref_ProviderID ref)"
  by (simp add: heal_def)

lemma not_UUIDLike_Nil [simp]: "\<not> isUUIDLike []"
  by (simp add: isUUIDLike_def)

context paged_list
begin

lemma find_by_name_all:
  "find_by_name f1 f2 list nm out n w = Some
     (case first_match (\<lambda>x. nm x = n) (concat (pages w)) of
        Some x \<Rightarrow> Ok (out x)
      | None \<Rightarrow> Err (Wrapf f2 [FStr n] (Sentinel ErrResourceNotFound)), w)"
  by (simp add: find_by_name_def io_simps find_page_all [unfolded One_nat_def] split: option.splits)

lemma heal_by_name:
  assumes "\<not> isUUIDLike (ref_ProviderID ref)"
  shows "heal f0 (find_by_name f1 f2 list nm out) ref w = Some
     (case first_match (\<lambda>x. nm x = ref_Name ref) (concat (pages w)) of
        Some x \<Rightarrow> Ok (out_ProviderID (out x))
      | None \<Rightarrow> Err (Wrapf f0 [FStr (ref_Name ref)] (Wrapf f2 [FStr (ref_Name ref)] (Sentinel ErrResourceNotFound))), w)"
  using assms by (simp add: heal_def io_simps find_by_name_all split: option.splits)

end

end
