(* ===== verification/Vpc.thy ===== *)
theory Vpc
  imports Heal
begin

text \<open>The VPC driver (\<^verbatim>\<open>internal/drivers/vpc.go\<close>).\<close>

record vpc =
  vpc_ID :: string
  vpc_Name :: string
  vpc_RegionSlug :: string
  vpc_IPRange :: string
  vpc_URN :: string

record vpc_create_request =
  vpcr_Name :: string
  vpcr_RegionSlug :: string
  vpcr_IPRange :: string

record 'w vpc_client =
  VPC_Create :: "vpc_create_request \<Rightarrow> ('w, vpc option) io"
  VPC_Get :: "string \<Rightarrow> ('w, vpc option) io"
  VPC_List :: "('w, vpc) lister"
  VPC_Update :: "string \<Rightarrow> string \<Rightarrow> ('w, vpc option) io"
  VPC_Delete :: "string \<Rightarrow> ('w, unit) io"

record 'w vpc_driver =
  vpcd_client :: "'w vpc_client"
  vpcd_region :: string

definition vpcOutput :: "vpc \<Rightarrow> resource_output" where
  "vpcOutput v =
     \<lparr>out_Name = vpc_Name v, out_Type = ''infra.vpc'', out_ProviderID = vpc_ID v,
      out_Outputs = [(''id'', GStr (vpc_ID v)), (''ip_range'', GStr (vpc_IPRange v)),
                     (''region'', GStr (vpc_RegionSlug v)), (''urn'', GStr (vpc_URN v))],
      out_Sensitive = [], out_Status = ''active''\<rparr>"

definition vpc_create_req :: "'w vpc_driver \<Rightarrow> resource_spec \<Rightarrow> vpc_create_request" where
  "vpc_create_req d spec =
     \<lparr>vpcr_Name = spec_Name spec,
      vpcr_RegionSlug = strFromConfig (spec_Config spec) ''region'' (vpcd_region d),
      vpcr_IPRange = strFromConfig (spec_Config spec) ''ip_range'' ''10.0.0.0/16''\<rparr>"

definition vpc_Create :: "'w vpc_driver \<Rightarrow> resource_spec \<Rightarrow> ('w, resource_output) io" where
  "vpc_Create d spec =
     io_bind (io_wrap (\<lambda>e. Wrapf ''vpc create %q: %w'' [FStr (spec_Name spec)] (WrapGodoError e))
               (VPC_Create (vpcd_client d) (vpc_create_req d spec))) (\<lambda>r.
     case r of
       None \<Rightarrow> io_err (Errorf ''vpc create %q: API returned vpc with empty ID'' [FStr (spec_Name spec)])
     | Some v \<Rightarrow>
         if vpc_ID v = []
         then io_err (Errorf ''vpc create %q: API returned vpc with empty ID'' [FStr (spec_Name spec)])
         else io_ok (vpcOutput v))"

definition findVPCByName :: "'w vpc_driver \<Rightarrow> string \<Rightarrow> ('w, resource_output) io" where
  "findVPCByName d = find_by_name ''vpc list: %w'' ''vpc %q: %w'' (VPC_List (vpcd_client d)) vpc_Name vpcOutput"

definition vpc_resolveProviderID :: "'w vpc_driver \<Rightarrow> resource_ref \<Rightarrow> ('w, string) io" where
  "vpc_resolveProviderID d = heal ''vpc state-heal for %q: %w'' (findVPCByName d)"

definition vpc_Read :: "'w vpc_driver \<Rightarrow> resource_ref \<Rightarrow> ('w, resource_output) io" where
  "vpc_Read d ref =
     (if ref_ProviderID ref = [] then findVPCByName d (ref_Name ref)
      else io_bind (io_wrap (\<lambda>e. Wrapf ''vpc read %q: %w'' [FStr (ref_Name ref)] (WrapGodoError e))
                     (VPC_Get (vpcd_client d) (ref_ProviderID ref))) (\<lambda>r.
           io_deref r (\<lambda>v. io_ok (vpcOutput v))))"

definition vpc_Update :: "'w vpc_driver \<Rightarrow> resource_ref \<Rightarrow> resource_spec \<Rightarrow> ('w, resource_output) io" where
  "vpc_Update d ref spec =
     io_bind (vpc_resolveProviderID d ref) (\<lambda>providerID.
     io_bind (io_wrap (\<lambda>e. Wrapf ''vpc update %q: %w'' [FStr (ref_Name ref)] (WrapGodoError e))
               (VPC_Update (vpcd_client d) providerID (spec_Name spec))) (\<lambda>r.
     io_deref r (\<lambda>v. io_ok (vpcOutput v))))"

definition vpc_Delete :: "'w vpc_driver \<Rightarrow> resource_ref \<Rightarrow> ('w, unit) io" where
  "vpc_Delete d ref =
     io_bind (vpc_resolveProviderID d ref) (\<lambda>providerID.
     io_wrap (\<lambda>e. Wrapf ''vpc delete %q: %w'' [FStr (ref_Name ref)] (WrapGodoError e))
       (VPC_Delete (vpcd_client d) providerID))"

definition vpc_diff_state :: "cfg \<Rightarrow> cfg \<Rightarrow> diff_state" where
  "vpc_diff_state config outs =
     (let ipRange = strFromConfig config ''ip_range'' [];
          curRange = str_or_empty (map_of outs ''ip_range'');
          region = strFromConfig config ''region'' [];
          curRegion = str_or_empty (map_of outs ''region'')
      in diff_step (region \<noteq> [] \<and> curRegion \<noteq> [] \<and> curRegion \<noteq> region)
           (change_new ''region'' (GStr curRegion) (GStr region))
        (diff_step (ipRange \<noteq> [] \<and> ipRange \<noteq> curRange)
           (change_new ''ip_range'' (GStr curRange) (GStr ipRange))
        ([], False)))"

definition vpc_Diff :: "resource_spec \<Rightarrow> resource_output option \<Rightarrow> diff_result res" where
  "vpc_Diff desired current =
     (case current of
        None \<Rightarrow> Ok diff_absent
      | Some cur \<Rightarrow>
          let changes = fst (vpc_diff_state (spec_Config desired) (out_Outputs cur))
          in Ok \<lparr>NeedsUpdate = (changes \<noteq> []), NeedsReplace = (changes \<noteq> []), Changes = changes\<rparr>)"

definition vpc_HealthCheck :: "'w vpc_driver \<Rightarrow> resource_ref \<Rightarrow> ('w, health_result) io" where
  "vpc_HealthCheck d ref =
     io_handle (vpc_resolveProviderID d ref)
       (\<lambda>providerID. io_handle (VPC_Get (vpcd_client d) providerID)
          (\<lambda>_. io_ok \<lparr>Healthy = True, Message = Text []\<rparr>)
          (\<lambda>e. io_ok \<lparr>Healthy = False, Message = ErrorText e\<rparr>))
       (\<lambda>e. io_ok \<lparr>Healthy = False, Message = ErrorText e\<rparr>)"

definition vpc_Scale :: "resource_ref \<Rightarrow> int \<Rightarrow> ('w, resource_output) io" where
  "vpc_Scale ref n = io_err (Errorf ''vpc does not support scale operation'' [])"

definition vpc_SupportsUpsert :: bool where
  "vpc_SupportsUpsert = True"

section \<open>The diff contract\<close>

lemma vpc_changes_force_new: "c \<in> set (fst (vpc_diff_state config outs)) \<Longrightarrow> fc_ForceNew c"
  by (auto simp: vpc_diff_state_def Let_def diff_step_def split: if_splits)

interpretation vpc_diff: field_differ vpc_Diff
proof
  fix s cur d
  assume "vpc_Diff s (Some cur) = Ok d"
  then have d: "NeedsReplace d = (Changes d \<noteq> [])" "Changes d = fst (vpc_diff_state (spec_Config s) (out_Outputs cur))"
    by (auto simp: vpc_Diff_def Let_def)
  show "NeedsReplace d = (\<exists>c \<in> set (Changes d). fc_ForceNew c)"
    unfolding d by (metis empty_iff empty_set last_in_set vpc_changes_force_new)
qed (auto simp: vpc_Diff_def Let_def)

section \<open>Which VPC an operation acts on\<close>

text \<open>
  State healing. \<^verbatim>\<open>VPCDriver.Delete\<close> with a UUID deletes exactly that id and lists nothing. With
  any other recorded id (for instance the VPC's name) it deletes the first VPC of the whole
  paginated listing that has the resource's name, whatever page it is on; when there is none it
  makes no change and fails with an error that is \<^verbatim>\<open>ErrResourceNotFound\<close>. The hypothesis is the
  contract of the paginated listing.
\<close>

theorem vpc_delete_target:
  assumes "paged_list (VPC_List (vpcd_client d)) pages"
  shows "if isUUIDLike (ref_ProviderID ref)
    then vpc_Delete d ref w = io_wrap (\<lambda>e. Wrapf ''vpc delete %q: %w'' [FStr (ref_Name ref)] (WrapGodoError e))
           (VPC_Delete (vpcd_client d) (ref_ProviderID ref)) w
    else case first_match (\<lambda>v. vpc_Name v = ref_Name ref) (concat (pages w)) of
        Some v \<Rightarrow> vpc_Delete d ref w = io_wrap (\<lambda>e. Wrapf ''vpc delete %q: %w'' [FStr (ref_Name ref)] (WrapGodoError e))
           (VPC_Delete (vpcd_client d) (vpc_ID v)) w
      | None \<Rightarrow> (\<exists>e. vpc_Delete d ref w = Some (Err e, w) \<and> errors_is e ErrResourceNotFound)"
proof (cases "isUUIDLike (ref_ProviderID ref)")
  case True
  then show ?thesis by (simp add: vpc_Delete_def vpc_resolveProviderID_def heal_uuid)
next
  case False
  note h = paged_list.heal_by_name [OF assms False, of "''vpc state-heal for %q: %w''" "''vpc list: %w''"
      "''vpc %q: %w''" vpc_Name vpcOutput w]
  show ?thesis
  proof (cases "first_match (\<lambda>v. vpc_Name v = ref_Name ref) (concat (pages w))")
    case None
    then show ?thesis
      using False h by (simp add: vpc_Delete_def vpc_resolveProviderID_def findVPCByName_def io_bind_def)
  next
    case (Some v)
    then show ?thesis
      using False h by (simp add: vpc_Delete_def vpc_resolveProviderID_def findVPCByName_def io_bind_def vpcOutput_def)
  qed
qed

definition ex_vpc :: "string \<Rightarrow> string \<Rightarrow> vpc" where
  "ex_vpc i n = \<lparr>vpc_ID = i, vpc_Name = n, vpc_RegionSlug = ''nyc3'', vpc_IPRange = ''10.0.0.0/16'', vpc_URN = []\<rparr>"

text \<open>A concrete VPC API, over the pages of the listing.\<close>

definition mem_vpc_client :: "vpc list list vpc_client" where
  "mem_vpc_client = \<lparr>
     VPC_Create = (\<lambda>rq w. let v = \<lparr>vpc_ID = ''new'', vpc_Name = vpcr_Name rq, vpc_RegionSlug = vpcr_RegionSlug rq,
         vpc_IPRange = vpcr_IPRange rq, vpc_URN = []\<rparr> in Some (Ok (Some v), w @ [[v]])),
     VPC_Get = (\<lambda>i w. Some (case first_match (\<lambda>v. vpc_ID v = i) (concat w) of
         None \<Rightarrow> Err (GodoError (Some 404) ''not found'') | Some v \<Rightarrow> Ok (Some v), w)),
     VPC_List = page_lister id,
     VPC_Update = (\<lambda>i n w. Some (Err (GodoError (Some 500) []), w)),
     VPC_Delete = (\<lambda>i w. Some (Ok (), map (filter (\<lambda>v. vpc_ID v \<noteq> i)) w))\<rparr>"

definition ex_vpc_driver :: "vpc list list vpc_driver" where
  "ex_vpc_driver = \<lparr>vpcd_client = mem_vpc_client, vpcd_region = ''nyc3''\<rparr>"

theorem vpc_delete_target_witness:
  "vpc_Delete ex_vpc_driver \<lparr>ref_Name = ''b'', ref_Type = ''infra.vpc'', ref_ProviderID = ''b''\<rparr>
      [[ex_vpc ''1'' ''a''], [ex_vpc ''2'' ''b'', ex_vpc ''3'' ''b'']]
    = Some (Ok (), [[ex_vpc ''1'' ''a''], [ex_vpc ''3'' ''b'']])"
proof -
  have "paged_list (VPC_List (vpcd_client ex_vpc_driver)) (\<lambda>w. nonempty_pages (id w))"
    using static_pages.paged_list_axioms [of id] by (simp add: ex_vpc_driver_def mem_vpc_client_def)
  from vpc_delete_target [OF this, of "\<lparr>ref_Name = ''b'', ref_Type = ''infra.vpc'', ref_ProviderID = ''b''\<rparr>"
      "[[ex_vpc ''1'' ''a''], [ex_vpc ''2'' ''b'', ex_vpc ''3'' ''b'']]"]
  show ?thesis
    by (simp add: isUUIDLike_def nonempty_pages_def ex_vpc_def ex_vpc_driver_def mem_vpc_client_def io_simps)
qed

text \<open>
  The output of \<^verbatim>\<open>VPCDriver.Create\<close> is up to date: when the API stores the VPC as requested,
  \<^verbatim>\<open>Diff\<close> of the spec against it plans nothing; and a VPC recorded by an older version, without a
  region, is never replaced for its region: the only change reported can be the address range.
\<close>

theorem vpc_create_then_diff_empty:
  assumes "\<And>rq v w w'. VPC_Create (vpcd_client d) rq w = Some (Ok (Some v), w') \<Longrightarrow>
      vpc_RegionSlug v = vpcr_RegionSlug rq \<and> vpc_IPRange v = vpcr_IPRange rq"
    and "vpc_Create d spec w = Some (Ok out, w')"
  shows "vpc_Diff spec (Some out) = Ok \<lparr>NeedsUpdate = False, NeedsReplace = False, Changes = []\<rparr>
    \<and> list_all (\<lambda>c. fc_Path c = ''ip_range'')
        (fst (vpc_diff_state (spec_Config spec) (filter (\<lambda>kv. fst kv \<noteq> ''region'') (out_Outputs out))))"
proof -
  obtain v where v: "VPC_Create (vpcd_client d) (vpc_create_req d spec) w = Some (Ok (Some v), w')" "out = vpcOutput v"
    using assms(2) by (auto simp: vpc_Create_def io_simps split: option.splits prod.splits res.splits if_splits)
  have keep: "strFromConfig c k [] = [] \<or> strFromConfig c k x = strFromConfig c k []" for c k x
    by (auto simp: strFromConfig_def split: option.splits)
  have r: "strFromConfig (spec_Config spec) ''region'' [] = [] \<or> vpc_RegionSlug v = strFromConfig (spec_Config spec) ''region'' []"
    and i: "strFromConfig (spec_Config spec) ''ip_range'' [] = [] \<or> strFromConfig (spec_Config spec) ''ip_range'' [] = vpc_IPRange v"
    using assms(1) [OF v(1)] keep [of "spec_Config spec" "''region''" "vpcd_region d"]
      keep [of "spec_Config spec" "''ip_range''" "''10.0.0.0/16''"] by (auto simp: vpc_create_req_def)
  have "vpc_diff_state (spec_Config spec) (out_Outputs out) = ([], False)"
    using r i by (simp add: v(2) vpc_diff_state_def Let_def diff_step_def vpcOutput_def str_or_empty_def) blast
  moreover have "list_all (\<lambda>c. fc_Path c = ''ip_range'')
      (fst (vpc_diff_state (spec_Config spec) (filter (\<lambda>kv. fst kv \<noteq> ''region'') (out_Outputs out))))"
    by (simp add: v(2) vpc_diff_state_def Let_def diff_step_def vpcOutput_def str_or_empty_def)
  ultimately show ?thesis
    by (simp add: vpc_Diff_def)
qed

theorem vpc_create_then_diff_empty_witness:
  "vpc_Diff \<lparr>spec_Name = ''b'', spec_Type = ''infra.vpc'', spec_Config = [(''region'', GStr ''ams3'')]\<rparr>
     (Some (vpcOutput \<lparr>vpc_ID = ''new'', vpc_Name = ''b'', vpc_RegionSlug = ''ams3'', vpc_IPRange = ''10.0.0.0/16'', vpc_URN = []\<rparr>))
   = Ok \<lparr>NeedsUpdate = False, NeedsReplace = False, Changes = []\<rparr>"
proof (rule vpc_create_then_diff_empty [where d = ex_vpc_driver and w = "[]"
      and w' = "[[\<lparr>vpc_ID = ''new'', vpc_Name = ''b'', vpc_RegionSlug = ''ams3'', vpc_IPRange = ''10.0.0.0/16'', vpc_URN = []\<rparr>]]", THEN conjunct1])
qed (auto simp: ex_vpc_driver_def mem_vpc_client_def vpc_Create_def vpc_create_req_def Let_def io_simps strFromConfig_def)

end
