(* ===== verification/Certificate.thy ===== *)
theory Certificate
  imports Heal
begin

text \<open>
  The certificate driver (\<^verbatim>\<open>internal/drivers/certificate.go\<close>). A certificate cannot be changed:
  \<^verbatim>\<open>Update\<close> deletes it and creates another.
\<close>

record certificate =
  cert_ID :: string
  cert_Name :: string
  cert_State :: string
  cert_NotAfter :: string
  cert_SHA1Fingerprint :: string

record certificate_request =
  certr_Name :: string
  certr_Type :: string
  certr_DNSNames :: "string list"

record 'w certificate_client =
  Cert_Create :: "certificate_request \<Rightarrow> ('w, certificate option) io"
  Cert_Get :: "string \<Rightarrow> ('w, certificate option) io"
  Cert_Delete :: "string \<Rightarrow> ('w, unit) io"
  Cert_List :: "('w, certificate) lister"

record 'w certificate_driver =
  certd_client :: "'w certificate_client"

definition certOutput :: "certificate \<Rightarrow> string \<Rightarrow> resource_output" where
  "certOutput c name =
     \<lparr>out_Name = name, out_Type = ''infra.certificate'', out_ProviderID = cert_ID c,
      out_Outputs = [(''state'', GStr (cert_State c)), (''not_after'', GStr (cert_NotAfter c)),
                     (''sha1_finger'', GStr (cert_SHA1Fingerprint c))],
      out_Sensitive = [], out_Status = cert_State c\<rparr>"

definition cert_create_req :: "resource_spec \<Rightarrow> certificate_request" where
  "cert_create_req spec =
     \<lparr>certr_Name = spec_Name spec,
      certr_Type = strFromConfig (spec_Config spec) ''type'' ''lets_encrypt'',
      certr_DNSNames = (case as_anys (map_of (spec_Config spec) ''dns_names'') of
         None \<Rightarrow> [] | Some ds \<Rightarrow> strings_of (elems ds))\<rparr>"

definition cert_Create :: "'w certificate_driver \<Rightarrow> resource_spec \<Rightarrow> ('w, resource_output) io" where
  "cert_Create d spec =
     io_bind (io_wrap (\<lambda>e. Wrapf ''certificate create %q: %w'' [FStr (spec_Name spec)] (WrapGodoError e))
               (Cert_Create (certd_client d) (cert_create_req spec))) (\<lambda>r.
     case r of
       None \<Rightarrow> io_err (Errorf ''certificate create %q: API returned certificate with empty ID'' [FStr (spec_Name spec)])
     | Some c \<Rightarrow>
         if cert_ID c = []
         then io_err (Errorf ''certificate create %q: API returned certificate with empty ID'' [FStr (spec_Name spec)])
         else io_ok (certOutput c (spec_Name spec)))"

definition cert_Read :: "'w certificate_driver \<Rightarrow> resource_ref \<Rightarrow> ('w, resource_output) io" where
  "cert_Read d ref =
     io_bind (io_wrap (\<lambda>e. Wrapf ''certificate read %q: %w'' [FStr (ref_Name ref)] (WrapGodoError e))
               (Cert_Get (certd_client d) (ref_ProviderID ref))) (\<lambda>r.
     io_deref r (\<lambda>c. io_ok (certOutput c (ref_Name ref))))"

definition findCertificateByName :: "'w certificate_driver \<Rightarrow> string \<Rightarrow> ('w, resource_output) io" where
  "findCertificateByName d name =
     find_by_name ''certificate list: %w'' ''certificate %q: %w'' (Cert_List (certd_client d)) cert_Name
       (\<lambda>c. certOutput c name) name"

definition cert_resolveProviderID :: "'w certificate_driver \<Rightarrow> resource_ref \<Rightarrow> ('w, string) io" where
  "cert_resolveProviderID d = heal ''certificate state-heal for %q: %w'' (findCertificateByName d)"

definition cert_Delete :: "'w certificate_driver \<Rightarrow> resource_ref \<Rightarrow> ('w, unit) io" where
  "cert_Delete d ref =
     io_bind (cert_resolveProviderID d ref) (\<lambda>providerID.
     io_wrap (\<lambda>e. Wrapf ''certificate delete %q: %w'' [FStr (ref_Name ref)] (WrapGodoError e))
       (Cert_Delete (certd_client d) providerID))"

definition cert_Update :: "'w certificate_driver \<Rightarrow> resource_ref \<Rightarrow> resource_spec \<Rightarrow> ('w, resource_output) io" where
  "cert_Update d ref spec = io_bind (cert_Delete d ref) (\<lambda>_. cert_Create d spec)"

definition cert_Diff :: "resource_spec \<Rightarrow> resource_output option \<Rightarrow> diff_result res" where
  "cert_Diff desired current =
     (case current of
        None \<Rightarrow> Ok diff_absent
      | Some _ \<Rightarrow> Ok \<lparr>NeedsUpdate = False, NeedsReplace = False, Changes = []\<rparr>)"

definition cert_HealthCheck :: "'w certificate_driver \<Rightarrow> resource_ref \<Rightarrow> ('w, health_result) io" where
  "cert_HealthCheck d ref =
     io_handle (cert_resolveProviderID d ref)
       (\<lambda>providerID. io_handle (Cert_Get (certd_client d) providerID)
          (\<lambda>r. io_deref r (\<lambda>c. io_ok \<lparr>Healthy = (cert_State c = ''verified''), Message = Text (cert_State c)\<rparr>))
          (\<lambda>e. io_ok \<lparr>Healthy = False, Message = ErrorText e\<rparr>))
       (\<lambda>e. io_ok \<lparr>Healthy = False, Message = ErrorText e\<rparr>)"

definition cert_Scale :: "resource_ref \<Rightarrow> int \<Rightarrow> ('w, resource_output) io" where
  "cert_Scale ref n = io_err (Errorf ''certificate does not support scale operation'' [])"

interpretation cert_diff: field_differ cert_Diff
  by unfold_locales (auto simp: cert_Diff_def)

text \<open>
  \<^verbatim>\<open>CertificateDriver.Update\<close> is not atomic, and cannot lose track of the old certificate
  silently: when it succeeds, the certificate it resolved was deleted first and the returned output is
  a freshly created one with a non-empty id; when the name cannot be resolved to a certificate, nothing
  is deleted and nothing is created. The hypothesis is the contract of the paginated listing.
\<close>

theorem cert_update_replaces:
  assumes "paged_list (Cert_List (certd_client d)) pages"
    and "\<not> isUUIDLike (ref_ProviderID ref)"
  shows "case first_match (\<lambda>c. cert_Name c = ref_Name ref) (concat (pages w)) of
      None \<Rightarrow> (\<exists>e. cert_Update d ref spec w = Some (Err e, w) \<and> errors_is e ErrResourceNotFound)
    | Some old \<Rightarrow> (\<forall>out w'. cert_Update d ref spec w = Some (Ok out, w') \<longrightarrow>
        (\<exists>w1 new. Cert_Delete (certd_client d) (cert_ID old) w = Some (Ok (), w1)
          \<and> Cert_Create (certd_client d) (cert_create_req spec) w1 = Some (Ok (Some new), w')
          \<and> cert_ID new \<noteq> [] \<and> out = certOutput new (spec_Name spec)))"
proof -
  note h = paged_list.heal_by_name [OF assms, of "''certificate state-heal for %q: %w''"
      "''certificate list: %w''" "''certificate %q: %w''" cert_Name "\<lambda>c. certOutput c (ref_Name ref)" w]
  have r: "cert_resolveProviderID d ref w = heal ''certificate state-heal for %q: %w''
      (find_by_name ''certificate list: %w'' ''certificate %q: %w'' (Cert_List (certd_client d)) cert_Name
        (\<lambda>c. certOutput c (ref_Name ref))) ref w"
    using assms(2) by (simp add: cert_resolveProviderID_def heal_def findCertificateByName_def)
  show ?thesis
  proof (cases "first_match (\<lambda>c. cert_Name c = ref_Name ref) (concat (pages w))")
    case None
    then show ?thesis using r h by (simp add: cert_Update_def cert_Delete_def io_bind_def)
  next
    case (Some old)
    then have *: "cert_resolveProviderID d ref w = Some (Ok (cert_ID old), w)"
      using r h by (simp add: certOutput_def)
    show ?thesis
    proof (simp add: Some, intro allI impI)
      fix out w'
      assume "cert_Update d ref spec w = Some (Ok out, w')"
      then obtain w1 where w1: "cert_Delete d ref w = Some (Ok (), w1)" "cert_Create d spec w1 = Some (Ok out, w')"
        unfolding cert_Update_def by (elim io_bind_OkE) auto
      have "Cert_Delete (certd_client d) (cert_ID old) w = Some (Ok (), w1)"
        using w1(1) * unfolding cert_Delete_def by (simp add: io_bind_SomeD) (elim io_wrap_OkE)
      moreover obtain new where "Cert_Create (certd_client d) (cert_create_req spec) w1 = Some (Ok (Some new), w')"
        "cert_ID new \<noteq> []" "out = certOutput new (spec_Name spec)"
        using w1(2) unfolding cert_Create_def
        by (elim io_bind_OkE io_wrap_OkE) (auto simp: io_ok_def io_err_def split: option.splits if_splits)
      ultimately show "\<exists>w1. Cert_Delete (certd_client d) (cert_ID old) w = Some (Ok (), w1) \<and>
          (\<exists>new. Cert_Create (certd_client d) (cert_create_req spec) w1 = Some (Ok (Some new), w') \<and>
            cert_ID new \<noteq> [] \<and> out = certOutput new (spec_Name spec))"
        by blast
    qed
  qed
qed

definition ex_cert :: "string \<Rightarrow> string \<Rightarrow> certificate" where
  "ex_cert i n = \<lparr>cert_ID = i, cert_Name = n, cert_State = ''verified'', cert_NotAfter = [], cert_SHA1Fingerprint = []\<rparr>"

definition mem_cert_client :: "certificate list list certificate_client" where
  "mem_cert_client = \<lparr>
     Cert_Create = (\<lambda>rq w. Some (Ok (Some (ex_cert ''new'' (certr_Name rq))), w @ [[ex_cert ''new'' (certr_Name rq)]])),
     Cert_Get = (\<lambda>i w. Some (Ok (first_match (\<lambda>c. cert_ID c = i) (concat w)), w)),
     Cert_Delete = (\<lambda>i w. Some (Ok (), map (filter (\<lambda>c. cert_ID c \<noteq> i)) w)),
     Cert_List = page_lister id\<rparr>"

theorem cert_update_replaces_witness:
  "\<exists>w1 new. Cert_Delete mem_cert_client ''1'' [[ex_cert ''1'' ''a'']] = Some (Ok (), w1)
     \<and> Cert_Create mem_cert_client (cert_create_req \<lparr>spec_Name = ''a'', spec_Type = ''infra.certificate'', spec_Config = []\<rparr>) w1
         = Some (Ok (Some new), [[], [ex_cert ''new'' ''a'']])
     \<and> cert_ID new \<noteq> [] \<and> certOutput (ex_cert ''new'' ''a'') ''a'' = certOutput new ''a''"
proof -
  have l: "paged_list (Cert_List (certd_client \<lparr>certd_client = mem_cert_client\<rparr>)) (\<lambda>w. nonempty_pages (id w))"
    using static_pages.paged_list_axioms [of id] by (simp add: mem_cert_client_def)
  have u: "cert_Update \<lparr>certd_client = mem_cert_client\<rparr> \<lparr>ref_Name = ''a'', ref_Type = ''infra.certificate'', ref_ProviderID = ''a''\<rparr>
      \<lparr>spec_Name = ''a'', spec_Type = ''infra.certificate'', spec_Config = []\<rparr> [[ex_cert ''1'' ''a'']]
    = Some (Ok (certOutput (ex_cert ''new'' ''a'') ''a''), [[], [ex_cert ''new'' ''a'']])"
    by (simp add: cert_Update_def cert_Delete_def cert_Create_def cert_resolveProviderID_def heal_def
        findCertificateByName_def find_by_name_def find_page.simps mem_cert_client_def page_lister_def nonempty_pages_def
        Let_def ex_cert_def isUUIDLike_def io_simps certOutput_def cert_create_req_def)
  show ?thesis
    using cert_update_replaces [OF l, of "\<lparr>ref_Name = ''a'', ref_Type = ''infra.certificate'', ref_ProviderID = ''a''\<rparr>"
        "\<lparr>spec_Name = ''a'', spec_Type = ''infra.certificate'', spec_Config = []\<rparr>" "[[ex_cert ''1'' ''a'']]"] u
    by (simp add: isUUIDLike_def nonempty_pages_def ex_cert_def)
qed

end
