(* ===== verification/DeepEqual.thy ===== *)
theory DeepEqual
  imports Json
begin

text \<open>
  \<^verbatim>\<open>reflect.DeepEqual\<close> on \<^verbatim>\<open>any\<close> values: dynamic types must agree, nil slices differ from empty
  ones, NaN differs from itself, maps agree on the same keys. A map's association list has
  distinct keys.
\<close>

fun f64_eq :: "f64 \<Rightarrow> f64 \<Rightarrow> bool" where
  "f64_eq NaN _ = False"
| "f64_eq a b = (a = b)"

function deep_eq :: "gval \<Rightarrow> gval \<Rightarrow> bool" where
  "deep_eq GNil w = (w = GNil)"
| "deep_eq (GBool b) w = (w = GBool b)"
| "deep_eq (GInt n) w = (w = GInt n)"
| "deep_eq (GInt64 n) w = (w = GInt64 n)"
| "deep_eq (GFloat f) w = (case w of GFloat g \<Rightarrow> f64_eq f g | _ \<Rightarrow> False)"
| "deep_eq (GStr s) w = (w = GStr s)"
| "deep_eq (GStrs s) w = (w = GStrs s)"
| "deep_eq (GInts s) w = (w = GInts s)"
| "deep_eq (GAnys NilSlice) w = (w = GAnys NilSlice)"
| "deep_eq (GAnys (Slice xs)) w = (case w of GAnys (Slice ys) \<Rightarrow>
     length xs = length ys \<and> list_all (\<lambda>(x, y). deep_eq x y) (zip xs ys) | _ \<Rightarrow> False)"
| "deep_eq (GMap m) w = (case w of GMap m' \<Rightarrow>
     set (map fst m) = set (map fst m')
     \<and> list_all (\<lambda>kv. case map_of m' (fst kv) of Some v' \<Rightarrow> deep_eq (snd kv) v' | None \<Rightarrow> False) m | _ \<Rightarrow> False)"
| "deep_eq (GMaps NilSlice) w = (w = GMaps NilSlice)"
| "deep_eq (GMaps (Slice ms)) w = (case w of GMaps (Slice ms') \<Rightarrow>
     length ms = length ms' \<and> list_all (\<lambda>(m, m'). deep_eq (GMap m) (GMap m')) (zip ms ms') | _ \<Rightarrow> False)"
| "deep_eq GNilMap w = (w = GNilMap)"
  by pat_completeness auto

lemma size_zip_left: "(a, b) \<in> set (zip xs ys) \<Longrightarrow> f a < Suc (size_list f xs)"
  by (meson set_zip_leftD size_elem_lt)

lemma size_zip_left2: "(a, b) \<in> set (zip xs ys) \<Longrightarrow> f a < Suc (Suc (size_list f xs))"
  by (meson size_zip_left less_SucI)

lemma size_pair_snd: "(a, b) \<in> set m \<Longrightarrow> size b < Suc (size_list (size_prod (\<lambda>_. 0) size) m)"
  using size_snd_le [of "(a, b)" m] by simp

termination deep_eq
  by (relation "measure (size \<circ> fst)") (auto intro: size_zip_left size_zip_left2 size_pair_snd)

text \<open>Two slices held as \<^verbatim>\<open>[]any\<close>.\<close>

definition deep_eq_slice :: "gval slice \<Rightarrow> gval slice \<Rightarrow> bool" where
  "deep_eq_slice a b = deep_eq (GAnys a) (GAnys b)"

lemma deep_eq_slice_simps [simp]:
  "deep_eq_slice NilSlice b = (b = NilSlice)"
  "deep_eq_slice (Slice xs) NilSlice = False"
  "deep_eq_slice (Slice xs) (Slice ys) = list_all2 deep_eq xs ys"
  by (auto simp: deep_eq_slice_def list_all2_conv_all_nth list_all_length)

lemma deep_eq_strs [simp]: "deep_eq (GAnys (Slice (map GStr ss))) (GAnys (Slice (map GStr ss)))"
  by (simp add: list_all_length)

end
