(* ===== verification/Firewall.thy ===== *)
theory Firewall
  imports Heal DeepEqual
begin

text \<open>
  The firewall driver (\<^verbatim>\<open>internal/drivers/firewall.go\<close>): requests from the configuration, the
  canonical form of rules, and the diff against recorded outputs.
\<close>

section \<open>Data\<close>

text \<open>\<^verbatim>\<open>godo.Sources\<close> and \<^verbatim>\<open>godo.Destinations\<close> have the same fields.\<close>

record fw_peer =
  peer_Addresses :: "string list"
  peer_Tags :: "string list"
  peer_DropletIDs :: "int list"
  peer_LoadBalancerUIDs :: "string list"
  peer_KubernetesIDs :: "string list"

record fw_rule =
  rule_Protocol :: string
  rule_PortRange :: string
  rule_Peer :: "fw_peer option"

record firewall =
  fw_ID :: string
  fw_Name :: string
  fw_Status :: string
  fw_DropletIDs :: "int list"
  fw_Tags :: "string list"
  fw_InboundRules :: "fw_rule list"
  fw_OutboundRules :: "fw_rule list"

record firewall_request =
  fwr_Name :: string
  fwr_DropletIDs :: "int slice"
  fwr_Tags :: "string slice"
  fwr_InboundRules :: "fw_rule list"
  fwr_OutboundRules :: "fw_rule list"

record 'w firewall_client =
  FW_Create :: "firewall_request \<Rightarrow> ('w, firewall option) io"
  FW_Get :: "string \<Rightarrow> ('w, firewall option) io"
  FW_List :: "('w, firewall) lister"
  FW_Update :: "string \<Rightarrow> firewall_request \<Rightarrow> ('w, firewall option) io"
  FW_Delete :: "string \<Rightarrow> ('w, unit) io"

record 'w firewall_driver =
  fwd_client :: "'w firewall_client"

section \<open>Requests\<close>

definition only_addresses :: "string list \<Rightarrow> fw_peer" where
  "only_addresses as = \<lparr>peer_Addresses = as, peer_Tags = [], peer_DropletIDs = [],
     peer_LoadBalancerUIDs = [], peer_KubernetesIDs = []\<rparr>"

text \<open>The addresses of a rule: a flat list or an object with a list under \<^verbatim>\<open>addresses\<close>.\<close>

definition rule_addresses :: "gval option \<Rightarrow> string list" where
  "rule_addresses v = (case v of
     Some (GAnys srcs) \<Rightarrow> strings_of (elems srcs)
   | Some (GMap srcs) \<Rightarrow> (case as_anys (map_of srcs ''addresses'') of
       Some addrs \<Rightarrow> strings_of (elems addrs) | None \<Rightarrow> [])
   | _ \<Rightarrow> [])"

fun rules_of :: "string \<Rightarrow> gval list \<Rightarrow> fw_rule list" where
  "rules_of key [] = []"
| "rules_of key (GMap m # rs) =
     \<lparr>rule_Protocol = strFromConfig m ''protocol'' ''tcp'',
      rule_PortRange = strFromConfig m ''ports'' ''all'',
      rule_Peer = Some (only_addresses (rule_addresses (map_of m key)))\<rparr> # rules_of key rs"
| "rules_of key (_ # rs) = rules_of key rs"

definition inboundRulesFromConfig :: "cfg \<Rightarrow> fw_rule list" where
  "inboundRulesFromConfig config = (case as_anys (map_of config ''inbound_rules'') of
     None \<Rightarrow> [] | Some raw \<Rightarrow> rules_of ''sources'' (elems raw))"

definition outboundRulesFromConfig :: "cfg \<Rightarrow> fw_rule list" where
  "outboundRulesFromConfig config = (case as_anys (map_of config ''outbound_rules'') of
     None \<Rightarrow> [] | Some raw \<Rightarrow> rules_of ''destinations'' (elems raw))"

fun droplet_ids_of :: "gval list \<Rightarrow> int list res" where
  "droplet_ids_of [] = Ok []"
| "droplet_ids_of (GInt n # vs) = res_bind (droplet_ids_of vs) (\<lambda>ids. Ok (if n \<le> 0 then ids else n # ids))"
| "droplet_ids_of (GInt64 n # vs) = res_bind (droplet_ids_of vs) (\<lambda>ids. Ok (if n \<le> 0 then ids else n # ids))"
| "droplet_ids_of (GFloat t # vs) =
     (if \<not> f64_integral t then Err (Errorf ''droplet_ids: %v is not an integer'' [FVal (GFloat t)])
      else res_bind (droplet_ids_of vs) (\<lambda>ids. Ok (if f64_to_int t \<le> 0 then ids else f64_to_int t # ids)))"
| "droplet_ids_of (_ # vs) = droplet_ids_of vs"

definition dropletIDsFromConfig :: "cfg \<Rightarrow> int slice res" where
  "dropletIDsFromConfig config = (case as_anys (map_of config ''droplet_ids'') of
     None \<Rightarrow> Ok NilSlice
   | Some raw \<Rightarrow> if elems raw = [] then Ok NilSlice
                 else res_bind (droplet_ids_of (elems raw)) (\<lambda>ids. Ok (Slice ids)))"

definition tagsFromConfig :: "cfg \<Rightarrow> string slice" where
  "tagsFromConfig config = (case as_anys (map_of config ''tags'') of
     None \<Rightarrow> NilSlice
   | Some raw \<Rightarrow> if elems raw = [] then NilSlice else Slice (nonempty_strings (elems raw)))"

definition firewallRequest :: "resource_spec \<Rightarrow> firewall_request res" where
  "firewallRequest spec = res_bind (dropletIDsFromConfig (spec_Config spec)) (\<lambda>ids.
     Ok \<lparr>fwr_Name = spec_Name spec, fwr_DropletIDs = ids, fwr_Tags = tagsFromConfig (spec_Config spec),
         fwr_InboundRules = inboundRulesFromConfig (spec_Config spec),
         fwr_OutboundRules = outboundRulesFromConfig (spec_Config spec)\<rparr>)"



section \<open>Outputs\<close>

definition intsToAnySlice :: "int list \<Rightarrow> gval slice" where
  "intsToAnySlice ids = (if ids = [] then NilSlice else Slice (map (\<lambda>n. GFloat (f64_of_int n)) ids))"

definition stringsToAnySlice :: "string list \<Rightarrow> gval slice" where
  "stringsToAnySlice ss = (if ss = [] then NilSlice else Slice (map GStr ss))"

definition rule_canonical :: "string \<Rightarrow> fw_rule \<Rightarrow> gval" where
  "rule_canonical key r =
     GMap [(''protocol'', GStr (rule_Protocol r)), (''ports'', GStr (rule_PortRange r)),
           (key, GAnys (case rule_Peer r of None \<Rightarrow> NilSlice
                         | Some p \<Rightarrow> stringsToAnySlice (peer_Addresses p)))]"

definition inboundRuleCanonical :: "fw_rule \<Rightarrow> gval" where
  "inboundRuleCanonical r = rule_canonical ''sources'' r"

definition outboundRuleCanonical :: "fw_rule \<Rightarrow> gval" where
  "outboundRuleCanonical r = rule_canonical ''destinations'' r"

definition inboundRulesCanonical :: "fw_rule list \<Rightarrow> gval slice" where
  "inboundRulesCanonical rs = (if rs = [] then NilSlice else Slice (map inboundRuleCanonical rs))"

definition outboundRulesCanonical :: "fw_rule list \<Rightarrow> gval slice" where
  "outboundRulesCanonical rs = (if rs = [] then NilSlice else Slice (map outboundRuleCanonical rs))"

definition fwOutput :: "firewall \<Rightarrow> resource_output" where
  "fwOutput fw =
     \<lparr>out_Name = fw_Name fw, out_Type = ''infra.firewall'', out_ProviderID = fw_ID fw,
      out_Outputs = [(''status'', GStr (fw_Status fw)),
        (''droplet_ids'', GAnys (intsToAnySlice (fw_DropletIDs fw))),
        (''tags'', GAnys (stringsToAnySlice (fw_Tags fw))),
        (''inbound_rules'', GAnys (inboundRulesCanonical (fw_InboundRules fw))),
        (''outbound_rules'', GAnys (outboundRulesCanonical (fw_OutboundRules fw)))],
      out_Sensitive = [], out_Status = fw_Status fw\<rparr>"

section \<open>Operations\<close>


definition findFirewallByName :: "'w firewall_driver \<Rightarrow> string \<Rightarrow> ('w, resource_output) io" where
  "findFirewallByName d = find_by_name ''firewall list: %w'' ''firewall %q: %w'' (FW_List (fwd_client d)) fw_Name fwOutput"

definition fw_resolveProviderID :: "'w firewall_driver \<Rightarrow> resource_ref \<Rightarrow> ('w, string) io" where
  "fw_resolveProviderID d = heal ''firewall state-heal for %q: %w'' (findFirewallByName d)"

definition fw_Read :: "'w firewall_driver \<Rightarrow> resource_ref \<Rightarrow> ('w, resource_output) io" where
  "fw_Read d ref =
     (if ref_ProviderID ref = [] then findFirewallByName d (ref_Name ref)
      else io_bind (io_wrap (\<lambda>e. Wrapf ''firewall read %q: %w'' [FStr (ref_Name ref)] (WrapGodoError e))
                     (FW_Get (fwd_client d) (ref_ProviderID ref))) (\<lambda>r.
           case r of
             None \<Rightarrow> io_err (Errorf ''firewall read %q: provider returned nil resource'' [FStr (ref_Name ref)])
           | Some fw \<Rightarrow> io_ok (fwOutput fw)))"


definition fw_Delete :: "'w firewall_driver \<Rightarrow> resource_ref \<Rightarrow> ('w, unit) io" where
  "fw_Delete d ref =
     io_bind (fw_resolveProviderID d ref) (\<lambda>providerID.
     io_wrap (\<lambda>e. Wrapf ''firewall delete %q: %w'' [FStr (ref_Name ref)] (WrapGodoError e))
       (FW_Delete (fwd_client d) providerID))"

definition fw_diff_state :: "firewall_request \<Rightarrow> cfg \<Rightarrow> diff_state" where
  "fw_diff_state req outs =
     (let curIDs = outputsAsIntSlice (map_of outs ''droplet_ids'');
          curTags = outputsAsStringSlice (map_of outs ''tags'');
          desiredIn = inboundRulesCanonical (fwr_InboundRules req);
          curIn = (case as_anys (map_of outs ''inbound_rules'') of Some s \<Rightarrow> s | None \<Rightarrow> NilSlice);
          desiredOut = outboundRulesCanonical (fwr_OutboundRules req);
          curOut = (case as_anys (map_of outs ''outbound_rules'') of Some s \<Rightarrow> s | None \<Rightarrow> NilSlice)
      in diff_step (\<not> deep_eq_slice curOut desiredOut) (change ''outbound_rules'' (GAnys curOut) (GAnys desiredOut))
        (diff_step (\<not> deep_eq_slice curIn desiredIn) (change ''inbound_rules'' (GAnys curIn) (GAnys desiredIn))
        (diff_step (\<not> equalStringSet (elems (fwr_Tags req)) (elems curTags))
           (change ''tags'' (GStrs curTags) (GStrs (fwr_Tags req)))
        (diff_step (\<not> equalIntSet (elems (fwr_DropletIDs req)) (elems curIDs))
           (change ''droplet_ids'' (GInts curIDs) (GInts (fwr_DropletIDs req)))
        ([], False)))))"

definition fw_Diff :: "resource_spec \<Rightarrow> resource_output option \<Rightarrow> diff_result res" where
  "fw_Diff desired current =
     (case current of
        None \<Rightarrow> Ok diff_absent
      | Some cur \<Rightarrow>
        res_bind (res_wrap (Wrapf ''firewall diff %q: %w'' [FStr (spec_Name desired)]) (firewallRequest desired)) (\<lambda>req.
        Ok (diff_result_of (fw_diff_state req (out_Outputs cur)))))"

definition fw_HealthCheck :: "'w firewall_driver \<Rightarrow> resource_ref \<Rightarrow> ('w, health_result) io" where
  "fw_HealthCheck d ref =
     io_handle (fw_resolveProviderID d ref)
       (\<lambda>providerID. io_handle (FW_Get (fwd_client d) providerID)
          (\<lambda>r. case r of
               None \<Rightarrow> io_ok \<lparr>Healthy = False, Message = Text ''provider returned nil firewall''\<rparr>
             | Some fw \<Rightarrow> io_ok \<lparr>Healthy = (fw_Status fw = ''succeeded''), Message = Text (fw_Status fw)\<rparr>)
          (\<lambda>e. io_ok \<lparr>Healthy = False, Message = ErrorText e\<rparr>))
       (\<lambda>e. io_ok \<lparr>Healthy = False, Message = ErrorText e\<rparr>)"

definition fw_Scale :: "resource_ref \<Rightarrow> int \<Rightarrow> ('w, resource_output) io" where
  "fw_Scale ref n = io_err (Errorf ''firewall does not support scale operation'' [])"

section \<open>Facts\<close>

lemma fw_diff_state_marks: "diff_marks (fw_diff_state req outs)"
  by (simp add: fw_diff_state_def Let_def)

interpretation fw_diff: field_differ fw_Diff
proof
  fix s cur d
  assume "fw_Diff s (Some cur) = Ok d"
  then show "NeedsReplace d = (\<exists>c \<in> set (Changes d). fc_ForceNew c)"
    by (auto simp: fw_Diff_def res_bind_Ok_iff diff_result_of_contract(1) [OF fw_diff_state_marks])
qed (auto simp: fw_Diff_def res_bind_Ok_iff diff_result_of_contract(2))

text \<open>What the canonical form of a rule keeps.\<close>

definition rule_key :: "fw_rule \<Rightarrow> string \<times> string \<times> string list" where
  "rule_key r = (rule_Protocol r, rule_PortRange r,
     case rule_Peer r of None \<Rightarrow> [] | Some p \<Rightarrow> peer_Addresses p)"

definition key_canonical :: "string \<Rightarrow> string \<times> string \<times> string list \<Rightarrow> gval" where
  "key_canonical key k = (case k of (p, r, as) \<Rightarrow>
     GMap [(''protocol'', GStr p), (''ports'', GStr r), (key, GAnys (stringsToAnySlice as))])"

lemma rule_canonical_key: "rule_canonical key r = key_canonical key (rule_key r)"
  by (simp add: rule_canonical_def key_canonical_def rule_key_def stringsToAnySlice_def split: option.splits)

lemma deep_eq_key_canonical:
  "key \<notin> {''protocol'', ''ports''} \<Longrightarrow> deep_eq (key_canonical key k) (key_canonical key k)"
  by (cases k) (auto simp: key_canonical_def stringsToAnySlice_def list_all_iff zip_same_conv_map)

lemma deep_eq_norm_canonical:
  "key \<notin> {''protocol'', ''ports''} \<Longrightarrow>
   deep_eq (json_norm (key_canonical key k)) (key_canonical key k) \<longleftrightarrow> snd (snd k) \<noteq> []"
  by (cases k) (auto simp: key_canonical_def stringsToAnySlice_def list_all_iff zip_same_conv_map norm_map_def comp_def)

lemma canonical_slices:
  assumes "map rule_key rs = map rule_key rs'"
  shows "inboundRulesCanonical rs = inboundRulesCanonical rs'"
    and "outboundRulesCanonical rs = outboundRulesCanonical rs'"
proof -
  have "map (rule_canonical k) rs = map (rule_canonical k) rs'" for k
    using arg_cong [OF assms, of "map (key_canonical k)"] by (simp add: rule_canonical_key [abs_def] comp_def)
  moreover have "rs = [] \<longleftrightarrow> rs' = []"
    using assms by (metis map_is_Nil_conv)
  ultimately show "inboundRulesCanonical rs = inboundRulesCanonical rs'"
    "outboundRulesCanonical rs = outboundRulesCanonical rs'"
    by (auto simp: inboundRulesCanonical_def outboundRulesCanonical_def inboundRuleCanonical_def [abs_def]
        outboundRuleCanonical_def [abs_def])
qed

lemma deep_eq_canonical:
  "deep_eq_slice (inboundRulesCanonical rs) (inboundRulesCanonical rs)"
  "deep_eq_slice (outboundRulesCanonical rs) (outboundRulesCanonical rs)"
  by (auto simp: inboundRulesCanonical_def outboundRulesCanonical_def inboundRuleCanonical_def
      outboundRuleCanonical_def rule_canonical_key deep_eq_key_canonical list_all2_conv_all_nth)

lemma deep_eq_canonical_norm:
  "rs \<noteq> [] \<Longrightarrow> deep_eq_slice (Slice (map (\<lambda>r. json_norm (inboundRuleCanonical r)) rs)) (inboundRulesCanonical rs)
     \<longleftrightarrow> (\<forall>r \<in> set rs. snd (snd (rule_key r)) \<noteq> [])"
  "rs \<noteq> [] \<Longrightarrow> deep_eq_slice (Slice (map (\<lambda>r. json_norm (outboundRuleCanonical r)) rs)) (outboundRulesCanonical rs)
     \<longleftrightarrow> (\<forall>r \<in> set rs. snd (snd (rule_key r)) \<noteq> [])"
  by (auto simp: inboundRulesCanonical_def outboundRulesCanonical_def inboundRuleCanonical_def
      outboundRuleCanonical_def rule_canonical_key deep_eq_norm_canonical list_all2_conv_all_nth all_set_conv_all_nth)

section \<open>Targets\<close>





definition ex_fw_spec :: resource_spec where
  "ex_fw_spec = \<lparr>spec_Name = ''web'', spec_Type = ''infra.firewall'',
     spec_Config = [(''droplet_ids'', GAnys (Slice [GFloat (Fin 7), GInt (- 1), GStr ''x''])),
       (''inbound_rules'', GAnys (Slice [GMap [(''ports'', GStr ''443''), (''sources'', GAnys (Slice [GStr ''10.0.0.0/8'']))]])),
       (''outbound_rules'', GAnys (Slice [GMap [(''protocol'', GStr ''udp'')]]))]\<rparr>"

definition ex_fw_request :: firewall_request where
  "ex_fw_request = \<lparr>fwr_Name = ''web'', fwr_DropletIDs = Slice [7], fwr_Tags = NilSlice,
     fwr_InboundRules = [\<lparr>rule_Protocol = ''tcp'', rule_PortRange = ''443'', rule_Peer = Some (only_addresses [''10.0.0.0/8''])\<rparr>],
     fwr_OutboundRules = [\<lparr>rule_Protocol = ''udp'', rule_PortRange = ''all'', rule_Peer = Some (only_addresses [])\<rparr>]\<rparr>"

lemma ex_fw_request: "firewallRequest ex_fw_spec = Ok ex_fw_request"
  by code_simp

text \<open>A concrete firewall API that stores what it is sent.\<close>

definition stored_firewall :: "string \<Rightarrow> firewall_request \<Rightarrow> firewall" where
  "stored_firewall i req = \<lparr>fw_ID = i, fw_Name = fwr_Name req, fw_Status = ''succeeded'',
     fw_DropletIDs = elems (fwr_DropletIDs req), fw_Tags = elems (fwr_Tags req),
     fw_InboundRules = fwr_InboundRules req, fw_OutboundRules = fwr_OutboundRules req\<rparr>"



section \<open>Diff of the driver's own output\<close>

text \<open>
  A stored firewall is the one requested if targets agree up to order and rules agree in what the
  configuration can express. \<open>after_json\<close> is an output as it comes back from the state or over the
  wire, as JSON.
\<close>

definition fw_echoes :: "firewall \<Rightarrow> firewall_request \<Rightarrow> bool" where
  "fw_echoes fw req =
     (mset (fw_DropletIDs fw) = mset (elems (fwr_DropletIDs req)) \<and> mset (fw_Tags fw) = mset (elems (fwr_Tags req))
      \<and> map rule_key (fw_InboundRules fw) = map rule_key (fwr_InboundRules req)
      \<and> map rule_key (fw_OutboundRules fw) = map rule_key (fwr_OutboundRules req)
      \<and> list_all (\<lambda>i. \<bar>i\<bar> \<le> 9007199254740992) (fw_DropletIDs fw))"

lemma ints_of_droplets:
  "list_all (\<lambda>i. \<bar>i\<bar> \<le> 9007199254740992) ns \<Longrightarrow> ints_of (map (\<lambda>n. GFloat (f64_of_int n)) ns) = ns"
  by (rule ints_of_map_GFloat) (auto simp: list_all_iff min_int64_def)

lemma fw_recorded_targets:
  assumes "fw_echoes fw req"
  shows "mset (elems (outputsAsIntSlice (Some (GAnys (intsToAnySlice (fw_DropletIDs fw)))))) = mset (elems (fwr_DropletIDs req))"
    and "mset (elems (outputsAsStringSlice (Some (GAnys (stringsToAnySlice (fw_Tags fw)))))) = mset (elems (fwr_Tags req))"
    and "mset (elems (outputsAsIntSlice (Some (json_norm (GAnys (intsToAnySlice (fw_DropletIDs fw))))))) = mset (elems (fwr_DropletIDs req))"
    and "mset (elems (outputsAsStringSlice (Some (json_norm (GAnys (stringsToAnySlice (fw_Tags fw))))))) = mset (elems (fwr_Tags req))"
  using assms ints_of_droplets [of "fw_DropletIDs fw"]
  by (auto simp: fw_echoes_def intsToAnySlice_def stringsToAnySlice_def outputsAsIntSlice_def
      outputsAsStringSlice_def comp_def)

lemma fw_diff_state_nil_iff:
  "fst (fw_diff_state req outs) = [] \<longleftrightarrow>
     mset (elems (fwr_DropletIDs req)) = mset (elems (outputsAsIntSlice (map_of outs ''droplet_ids'')))
     \<and> mset (elems (fwr_Tags req)) = mset (elems (outputsAsStringSlice (map_of outs ''tags'')))
     \<and> deep_eq_slice (case as_anys (map_of outs ''inbound_rules'') of Some s \<Rightarrow> s | None \<Rightarrow> NilSlice)
          (inboundRulesCanonical (fwr_InboundRules req))
     \<and> deep_eq_slice (case as_anys (map_of outs ''outbound_rules'') of Some s \<Rightarrow> s | None \<Rightarrow> NilSlice)
          (outboundRulesCanonical (fwr_OutboundRules req))"
  by (auto simp: fw_diff_state_def Let_def diff_step_nil)

lemma json_norm_canonical:
  "json_norm (GAnys (inboundRulesCanonical rs)) =
     (if rs = [] then GNil else GAnys (Slice (map (\<lambda>r. json_norm (inboundRuleCanonical r)) rs)))"
  "json_norm (GAnys (outboundRulesCanonical rs)) =
     (if rs = [] then GNil else GAnys (Slice (map (\<lambda>r. json_norm (outboundRuleCanonical r)) rs)))"
  by (simp_all add: inboundRulesCanonical_def outboundRulesCanonical_def comp_def)

lemma recorded_inbound_norm:
  "deep_eq_slice (case as_anys (Some (json_norm (GAnys (inboundRulesCanonical rs)))) of Some s \<Rightarrow> s | None \<Rightarrow> NilSlice)
     (inboundRulesCanonical rs) \<longleftrightarrow> (\<forall>r \<in> set rs. snd (snd (rule_key r)) \<noteq> [])"
proof (cases "rs = []")
  case True
  then show ?thesis by (simp add: json_norm_canonical) (simp add: inboundRulesCanonical_def)
next
  case False
  then show ?thesis
    by (simp only: json_norm_canonical if_False as_anys.simps option.case) (rule deep_eq_canonical_norm(1))
qed

lemma recorded_outbound_norm:
  "deep_eq_slice (case as_anys (Some (json_norm (GAnys (outboundRulesCanonical rs)))) of Some s \<Rightarrow> s | None \<Rightarrow> NilSlice)
     (outboundRulesCanonical rs) \<longleftrightarrow> (\<forall>r \<in> set rs. snd (snd (rule_key r)) \<noteq> [])"
proof (cases "rs = []")
  case True
  then show ?thesis by (simp add: json_norm_canonical) (simp add: outboundRulesCanonical_def)
next
  case False
  then show ?thesis
    by (simp only: json_norm_canonical if_False as_anys.simps option.case) (rule deep_eq_canonical_norm(2))
qed

text \<open>
  C28: the diff of a firewall against its own recorded output. In process the comparison is stable:
  nothing is planned for a firewall stored as requested, whatever the order of its targets and
  whichever further peers its rules have. After the output has been through JSON it is not
  symmetric: an update is planned again and again exactly when some rule has no addresses, because
  the nil address list comes back as null.
\<close>

theorem firewall_diff_own_output:
  assumes "firewallRequest spec = Ok req" and "fw_echoes fw req"
  shows "fw_Diff spec (Some (fwOutput fw)) = Ok \<lparr>NeedsUpdate = False, NeedsReplace = False, Changes = []\<rparr>
    \<and> (\<exists>d. fw_Diff spec (Some (after_json (fwOutput fw))) = Ok d \<and> \<not> NeedsReplace d
        \<and> NeedsUpdate d = list_ex (\<lambda>r. snd (snd (rule_key r)) = []) (fwr_InboundRules req @ fwr_OutboundRules req))"
proof -
  note t = fw_recorded_targets [OF assms(2)]
  have rules: "inboundRulesCanonical (fw_InboundRules fw) = inboundRulesCanonical (fwr_InboundRules req)"
    "outboundRulesCanonical (fw_OutboundRules fw) = outboundRulesCanonical (fwr_OutboundRules req)"
    by (rule canonical_slices, use assms(2) in \<open>simp add: fw_echoes_def\<close>)+
  have nil: "fst (fw_diff_state req (out_Outputs (fwOutput fw))) = []"
    unfolding fw_diff_state_nil_iff using t(1,2) rules deep_eq_canonical by (simp add: fwOutput_def)
  have "fst (fw_diff_state req (out_Outputs (after_json (fwOutput fw)))) = [] \<longleftrightarrow>
      \<not> list_ex (\<lambda>r. snd (snd (rule_key r)) = []) (fwr_InboundRules req @ fwr_OutboundRules req)"
    unfolding fw_diff_state_nil_iff after_json_def
    using t(3,4) recorded_inbound_norm [of "fwr_InboundRules req"] recorded_outbound_norm [of "fwr_OutboundRules req"]
    by (simp add: map_of_norm_map fwOutput_def rules list_ex_iff list_all_iff) blast
  moreover have "\<not> snd (fw_diff_state req outs)" for outs
    using fw_diff_state_marks [of req outs] by (simp add: fw_diff_state_def Let_def diff_step_replace)
  ultimately show ?thesis
    using assms(1) nil by (simp add: fw_Diff_def diff_result_of_def)
qed

theorem firewall_diff_own_output_witness:
  "fw_Diff ex_fw_spec (Some (fwOutput (stored_firewall ''fw-1'' ex_fw_request)))
      = Ok \<lparr>NeedsUpdate = False, NeedsReplace = False, Changes = []\<rparr>
    \<and> (\<exists>d. fw_Diff ex_fw_spec (Some (after_json (fwOutput (stored_firewall ''fw-1'' ex_fw_request)))) = Ok d
        \<and> \<not> NeedsReplace d \<and> NeedsUpdate d)"
proof -
  have "fw_echoes (stored_firewall ''fw-1'' ex_fw_request) ex_fw_request" by code_simp
  moreover have "list_ex (\<lambda>r. snd (snd (rule_key r)) = []) (fwr_InboundRules ex_fw_request @ fwr_OutboundRules ex_fw_request)"
    by code_simp
  ultimately show ?thesis
    using firewall_diff_own_output [OF ex_fw_request, of "stored_firewall ''fw-1'' ex_fw_request"] by simp
qed

end
