(* ===== verification/NextPages.thy ===== *)
theory NextPages
  imports Prelude
begin

text \<open>
  The second pagination loop of the plugin: it asks the links of each response for the current page
  instead of counting pages. Whether it \<open>goes_on\<close> is read off the next link or off
  \<^verbatim>\<open>IsLastPage\<close>, depending on the caller. Errors are wrapped by the caller's texts.
\<close>

partial_function (option) find_next ::
  "('w, 'a) lister \<Rightarrow> (links \<Rightarrow> bool) \<Rightarrow> ('a \<Rightarrow> bool) \<Rightarrow> (nat \<Rightarrow> go_error \<Rightarrow> go_error) \<Rightarrow> (go_error \<Rightarrow> go_error) \<Rightarrow> nat \<Rightarrow> 'w
   \<Rightarrow> ('a option res \<times> 'w) option" where
  "find_next lst goes_on p on_list on_page page w =
     (case lst page w of
        None \<Rightarrow> None
      | Some (r, w') \<Rightarrow>
        (case r of
           Err e \<Rightarrow> Some (Err (on_list page e), w')
         | Panic m \<Rightarrow> Some (Panic m, w')
         | Ok (xs, l) \<Rightarrow>
             (if first_match p xs \<noteq> None then Some (Ok (first_match p xs), w')
              else case l of
                None \<Rightarrow> Some (Ok None, w')
              | Some k \<Rightarrow>
                (if \<not> goes_on k then Some (Ok None, w')
                 else case current_page k of
                   Err e \<Rightarrow> Some (Err (on_page e), w')
                 | Panic m \<Rightarrow> Some (Panic m, w')
                 | Ok n \<Rightarrow> find_next lst goes_on p on_list on_page (nat (n + 1)) w'))))"

partial_function (option) collect_next ::
  "('w, 'a) lister \<Rightarrow> (links \<Rightarrow> bool) \<Rightarrow> (nat \<Rightarrow> go_error \<Rightarrow> go_error) \<Rightarrow> (go_error \<Rightarrow> go_error) \<Rightarrow> nat \<Rightarrow> 'a list \<Rightarrow> 'w
   \<Rightarrow> ('a list res \<times> 'w) option" where
  "collect_next lst goes_on on_list on_page page acc w =
     (case lst page w of
        None \<Rightarrow> None
      | Some (r, w') \<Rightarrow>
        (case r of
           Err e \<Rightarrow> Some (Err (on_list page e), w')
         | Panic m \<Rightarrow> Some (Panic m, w')
         | Ok (xs, l) \<Rightarrow>
             (case l of
                None \<Rightarrow> Some (Ok (acc @ xs), w')
              | Some k \<Rightarrow>
                (if \<not> goes_on k then Some (Ok (acc @ xs), w')
                 else case current_page k of
                   Err e \<Rightarrow> Some (Err (on_page e), w')
                 | Panic m \<Rightarrow> Some (Panic m, w')
                 | Ok n \<Rightarrow> collect_next lst goes_on on_list on_page (nat (n + 1)) (acc @ xs) w'))))"

definition not_last :: "links \<Rightarrow> bool" where
  "not_last k = (\<not> is_last_page k)"

text \<open>A listing whose links also carry the next page and the number of the current one.\<close>

locale linked_list = paged_list list pages
  for list :: "('w, 'a) lister" and pages :: "'w \<Rightarrow> 'a list list" +
  assumes links: "i < length (pages w) \<Longrightarrow> list (Suc i) w = Some (Ok (xs, l), w') \<Longrightarrow>
      (case l of None \<Rightarrow> Suc i = length (pages w)
       | Some k \<Rightarrow> has_next k = (Suc i < length (pages w)) \<and> is_last_page k = (Suc i = length (pages w)) \<and> current_page k = Ok (int (Suc i)))"
begin

lemma page_step:
  assumes "i < length (pages w)" "goes_on = has_next \<or> goes_on = not_last"
  obtains (last) l where "list (Suc i) w = Some (Ok (pages w ! i, l), w)" "Suc i = length (pages w)"
      "l = None \<or> (\<exists>k. l = Some k \<and> \<not> goes_on k)"
  | (further) k where "list (Suc i) w = Some (Ok (pages w ! i, Some k), w)" "Suc i < length (pages w)"
      "goes_on k" "current_page k = Ok (int (Suc i))"
proof -
  obtain l where l: "list (Suc i) w = Some (Ok (pages w ! i, l), w)"
    using list_page [OF assms(1)] by blast
  note k = links [OF assms(1) l]
  show thesis
  proof (cases "Suc i = length (pages w)")
    case True
    then show thesis using last [of l] l k assms(2) by (cases l) (auto simp: not_last_def)
  next
    case False
    then have "Suc i < length (pages w)" using assms by simp
    then show thesis using further l k assms(2) by (cases l) (auto simp: not_last_def)
  qed
qed

lemma find_next_from:
  assumes "goes_on = has_next \<or> goes_on = not_last"
  shows "i < length (pages w) \<Longrightarrow>
   find_next list goes_on p f g (Suc i) w = Some (Ok (first_match p (concat (drop i (pages w)))), w)"
proof (induction "length (pages w) - i" arbitrary: i)
  case 0
  then show ?case by simp
next
  case (Suc n)
  have d: "drop i (pages w) = pages w ! i # drop (Suc i) (pages w)"
    using Suc.prems by (simp add: Cons_nth_drop_Suc)
  from Suc.prems assms show ?case
  proof (cases rule: page_step)
    case (last l)
    then show ?thesis
      using d by (auto simp: find_next.simps first_match_append split: option.splits)
  next
    case (further k)
    have n: "n = length (pages w) - Suc i" using Suc.hyps(2) by arith
    have s: "nat (int (Suc i) + 1) = Suc (Suc i)" by arith
    have "find_next list goes_on p f g (Suc (Suc i)) w = Some (Ok (first_match p (concat (drop (Suc i) (pages w)))), w)"
      by (rule Suc.hyps(1) [OF n further(2)])
    then show ?thesis
      using further d s by (simp add: find_next.simps [of list goes_on p f g "Suc i"] first_match_append split: option.splits)
  qed
qed

lemma find_next_all:
  assumes "goes_on = has_next \<or> goes_on = not_last"
  shows "find_next list goes_on p f g 1 w = Some (Ok (first_match p (concat (pages w))), w)"
  using find_next_from [OF assms, of 0 w p f g] pages_nonempty [of w] by simp

lemma collect_next_from:
  assumes "goes_on = has_next \<or> goes_on = not_last"
  shows "i < length (pages w) \<Longrightarrow>
   collect_next list goes_on f g (Suc i) acc w = Some (Ok (acc @ concat (drop i (pages w))), w)"
proof (induction "length (pages w) - i" arbitrary: i acc)
  case 0
  then show ?case by simp
next
  case (Suc n)
  have d: "drop i (pages w) = pages w ! i # drop (Suc i) (pages w)"
    using Suc.prems by (simp add: Cons_nth_drop_Suc)
  from Suc.prems assms show ?case
  proof (cases rule: page_step)
    case (last l)
    then show ?thesis
      using d by (auto simp: collect_next.simps)
  next
    case (further k)
    have n: "n = length (pages w) - Suc i" using Suc.hyps(2) by arith
    have s: "nat (int (Suc i) + 1) = Suc (Suc i)" by arith
    have "collect_next list goes_on f g (Suc (Suc i)) (acc @ pages w ! i) w
        = Some (Ok ((acc @ pages w ! i) @ concat (drop (Suc i) (pages w))), w)"
      by (rule Suc.hyps(1) [OF n further(2)])
    then show ?thesis
      using further d s by (simp add: collect_next.simps [of list goes_on f g "Suc i"])
  qed
qed

lemma collect_next_all:
  assumes "goes_on = has_next \<or> goes_on = not_last"
  shows "collect_next list goes_on f g 1 [] w = Some (Ok (concat (pages w)), w)"
  using collect_next_from [OF assms, of 0 w f g "[]"] pages_nonempty [of w] by simp

end

interpretation static_links: linked_list "page_lister f" "\<lambda>w. nonempty_pages (f w)" for f
  by unfold_locales (auto simp: page_lister_def Let_def)

end
