(* ===== verification/SpacesKey.thy ===== *)
theory SpacesKey
  imports NextPages ConfigUtil Errors Firewall
begin

text \<open>
  The driver of Spaces access keys (\<^verbatim>\<open>internal/drivers/spaces_key.go\<close>). The provider id of a key is
  its access key; the secret key is known only when the key is created. A configuration comes from
  YAML or JSON, so its grants are never pre-typed \<^verbatim>\<open>[]*godo.Grant\<close> values.
\<close>

record grant =
  grant_Bucket :: string
  grant_Permission :: string

record spaces_key =
  key_Name :: string
  key_AccessKey :: string
  key_SecretKey :: string
  key_CreatedAt :: string
  key_Grants :: "grant option list"

record key_request =
  kr_Name :: string
  kr_Grants :: "grant list"

text \<open>A delete returns the response, if there is one, beside the error.\<close>

record 'w spaces_keys_api =
  SK_Create :: "key_request \<Rightarrow> ('w, spaces_key option) io"
  SK_Get :: "string \<Rightarrow> ('w, spaces_key option) io"
  SK_List :: "('w, spaces_key option) lister"
  SK_Update :: "string \<Rightarrow> key_request \<Rightarrow> ('w, spaces_key option) io"
  SK_Delete :: "string \<Rightarrow> ('w, int option \<times> go_error option) io"

record 'w spaces_key_driver =
  skd_client :: "'w spaces_keys_api"

section \<open>Grants\<close>

fun grants_of :: "int \<Rightarrow> gval list \<Rightarrow> grant list res" where
  "grants_of i [] = Ok []"
| "grants_of i (item # items) =
     (case item of
        GMap m \<Rightarrow>
          (let perm = str_or_empty (map_of m ''permission'')
           in if perm = [] then Err (Errorf ''grants[%d]: permission is required'' [FInt i])
              else res_bind (grants_of (i + 1) items) (\<lambda>gs.
                   Ok (\<lparr>grant_Bucket = str_or_empty (map_of m ''bucket''), grant_Permission = perm\<rparr> # gs)))
      | _ \<Rightarrow> Err (Errorf ''grants[%d]: expected object, got %T'' [FInt i, FVal item]))"

definition grantsFromConfig :: "cfg \<Rightarrow> grant list res" where
  "grantsFromConfig config = (case map_of config ''grants'' of
     None \<Rightarrow> Ok []
   | Some raw \<Rightarrow> (case raw of
       GNil \<Rightarrow> Ok []
     | GAnys v \<Rightarrow> grants_of 0 (elems v)
     | _ \<Rightarrow> Err (Errorf ''grants: expected array, got %T'' [FVal raw])))"

definition grant_map :: "grant \<Rightarrow> cfg" where
  "grant_map g = [(''bucket'', GStr (grant_Bucket g)), (''permission'', GStr (grant_Permission g))]"

fun present :: "'a option list \<Rightarrow> 'a list" where
  "present [] = []"
| "present (None # xs) = present xs"
| "present (Some x # xs) = x # present xs"

definition grantsToMaps :: "grant option list \<Rightarrow> cfg slice" where
  "grantsToMaps gs = (let out = map grant_map (present gs) in if out = [] then NilSlice else Slice out)"

definition stringOr :: "gval option \<Rightarrow> string \<Rightarrow> string" where
  "stringOr v def = (case as_str v of Some s \<Rightarrow> s | None \<Rightarrow> def)"

fun grant_maps_of :: "gval list \<Rightarrow> cfg list" where
  "grant_maps_of [] = []"
| "grant_maps_of (GMap m # xs) =
     [(''bucket'', GStr (stringOr (map_of m ''bucket'') [])),
      (''permission'', GStr (stringOr (map_of m ''permission'') []))] # grant_maps_of xs"
| "grant_maps_of (_ # xs) = grant_maps_of xs"

definition normalizeGrantsForDiff :: "gval option \<Rightarrow> cfg slice" where
  "normalizeGrantsForDiff v = (case v of
     Some (GMaps t) \<Rightarrow> if elems t = [] then NilSlice else t
   | Some (GAnys t) \<Rightarrow> (let out = grant_maps_of (elems t) in if out = [] then NilSlice else Slice out)
   | _ \<Rightarrow> NilSlice)"

section \<open>Operations\<close>

definition spacesKeyOutput :: "spaces_key \<Rightarrow> bool \<Rightarrow> resource_output" where
  "spacesKeyOutput k includeSecret =
     \<lparr>out_Name = key_Name k, out_Type = ''infra.spaces_key'', out_ProviderID = key_AccessKey k,
      out_Outputs =
        [(''name'', GStr (key_Name k)), (''access_key'', GStr (key_AccessKey k)), (''created_at'', GStr (key_CreatedAt k))]
        @ (case grantsToMaps (key_Grants k) of NilSlice \<Rightarrow> [] | Slice g \<Rightarrow> [(''grants'', GMaps (Slice g))])
        @ (if includeSecret then [(''secret_key'', GStr (key_SecretKey k))] else []),
      out_Sensitive = [(''access_key'', True)] @ (if includeSecret then [(''secret_key'', True)] else []),
      out_Status = ''active''\<rparr>"

definition spacesKeyCreateRequest :: "resource_spec \<Rightarrow> key_request res" where
  "spacesKeyCreateRequest spec =
     (let name = strFromConfig (spec_Config spec) ''name'' (spec_Name spec)
      in if name = [] then Err (Errorf ''spec.Config[\"name\"] (or spec.Name) is required'' [])
         else res_bind (grantsFromConfig (spec_Config spec)) (\<lambda>grants. Ok \<lparr>kr_Name = name, kr_Grants = grants\<rparr>))"


definition has_name :: "string \<Rightarrow> spaces_key option \<Rightarrow> bool" where
  "has_name n k = (case k of None \<Rightarrow> False | Some key \<Rightarrow> key_Name key = n)"

definition sk_findByName :: "'w spaces_key_driver \<Rightarrow> string \<Rightarrow> ('w, spaces_key) io" where
  "sk_findByName d name =
     io_bind (find_next (SK_List (skd_client d)) has_next (has_name name)
       (\<lambda>page e. Wrapf ''list spaces_keys page=%d: %w'' [FInt (int page)] (WrapGodoError e))
       (Wrapf ''list spaces_keys: parse next page: %w'' []) 1) (\<lambda>r.
     case r of
       Some (Some k) \<Rightarrow> io_ok k
     | _ \<Rightarrow> io_err (Wrapf ''%w: spaces_key %q'' [FStr name] (Sentinel ErrResourceNotFound)))"

definition sk_Read :: "'w spaces_key_driver \<Rightarrow> resource_ref \<Rightarrow> ('w, resource_output) io" where
  "sk_Read d ref =
     (if ref_ProviderID ref = []
      then io_bind (io_wrap (Wrapf ''spaces_key read %q: %w'' [FStr (ref_Name ref)]) (sk_findByName d (ref_Name ref))) (\<lambda>key.
           io_ok (spacesKeyOutput key False))
      else io_bind (io_wrap (\<lambda>e. Wrapf ''spaces_key read %q: %w'' [FStr (ref_Name ref)] (WrapGodoError e))
                     (SK_Get (skd_client d) (ref_ProviderID ref))) (\<lambda>r.
           case r of
             None \<Rightarrow> io_err (Errorf ''spaces_key read %q: godo returned nil key'' [FStr (ref_Name ref)])
           | Some key \<Rightarrow> io_ok (spacesKeyOutput key False)))"


definition sk_Delete :: "'w spaces_key_driver \<Rightarrow> resource_ref \<Rightarrow> ('w, unit) io" where
  "sk_Delete d ref =
     (if ref_ProviderID ref = []
      then io_err (Errorf ''spaces_key delete %q: ProviderID is required'' [FStr (ref_Name ref)])
      else io_bind (SK_Delete (skd_client d) (ref_ProviderID ref)) (\<lambda>(resp, err).
           case err of
             None \<Rightarrow> io_ok ()
           | Some e \<Rightarrow>
               if resp = Some 404 then io_ok ()
               else io_err (Wrapf ''spaces_key delete %q: %w'' [FStr (ref_Name ref)] (WrapGodoError e))))"

definition sk_diff_state :: "string \<Rightarrow> grant list \<Rightarrow> cfg \<Rightarrow> diff_state" where
  "sk_diff_state desiredName grants outs =
     (let curName = str_or_empty (map_of outs ''name'');
          desiredGrants = grantsToMaps (map Some grants);
          curGrants = normalizeGrantsForDiff (map_of outs ''grants'')
      in diff_step (\<not> deep_eq (GMaps curGrants) (GMaps desiredGrants))
           (change ''grants'' (GMaps curGrants) (GMaps desiredGrants))
        (diff_step (curName \<noteq> desiredName) (change ''name'' (GStr curName) (GStr desiredName))
        ([], False)))"

definition sk_Diff :: "resource_spec \<Rightarrow> resource_output option \<Rightarrow> diff_result res" where
  "sk_Diff desired current =
     (case current of
        None \<Rightarrow> Ok diff_absent
      | Some cur \<Rightarrow>
        res_bind (res_wrap (Wrapf ''spaces_key diff %q: %w'' [FStr (spec_Name desired)])
                   (grantsFromConfig (spec_Config desired))) (\<lambda>grants.
        Ok (diff_result_of (sk_diff_state (strFromConfig (spec_Config desired) ''name'' (spec_Name desired))
              grants (out_Outputs cur)))))"

definition sk_HealthCheck :: "'w spaces_key_driver \<Rightarrow> resource_ref \<Rightarrow> ('w, health_result) io" where
  "sk_HealthCheck d ref =
     (if ref_ProviderID ref = [] then io_ok \<lparr>Healthy = False, Message = Text ''ProviderID empty''\<rparr>
      else io_handle (SK_Get (skd_client d) (ref_ProviderID ref))
        (\<lambda>_. io_ok \<lparr>Healthy = True, Message = Text []\<rparr>)
        (\<lambda>e. io_ok \<lparr>Healthy = False, Message = ErrorText e\<rparr>))"

definition sk_Scale :: "resource_ref \<Rightarrow> int \<Rightarrow> ('w, resource_output) io" where
  "sk_Scale ref n = io_err (Opaque ''spaces_key does not support scale operation'')"

definition sk_SensitiveKeys :: "string list" where
  "sk_SensitiveKeys = [''access_key'', ''secret_key'']"

section \<open>Facts\<close>

lemma sk_diff_state_marks: "diff_marks (sk_diff_state n gs outs)"
  by (simp add: sk_diff_state_def Let_def)

interpretation sk_diff: field_differ sk_Diff
proof
  fix s cur d
  assume "sk_Diff s (Some cur) = Ok d"
  then show "NeedsReplace d = (\<exists>c \<in> set (Changes d). fc_ForceNew c)"
    by (auto simp: sk_Diff_def res_bind_Ok_iff diff_result_of_contract(1) [OF sk_diff_state_marks])
qed (auto simp: sk_Diff_def res_bind_Ok_iff diff_result_of_contract(2))

lemma present_Some [simp]: "present (map Some xs) = xs"
  by (induction xs) auto

lemma deep_eq_grant_maps: "deep_eq (GMaps (Slice (map grant_map gs))) (GMaps (Slice (map grant_map gs)))"
  by (auto simp: list_all_iff zip_same_conv_map grant_map_def)

lemma deep_eq_grants [simp]: "deep_eq (GMaps (grantsToMaps gs)) (GMaps (grantsToMaps gs))"
  using deep_eq_grant_maps by (auto simp: grantsToMaps_def Let_def simp del: deep_eq.simps(13))

lemma grant_maps_of_norm:
  "grant_maps_of (map (\<lambda>m. json_norm (GMap m)) (map grant_map gs)) = map grant_map gs"
  by (induction gs) (auto simp: grant_map_def norm_map_def stringOr_def)

lemma normalize_recorded:
  "normalizeGrantsForDiff (map_of (out_Outputs (spacesKeyOutput k b)) ''grants'') = grantsToMaps (key_Grants k)"
  by (auto simp: normalizeGrantsForDiff_def spacesKeyOutput_def grantsToMaps_def Let_def split: slice.splits)

lemma normalize_recorded_json:
  "normalizeGrantsForDiff (map_of (out_Outputs (after_json (spacesKeyOutput k b))) ''grants'') = grantsToMaps (key_Grants k)"
proof (cases "present (key_Grants k)")
  case Nil
  then show ?thesis
    by (simp add: normalizeGrantsForDiff_def spacesKeyOutput_def grantsToMaps_def Let_def after_json_def map_of_norm_map)
next
  case (Cons g gs)
  then have "map_of (norm_map (out_Outputs (spacesKeyOutput k b))) ''grants''
      = Some (GAnys (Slice (map (\<lambda>m. json_norm (GMap m)) (map grant_map (present (key_Grants k))))))"
    by (simp add: map_of_norm_map spacesKeyOutput_def grantsToMaps_def Let_def)
  then show ?thesis
    using Cons grant_maps_of_norm [of "present (key_Grants k)"]
    by (simp add: normalizeGrantsForDiff_def grantsToMaps_def Let_def after_json_def del: json_norm_GMap)
qed

section \<open>Properties\<close>


text \<open>A concrete keys API: the keys, and ids that count the creations.\<close>

definition mem_keys_api :: "spaces_key list spaces_keys_api" where
  "mem_keys_api = \<lparr>
     SK_Create = (\<lambda>rq w. let k = \<lparr>key_Name = kr_Name rq, key_AccessKey = ''AK'' @ replicate (length w) (CHR ''1''),
         key_SecretKey = ''shh'', key_CreatedAt = ''now'', key_Grants = map Some (kr_Grants rq)\<rparr> in Some (Ok (Some k), w @ [k])),
     SK_Get = (\<lambda>i w. Some (Ok (first_match (\<lambda>k. key_AccessKey k = i) w), w)),
     SK_List = page_lister (\<lambda>w. map (\<lambda>k. [Some k]) w),
     SK_Update = (\<lambda>i rq w. Some (Ok (first_match (\<lambda>k. key_AccessKey k = i) w), w)),
     SK_Delete = (\<lambda>i w. if first_match (\<lambda>k. key_AccessKey k = i) w = None
         then Some (Ok (Some 404, Some (GodoError (Some 404) ''not found'')), w)
         else Some (Ok (Some 204, None), filter (\<lambda>k. key_AccessKey k \<noteq> i) w))\<rparr>"

definition ex_key_spec :: resource_spec where
  "ex_key_spec = \<lparr>spec_Name = ''backup'', spec_Type = ''infra.spaces_key'',
     spec_Config = [(''grants'', GAnys (Slice [GMap [(''permission'', GStr ''read'')]]))]\<rparr>"

definition ex_key :: spaces_key where
  "ex_key = \<lparr>key_Name = ''backup'', key_AccessKey = ''AK'', key_SecretKey = ''shh'', key_CreatedAt = ''now'',
     key_Grants = [Some \<lparr>grant_Bucket = [], grant_Permission = ''read''\<rparr>]\<rparr>"



text \<open>
  The diff of a key against its own recorded output is stable. When the API keeps name and grants
  as requested, \<^verbatim>\<open>Diff\<close> plans nothing, in process and after the output has been through JSON, and
  whether or not there are grants.
\<close>

theorem spaces_key_diff_own_output:
  assumes "spacesKeyCreateRequest spec = Ok req"
    and "key_Name k = kr_Name req" and "present (key_Grants k) = kr_Grants req"
  shows "sk_Diff spec (Some (spacesKeyOutput k secret)) = Ok \<lparr>NeedsUpdate = False, NeedsReplace = False, Changes = []\<rparr>
    \<and> sk_Diff spec (Some (after_json (spacesKeyOutput k secret))) = Ok \<lparr>NeedsUpdate = False, NeedsReplace = False, Changes = []\<rparr>"
proof -
  have req: "kr_Name req = strFromConfig (spec_Config spec) ''name'' (spec_Name spec)"
    "grantsFromConfig (spec_Config spec) = Ok (kr_Grants req)"
    using assms(1) by (auto simp: spacesKeyCreateRequest_def Let_def res_bind_Ok_iff split: if_splits)
  have g: "grantsToMaps (key_Grants k) = grantsToMaps (map Some (kr_Grants req))"
    using assms(3) by (simp add: grantsToMaps_def)
  have n: "str_or_empty (map_of (out_Outputs (spacesKeyOutput k secret)) ''name'') = kr_Name req"
    "str_or_empty (map_of (out_Outputs (after_json (spacesKeyOutput k secret))) ''name'') = kr_Name req"
    using assms(2) by (simp_all add: after_json_def outputs_str_stable) (simp_all add: spacesKeyOutput_def str_or_empty_def)
  have "sk_diff_state (kr_Name req) (kr_Grants req) (out_Outputs (spacesKeyOutput k secret)) = ([], False)"
    "sk_diff_state (kr_Name req) (kr_Grants req) (out_Outputs (after_json (spacesKeyOutput k secret))) = ([], False)"
    using n by (simp_all add: sk_diff_state_def Let_def normalize_recorded normalize_recorded_json g)
  then show ?thesis
    using req by (simp add: sk_Diff_def diff_result_of_def)
qed

theorem spaces_key_diff_own_output_witness:
  "sk_Diff ex_key_spec (Some (spacesKeyOutput ex_key True)) = Ok \<lparr>NeedsUpdate = False, NeedsReplace = False, Changes = []\<rparr>
   \<and> sk_Diff ex_key_spec (Some (after_json (spacesKeyOutput ex_key True))) = Ok \<lparr>NeedsUpdate = False, NeedsReplace = False, Changes = []\<rparr>"
  by (rule spaces_key_diff_own_output [where req = "\<lparr>kr_Name = ''backup'', kr_Grants = [\<lparr>grant_Bucket = [], grant_Permission = ''read''\<rparr>]\<rparr>"])
    (simp_all add: spacesKeyCreateRequest_def ex_key_spec_def strFromConfig_def grantsFromConfig_def Let_def ex_key_def str_or_empty_def)

text \<open>
  Deleting is idempotent, and reading by name terminates and finds. Over an API that answers 404
  for a key that is gone, \<^verbatim>\<open>Delete\<close> of an id succeeds twice in a row and ends in the same world; any
  other failure of the call is reported. Over a paginated listing, \<^verbatim>\<open>Read\<close> without an id returns the
  first key of that name on any page, or an error that is \<^verbatim>\<open>ErrResourceNotFound\<close>.
\<close>

theorem spaces_key_delete_and_find:
  assumes "ref_ProviderID ref \<noteq> []"
    and "SK_Delete (skd_client d) (ref_ProviderID ref) w = Some (Ok (st, err), w1)"
    and "SK_Delete (skd_client d) (ref_ProviderID ref) w1 = Some (Ok (Some 404, Some e404), w1)"
    and "linked_list (SK_List (skd_client d)) pages"
  shows "(err = None \<or> st = Some 404 \<longrightarrow>
        sk_Delete d ref w = Some (Ok (), w1) \<and> sk_Delete d ref w1 = Some (Ok (), w1))
    \<and> (err \<noteq> None \<and> st \<noteq> Some 404 \<longrightarrow> (\<exists>e. sk_Delete d ref w = Some (Err e, w1)))
    \<and> (case first_match (has_name n) (concat (pages w2)) of
        Some (Some k) \<Rightarrow> sk_Read d (ref\<lparr>ref_Name := n, ref_ProviderID := []\<rparr>) w2 = Some (Ok (spacesKeyOutput k False), w2)
      | _ \<Rightarrow> \<exists>e. sk_Read d (ref\<lparr>ref_Name := n, ref_ProviderID := []\<rparr>) w2 = Some (Err e, w2) \<and> errors_is e ErrResourceNotFound)"
proof -
  note f = linked_list.find_next_all [OF assms(4) disjI1 [OF refl], unfolded One_nat_def]
  show ?thesis
    using assms(1-3) by (auto simp: sk_Delete_def sk_Read_def sk_findByName_def io_simps f split: option.splits)
qed

theorem spaces_key_delete_and_find_witness:
  "sk_Delete \<lparr>skd_client = mem_keys_api\<rparr> \<lparr>ref_Name = ''backup'', ref_Type = [], ref_ProviderID = ''AK''\<rparr> [ex_key] = Some (Ok (), [])"
proof -
  have l: "linked_list (SK_List (skd_client \<lparr>skd_client = mem_keys_api\<rparr>)) (\<lambda>w. nonempty_pages (map (\<lambda>k. [Some k]) w))"
    using static_links.linked_list_axioms by (simp add: mem_keys_api_def)
  show ?thesis
    using spaces_key_delete_and_find [OF _ _ _ l, of "\<lparr>ref_Name = ''backup'', ref_Type = [], ref_ProviderID = ''AK''\<rparr>"
        "[ex_key]" "Some 204" None "[]" "GodoError (Some 404) ''not found''"]
    by (simp add: mem_keys_api_def ex_key_def)
qed

end
