(* ===== verification/DropletPricing.thy ===== *)
theory DropletPricing
  imports ConfigUtil Errors
begin

text \<open>
  The price cap of droplets (\<^verbatim>\<open>internal/drivers/droplet_pricing.go\<close>): a spec with
  \<^verbatim>\<open>max_monthly_usd\<close> needs a quote from the live catalogue of sizes. A float is identified with the
  decimal \<^verbatim>\<open>strconv.FormatFloat\<close> prints for it, which is what the code compares exactly. The link
  to the next page is given as \<^verbatim>\<open>url.Parse\<close> and \<^verbatim>\<open>strconv.Atoi\<close> read it.
\<close>

datatype next_link = NoNext | BadURL | NextPage "int option"

record droplet_size =
  ds_Slug :: string
  ds_Available :: bool
  ds_Regions :: "string list"
  ds_PriceMonthly :: f64

record sizes_response =
  sr_Next :: next_link
  sr_Total :: "int option"

record 'w sizes_client =
  Sizes_List :: "nat \<Rightarrow> ('w, droplet_size list \<times> sizes_response option) io"

record price_quote =
  q_SizeSlug :: string
  q_Region :: string
  q_MonthlyUSD :: f64
  q_MaxMonthlyUSD :: f64
  q_CheckedAt :: string

definition dropletPricingInvalid :: "string \<Rightarrow> go_error" where
  "dropletPricingInvalid msg = Wrapf ''droplet pricing: %s: %w'' [FStr msg] (Sentinel ErrValidation)"

definition dropletPricingAPIError :: "go_error \<Rightarrow> go_error" where
  "dropletPricingAPIError cause =
     (case (case errors_as_godo cause of Some (Some status, _) \<Rightarrow> sentinelForStatus status | _ \<Rightarrow> None) of
        Some s \<Rightarrow> Wraps ''droplet pricing lookup: %v'' [FErr (Sentinel s)] (Sentinel s) cause
      | None \<Rightarrow> Wrapf ''droplet pricing lookup failed'' [] cause)"

definition validPriceSlug :: "string \<Rightarrow> bool" where
  "validPriceSlug slug = (slug \<noteq> [] \<and> list_all (\<lambda>ch. let n = (of_char ch :: nat) in
     n = 45 \<or> (97 \<le> n \<and> n \<le> 122) \<or> (48 \<le> n \<and> n \<le> 57)) slug)"

text \<open>The cap as an exact number; it must be positive and finite.\<close>

definition dropletMonthlyCap :: "gval \<Rightarrow> rat res" where
  "dropletMonthlyCap value =
     (let invalid = Err (dropletPricingInvalid ''max_monthly_usd must be a positive finite number'')
      in case value of
           GInt n \<Rightarrow> if n \<le> 0 then invalid else Ok (of_int n)
         | GInt64 n \<Rightarrow> if n \<le> 0 then invalid else Ok (of_int n)
         | GFloat (Fin q) \<Rightarrow> if q \<le> 0 then invalid else Ok q
         | _ \<Rightarrow> invalid)"

definition matching :: "string \<Rightarrow> droplet_size list \<Rightarrow> droplet_size list" where
  "matching slug sizes = filter (\<lambda>z. ds_Slug z = slug) sizes"

text \<open>
  The loop over the pages: \<open>selected\<close> is the size found so far, \<open>rows\<close> the number of entries seen.
  A second entry with the slug, a broken or cyclic link and a page count of 100 end it.
\<close>

function quote_pages :: "('w \<Rightarrow> go_error option) \<Rightarrow> 'w sizes_client \<Rightarrow> string \<Rightarrow> nat \<Rightarrow> droplet_size option \<Rightarrow> int
    \<Rightarrow> ('w, droplet_size option) io" where
  "quote_pages ctx_err client slug page selected rows =
     io_bind (io_ask ctx_err) (\<lambda>cancelled.
     if cancelled \<noteq> None then io_err (dropletPricingAPIError (the cancelled))
     else
     io_bind (io_wrap dropletPricingAPIError (Sizes_List client page)) (\<lambda>(sizes, response).
     let rows = rows + int (length sizes);
         found = (case selected of None \<Rightarrow> [] | Some z \<Rightarrow> [z]) @ matching slug sizes
     in if length found > 1 then io_err (dropletPricingInvalid ''live Sizes catalog contains an ambiguous size slug'')
        else
        let selected = (case found of [] \<Rightarrow> None | z # _ \<Rightarrow> Some z);
            next = (case response of None \<Rightarrow> NoNext | Some r \<Rightarrow> sr_Next r)
        in case next of
             NoNext \<Rightarrow>
               if (case response of None \<Rightarrow> False
                   | Some r \<Rightarrow> (case sr_Total r of None \<Rightarrow> False | Some t \<Rightarrow> t \<noteq> rows))
               then io_err (dropletPricingInvalid ''live Sizes catalog is incomplete'')
               else io_ok selected
           | BadURL \<Rightarrow> io_err (dropletPricingInvalid ''live Sizes pagination is malformed'')
           | NextPage n \<Rightarrow>
               if n \<noteq> Some (int page + 1) \<or> page \<ge> 100
               then io_err (dropletPricingInvalid ''live Sizes pagination is incomplete or cyclic'')
               else quote_pages ctx_err client slug (Suc page) selected rows))"
  by pat_completeness auto

termination quote_pages
  by (relation "measure (\<lambda>(_, _, _, page, _, _). 101 - page)") auto

declare quote_pages.simps [simp del]

definition check_selected :: "string \<Rightarrow> string \<Rightarrow> rat \<Rightarrow> string \<Rightarrow> droplet_size option \<Rightarrow> price_quote res" where
  "check_selected slug region capExact now selected =
     (case selected of
        None \<Rightarrow> Err (dropletPricingInvalid ''selected size is absent from the live Sizes catalog'')
      | Some z \<Rightarrow>
        if \<not> ds_Available z \<or> \<not> List.member (ds_Regions z) region
        then Err (dropletPricingInvalid ''selected size is not available in the selected region'')
        else case ds_PriceMonthly z of
          Fin monthly \<Rightarrow>
            if monthly \<le> 0 then Err (dropletPricingInvalid ''selected size has an invalid monthly USD price'')
            else if monthly > capExact then Err (dropletPricingInvalid ''selected size exceeds max_monthly_usd'')
            else Ok \<lparr>q_SizeSlug = slug, q_Region = region, q_MonthlyUSD = Fin monthly,
                     q_MaxMonthlyUSD = Fin capExact, q_CheckedAt = now\<rparr>
        | _ \<Rightarrow> Err (dropletPricingInvalid ''selected size has an invalid monthly USD price''))"

text \<open>
  \<open>QuoteDropletPrice\<close>: no cap, no call. The context is replaced by one with a time limit, so
  \<open>ctx_err\<close> also covers the limit.
\<close>

definition QuoteDropletPrice :: "('w \<Rightarrow> go_error option) \<Rightarrow> string \<Rightarrow> 'w sizes_client option \<Rightarrow> resource_spec
    \<Rightarrow> ('w, price_quote option) io" where
  "QuoteDropletPrice ctx_err now client spec =
     (case map_of (spec_Config spec) ''max_monthly_usd'' of
        None \<Rightarrow> io_ok None
      | Some value \<Rightarrow>
        io_bind (io_res (dropletMonthlyCap value)) (\<lambda>capExact.
        case as_str (map_of (spec_Config spec) ''size'') of
          None \<Rightarrow> io_err (dropletPricingInvalid ''capped droplet requires an explicit size slug'')
        | Some slug \<Rightarrow>
          if \<not> validPriceSlug slug
          then io_err (dropletPricingInvalid ''capped droplet requires an explicit size slug'')
          else case as_str (map_of (spec_Config spec) ''region'') of
            None \<Rightarrow> io_err (dropletPricingInvalid ''capped droplet requires an explicit region slug'')
          | Some region \<Rightarrow>
            if \<not> validPriceSlug region
            then io_err (dropletPricingInvalid ''capped droplet requires an explicit region slug'')
            else case client of
              None \<Rightarrow> io_err (dropletPricingInvalid ''live Sizes client is required for capped droplets'')
            | Some c \<Rightarrow>
                io_bind (quote_pages ctx_err c slug 1 None 0) (\<lambda>selected.
                io_bind (io_res (check_selected slug region capExact now selected)) (\<lambda>q.
                io_ok (Some q)))))"

section \<open>The catalogue\<close>

text \<open>
  The documented behaviour of the Sizes API: the catalogue comes in at most 100 pages, each but the
  last links to the next one, and the total, when given, counts all entries.
\<close>

definition sizes_catalogue :: "'w sizes_client \<Rightarrow> 'w \<Rightarrow> droplet_size list list \<Rightarrow> bool" where
  "sizes_catalogue client w pages =
     (pages \<noteq> [] \<and> length pages \<le> 100 \<and>
      (\<forall>i < length pages. \<exists>r. Sizes_List client (Suc i) w = Some (Ok (pages ! i, r), w)
        \<and> (case r of
             None \<Rightarrow> Suc i = length pages
           | Some x \<Rightarrow> sr_Next x = (if Suc i < length pages then NextPage (Some (int i + 2)) else NoNext)
               \<and> (sr_Total x = None \<or> sr_Total x = Some (int (length (concat pages)))))))"

lemma matching_append: "matching slug (xs @ ys) = matching slug xs @ matching slug ys"
  by (simp add: matching_def)

definition opt_list :: "'a option \<Rightarrow> 'a list" where
  "opt_list x = (case x of None \<Rightarrow> [] | Some z \<Rightarrow> [z])"

definition only_match :: "droplet_size list \<Rightarrow> droplet_size option res" where
  "only_match zs = (if length zs > 1 then Err (dropletPricingInvalid ''live Sizes catalog contains an ambiguous size slug'')
     else Ok (case zs of [] \<Rightarrow> None | z # _ \<Rightarrow> Some z))"

lemma quote_pages_from:
  assumes cat: "sizes_catalogue client w pages" and live: "ctx_err w = None"
  shows "i < length pages \<Longrightarrow> matching slug (concat (take i pages)) = opt_list sel
    \<Longrightarrow> quote_pages ctx_err client slug (Suc i) sel (int (length (concat (take i pages)))) w
        = Some (only_match (matching slug (concat pages)), w)"
proof (induction "length pages - i" arbitrary: i sel)
  case 0
  then show ?case by simp
next
  case (Suc n)
  obtain r where r: "Sizes_List client (Suc i) w = Some (Ok (pages ! i, r), w)"
    "case r of None \<Rightarrow> Suc i = length pages
     | Some x \<Rightarrow> sr_Next x = (if Suc i < length pages then NextPage (Some (int i + 2)) else NoNext)
         \<and> (sr_Total x = None \<or> sr_Total x = Some (int (length (concat pages))))"
    using cat Suc.prems(1) unfolding sizes_catalogue_def by blast
  have t: "take (Suc i) pages = take i pages @ [pages ! i]"
    using Suc.prems(1) by (simp add: take_Suc_conv_app_nth)
  define found where "found = opt_list sel @ matching slug (pages ! i)"
  have f: "matching slug (concat (take (Suc i) pages)) = found"
    using Suc.prems(2) by (simp add: t matching_append found_def)
  have all: "matching slug (concat pages) = found @ matching slug (concat (drop (Suc i) pages))"
    using f by (metis append_take_drop_id concat_append matching_append)
  have rows: "int (length (concat (take i pages))) + int (length (pages ! i)) = int (length (concat (take (Suc i) pages)))"
    by (simp add: t)
  note q = quote_pages.simps [of ctx_err client slug "Suc i" sel "int (length (concat (take i pages)))"]
  have step: "quote_pages ctx_err client slug (Suc i) sel (int (length (concat (take i pages)))) w =
     (if length found > 1 then Some (Err (dropletPricingInvalid ''live Sizes catalog contains an ambiguous size slug''), w)
      else if Suc i = length pages then Some (Ok (case found of [] \<Rightarrow> None | z # _ \<Rightarrow> Some z), w)
      else quote_pages ctx_err client slug (Suc (Suc i)) (case found of [] \<Rightarrow> None | z # _ \<Rightarrow> Some z)
             (int (length (concat (take (Suc i) pages)))) w)"
  proof (cases "length found > 1")
    case True
    then show ?thesis
      using r(1) live unfolding q by (simp add: io_simps found_def opt_list_def Let_def)
  next
    case False
    have le: "Suc i \<le> 100" "Suc i \<noteq> length pages \<longrightarrow> Suc i < 100"
      using cat Suc.prems(1) by (auto simp: sizes_catalogue_def)
    show ?thesis
    proof (cases r)
      case None
      then show ?thesis
        using r live False unfolding q by (simp add: io_simps found_def opt_list_def Let_def)
    next
      case (Some x)
      show ?thesis
      proof (cases "Suc i = length pages")
        case True
        then have "concat (take (Suc i) pages) = concat pages" by simp
        then show ?thesis
          using r Some live False True rows
          unfolding q by (auto simp: io_simps found_def opt_list_def Let_def)
      next
        case neq: False
        then have "Suc i < length pages" using Suc.prems(1) by simp
        then show ?thesis
          using r Some live False neq rows le
          unfolding q by (simp add: io_simps found_def opt_list_def Let_def)
      qed
    qed
  qed
  show ?case
  proof (cases "length found > 1")
    case True
    then show ?thesis using step all by (simp add: only_match_def)
  next
    case False
    show ?thesis
    proof (cases "Suc i = length pages")
      case True
      then show ?thesis using step all False by (simp add: only_match_def matching_def)
    next
      case neq: False
      then have lt: "Suc i < length pages" and n: "n = length pages - Suc i"
        using Suc.prems(1) Suc.hyps(2) by auto
      have "found = opt_list (case found of [] \<Rightarrow> None | z # _ \<Rightarrow> Some z)"
        using False by (cases found) (auto simp: opt_list_def)
      then show ?thesis
        using Suc.hyps(1) [OF n lt] f step False neq by simp
    qed
  qed
qed

text \<open>
  C32: a quote is given exactly when it should be. For a capped droplet with a size and region, over
  a catalogue of at most 100 pages, \<^verbatim>\<open>QuoteDropletPrice\<close> always returns, and it returns a quote if
  and only if the whole catalogue has exactly one entry for the size, it is available in the
  region, and its price is a positive finite number not above the cap, compared exactly; the quote
  carries that price. In every other case it returns an error that is \<^verbatim>\<open>ErrValidation\<close>.
\<close>

theorem droplet_quote_exact:
  assumes "map_of (spec_Config spec) ''max_monthly_usd'' = Some v" and "dropletMonthlyCap v = Ok cap"
    and "as_str (map_of (spec_Config spec) ''size'') = Some slug" and "validPriceSlug slug"
    and "as_str (map_of (spec_Config spec) ''region'') = Some region" and "validPriceSlug region"
    and "sizes_catalogue c w pages" and "ctx_err w = None"
  shows "(if (case matching slug (concat pages) of
           [z] \<Rightarrow> ds_Available z \<and> region \<in> set (ds_Regions z)
             \<and> (case ds_PriceMonthly z of Fin m \<Rightarrow> 0 < m \<and> m \<le> cap | _ \<Rightarrow> False)
         | _ \<Rightarrow> False)
      then QuoteDropletPrice ctx_err now (Some c) spec w =
        Some (Ok (Some \<lparr>q_SizeSlug = slug, q_Region = region,
            q_MonthlyUSD = ds_PriceMonthly (hd (matching slug (concat pages))),
            q_MaxMonthlyUSD = Fin cap, q_CheckedAt = now\<rparr>), w)
      else \<exists>e. QuoteDropletPrice ctx_err now (Some c) spec w = Some (Err e, w) \<and> errors_is e ErrValidation)"
proof -
  have ne: "0 < length pages" using assms(7) by (simp add: sizes_catalogue_def)
  have "matching slug (concat (take 0 pages)) = opt_list None"
    by (simp add: matching_def opt_list_def)
  from quote_pages_from [where ctx_err = ctx_err, OF assms(7,8) ne this]
  have q: "quote_pages ctx_err c slug 1 None 0 w = Some (only_match (matching slug (concat pages)), w)"
    by simp
  have val: "errors_is (dropletPricingInvalid m) ErrValidation" for m
    by (simp add: dropletPricingInvalid_def)
  have *: "QuoteDropletPrice ctx_err now (Some c) spec w =
     Some (res_bind (only_match (matching slug (concat pages))) (\<lambda>sel.
             res_bind (check_selected slug region cap now sel) (\<lambda>q. Ok (Some q))), w)"
    using assms(1-6) q by (simp add: QuoteDropletPrice_def io_simps split: res.splits)
  show ?thesis
  proof (cases "matching slug (concat pages)")
    case Nil
    then show ?thesis using * val by (simp add: only_match_def check_selected_def)
  next
    case (Cons z zs)
    show ?thesis
    proof (cases zs)
      case Nil
      with Cons show ?thesis
        using * val
        by (cases "ds_PriceMonthly z") (auto simp: only_match_def check_selected_def)
    next
      case (Cons z2 zs2)
      with \<open>matching slug (concat pages) = z # zs\<close> show ?thesis
        using * val by (simp add: only_match_def)
    qed
  qed
qed

definition ex_size :: "string \<Rightarrow> rat \<Rightarrow> droplet_size" where
  "ex_size slug price = \<lparr>ds_Slug = slug, ds_Available = True, ds_Regions = [''nyc3''], ds_PriceMonthly = Fin price\<rparr>"

definition ex_sizes_client :: "unit sizes_client" where
  "ex_sizes_client = \<lparr>Sizes_List = (\<lambda>page w.
     if page = 1 then Some (Ok ([ex_size ''s-1'' 4], Some \<lparr>sr_Next = NextPage (Some 2), sr_Total = Some 2\<rparr>), w)
     else Some (Ok ([ex_size ''s-2'' 6], Some \<lparr>sr_Next = NoNext, sr_Total = Some 2\<rparr>), w))\<rparr>"

definition ex_capped_spec :: resource_spec where
  "ex_capped_spec = \<lparr>spec_Name = ''web'', spec_Type = ''infra.droplet'',
     spec_Config = [(''max_monthly_usd'', GInt 6), (''size'', GStr ''s-2''), (''region'', GStr ''nyc3'')]\<rparr>"

theorem droplet_quote_exact_witness:
  "QuoteDropletPrice (\<lambda>_. None) ''t'' (Some ex_sizes_client) ex_capped_spec () =
     Some (Ok (Some \<lparr>q_SizeSlug = ''s-2'', q_Region = ''nyc3'', q_MonthlyUSD = Fin 6,
       q_MaxMonthlyUSD = Fin 6, q_CheckedAt = ''t''\<rparr>), ())"
proof -
  have cat: "sizes_catalogue ex_sizes_client () [[ex_size ''s-1'' 4], [ex_size ''s-2'' 6]]"
    by (auto simp: sizes_catalogue_def ex_sizes_client_def less_Suc_eq)
  have v: "validPriceSlug ''s-2''" "validPriceSlug ''nyc3''" by code_simp+
  show ?thesis
    using droplet_quote_exact [where v = "GInt 6" and cap = 6 and ctx_err = "\<lambda>_. None" and spec = ex_capped_spec
        and now = "''t''", OF _ _ _ v(1) _ v(2) cat]
    by (simp add: ex_capped_spec_def dropletMonthlyCap_def matching_def ex_size_def)
qed

end
