(* ===== verification/Regions.thy ===== *)
theory Regions
  imports Resource
begin

text \<open>
  The tables of the plugin: App Platform regions and the zones they cover
  (\<^verbatim>\<open>internal/drivers/app_platform_region.go\<close> and the tables of
  \<^verbatim>\<open>internal/validate_plan.go\<close>), and the sizes of each resource type
  (\<^verbatim>\<open>internal/sizing.go\<close>).
\<close>

section \<open>App Platform regions of the drivers\<close>

definition validAppPlatformRegions :: "string list" where
  "validAppPlatformRegions =
     [''ams'', ''blr'', ''fra'', ''lon'', ''nyc'', ''sfo'', ''sgp'', ''syd'', ''tor'', ''tlv'']"

definition appPlatformRegionGroupsByZone :: "(string \<times> string) list" where
  "appPlatformRegionGroupsByZone =
     [(''ams2'', ''ams''), (''ams3'', ''ams''), (''blr1'', ''blr''), (''fra1'', ''fra''), (''lon1'', ''lon''),
      (''nyc1'', ''nyc''), (''nyc2'', ''nyc''), (''nyc3'', ''nyc''), (''sfo1'', ''sfo''), (''sfo2'', ''sfo''),
      (''sfo3'', ''sfo''), (''sgp1'', ''sgp''), (''syd1'', ''syd''), (''tor1'', ''tor'')]"

definition sortedAppPlatformRegions :: "string list" where
  "sortedAppPlatformRegions =
     [''ams'', ''blr'', ''fra'', ''lon'', ''nyc'', ''sfo'', ''sgp'', ''syd'', ''tlv'', ''tor'']"

definition validateAppPlatformRegion :: "string \<Rightarrow> unit res" where
  "validateAppPlatformRegion region0 =
     (let region = trim_space region0
      in if region = [] then Ok ()
         else if List.member validAppPlatformRegions (to_lower region) then Ok ()
         else Err (Errorf (''invalid App Platform region %q: must be one of %s ''
                @ ''(datacenter slugs like 'nyc1'/'nyc3'/'sfo3' are NOT valid for App Platform ''
                @ [CHR 0xE2, CHR 0x80, CHR 0x94] @ '' those are Droplet/VPC slugs)'')
              [FStr region, FStr (str_join '' '' sortedAppPlatformRegions)]))"

definition normalizeAppPlatformRegionForDiff :: "string \<Rightarrow> string" where
  "normalizeAppPlatformRegionForDiff region0 =
     (let region = to_lower (trim_space region0)
      in if region = [] then []
         else if List.member validAppPlatformRegions region then region
         else case map_of appPlatformRegionGroupsByZone region of
           Some grp \<Rightarrow> grp
         | None \<Rightarrow> region)"

section \<open>Regions and zones of the plan check\<close>

definition appPlatformGroupZones :: "(string \<times> string list) list" where
  "appPlatformGroupZones =
     [(''nyc'', [''nyc1'', ''nyc3'']), (''ams'', [''ams3'']), (''fra'', [''fra1'']), (''sfo'', [''sfo2'', ''sfo3'']),
      (''sgp'', [''sgp1'']), (''syd'', [''syd1'']), (''tor'', [''tor1'']), (''blr'', [''blr1'']), (''lon'', [''lon1''])]"

text \<open>The inverse table; two zones that route to no grp are added last.\<close>

definition zoneToGroup :: "(string \<times> string) list" where
  "zoneToGroup = [(''nyc2'', []), (''ams2'', [])]
     @ concat (map (\<lambda>(grp, zones). map (\<lambda>z. (z, grp)) zones) appPlatformGroupZones)"

definition isAppPlatformRegionGroup :: "string \<Rightarrow> bool" where
  "isAppPlatformRegionGroup s = (map_of appPlatformGroupZones s \<noteq> None)"

definition isZoneSlug :: "string \<Rightarrow> bool" where
  "isZoneSlug s = (map_of zoneToGroup s \<noteq> None)"

definition appPlatformRegionGroupOf :: "string \<Rightarrow> string" where
  "appPlatformRegionGroupOf zone = (case map_of zoneToGroup zone of Some g \<Rightarrow> g | None \<Rightarrow> [])"

text \<open>The zones of each grp are listed in order already, so sorting them changes nothing.\<close>

definition zonesInGroup :: "string \<Rightarrow> string list" where
  "zonesInGroup grp = (case map_of appPlatformGroupZones grp of Some zs \<Rightarrow> zs | None \<Rightarrow> [])"

definition classifyRegion :: "string \<Rightarrow> string" where
  "classifyRegion s =
     (if isAppPlatformRegionGroup s then ''a region GROUP (zones: '' @ str_join '', '' (zonesInGroup s) @ '')''
      else if isZoneSlug s then
        (let grp = appPlatformRegionGroupOf s
         in if grp = [] then ''a zone slug not in any App Platform region group''
            else ''a zone slug in group \"'' @ grp @ ''\"'')
      else ''not a recognized DO region slug'')"

section \<open>Sizes\<close>

datatype size_tier = SizeXS | SizeS | SizeM | SizeL | SizeXL | OtherSize string

definition tiers :: "string \<Rightarrow> string \<Rightarrow> string \<Rightarrow> string \<Rightarrow> string \<Rightarrow> (size_tier \<times> string) list" where
  "tiers xs s m l xl = [(SizeXS, xs), (SizeS, s), (SizeM, m), (SizeL, l), (SizeXL, xl)]"

definition noopSizing :: "(size_tier \<times> string) list" where
  "noopSizing = tiers ''n/a'' ''n/a'' ''n/a'' ''n/a'' ''n/a''"

definition doSizingMap :: "(string \<times> (size_tier \<times> string) list) list" where
  "doSizingMap =
     [(''infra.container_service'', tiers ''apps-s-1vcpu-0.5gb'' ''apps-s-1vcpu-1gb'' ''apps-s-2vcpu-4gb'' ''apps-s-4vcpu-8gb'' ''apps-s-8vcpu-16gb''),
      (''infra.k8s_cluster'', tiers ''s-1vcpu-512mb'' ''s-1vcpu-2gb'' ''s-2vcpu-4gb'' ''s-4vcpu-8gb'' ''s-8vcpu-16gb''),
      (''infra.database'', tiers ''db-s-1vcpu-1gb'' ''db-s-1vcpu-2gb'' ''db-s-2vcpu-4gb'' ''db-s-4vcpu-8gb'' ''db-s-8vcpu-16gb''),
      (''infra.cache'', tiers ''db-s-1vcpu-1gb'' ''db-s-1vcpu-2gb'' ''db-s-2vcpu-4gb'' ''db-s-4vcpu-8gb'' ''db-s-8vcpu-16gb''),
      (''infra.load_balancer'', tiers ''lb-small'' ''lb-small'' ''lb-medium'' ''lb-large'' ''lb-large''),
      (''infra.droplet'', tiers ''s-1vcpu-512mb'' ''s-1vcpu-2gb'' ''s-2vcpu-4gb'' ''s-4vcpu-8gb'' ''s-8vcpu-16gb''),
      (''infra.api_gateway'', tiers ''apps-s-1vcpu-0.5gb'' ''apps-s-1vcpu-1gb'' ''apps-s-2vcpu-4gb'' ''apps-s-4vcpu-8gb'' ''apps-s-8vcpu-16gb''),
      (''infra.vpc'', noopSizing), (''infra.app_domain'', noopSizing), (''infra.firewall'', noopSizing),
      (''infra.dns'', noopSizing), (''infra.storage'', noopSizing), (''infra.registry'', noopSizing),
      (''infra.certificate'', noopSizing), (''infra.iam_role'', noopSizing), (''infra.volume'', noopSizing)]"

definition resolveSizing :: "string \<Rightarrow> size_tier \<Rightarrow> string res" where
  "resolveSizing resourceType tier =
     (case map_of doSizingMap resourceType of
        None \<Rightarrow> Err (Errorf ''digitalocean: no sizing entry for resource type %q'' [FStr resourceType])
      | Some sizeMap \<Rightarrow>
        (case map_of sizeMap tier of
           None \<Rightarrow> Err (Errorf ''digitalocean: no SKU for resource type %q size %q''
                    [FStr resourceType, FStr (case tier of OtherSize s \<Rightarrow> s | _ \<Rightarrow> [])])
         | Some sku \<Rightarrow> Ok sku))"

section \<open>Properties\<close>

lemma table_checks:
  "list_all (\<lambda>r. normalizeAppPlatformRegionForDiff r = r) validAppPlatformRegions"
  "list_all (\<lambda>(z, g). List.member validAppPlatformRegions g) appPlatformRegionGroupsByZone"
  "list_all (\<lambda>(t, m). map fst m = [SizeXS, SizeS, SizeM, SizeL, SizeXL]) doSizingMap"
  by code_simp+

lemma trim_lower_table: "r \<in> set validAppPlatformRegions \<Longrightarrow> normalizeAppPlatformRegionForDiff r = r"
  using table_checks(1) by (simp add: list_all_iff)

lemma zone_table_values: "map_of appPlatformRegionGroupsByZone z = Some g \<Longrightarrow> g \<in> set validAppPlatformRegions"
  using table_checks(2) map_of_SomeD by (fastforce simp: list_all_iff)

lemma lower_is_space [simp]: "is_space (lower_char c) = is_space c"
proof (cases "65 \<le> (of_char c :: nat) \<and> (of_char c :: nat) \<le> 90")
  case True
  then have "(of_char (char_of ((of_char c :: nat) + 32)) :: nat) = of_char c + 32"
    by simp
  with True show ?thesis
    by (auto simp: lower_char_def is_space_def Let_def)
next
  case False
  then have "lower_char c = c"
    by (auto simp: lower_char_def Let_def)
  then show ?thesis by simp
qed

lemma trim_left_to_lower: "trim_left (to_lower s) = to_lower (trim_left s)"
  by (simp add: trim_left_def to_lower_def dropWhile_map comp_def)

lemma trim_space_to_lower: "trim_space (to_lower s) = to_lower (trim_space s)"
  by (simp add: trim_space_def trim_left_to_lower)
    (simp add: trim_left_to_lower rev_map to_lower_def trim_left_def dropWhile_map comp_def)

text \<open>
  Normalising a region is idempotent, whatever the case and surrounding space of the input, and
  agrees with the table of the plan check: a zone that the plan check routes to a grp normalises to
  that grp, and every grp of the plan check is accepted by the driver. The tables are not the same,
  though: the driver accepts \<^verbatim>\<open>tlv\<close>, which the plan check does not know as a grp, and it
  maps \<^verbatim>\<open>sfo1\<close>, \<^verbatim>\<open>nyc2\<close> and \<^verbatim>\<open>ams2\<close> to groups.
\<close>

theorem region_tables:
  "normalizeAppPlatformRegionForDiff (normalizeAppPlatformRegionForDiff s) = normalizeAppPlatformRegionForDiff s
   \<and> list_all (\<lambda>(z, g). g = [] \<or> normalizeAppPlatformRegionForDiff z = g) zoneToGroup
   \<and> list_all (\<lambda>(g, zs). validateAppPlatformRegion g = Ok ()) appPlatformGroupZones
   \<and> validateAppPlatformRegion ''tlv'' = Ok () \<and> \<not> isAppPlatformRegionGroup ''tlv''
   \<and> normalizeAppPlatformRegionForDiff ''sfo1'' = ''sfo'' \<and> \<not> isZoneSlug ''sfo1''
   \<and> normalizeAppPlatformRegionForDiff ''nyc2'' = ''nyc'' \<and> appPlatformRegionGroupOf ''nyc2'' = []"
proof (intro conjI)
  obtain r where r: "to_lower (trim_space s) = r" by simp
  then have stable: "to_lower (trim_space r) = r"
    by (auto simp: trim_space_to_lower)
  have n: "normalizeAppPlatformRegionForDiff s = (if r = [] then [] else if r \<in> set validAppPlatformRegions then r
      else case map_of appPlatformRegionGroupsByZone r of Some grp \<Rightarrow> grp | None \<Rightarrow> r)"
    by (simp add: normalizeAppPlatformRegionForDiff_def r Let_def)
  show "normalizeAppPlatformRegionForDiff (normalizeAppPlatformRegionForDiff s) = normalizeAppPlatformRegionForDiff s"
  proof (cases "map_of appPlatformRegionGroupsByZone r")
    case None
    then show ?thesis
      using n trim_lower_table stable by (auto simp: normalizeAppPlatformRegionForDiff_def r Let_def)
  next
    case (Some g)
    then show ?thesis
      using n trim_lower_table [of g] trim_lower_table [of r] zone_table_values [OF Some]
      by (auto simp: normalizeAppPlatformRegionForDiff_def [of "[]"])
  qed
qed code_simp+

text \<open>
  Every resource type of the table has a size for each of the five tiers, and the resolver
  fails exactly for types outside the table and for other tiers.
\<close>

theorem sizing_total:
  "(\<exists>sku. resolveSizing t tier = Ok sku) \<longleftrightarrow>
     t \<in> set (map fst doSizingMap) \<and> tier \<in> {SizeXS, SizeS, SizeM, SizeL, SizeXL}"
proof -
  show ?thesis
  proof (cases "map_of doSizingMap t")
    case None
    then have "t \<notin> fst ` set doSizingMap" by (rule map_of_eq_None_iff [THEN iffD1])
    moreover have "resolveSizing t tier \<noteq> Ok sku" for sku
      using None by (simp add: resolveSizing_def)
    ultimately show ?thesis by auto
  next
    case (Some m)
    then have "(t, m) \<in> set doSizingMap" by (rule map_of_SomeD)
    then have m: "map fst m = [SizeXS, SizeS, SizeM, SizeL, SizeXL]" "t \<in> set (map fst doSizingMap)"
      using table_checks(3) by (auto simp: list_all_iff intro: rev_image_eqI)
    have "map_of m tier = None \<longleftrightarrow> tier \<notin> set (map fst m)" by (simp add: map_of_eq_None_iff)
    then show ?thesis
      using Some m by (auto simp: resolveSizing_def split: option.splits)
  qed
qed

end
