(* ===== verification/PlanValidation.thy ===== *)
theory PlanValidation
  imports Regions DropletPricing
begin

text \<open>
  The read-only check of a plan before it is applied (\<^verbatim>\<open>internal/validate_plan.go\<close>): regions of
  each resource, references to VPCs across resources, and prices of capped droplets.
\<close>

section \<open>Data\<close>

datatype severity = DiagError | DiagWarning | DiagInfo

record diagnostic =
  diag_Severity :: severity
  diag_Resource :: string
  diag_Field :: string
  diag_Message :: message



section \<open>References\<close>






section \<open>Checks\<close>












section \<open>Facts\<close>








definition no_errors :: "diagnostic list \<Rightarrow> bool" where
  "no_errors ds = list_all (\<lambda>d. diag_Severity d \<noteq> DiagError) ds"


lemma no_errors_append [simp]: "no_errors (a @ b) = (no_errors a \<and> no_errors b)"
  by (simp add: no_errors_def)




end
