(* ===== verification/DnsTypes.thy ===== *)
theory DnsTypes
  imports ConfigUtil Errors
begin

text \<open>
  The domain objects of package \<^verbatim>\<open>godo\<close> and the client of the domains service
  (\<^verbatim>\<open>DomainsClient\<close> in \<^verbatim>\<open>internal/drivers/dns.go\<close>).
\<close>

record domain_entry =
  dom_Name :: string
  dom_TTL :: int
  dom_ZoneFile :: string

record domain_record =
  dr_ID :: int
  dr_Type :: string
  dr_Name :: string
  dr_Data :: string
  dr_Priority :: int
  dr_Port :: int
  dr_TTL :: int
  dr_Weight :: int
  dr_Flags :: int
  dr_Tag :: string

text \<open>\<^verbatim>\<open>godo.DomainRecordEditRequest\<close>\<close>

record edit_request =
  er_Type :: string
  er_Name :: string
  er_Data :: string
  er_Priority :: int
  er_Port :: int
  er_TTL :: int
  er_Weight :: int
  er_Flags :: int
  er_Tag :: string

record 'w domains_client =
  Domains_Create :: "string \<Rightarrow> ('w, domain_entry option) io"
  Domains_Get :: "string \<Rightarrow> ('w, domain_entry option) io"
  Domains_Delete :: "string \<Rightarrow> ('w, unit) io"
  Domains_CreateRecord :: "string \<Rightarrow> edit_request \<Rightarrow> ('w, domain_record option) io"
  Domains_EditRecord :: "string \<Rightarrow> int \<Rightarrow> edit_request \<Rightarrow> ('w, domain_record option) io"
  Domains_DeleteRecord :: "string \<Rightarrow> int \<Rightarrow> ('w, unit) io"
  Domains_Records :: "string \<Rightarrow> ('w, domain_record) lister"

text \<open>The record a request makes.\<close>

definition record_of :: "int \<Rightarrow> edit_request \<Rightarrow> domain_record" where
  "record_of i req = \<lparr>dr_ID = i, dr_Type = er_Type req, dr_Name = er_Name req, dr_Data = er_Data req, dr_Priority = er_Priority req,
     dr_Port = er_Port req, dr_TTL = er_TTL req, dr_Weight = er_Weight req, dr_Flags = er_Flags req, dr_Tag = er_Tag req\<rparr>"

end
