(* ===== verification/Provider.thy ===== *)
theory Provider
  imports NextPages SpacesKey Volume Regions DropletPricing DnsTypes
begin

text \<open>
  The provider (\<^verbatim>\<open>internal/provider.go\<close>): dispatch to the drivers by resource type, destroying,
  status and drift of a list of resources, and the listings by tag and by type. A driver is a record
  of its operations; the API services the provider itself calls are a record of calls.
\<close>

section \<open>Data\<close>

record 'w resource_driver =
  rd_Read :: "resource_ref \<Rightarrow> ('w, resource_output option) io"
  rd_Delete :: "resource_ref \<Rightarrow> ('w, unit) io"
  rd_Diff :: "resource_spec \<Rightarrow> resource_output option \<Rightarrow> ('w, diff_result option) io"

record droplet_entry =
  de_ID :: int
  de_Name :: string

record database_entry =
  dbe_ID :: string
  dbe_Name :: string
  dbe_EngineSlug :: string
  dbe_Tags :: "string list"

datatype resource_kind = DropletKind | VolumeKind | DatabaseKind

record 'w do_client =
  Tags_Get :: "string \<Rightarrow> ('w, unit) io"
  Tags_Create :: "string \<Rightarrow> ('w, unit) io"
  Tags_List :: "('w, string) lister"
  TagResources :: "string \<Rightarrow> string \<times> resource_kind \<Rightarrow> ('w, unit) io"
  UntagResources :: "string \<Rightarrow> string \<times> resource_kind \<Rightarrow> ('w, unit) io"
  Droplets_ListByTag :: "string \<Rightarrow> ('w, droplet_entry) lister"
  ListVolumes :: "('w, volume) lister"
  Databases_List :: "('w, database_entry) lister"
  Domains_List :: "('w, domain_entry) lister"
  SpacesKeys :: "'w spaces_keys_api"

record 'w do_provider =
  prov_client :: "'w do_client option"
  prov_drivers :: "string \<Rightarrow> 'w resource_driver option"

text \<open>\<open>quoted\<close> is the verb \<^verbatim>\<open>%q\<close> on the resource types, which need no escape.\<close>

definition quoted :: "string \<Rightarrow> string" where
  "quoted s = ''\"'' @ s @ ''\"''"

definition unsupported_text :: "string \<Rightarrow> string" where
  "unsupported_text t = ''digitalocean: unsupported resource type '' @ quoted t"

definition provider_driver :: "'w do_provider \<Rightarrow> string \<Rightarrow> 'w resource_driver res" where
  "provider_driver p resourceType = (case prov_drivers p resourceType of
     None \<Rightarrow> Err (Errorf ''digitalocean: unsupported resource type %q'' [FStr resourceType])
   | Some d \<Rightarrow> Ok d)"

section \<open>Initialisation and planning\<close>







fun check_caps :: "('w \<Rightarrow> go_error option) \<Rightarrow> string \<Rightarrow> 'w sizes_client option \<Rightarrow> resource_spec list \<Rightarrow> ('w, unit) io" where
  "check_caps ctx_err now sizes [] = io_ok ()"
| "check_caps ctx_err now sizes (spec # specs) =
     (if spec_Type spec \<noteq> ''infra.droplet'' then check_caps ctx_err now sizes specs
      else io_bind (io_wrap (Wrapf ''digitalocean plan: %w'' []) (QuoteDropletPrice ctx_err now sizes spec)) (\<lambda>_.
        check_caps ctx_err now sizes specs))"

text \<open>The plan itself is computed by the engine's \<^verbatim>\<open>platform.ComputePlan\<close>, here \<open>compute\<close>.\<close>

definition provider_Plan :: "(resource_spec list \<Rightarrow> ('w, 'plan) io) \<Rightarrow> ('w \<Rightarrow> go_error option) \<Rightarrow> string
    \<Rightarrow> 'w sizes_client option \<Rightarrow> resource_spec list \<Rightarrow> ('w, 'plan) io" where
  "provider_Plan compute ctx_err now sizes desired =
     io_bind (check_caps ctx_err now sizes desired) (\<lambda>_. compute desired)"

section \<open>Destroy and status\<close>

record action_error =
  ae_Resource :: string
  ae_Action :: string
  ae_Error :: go_error

record destroy_result =
  Destroyed :: "string list"
  DestroyErrors :: "action_error list"

definition add_error :: "resource_ref \<Rightarrow> go_error \<Rightarrow> destroy_result \<Rightarrow> destroy_result" where
  "add_error ref e r = r\<lparr>DestroyErrors := DestroyErrors r @ [\<lparr>ae_Resource = ref_Name ref, ae_Action = ''delete'', ae_Error = e\<rparr>]\<rparr>"

definition add_destroyed :: "resource_ref \<Rightarrow> destroy_result \<Rightarrow> destroy_result" where
  "add_destroyed ref r = r\<lparr>Destroyed := Destroyed r @ [ref_Name ref]\<rparr>"



record resource_status =
  rs_Name :: string
  rs_Type :: string
  rs_ProviderID :: string
  rs_Status :: string
  rs_Outputs :: cfg

definition unknown_status :: "resource_ref \<Rightarrow> resource_status" where
  "unknown_status ref = \<lparr>rs_Name = ref_Name ref, rs_Type = ref_Type ref, rs_ProviderID = ref_ProviderID ref,
     rs_Status = ''unknown'', rs_Outputs = []\<rparr>"

fun provider_Status :: "'w do_provider \<Rightarrow> resource_ref list \<Rightarrow> ('w, resource_status list) io" where
  "provider_Status p [] = io_ok []"
| "provider_Status p (ref # refs) =
     io_bind
       (case provider_driver p (ref_Type ref) of
          Ok d \<Rightarrow> io_handle (rd_Read d ref)
            (\<lambda>out. io_deref out (\<lambda>o'. io_ok \<lparr>rs_Name = out_Name o', rs_Type = out_Type o', rs_ProviderID = out_ProviderID o',
                 rs_Status = out_Status o', rs_Outputs = out_Outputs o'\<rparr>))
            (\<lambda>_. io_ok (unknown_status ref))
        | _ \<Rightarrow> io_ok (unknown_status ref))
     (\<lambda>s. io_bind (provider_Status p refs) (\<lambda>ss. io_ok (s # ss)))"

section \<open>Drift\<close>

datatype drift_class = DriftUnknown | DriftGhost | DriftInSync | DriftConfig

record drift_result =
  dr_Name :: string
  dr_Type :: string
  dr_Drifted :: bool
  dr_Class :: drift_class
  dr_Fields :: "string list"

definition drift :: "resource_ref \<Rightarrow> bool \<Rightarrow> drift_class \<Rightarrow> string list \<Rightarrow> drift_result" where
  "drift r drifted cls flds =
     \<lparr>dr_Name = ref_Name r, dr_Type = ref_Type r, dr_Drifted = drifted, dr_Class = cls, dr_Fields = flds\<rparr>"

definition driftSpecMatchesRef :: "resource_spec \<Rightarrow> resource_ref \<Rightarrow> bool" where
  "driftSpecMatchesRef spec ref =
     (\<not> (spec_Name spec \<noteq> [] \<and> spec_Name spec \<noteq> ref_Name ref)
      \<and> \<not> (spec_Type spec \<noteq> [] \<and> spec_Type spec \<noteq> ref_Type ref))"

definition matching_spec :: "(string \<times> resource_spec) list \<Rightarrow> resource_ref \<Rightarrow> string \<Rightarrow> resource_spec option" where
  "matching_spec specs ref key = (case map_of specs key of
     None \<Rightarrow> None | Some spec \<Rightarrow> if driftSpecMatchesRef spec ref then Some spec else None)"

text \<open>The spec for a resource: by type and name, by provider id, by name, whichever matches first.\<close>

definition driftSpecForRef :: "resource_ref \<Rightarrow> (string \<times> resource_spec) list \<Rightarrow> resource_spec option" where
  "driftSpecForRef ref specs =
     (if specs = [] then None
      else case matching_spec specs ref (ref_Type ref @ ''/'' @ ref_Name ref) of
        Some spec \<Rightarrow> Some spec
      | None \<Rightarrow>
        (case (if ref_ProviderID ref = [] then None else matching_spec specs ref (ref_ProviderID ref)) of
           Some spec \<Rightarrow> Some spec
         | None \<Rightarrow> matching_spec specs ref (ref_Name ref)))"

definition drift_of :: "'w do_provider \<Rightarrow> (string \<times> resource_spec) list \<Rightarrow> resource_ref \<Rightarrow> ('w, drift_result) io" where
  "drift_of p specs ref =
     (case provider_driver p (ref_Type ref) of
        Err e \<Rightarrow> io_ok (drift ref True DriftUnknown [''provider: '' @ unsupported_text (ref_Type ref)])
      | Panic m \<Rightarrow> io_panic m
      | Ok d \<Rightarrow> io_handle (rd_Read d ref)
          (\<lambda>out. case driftSpecForRef ref specs of
               None \<Rightarrow> io_ok (drift ref False DriftInSync [])
             | Some spec \<Rightarrow>
                 io_bind (io_wrap (Wrapf ''detect drift (config) for %s/%s: %w'' [FStr (ref_Type ref), FStr (ref_Name ref)])
                           (rd_Diff d spec out)) (\<lambda>dif.
                 case dif of
                   Some df \<Rightarrow> if NeedsUpdate df
                     then io_ok (drift ref True DriftConfig (map fc_Path (Changes df)))
                     else io_ok (drift ref False DriftInSync [])
                 | None \<Rightarrow> io_ok (drift ref False DriftInSync [])))
          (\<lambda>e. if errors_is e ErrResourceNotFound then io_ok (drift ref True DriftGhost [])
               else io_err (Wrapf ''detect drift for %s/%s: %w'' [FStr (ref_Type ref), FStr (ref_Name ref)] e)))"

fun DetectDriftWithSpecs :: "'w do_provider \<Rightarrow> resource_ref list \<Rightarrow> (string \<times> resource_spec) list \<Rightarrow> ('w, drift_result list) io" where
  "DetectDriftWithSpecs p [] specs = io_ok []"
| "DetectDriftWithSpecs p (ref # refs) specs =
     io_bind (drift_of p specs ref) (\<lambda>r.
     io_bind (DetectDriftWithSpecs p refs specs) (\<lambda>rs. io_ok (r # rs)))"

definition DetectDrift :: "'w do_provider \<Rightarrow> resource_ref list \<Rightarrow> ('w, drift_result list) io" where
  "DetectDrift p resources = DetectDriftWithSpecs p resources []"

section \<open>Import, credentials\<close>

definition provider_Import :: "'w do_provider \<Rightarrow> string \<Rightarrow> string \<Rightarrow> string \<Rightarrow> ('w, resource_state) io" where
  "provider_Import p now cloudID resourceType =
     io_bind (io_res (provider_driver p resourceType)) (\<lambda>d.
     io_bind (io_wrap (Wrapf ''digitalocean import: %w'' [])
               (rd_Read d \<lparr>ref_Name = cloudID, ref_Type = resourceType, ref_ProviderID = cloudID\<rparr>)) (\<lambda>out.
     io_deref out (\<lambda>o'.
       io_ok \<lparr>rst_ID = cloudID, rst_Name = out_Name o', rst_Type = out_Type o', rst_Provider = ''digitalocean'',
              rst_ProviderID = out_ProviderID o', rst_Outputs = out_Outputs o', rst_CreatedAt = now, rst_UpdatedAt = now\<rparr>)))"

definition RevokeProviderCredential :: "'w do_provider \<Rightarrow> string \<Rightarrow> string \<Rightarrow> ('w, unit) io" where
  "RevokeProviderCredential p source credentialID =
     (if source \<noteq> ''digitalocean.spaces''
      then io_err (Errorf ''digitalocean: RevokeProviderCredential: unknown source %q (only digitalocean.spaces is supported)'' [FStr source])
      else if credentialID = []
      then io_err (Errorf ''digitalocean: RevokeProviderCredential: credentialID is required'' [])
      else case prov_client p of
        None \<Rightarrow> io_err (Errorf ''digitalocean: RevokeProviderCredential: provider not initialized'' [])
      | Some c \<Rightarrow>
          io_bind (SK_Delete (SpacesKeys c) credentialID) (\<lambda>(resp, err).
          case err of
            None \<Rightarrow> io_ok ()
          | Some e \<Rightarrow>
              if resp = Some 404 then io_ok ()
              else io_err (Wrapf ''digitalocean: revoke spaces key %q: %w'' [FStr credentialID] e)))"

section \<open>Listings\<close>

definition is_404 :: "go_error \<Rightarrow> bool" where
  "is_404 e = (case errors_as_godo e of Some (st, _) \<Rightarrow> st = Some 404 | None \<Rightarrow> False)"

definition stringSliceContains :: "string list \<Rightarrow> string \<Rightarrow> bool" where
  "stringSliceContains xs s = List.member xs s"

definition droplet_ref_of :: "droplet_entry \<Rightarrow> resource_ref" where
  "droplet_ref_of d = \<lparr>ref_Name = de_Name d, ref_Type = ''infra.droplet'', ref_ProviderID = show_int (de_ID d)\<rparr>"

definition volume_ref_of :: "volume \<Rightarrow> resource_ref" where
  "volume_ref_of v = \<lparr>ref_Name = vol_Name v, ref_Type = ''infra.volume'', ref_ProviderID = vol_ID v\<rparr>"

definition database_type :: "database_entry \<Rightarrow> string" where
  "database_type db = (if dbe_EngineSlug db = ''redis'' then ''infra.cache'' else ''infra.database'')"

definition database_ref_of :: "database_entry \<Rightarrow> resource_ref" where
  "database_ref_of db = \<lparr>ref_Name = dbe_Name db, ref_Type = database_type db, ref_ProviderID = dbe_ID db\<rparr>"

definition EnumerateByTag :: "'w do_provider \<Rightarrow> string \<Rightarrow> ('w, resource_ref list) io" where
  "EnumerateByTag p tag =
     (case prov_client p of
        None \<Rightarrow> io_err (Errorf ''digitalocean: EnumerateByTag called on provider that is not initialized'' [])
      | Some c \<Rightarrow>
        if tag = [] then io_err (Errorf ''digitalocean: EnumerateByTag requires a non-empty tag argument'' [])
        else io_handle (Tags_Get c tag)
          (\<lambda>_. io_bind (collect_next (Droplets_ListByTag c tag) not_last
                  (\<lambda>_ e. Wrapf ''digitalocean: list droplets by tag %q: %w'' [FStr tag] e)
                  (Wrapf ''digitalocean: paginate droplets: %w'' []) 1 []) (\<lambda>droplets.
               io_bind (collect_next (ListVolumes c) not_last
                  (\<lambda>_ e. Wrapf ''digitalocean: list volumes for tag %q: %w'' [FStr tag] e)
                  (Wrapf ''digitalocean: paginate volumes: %w'' []) 1 []) (\<lambda>volumes.
               io_bind (collect_next (Databases_List c) not_last
                  (\<lambda>_ e. Wrapf ''digitalocean: list databases for tag %q: %w'' [FStr tag] e)
                  (Wrapf ''digitalocean: paginate databases: %w'' []) 1 []) (\<lambda>databases.
               io_ok (map droplet_ref_of droplets
                 @ map volume_ref_of (filter (\<lambda>v. stringSliceContains (vol_Tags v) tag) volumes)
                 @ map database_ref_of (filter (\<lambda>db. stringSliceContains (dbe_Tags db) tag) databases))))))
          (\<lambda>e. if is_404 e then io_ok []
               else io_err (Wrapf ''digitalocean: get tag %q: %w'' [FStr tag] e)))"

definition domain_output :: "domain_entry \<Rightarrow> resource_output" where
  "domain_output d = \<lparr>out_Name = dom_Name d, out_Type = ''infra.dns'', out_ProviderID = dom_Name d,
     out_Outputs = [(''zone'', GStr (dom_Name d)), (''zone_id'', GStr (dom_Name d)), (''ttl'', GInt (dom_TTL d)),
                    (''zone_file'', GStr (dom_ZoneFile d))],
     out_Sensitive = [], out_Status = ''active''\<rparr>"

definition enumerateAllDNS :: "'w do_client \<Rightarrow> ('w, resource_output list) io" where
  "enumerateAllDNS c =
     io_bind (collect_next (Domains_List c) not_last
       (\<lambda>page e. Wrapf ''digitalocean: EnumerateAll infra.dns: list page=%d: %w'' [FInt (int page)] e)
       (Wrapf ''digitalocean: EnumerateAll infra.dns: parse current page: %w'' []) 1 []) (\<lambda>ds.
     io_ok (map domain_output ds))"

text \<open>The provider's own copy of \<^verbatim>\<open>grantsToMaps\<close> keeps an empty list for grants that are all nil.\<close>

definition provider_grantsToMaps :: "grant option list \<Rightarrow> cfg slice" where
  "provider_grantsToMaps gs = (if gs = [] then NilSlice else Slice (map grant_map (present gs)))"

definition key_entry :: "spaces_key \<Rightarrow> resource_output" where
  "key_entry k = \<lparr>out_Name = key_Name k, out_Type = ''infra.spaces_key'', out_ProviderID = key_AccessKey k,
     out_Outputs = [(''name'', GStr (key_Name k)), (''access_key'', GStr (key_AccessKey k)), (''created_at'', GStr (key_CreatedAt k))]
       @ (case provider_grantsToMaps (key_Grants k) of NilSlice \<Rightarrow> [] | Slice g \<Rightarrow> [(''grants'', GMaps (Slice g))]),
     out_Sensitive = [(''access_key'', True)], out_Status = ''active''\<rparr>"

definition enumerateAllSpacesKeys :: "'w do_client \<Rightarrow> ('w, resource_output list) io" where
  "enumerateAllSpacesKeys c =
     io_bind (collect_next (SK_List (SpacesKeys c)) has_next
       (\<lambda>page e. Wrapf ''digitalocean: EnumerateAll spaces_key: list page=%d: %w'' [FInt (int page)] e)
       (Wrapf ''digitalocean: EnumerateAll spaces_key: parse next page: %w'' []) 1 []) (\<lambda>ks.
     io_ok (map key_entry (present ks)))"

definition EnumerateAll :: "'w do_provider \<Rightarrow> string \<Rightarrow> ('w, resource_output list) io" where
  "EnumerateAll p resourceType =
     (case prov_client p of
        None \<Rightarrow> io_err (Errorf ''digitalocean: EnumerateAll called on provider that is not initialized'' [])
      | Some c \<Rightarrow>
        if resourceType = ''infra.spaces_key'' then enumerateAllSpacesKeys c
        else if resourceType = ''infra.dns'' then enumerateAllDNS c
        else io_err (Errorf ''digitalocean: EnumerateAll: resource type %q not supported'' [FStr resourceType]))"

section \<open>Destroying is total\<close>


text \<open>What one iteration of the loop does: the resource is destroyed or its error is noted.\<close>

definition note_outcome :: "resource_ref \<times> go_error option \<Rightarrow> destroy_result \<Rightarrow> destroy_result" where
  "note_outcome x r = (case snd x of None \<Rightarrow> add_destroyed (fst x) r | Some e \<Rightarrow> add_error (fst x) e r)"

lemma note_outcome_simps [simp]:
  "note_outcome (ref, None) r = add_destroyed ref r" "note_outcome (ref, Some e) r = add_error ref e r"
  by (simp_all add: note_outcome_def)






text \<open>A provider with one type of resource, kept as the list of the live names.\<close>

definition mem_driver :: "string list resource_driver" where
  "mem_driver = \<lparr>rd_Read = (\<lambda>ref w. if ref_Name ref = ''flaky'' then Some (Err (Sentinel ErrTransient), w)
        else if List.member w (ref_Name ref)
        then Some (Ok (Some \<lparr>out_Name = ref_Name ref, out_Type = ref_Type ref, out_ProviderID = ref_ProviderID ref,
               out_Outputs = [], out_Sensitive = [], out_Status = ''active''\<rparr>), w)
        else Some (Err (Wrapf ''read: %w'' [] (Sentinel ErrResourceNotFound)), w)),
      rd_Delete = (\<lambda>ref w. if List.member w (ref_Name ref) then Some (Ok (), removeAll (ref_Name ref) w)
        else Some (Err (Sentinel ErrResourceNotFound), w)),
      rd_Diff = (\<lambda>spec cur. io_ok (Some \<lparr>NeedsUpdate = (spec_Config spec \<noteq> []), NeedsReplace = False,
        Changes = map (\<lambda>(k, v). change k GNil v) (spec_Config spec)\<rparr>))\<rparr>"

definition mem_provider :: "string list do_provider" where
  "mem_provider = \<lparr>prov_client = None, prov_drivers = (\<lambda>t. if t = ''infra.volume'' then Some mem_driver else None)\<rparr>"

definition ex_ref :: "string \<Rightarrow> string \<Rightarrow> resource_ref" where
  "ex_ref t n = \<lparr>ref_Name = n, ref_Type = t, ref_ProviderID = n\<rparr>"



section \<open>Drift\<close>

text \<open>Reading the resources of a list in the world \<open>w\<close> leaves it unchanged and returns.\<close>

definition reads_quiet :: "'w do_provider \<Rightarrow> resource_ref list \<Rightarrow> 'w \<Rightarrow> bool" where
  "reads_quiet p refs w = (\<forall>ref \<in> set refs. \<forall>d. prov_drivers p (ref_Type ref) = Some d \<longrightarrow>
     (\<exists>out. rd_Read d ref w = Some (Ok out, w)) \<or> (\<exists>e. rd_Read d ref w = Some (Err e, w)))"

text \<open>The error of reading a resource, if it has one.\<close>

definition read_error :: "'w do_provider \<Rightarrow> 'w \<Rightarrow> resource_ref \<Rightarrow> go_error option" where
  "read_error p w ref = (case prov_drivers p (ref_Type ref) of None \<Rightarrow> None
     | Some d \<Rightarrow> (case rd_Read d ref w of Some (Err e, w') \<Rightarrow> Some e | _ \<Rightarrow> None))"

text \<open>A failure to read that says nothing about whether the resource exists.\<close>

definition transient_at :: "'w do_provider \<Rightarrow> 'w \<Rightarrow> resource_ref \<Rightarrow> bool" where
  "transient_at p w ref = (case read_error p w ref of None \<Rightarrow> False | Some e \<Rightarrow> \<not> errors_is e ErrResourceNotFound)"

text \<open>What the classes mean.\<close>

definition class_of :: "'w do_provider \<Rightarrow> 'w \<Rightarrow> resource_ref \<Rightarrow> drift_class" where
  "class_of p w ref =
     (if prov_drivers p (ref_Type ref) = None then DriftUnknown
      else if read_error p w ref = None then DriftInSync else DriftGhost)"

lemma drift_of_no_spec:
  assumes "reads_quiet p [ref] w"
  shows "transient_at p w ref \<Longrightarrow> \<exists>e. drift_of p [] ref w = Some (Err e, w)"
    and "\<not> transient_at p w ref \<Longrightarrow> \<exists>r. drift_of p [] ref w = Some (Ok r, w) \<and> dr_Class r = class_of p w ref
      \<and> dr_Name r = ref_Name ref \<and> dr_Type r = ref_Type ref \<and> dr_Drifted r = (class_of p w ref \<noteq> DriftInSync)"
  using assms by (auto simp: reads_quiet_def transient_at_def read_error_def class_of_def drift_of_def drift_def
      provider_driver_def driftSpecForRef_def io_simps split: option.splits)

lemma drift_all_no_spec:
  assumes "reads_quiet p refs w"
  shows "if list_ex (transient_at p w) refs then \<exists>e. DetectDriftWithSpecs p refs [] w = Some (Err e, w)
    else \<exists>rs. DetectDriftWithSpecs p refs [] w = Some (Ok rs, w) \<and> map dr_Name rs = map ref_Name refs
      \<and> map dr_Type rs = map ref_Type refs \<and> map dr_Class rs = map (class_of p w) refs
      \<and> map dr_Drifted rs = map (\<lambda>ref. class_of p w ref \<noteq> DriftInSync) refs"
  using assms
proof (induction refs)
  case Nil
  then show ?case by (simp add: io_simps)
next
  case (Cons ref refs)
  have q: "reads_quiet p [ref] w" "reads_quiet p refs w"
    using Cons.prems by (simp_all add: reads_quiet_def)
  show ?case
  proof (cases "transient_at p w ref")
    case True
    then show ?thesis using drift_of_no_spec(1) [OF q(1)] by (auto simp: io_simps)
  next
    case False
    then obtain r where r: "drift_of p [] ref w = Some (Ok r, w)" "dr_Class r = class_of p w ref"
      "dr_Name r = ref_Name ref" "dr_Type r = ref_Type ref" "dr_Drifted r = (class_of p w ref \<noteq> DriftInSync)"
      using drift_of_no_spec(2) [OF q(1)] by blast
    then show ?thesis
      using False Cons.IH [OF q(2)] by (auto simp: io_simps split: if_splits)
  qed
qed

text \<open>
  C5: what \<^verbatim>\<open>DetectDrift\<close> promises to a caller that prunes state. When reads do not change the
  world, either some read failed with an error that is not \<^verbatim>\<open>ErrResourceNotFound\<close>, and then the call
  fails and returns no partial result; or it succeeds with one result per resource, in order, whose
  class is ghost exactly when the read said not found, unknown exactly when the type has no driver, in
  sync otherwise, and which counts as drifted exactly when it is not in sync.
\<close>

theorem detect_drift_classifies:
  assumes "reads_quiet p refs w"
  shows "if list_ex (transient_at p w) refs then \<exists>e. DetectDrift p refs w = Some (Err e, w)
    else \<exists>rs. DetectDrift p refs w = Some (Ok rs, w) \<and> map dr_Name rs = map ref_Name refs
      \<and> map dr_Type rs = map ref_Type refs \<and> map dr_Class rs = map (class_of p w) refs
      \<and> map dr_Drifted rs = map (\<lambda>ref. class_of p w ref \<noteq> DriftInSync) refs"
  unfolding DetectDrift_def by (rule drift_all_no_spec [OF assms])

theorem detect_drift_classifies_witness:
  "(\<exists>rs. DetectDrift mem_provider [ex_ref ''infra.volume'' ''a'', ex_ref ''infra.x'' ''b'', ex_ref ''infra.volume'' ''c''] [''c''] = Some (Ok rs, [''c''])
     \<and> map dr_Class rs = [DriftGhost, DriftUnknown, DriftInSync])
   \<and> (\<exists>e. DetectDrift mem_provider [ex_ref ''infra.volume'' ''a'', ex_ref ''infra.volume'' ''flaky''] [''c''] = Some (Err e, [''c'']))"
proof -
  have q: "reads_quiet mem_provider refs w" for refs w
    by (auto simp: reads_quiet_def mem_provider_def mem_driver_def split: if_splits)
  have e: "read_error mem_provider [''c''] (ex_ref ''infra.volume'' ''a'') = Some (Wrapf ''read: %w'' [] (Sentinel ErrResourceNotFound))"
    "read_error mem_provider [''c''] (ex_ref ''infra.x'' ''b'') = None"
    "read_error mem_provider [''c''] (ex_ref ''infra.volume'' ''c'') = None"
    "read_error mem_provider [''c''] (ex_ref ''infra.volume'' ''flaky'') = Some (Sentinel ErrTransient)"
    "prov_drivers mem_provider (ref_Type (ex_ref ''infra.x'' ''b'')) = None"
    "prov_drivers mem_provider (ref_Type (ex_ref ''infra.volume'' n)) = Some mem_driver" for n
    by (simp_all add: read_error_def mem_provider_def mem_driver_def ex_ref_def)
  have t: "\<not> list_ex (transient_at mem_provider [''c'']) [ex_ref ''infra.volume'' ''a'', ex_ref ''infra.x'' ''b'', ex_ref ''infra.volume'' ''c'']"
    "list_ex (transient_at mem_provider [''c'']) [ex_ref ''infra.volume'' ''a'', ex_ref ''infra.volume'' ''flaky'']"
    "map (class_of mem_provider [''c'']) [ex_ref ''infra.volume'' ''a'', ex_ref ''infra.x'' ''b'', ex_ref ''infra.volume'' ''c'']
      = [DriftGhost, DriftUnknown, DriftInSync]"
    by (simp_all add: transient_at_def class_of_def e)
  note d = detect_drift_classifies [OF q [of _ "[''c'']"]]
  have "\<exists>rs. DetectDrift mem_provider [ex_ref ''infra.volume'' ''a'', ex_ref ''infra.x'' ''b'', ex_ref ''infra.volume'' ''c''] [''c''] = Some (Ok rs, [''c''])
     \<and> map dr_Class rs = [DriftGhost, DriftUnknown, DriftInSync]"
    using d [of "[ex_ref ''infra.volume'' ''a'', ex_ref ''infra.x'' ''b'', ex_ref ''infra.volume'' ''c'']"]
    unfolding if_not_P [OF t(1)] t(3) by (elim exE conjE) (intro exI conjI)
  moreover have "\<exists>e. DetectDrift mem_provider [ex_ref ''infra.volume'' ''a'', ex_ref ''infra.volume'' ''flaky''] [''c''] = Some (Err e, [''c''])"
    using d [of "[ex_ref ''infra.volume'' ''a'', ex_ref ''infra.volume'' ''flaky'']"] unfolding if_P [OF t(2)] .
  ultimately show ?thesis by (rule conjI)
qed

section \<open>The listings are complete\<close>

text \<open>An account in memory: droplets with their tags, volumes, databases, domains, keys and the tags that exist.\<close>

record cloud =
  cl_droplets :: "(droplet_entry \<times> string list) list"
  cl_volumes :: "volume list"
  cl_databases :: "database_entry list"
  cl_domains :: "domain_entry list"
  cl_keys :: "spaces_key list"
  cl_tags :: "string list"

definition one_per_page :: "'a list \<Rightarrow> 'a list list" where
  "one_per_page xs = map (\<lambda>x. [x]) xs"

lemma concat_one_per_page [simp]: "concat (nonempty_pages (one_per_page xs)) = xs"
  by (induction xs) (auto simp: nonempty_pages_def one_per_page_def split: if_splits)

fun retag :: "(string list \<Rightarrow> string list) \<Rightarrow> string \<times> resource_kind \<Rightarrow> cloud \<Rightarrow> cloud" where
  "retag f (i, VolumeKind) w = w\<lparr>cl_volumes := map (\<lambda>v. if vol_ID v = i then v\<lparr>vol_Tags := f (vol_Tags v)\<rparr> else v) (cl_volumes w)\<rparr>"
| "retag f (i, DatabaseKind) w = w\<lparr>cl_databases := map (\<lambda>d. if dbe_ID d = i then d\<lparr>dbe_Tags := f (dbe_Tags d)\<rparr> else d) (cl_databases w)\<rparr>"
| "retag f (i, DropletKind) w = w\<lparr>cl_droplets := map (\<lambda>(d, ts). if show_int (de_ID d) = i then (d, f ts) else (d, ts)) (cl_droplets w)\<rparr>"

definition mem_client :: "cloud do_client" where
  "mem_client = \<lparr>
     Tags_Get = (\<lambda>t w. if List.member (cl_tags w) t then Some (Ok (), w) else Some (Err (GodoError (Some 404) ''not found''), w)),
     Tags_Create = (\<lambda>t w. if List.member (cl_tags w) t then Some (Err (GodoError (Some 422) ''exists''), w)
        else Some (Ok (), w\<lparr>cl_tags := cl_tags w @ [t]\<rparr>)),
     Tags_List = page_lister (\<lambda>w. one_per_page (cl_tags w)),
     TagResources = (\<lambda>t r w. Some (Ok (), retag (\<lambda>ts. if List.member ts t then ts else ts @ [t]) r w)),
     UntagResources = (\<lambda>t r w. Some (Ok (), retag (removeAll t) r w)),
     Droplets_ListByTag = (\<lambda>t. page_lister (\<lambda>w. one_per_page (map fst (filter (\<lambda>d. List.member (snd d) t) (cl_droplets w))))),
     ListVolumes = page_lister (\<lambda>w. one_per_page (cl_volumes w)),
     Databases_List = page_lister (\<lambda>w. one_per_page (cl_databases w)),
     Domains_List = page_lister (\<lambda>w. one_per_page (cl_domains w)),
     SpacesKeys = \<lparr>
       SK_Create = (\<lambda>rq. io_err (Opaque ''read only'')),
       SK_Get = (\<lambda>i w. Some (Ok (first_match (\<lambda>k. key_AccessKey k = i) (cl_keys w)), w)),
       SK_List = page_lister (\<lambda>w. one_per_page (map Some (cl_keys w))),
       SK_Update = (\<lambda>i rq. io_err (Opaque ''read only'')),
       SK_Delete = (\<lambda>i w. if first_match (\<lambda>k. key_AccessKey k = i) (cl_keys w) = None
         then Some (Ok (Some 404, Some (GodoError (Some 404) ''not found'')), w)
         else Some (Ok (Some 204, None), w\<lparr>cl_keys := filter (\<lambda>k. key_AccessKey k \<noteq> i) (cl_keys w)\<rparr>))\<rparr>\<rparr>"

lemma mem_client_lists:
  "linked_list (Droplets_ListByTag mem_client t) (\<lambda>w. nonempty_pages (one_per_page (map fst (filter (\<lambda>d. List.member (snd d) t) (cl_droplets w)))))"
  "linked_list (ListVolumes mem_client) (\<lambda>w. nonempty_pages (one_per_page (cl_volumes w)))"
  "linked_list (Databases_List mem_client) (\<lambda>w. nonempty_pages (one_per_page (cl_databases w)))"
  "linked_list (Domains_List mem_client) (\<lambda>w. nonempty_pages (one_per_page (cl_domains w)))"
  "linked_list (SK_List (SpacesKeys mem_client)) (\<lambda>w. nonempty_pages (one_per_page (map Some (cl_keys w))))"
  "linked_list (Tags_List mem_client) (\<lambda>w. nonempty_pages (one_per_page (cl_tags w)))"
  using static_links.linked_list_axioms by (simp_all add: mem_client_def)

definition ex_cloud :: cloud where
  "ex_cloud = \<lparr>cl_droplets = [(\<lparr>de_ID = 7, de_Name = ''web''\<rparr>, [''prod'']), (\<lparr>de_ID = 8, de_Name = ''dev''\<rparr>, [])],
     cl_volumes = [\<lparr>vol_ID = ''vol-0'', vol_Name = ''data'', vol_SizeGigaBytes = 10, vol_Region = Some ''nyc3'',
       vol_FilesystemType = ''ext4'', vol_Description = [], vol_Tags = [''prod'', ''db'']\<rparr>],
     cl_databases = [\<lparr>dbe_ID = ''db-1'', dbe_Name = ''cache'', dbe_EngineSlug = ''redis'', dbe_Tags = [''prod'']\<rparr>,
       \<lparr>dbe_ID = ''db-2'', dbe_Name = ''main'', dbe_EngineSlug = ''pg'', dbe_Tags = [''prod'']\<rparr>],
     cl_domains = [\<lparr>dom_Name = ''example.com'', dom_TTL = 1800, dom_ZoneFile = []\<rparr>],
     cl_keys = [ex_key], cl_tags = [''prod'', ''db'']\<rparr>"

lemma stringSliceContains_iff [simp]: "stringSliceContains xs s \<longleftrightarrow> s \<in> set xs"
  by (simp add: stringSliceContains_def)

lemma not_last_or: "not_last = has_next \<or> not_last = not_last" by simp

lemmas collect_not_last = linked_list.collect_next_all [OF _ not_last_or, unfolded One_nat_def]
lemmas collect_has_next = linked_list.collect_next_all [OF _ disjI1 [OF refl], unfolded One_nat_def]

text \<open>
  C34: the listing by tag is complete and exact. When the listings of the API return their pages in
  order without changing the account, \<^verbatim>\<open>EnumerateByTag\<close> terminates and returns precisely the
  droplets the API lists under the tag, and the volumes and databases of any page that carry the tag,
  with the reference their driver's delete expects (a redis cluster as \<^verbatim>\<open>infra.cache\<close>). A tag that
  the API does not know gives the empty list; any other failure to look it up is an error.
\<close>

theorem enumerate_by_tag_exact:
  assumes "prov_client p = Some c" and "tag \<noteq> []"
    and "linked_list (Droplets_ListByTag c tag) dp" and "linked_list (ListVolumes c) vp" and "linked_list (Databases_List c) bp"
  shows "(Tags_Get c tag w = Some (Ok (), w1) \<longrightarrow> EnumerateByTag p tag w = Some (Ok
      ([droplet_ref_of d. d \<leftarrow> concat (dp w1)] @ [volume_ref_of v. v \<leftarrow> concat (vp w1), tag \<in> set (vol_Tags v)]
       @ [database_ref_of b. b \<leftarrow> concat (bp w1), tag \<in> set (dbe_Tags b)]), w1))
    \<and> (Tags_Get c tag w = Some (Err (GodoError (Some st) msg), w1) \<longrightarrow>
      (if st = 404 then EnumerateByTag p tag w = Some (Ok [], w1) else \<exists>e. EnumerateByTag p tag w = Some (Err e, w1)))"
proof -
  have f: "map g (filter P xs) = [g x. x \<leftarrow> xs, P x]" for g :: "'x \<Rightarrow> resource_ref" and P xs
    by (induction xs) auto
  show ?thesis
    using assms(1,2) by (simp add: EnumerateByTag_def io_simps is_404_def collect_not_last [OF assms(3)]
        collect_not_last [OF assms(4)] collect_not_last [OF assms(5)] f)
qed

definition cloud_provider :: "cloud do_provider" where
  "cloud_provider = \<lparr>prov_client = Some mem_client, prov_drivers = (\<lambda>t. None)\<rparr>"

theorem enumerate_by_tag_exact_witness:
  "EnumerateByTag cloud_provider ''prod'' ex_cloud = Some (Ok
     [\<lparr>ref_Name = ''web'', ref_Type = ''infra.droplet'', ref_ProviderID = ''7''\<rparr>,
      \<lparr>ref_Name = ''data'', ref_Type = ''infra.volume'', ref_ProviderID = ''vol-0''\<rparr>,
      \<lparr>ref_Name = ''cache'', ref_Type = ''infra.cache'', ref_ProviderID = ''db-1''\<rparr>,
      \<lparr>ref_Name = ''main'', ref_Type = ''infra.database'', ref_ProviderID = ''db-2''\<rparr>], ex_cloud)
   \<and> EnumerateByTag cloud_provider ''none'' ex_cloud = Some (Ok [], ex_cloud)"
proof -
  have c: "prov_client cloud_provider = Some mem_client" by (simp add: cloud_provider_def)
  note e = enumerate_by_tag_exact [OF c _ mem_client_lists(1-3)]
  have g: "Tags_Get mem_client ''prod'' ex_cloud = Some (Ok (), ex_cloud)"
    "Tags_Get mem_client ''none'' ex_cloud = Some (Err (GodoError (Some 404) ''not found''), ex_cloud)"
    by (simp_all add: mem_client_def ex_cloud_def)
  have s7: "show_int 7 = ''7''" by code_simp
  have "EnumerateByTag cloud_provider ''prod'' ex_cloud = Some (Ok
     [\<lparr>ref_Name = ''web'', ref_Type = ''infra.droplet'', ref_ProviderID = ''7''\<rparr>,
      \<lparr>ref_Name = ''data'', ref_Type = ''infra.volume'', ref_ProviderID = ''vol-0''\<rparr>,
      \<lparr>ref_Name = ''cache'', ref_Type = ''infra.cache'', ref_ProviderID = ''db-1''\<rparr>,
      \<lparr>ref_Name = ''main'', ref_Type = ''infra.database'', ref_ProviderID = ''db-2''\<rparr>], ex_cloud)"
    using conjunct1 [OF e [of "''prod''" ex_cloud ex_cloud]] g(1) s7
    by (simp add: ex_cloud_def droplet_ref_of_def volume_ref_of_def database_ref_of_def database_type_def)
  then show ?thesis using conjunct2 [OF e [of "''none''" ex_cloud ex_cloud 404 "''not found''"]] g(2) by simp
qed

text \<open>
  The listing by type is complete. Over listings that return their pages in order,
  \<^verbatim>\<open>EnumerateAll\<close> of \<^verbatim>\<open>infra.spaces_key\<close> returns one output for each key of every page, nil
  entries skipped, addressed by its access key, which is marked sensitive, and never carrying the
  secret; of \<^verbatim>\<open>infra.dns\<close> one output per zone, addressed by its name. Every other type is an error.
\<close>

theorem enumerate_all_complete:
  assumes "prov_client p = Some c"
    and "linked_list (SK_List (SpacesKeys c)) kp" and "linked_list (Domains_List c) dp"
  shows "EnumerateAll p ''infra.spaces_key'' w = Some (Ok (map key_entry [k. Some k \<leftarrow> concat (kp w)]), w)
    \<and> EnumerateAll p ''infra.dns'' w = Some (Ok (map domain_output (concat (dp w))), w)
    \<and> (t \<noteq> ''infra.spaces_key'' \<and> t \<noteq> ''infra.dns'' \<longrightarrow> (\<exists>e. EnumerateAll p t w = Some (Err e, w)))
    \<and> (\<forall>k. out_ProviderID (key_entry k) = key_AccessKey k \<and> map_of (out_Outputs (key_entry k)) ''secret_key'' = None
         \<and> map_of (out_Sensitive (key_entry k)) ''access_key'' = Some True)"
proof -
  have "present ks = [k. Some k \<leftarrow> ks]" for ks :: "spaces_key option list"
    by (induction ks rule: present.induct) auto
  then show ?thesis
    using assms(1) by (simp add: EnumerateAll_def enumerateAllSpacesKeys_def enumerateAllDNS_def io_simps
        collect_has_next [OF assms(2)] collect_not_last [OF assms(3)] key_entry_def split: slice.split)
qed

theorem enumerate_all_complete_witness:
  "EnumerateAll cloud_provider ''infra.spaces_key'' ex_cloud = Some (Ok [key_entry ex_key], ex_cloud)
   \<and> map out_ProviderID [key_entry ex_key] = [''AK'']"
  using enumerate_all_complete [OF _ mem_client_lists(5,4), of cloud_provider ex_cloud]
  by (simp add: cloud_provider_def) (simp add: ex_cloud_def ex_key_def)

text \<open>
  Revoking a credential is idempotent. Where the API answers 404 for a key that is gone,
  revoking a key twice succeeds twice and the second call changes nothing; a failure that is not a 404
  is reported; no call reaches the API for an unknown source, an empty id, or before initialisation.
\<close>

theorem revoke_idempotent:
  assumes "prov_client p = Some c" and "i \<noteq> []"
    and "SK_Delete (SpacesKeys c) i w = Some (Ok (st, err), w1)"
    and "SK_Delete (SpacesKeys c) i w1 = Some (Ok (Some 404, Some e404), w1)"
  shows "(if err = None \<or> st = Some 404
       then RevokeProviderCredential p ''digitalocean.spaces'' i w = Some (Ok (), w1)
          \<and> RevokeProviderCredential p ''digitalocean.spaces'' i w1 = Some (Ok (), w1)
       else \<exists>e. RevokeProviderCredential p ''digitalocean.spaces'' i w = Some (Err e, w1))
    \<and> (src \<noteq> ''digitalocean.spaces'' \<or> j = [] \<or> prov_client q = None \<longrightarrow>
        (\<exists>e. RevokeProviderCredential q src j w = Some (Err e, w)))"
  using assms by (auto simp: RevokeProviderCredential_def io_simps split: option.splits)

theorem revoke_idempotent_witness:
  "RevokeProviderCredential cloud_provider ''digitalocean.spaces'' ''AK'' ex_cloud = Some (Ok (), ex_cloud\<lparr>cl_keys := []\<rparr>)
   \<and> RevokeProviderCredential cloud_provider ''digitalocean.spaces'' ''AK'' (ex_cloud\<lparr>cl_keys := []\<rparr>) = Some (Ok (), ex_cloud\<lparr>cl_keys := []\<rparr>)"
  using revoke_idempotent [of cloud_provider mem_client "''AK''" ex_cloud "Some 204" None "ex_cloud\<lparr>cl_keys := []\<rparr>" "GodoError (Some 404) ''not found''"]
  by (simp add: cloud_provider_def mem_client_def ex_cloud_def ex_key_def)

section \<open>Initialisation and planning are consistent\<close>



definition unquoted :: "('w \<Rightarrow> go_error option) \<Rightarrow> string \<Rightarrow> 'w sizes_client option \<Rightarrow> 'w \<Rightarrow> resource_spec \<Rightarrow> bool" where
  "unquoted ctx_err now sizes w spec = (spec_Type spec = ''infra.droplet'' \<and> (\<exists>e. QuoteDropletPrice ctx_err now sizes spec w = Some (Err e, w)))"

lemma check_caps_result:
  assumes "\<And>spec. spec \<in> set desired \<Longrightarrow> spec_Type spec = ''infra.droplet'' \<Longrightarrow>
      (\<exists>q. QuoteDropletPrice ctx_err now sizes spec w = Some (Ok q, w))
      \<or> (\<exists>e. QuoteDropletPrice ctx_err now sizes spec w = Some (Err e, w))"
  shows "if list_ex (unquoted ctx_err now sizes w) desired
     then \<exists>e. check_caps ctx_err now sizes desired w = Some (Err e, w)
     else check_caps ctx_err now sizes desired w = Some (Ok (), w)"
  using assms
proof (induction desired)
  case Nil
  then show ?case by (simp add: io_simps)
next
  case (Cons spec specs)
  then have IH: "if list_ex (unquoted ctx_err now sizes w) specs
     then \<exists>e. check_caps ctx_err now sizes specs w = Some (Err e, w)
     else check_caps ctx_err now sizes specs w = Some (Ok (), w)"
    by simp
  show ?case
  proof (cases "spec_Type spec = ''infra.droplet''")
    case False
    then have "\<not> unquoted ctx_err now sizes w spec" by (simp add: unquoted_def)
    then show ?thesis using IH False by simp
  next
    case True
    from Cons.prems [of spec] True consider q where "QuoteDropletPrice ctx_err now sizes spec w = Some (Ok q, w)"
      | e where "QuoteDropletPrice ctx_err now sizes spec w = Some (Err e, w)"
      by auto
    then show ?thesis
    proof cases
      case 1
      then have "\<not> unquoted ctx_err now sizes w spec" by (simp add: unquoted_def)
      then show ?thesis using IH True 1 by (simp add: io_simps)
    next
      case 2
      then have "unquoted ctx_err now sizes w spec" using True by (simp add: unquoted_def)
      then show ?thesis using True 2 by (simp add: io_simps)
    qed
  qed
qed

text \<open>
  No plan without its prices. When quoting leaves the world unchanged, a desired droplet whose
  quote fails stops \<^verbatim>\<open>Plan\<close> with an error, before the engine's planner is ever called, so that no
  cached diff can get around the cap; when every droplet is quoted the plan is the planner's.
\<close>

theorem plan_requires_quotes:
  assumes "\<And>spec. spec \<in> set desired \<Longrightarrow> spec_Type spec = ''infra.droplet'' \<Longrightarrow>
      (\<exists>q. QuoteDropletPrice ctx_err now sizes spec w = Some (Ok q, w))
      \<or> (\<exists>e. QuoteDropletPrice ctx_err now sizes spec w = Some (Err e, w))"
  shows "if list_ex (unquoted ctx_err now sizes w) desired
     then \<exists>e. \<forall>compute. provider_Plan compute ctx_err now sizes desired w = Some (Err e, w)
     else \<forall>compute. provider_Plan compute ctx_err now sizes desired w = compute desired w"
proof (cases "list_ex (unquoted ctx_err now sizes w) desired")
  case True
  then obtain e where "check_caps ctx_err now sizes desired w = Some (Err e, w)"
    using check_caps_result [of desired, OF assms] by (auto split: if_splits)
  then show ?thesis using True by (auto simp: provider_Plan_def io_simps)
next
  case False
  then have "check_caps ctx_err now sizes desired w = Some (Ok (), w)"
    using check_caps_result [of desired, OF assms] by (auto split: if_splits)
  then show ?thesis using False by (simp add: provider_Plan_def io_simps)
qed

theorem plan_requires_quotes_witness:
  "\<exists>e. provider_Plan (\<lambda>desired. io_ok (length desired)) (\<lambda>_. None) ''t'' (None :: unit sizes_client option)
     [ex_capped_spec\<lparr>spec_Type := ''infra.vpc''\<rparr>, ex_capped_spec] () = Some (Err e, ())"
proof -
  let ?d = "[ex_capped_spec\<lparr>spec_Type := ''infra.vpc''\<rparr>, ex_capped_spec]"
  have v: "validPriceSlug ''s-2''" "validPriceSlug ''nyc3''" by code_simp+
  have q: "\<exists>e. QuoteDropletPrice (\<lambda>_. None) ''t'' (None :: unit sizes_client option) ex_capped_spec () = Some (Err e, ())"
    by (simp add: QuoteDropletPrice_def ex_capped_spec_def dropletMonthlyCap_def io_simps v)
  then have "list_ex (unquoted (\<lambda>_. None) ''t'' (None :: unit sizes_client option) ()) ?d"
    by (simp add: unquoted_def ex_capped_spec_def)
  moreover have "spec \<in> set ?d \<Longrightarrow> spec_Type spec = ''infra.droplet'' \<Longrightarrow> spec = ex_capped_spec" for spec
    by auto
  ultimately show ?thesis
    using plan_requires_quotes [of ?d "\<lambda>_. None" "''t''" "None :: unit sizes_client option" "()"] q by (metis (no_types, lifting))
qed

end
