(* ===== verification/Ownership.thy ===== *)
theory Ownership
  imports Provider
begin

text \<open>
  Ownership of resources (\<^verbatim>\<open>internal/ownership.go\<close>): the owner of a resource is kept as a tag of
  the resource, whose name holds the owner, in URL-safe base64 where it has other characters than
  a tag may have. The standard library's \<^verbatim>\<open>base64.RawURLEncoding\<close> is modelled here: it skips line
  breaks when decoding and ignores the unused bits of the last digit.
\<close>

section \<open>Base64, URL alphabet, no padding\<close>

definition b64_digit :: "nat \<Rightarrow> char" where
  "b64_digit n = (if n < 26 then char_of (65 + n) else if n < 52 then char_of (71 + n)
     else if n < 62 then char_of (n - 4) else if n = 62 then CHR ''-'' else CHR ''_'')"

definition b64_value :: "char \<Rightarrow> nat option" where
  "b64_value c = (let n = (of_char c :: nat) in
     if 65 \<le> n \<and> n \<le> 90 then Some (n - 65) else if 97 \<le> n \<and> n \<le> 122 then Some (n - 71)
     else if 48 \<le> n \<and> n \<le> 57 then Some (n + 4) else if n = 45 then Some 62
     else if n = 95 then Some 63 else None)"

fun b64_bytes :: "nat list \<Rightarrow> char list" where
  "b64_bytes [] = []"
| "b64_bytes [a] = [b64_digit (a div 4), b64_digit (a mod 4 * 16)]"
| "b64_bytes [a, b] = [b64_digit (a div 4), b64_digit (a mod 4 * 16 + b div 16), b64_digit (b mod 16 * 4)]"
| "b64_bytes (a # b # c # r) = b64_digit (a div 4) # b64_digit (a mod 4 * 16 + b div 16)
     # b64_digit (b mod 16 * 4 + c div 64) # b64_digit (c mod 64) # b64_bytes r"

definition b64_encode :: "string \<Rightarrow> string" where
  "b64_encode s = b64_bytes (map of_char s)"

fun b64_values :: "nat list \<Rightarrow> nat list option" where
  "b64_values [] = Some []"
| "b64_values [x] = None"
| "b64_values [x, y] = Some [x * 4 + y div 16]"
| "b64_values [x, y, z] = Some [x * 4 + y div 16, y mod 16 * 16 + z div 4]"
| "b64_values (x # y # z # u # r) = map_option (\<lambda>bs. (x * 4 + y div 16) # (y mod 16 * 16 + z div 4) # (z mod 4 * 64 + u) # bs) (b64_values r)"

definition b64_decode :: "string \<Rightarrow> string option" where
  "b64_decode s = (let cs = filter (\<lambda>c. c \<noteq> CHR 0x0A \<and> c \<noteq> CHR 0x0D) s in
     if list_all (\<lambda>c. b64_value c \<noteq> None) cs
     then map_option (map char_of) (b64_values (map (the \<circ> b64_value) cs)) else None)"

subsection \<open>Facts\<close>

lemma of_char_byte: "n < 256 \<Longrightarrow> (of_char (char_of n :: char) :: nat) = n"
  by simp

lemma b64_value_line_break: "b64_value (CHR 0x0A) = None" "b64_value (CHR 0x0D) = None"
  by (simp_all add: b64_value_def Let_def)

lemma b64_value_digit:
  assumes "n < 64"
  shows "b64_value (b64_digit n) = Some n"
proof -
  consider "n < 26" | "26 \<le> n" "n < 52" | "52 \<le> n" "n < 62" | "n = 62" | "n = 63"
    using assms by linarith
  then show ?thesis
  proof cases
    case 1
    then show ?thesis using of_char_byte [of "65 + n"] by (simp add: b64_digit_def b64_value_def Let_def)
  next
    case 2
    then show ?thesis using of_char_byte [of "71 + n"] by (simp add: b64_digit_def b64_value_def Let_def)
  next
    case 3
    then show ?thesis using of_char_byte [of "n - 4"] by (simp add: b64_digit_def b64_value_def Let_def) linarith
  qed (simp_all add: b64_digit_def b64_value_def Let_def)
qed

lemma b64_digit_value: "n < 64 \<Longrightarrow> b64_value (b64_digit n) = Some n \<and> b64_digit n \<noteq> CHR 0x0A \<and> b64_digit n \<noteq> CHR 0x0D"
  using b64_value_digit [of n] b64_value_line_break by auto

fun b64_groups :: "nat list \<Rightarrow> nat list" where
  "b64_groups [] = []"
| "b64_groups [a] = [a div 4, a mod 4 * 16]"
| "b64_groups [a, b] = [a div 4, a mod 4 * 16 + b div 16, b mod 16 * 4]"
| "b64_groups (a # b # c # r) = a div 4 # (a mod 4 * 16 + b div 16) # (b mod 16 * 4 + c div 64) # (c mod 64) # b64_groups r"

lemma b64_bytes_groups: "b64_bytes bs = map b64_digit (b64_groups bs)"
  by (induction bs rule: b64_groups.induct) auto

lemma b64_groups_small: "list_all (\<lambda>b. b < 256) bs \<Longrightarrow> list_all (\<lambda>d. d < 64) (b64_groups bs)"
proof (induction bs rule: b64_groups.induct)
  case (2 a)
  then show ?case by simp
next
  case (3 a b)
  then show ?case by auto
next
  case (4 a b c r)
  then show ?case by auto
qed simp

lemma b64_regroup:
  fixes a b c :: nat
  assumes "b < 256" "c < 256"
  shows "a div 4 * 4 + (a mod 4 * 16 + b div 16) div 16 = a"
    and "(a mod 4 * 16 + b div 16) mod 16 * 16 + (b mod 16 * 4 + c div 64) div 4 = b"
    and "(b mod 16 * 4 + c div 64) mod 4 * 64 + c mod 64 = c"
proof -
  have q: "b div 16 < 16" "c div 64 < 4" using assms by simp_all
  have "(a mod 4 * 16 + b div 16) div 16 = a mod 4" "(a mod 4 * 16 + b div 16) mod 16 = b div 16"
    "(b mod 16 * 4 + c div 64) div 4 = b mod 16" "(b mod 16 * 4 + c div 64) mod 4 = c div 64"
    using q by simp_all
  then show "a div 4 * 4 + (a mod 4 * 16 + b div 16) div 16 = a"
    "(a mod 4 * 16 + b div 16) mod 16 * 16 + (b mod 16 * 4 + c div 64) div 4 = b"
    "(b mod 16 * 4 + c div 64) mod 4 * 64 + c mod 64 = c"
    using div_mult_mod_eq [of a 4] div_mult_mod_eq [of b 16] div_mult_mod_eq [of c 64] by simp_all
qed

lemma b64_values_groups: "list_all (\<lambda>b. b < 256) bs \<Longrightarrow> b64_values (b64_groups bs) = Some bs"
proof (induction bs rule: b64_groups.induct)
  case (2 a)
  then show ?case by simp
next
  case (3 a b)
  then show ?case using b64_regroup(1,2) [where a = a and b = b and c = 0] by simp
next
  case (4 a b c r)
  then show ?case using b64_regroup(1,2) [where a = a and b = b and c = c] b64_regroup(3) [where b = b and c = c] by simp
qed simp

lemma b64_roundtrip [simp]: "b64_decode (b64_encode s) = Some s"
proof -
  let ?bs = "map (of_char :: char \<Rightarrow> nat) s"
  have small: "list_all (\<lambda>b. b < 256) ?bs" by (simp add: list_all_iff)
  have g: "d < 64" if "d \<in> set (b64_groups ?bs)" for d
    using b64_groups_small [OF small] that by (simp add: list_all_iff)
  have f: "filter (\<lambda>c. c \<noteq> CHR 0x0A \<and> c \<noteq> CHR 0x0D) (b64_encode s) = b64_encode s"
    by (rule filter_True) (auto simp: b64_encode_def b64_bytes_groups dest!: g b64_digit_value)
  have a: "list_all (\<lambda>c. b64_value c \<noteq> None) (b64_encode s)"
    using g b64_digit_value by (auto simp: b64_encode_def b64_bytes_groups list_all_iff)
  have "map (the \<circ> b64_value) (b64_encode s) = b64_groups ?bs"
    using g b64_digit_value by (auto simp: b64_encode_def b64_bytes_groups intro!: map_idI)
  then show ?thesis
    unfolding b64_decode_def f Let_def using a b64_values_groups [OF small] by (simp add: comp_def)
qed

lemma length_b64: "length (b64_encode s) = (4 * length s + 2) div 3"
  unfolding b64_encode_def
proof (induction "map (of_char :: char \<Rightarrow> nat) s" arbitrary: s rule: b64_bytes.induct)
  case (4 a b c r)
  then obtain x y z t where "s = x # y # z # t" by (auto simp: Cons_eq_map_conv)
  then show ?case using 4 by simp
qed auto

section \<open>Owner tags\<close>

definition ownershipTagPrefix :: string where
  "ownershipTagPrefix = ''workflow-owner:''"

definition ownershipTagMaxLen :: nat where
  "ownershipTagMaxLen = 255"

definition tag_char :: "char \<Rightarrow> bool" where
  "tag_char r = (let n = (of_char r :: nat) in
     (97 \<le> n \<and> n \<le> 122) \<or> (65 \<le> n \<and> n \<le> 90) \<or> (48 \<le> n \<and> n \<le> 57) \<or> n = 58 \<or> n = 45 \<or> n = 95)"

definition isPlainOwnerSuffix :: "string \<Rightarrow> bool" where
  "isPlainOwnerSuffix owner = (\<not> has_prefix owner ''b64:'' \<and> list_all tag_char owner)"

definition ownerTagName :: "string \<Rightarrow> string res" where
  "ownerTagName owner =
     (if owner = [] then Err (Errorf ''digitalocean: owner must be non-empty'' [])
      else
        let suffix = (if isPlainOwnerSuffix owner then owner else ''b64:'' @ b64_encode owner);
            tag = ownershipTagPrefix @ suffix
        in if length tag > ownershipTagMaxLen
           then Err (Errorf ''digitalocean: owner tag exceeds %d characters'' [FInt (int ownershipTagMaxLen)])
           else Ok tag)"

definition ownerFromTag :: "string \<Rightarrow> string option" where
  "ownerFromTag tag = (case cut_prefix tag ownershipTagPrefix of
     None \<Rightarrow> None
   | Some suffix \<Rightarrow>
       if suffix = [] then None
       else case cut_prefix suffix ''b64:'' of
         Some encoded \<Rightarrow> b64_decode encoded
       | None \<Rightarrow> Some suffix)"

definition isTagAlreadyExists :: "go_error \<Rightarrow> bool" where
  "isTagAlreadyExists e = (case errors_as_godo e of Some (st, _) \<Rightarrow> st = Some 422 | None \<Rightarrow> False)"

fun only_strings :: "gval list \<Rightarrow> string list" where
  "only_strings [] = []"
| "only_strings (v # vs) = (case as_str (Some v) of Some s \<Rightarrow> s # only_strings vs | None \<Rightarrow> only_strings vs)"

definition stringSliceFromAny :: "gval option \<Rightarrow> string list" where
  "stringSliceFromAny v = (case v of
     Some (GStrs tags) \<Rightarrow> elems tags
   | Some (GAnys tags) \<Rightarrow> only_strings (elems tags)
   | _ \<Rightarrow> [])"

definition ownershipTagResource :: "resource_ref \<Rightarrow> (string \<times> resource_kind) res" where
  "ownershipTagResource ref =
     (if ref_ProviderID ref = []
      then Err (Errorf ''digitalocean: ownership requires provider id for %s/%s'' [FStr (ref_Type ref), FStr (ref_Name ref)])
      else if ref_Type ref = ''infra.droplet'' then Ok (ref_ProviderID ref, DropletKind)
      else if ref_Type ref = ''infra.volume'' then Ok (ref_ProviderID ref, VolumeKind)
      else if ref_Type ref = ''infra.database'' \<or> ref_Type ref = ''infra.cache'' then Ok (ref_ProviderID ref, DatabaseKind)
      else Err (Wrapf ''digitalocean: ownership unsupported for %s: %w'' [FStr (ref_Type ref)] (Sentinel ErrProviderMethodUnimplemented)))"

definition resourceTags :: "'w do_provider \<Rightarrow> resource_ref \<Rightarrow> ('w, string list) io" where
  "resourceTags p ref =
     io_bind (io_res (ownershipTagResource ref)) (\<lambda>_.
     io_bind (io_res (provider_driver p (ref_Type ref))) (\<lambda>d.
     io_bind (rd_Read d ref) (\<lambda>out.
     case out of
       None \<Rightarrow> io_ok []
     | Some o' \<Rightarrow> io_ok (stringSliceFromAny (map_of (out_Outputs o') ''tags'')))))"

section \<open>Reading and setting the owner\<close>

record resource_owner =
  ro_Ref :: resource_ref
  ro_Owner :: string
  ro_Source :: string

definition owner_record :: "resource_ref \<Rightarrow> string \<Rightarrow> resource_owner" where
  "owner_record ref o' = \<lparr>ro_Ref = ref, ro_Owner = o', ro_Source = ''tag:workflow-owner''\<rparr>"

fun first_owner :: "string list \<Rightarrow> string option" where
  "first_owner [] = None"
| "first_owner (tag # tags) = (case ownerFromTag tag of Some o' \<Rightarrow> Some o' | None \<Rightarrow> first_owner tags)"

definition GetOwner :: "'w do_provider \<Rightarrow> resource_ref \<Rightarrow> ('w, resource_owner) io" where
  "GetOwner p ref =
     (case prov_client p of
        None \<Rightarrow> io_err (Errorf ''digitalocean: GetOwner called on provider that is not initialized'' [])
      | Some _ \<Rightarrow>
          io_bind (resourceTags p ref) (\<lambda>tags.
          io_ok (owner_record ref (case first_owner tags of Some o' \<Rightarrow> o' | None \<Rightarrow> []))))"

fun untag_others :: "'w do_client \<Rightarrow> string \<times> resource_kind \<Rightarrow> resource_ref \<Rightarrow> string \<Rightarrow> string list \<Rightarrow> ('w, unit) io" where
  "untag_others c resource ref tag [] = io_ok ()"
| "untag_others c resource ref tag (existing # tags) =
     (if ownerFromTag existing = None \<or> existing = tag then untag_others c resource ref tag tags
      else io_bind (io_wrap (\<lambda>e. Wrapf ''digitalocean: remove owner tag %q from %s/%s: %w''
                               [FStr existing, FStr (ref_Type ref), FStr (ref_Name ref)] (WrapGodoError e))
                     (UntagResources c existing resource)) (\<lambda>_.
           untag_others c resource ref tag tags))"

definition SetOwner :: "'w do_provider \<Rightarrow> resource_ref \<Rightarrow> string \<Rightarrow> ('w, unit) io" where
  "SetOwner p ref owner =
     (case prov_client p of
        None \<Rightarrow> io_err (Errorf ''digitalocean: SetOwner called on provider that is not initialized'' [])
      | Some c \<Rightarrow>
          io_bind (io_res (ownershipTagResource ref)) (\<lambda>resource.
          io_bind (io_res (ownerTagName owner)) (\<lambda>tag.
          io_bind (resourceTags p ref) (\<lambda>tags.
          io_bind (untag_others c resource ref tag tags) (\<lambda>_.
          io_bind (io_handle (Tags_Create c tag) io_ok
                     (\<lambda>e. if isTagAlreadyExists e then io_ok ()
                          else io_err (Wrapf ''digitalocean: create owner tag %q: %w'' [FStr tag] (WrapGodoError e)))) (\<lambda>_.
          io_wrap (\<lambda>e. Wrapf ''digitalocean: tag %s/%s with owner %q: %w''
                         [FStr (ref_Type ref), FStr (ref_Name ref), FStr owner] (WrapGodoError e))
            (TagResources c tag resource)))))))"

section \<open>Listing owners\<close>

definition ownershipDropletRefsByTag :: "'w do_client \<Rightarrow> string \<Rightarrow> ('w, resource_ref list) io" where
  "ownershipDropletRefsByTag c tag =
     io_bind (collect_next (Droplets_ListByTag c tag) not_last
       (\<lambda>_ e. Wrapf ''digitalocean: list droplets by owner tag %q: %w'' [FStr tag] (WrapGodoError e))
       (Wrapf ''digitalocean: paginate droplets by owner tag: %w'' []) 1 []) (\<lambda>ds.
     io_ok (map droplet_ref_of ds))"

definition ownershipVolumeRefsByTag :: "'w do_client \<Rightarrow> string \<Rightarrow> ('w, resource_ref list) io" where
  "ownershipVolumeRefsByTag c tag =
     io_bind (collect_next (ListVolumes c) not_last
       (\<lambda>_ e. Wrapf ''digitalocean: list volumes by owner tag %q: %w'' [FStr tag] (WrapGodoError e))
       (Wrapf ''digitalocean: paginate volumes by owner tag: %w'' []) 1 []) (\<lambda>vs.
     io_ok (map volume_ref_of (filter (\<lambda>v. stringSliceContains (vol_Tags v) tag) vs)))"

definition ownershipDatabaseRefsByTag :: "'w do_client \<Rightarrow> string \<Rightarrow> string \<Rightarrow> ('w, resource_ref list) io" where
  "ownershipDatabaseRefsByTag c tag resourceType =
     io_bind (collect_next (Databases_List c) not_last
       (\<lambda>_ e. Wrapf ''digitalocean: list databases by owner tag %q: %w'' [FStr tag] (WrapGodoError e))
       (Wrapf ''digitalocean: paginate databases by owner tag: %w'' []) 1 []) (\<lambda>dbs.
     io_ok (map database_ref_of (filter (\<lambda>db. stringSliceContains (dbe_Tags db) tag \<and> database_type db = resourceType) dbs)))"

definition ownershipRefsByTag :: "'w do_provider \<Rightarrow> string \<Rightarrow> string \<Rightarrow> ('w, resource_ref list) io" where
  "ownershipRefsByTag p tag resourceType =
     (if resourceType = [] then EnumerateByTag p tag
      else io_deref (prov_client p) (\<lambda>c.
        io_handle (Tags_Get c tag)
          (\<lambda>_. if resourceType = ''infra.droplet'' then ownershipDropletRefsByTag c tag
               else if resourceType = ''infra.volume'' then ownershipVolumeRefsByTag c tag
               else if resourceType = ''infra.database'' \<or> resourceType = ''infra.cache''
               then ownershipDatabaseRefsByTag c tag resourceType
               else io_ok [])
          (\<lambda>e. if is_404 e then io_ok []
               else io_err (Wrapf ''digitalocean: get owner tag %q: %w'' [FStr tag] (WrapGodoError e)))))"

definition listOwnersForTag :: "'w do_provider \<Rightarrow> string \<Rightarrow> string \<Rightarrow> ('w, resource_owner list) io" where
  "listOwnersForTag p owner resourceType =
     io_bind (io_res (ownerTagName owner)) (\<lambda>tag.
     io_bind (ownershipRefsByTag p tag resourceType) (\<lambda>refs.
     io_ok (map (\<lambda>ref. owner_record ref owner)
       (filter (\<lambda>ref. \<not> (resourceType \<noteq> [] \<and> ref_Type ref \<noteq> resourceType)) refs))))"

fun owners_of_tags :: "'w do_provider \<Rightarrow> string \<Rightarrow> string list \<Rightarrow> ('w, resource_owner list) io" where
  "owners_of_tags p resourceType [] = io_ok []"
| "owners_of_tags p resourceType (tag # tags) =
     (case ownerFromTag tag of
        None \<Rightarrow> owners_of_tags p resourceType tags
      | Some o' \<Rightarrow>
          io_bind (listOwnersForTag p o' resourceType) (\<lambda>owners.
          io_bind (owners_of_tags p resourceType tags) (\<lambda>rest. io_ok (owners @ rest))))"

text \<open>
  The loop over the pages of tags; the listings of a page's owners run before the next page is asked
  for.
\<close>

partial_function (option) owner_pages ::
  "('w, string) lister \<Rightarrow> (string list \<Rightarrow> ('w, resource_owner list) io) \<Rightarrow> nat \<Rightarrow> resource_owner list \<Rightarrow> 'w
   \<Rightarrow> (resource_owner list res \<times> 'w) option" where
  "owner_pages lst per_page page acc w =
     (case lst page w of
        None \<Rightarrow> None
      | Some (r, w') \<Rightarrow>
        (case r of
           Err e \<Rightarrow> Some (Err (Wrapf ''digitalocean: list owner tags: %w'' [] (WrapGodoError e)), w')
         | Panic m \<Rightarrow> Some (Panic m, w')
         | Ok (tags, l) \<Rightarrow>
           (case per_page tags w' of
              None \<Rightarrow> None
            | Some (r2, w2) \<Rightarrow>
              (case r2 of
                 Err e \<Rightarrow> Some (Err e, w2)
               | Panic m \<Rightarrow> Some (Panic m, w2)
               | Ok owners \<Rightarrow>
                 (case l of
                    None \<Rightarrow> Some (Ok (acc @ owners), w2)
                  | Some k \<Rightarrow>
                    (if is_last_page k then Some (Ok (acc @ owners), w2)
                     else case current_page k of
                       Err e \<Rightarrow> Some (Err (Wrapf ''digitalocean: paginate owner tags: %w'' [] e), w2)
                     | Panic m \<Rightarrow> Some (Panic m, w2)
                     | Ok n \<Rightarrow> owner_pages lst per_page (nat (n + 1)) (acc @ owners) w2))))))"

definition ListOwners :: "'w do_provider \<Rightarrow> string \<Rightarrow> string \<Rightarrow> ('w, resource_owner list) io" where
  "ListOwners p owner resourceType =
     (case prov_client p of
        None \<Rightarrow> io_err (Errorf ''digitalocean: ListOwners called on provider that is not initialized'' [])
      | Some c \<Rightarrow>
          if owner \<noteq> [] then listOwnersForTag p owner resourceType
          else owner_pages (Tags_List c) (owners_of_tags p resourceType) 1 [])"

section \<open>The tag determines the owner\<close>

lemma b64_value_tag_char: "b64_value c \<noteq> None \<Longrightarrow> tag_char c"
  by (auto simp: b64_value_def tag_char_def Let_def split: if_splits)

lemma b64_encode_tag_chars: "list_all tag_char (b64_encode s)"
proof -
  have small: "list_all (\<lambda>b. b < 256) (map (of_char :: char \<Rightarrow> nat) s)" by (simp add: list_all_iff)
  have "tag_char (b64_digit d)" if "d \<in> set (b64_groups (map of_char s))" for d
    using that b64_groups_small [OF small] by (intro b64_value_tag_char) (simp add: list_all_iff b64_value_digit)
  then show ?thesis by (simp add: b64_encode_def b64_bytes_groups list_all_iff)
qed

lemma cut_prefix_None: "\<not> has_prefix s q \<Longrightarrow> cut_prefix s q = None"
  by (simp add: cut_prefix_def)

lemma ownerFromTag_name:
  assumes "ownerTagName owner = Ok tag"
  shows "ownerFromTag tag = Some owner"
  using assms by (auto simp: ownerTagName_def ownerFromTag_def Let_def isPlainOwnerSuffix_def cut_prefix_None
      simp del: append.simps split: if_splits)

lemma prefix_tag_chars: "list_all tag_char ownershipTagPrefix" "list_all tag_char ''b64:''"
  by (simp_all add: ownershipTagPrefix_def tag_char_def Let_def)

lemma owner_tag_props:
  assumes "ownerTagName owner = Ok tag"
  shows "length tag \<le> 255" "list_all tag_char tag" "has_prefix tag ownershipTagPrefix"
  using assms prefix_tag_chars b64_encode_tag_chars [of owner]
  by (auto simp: ownerTagName_def Let_def isPlainOwnerSuffix_def ownershipTagMaxLen_def simp del: append.simps split: if_splits)

text \<open>
  C16: the tag of an owner is faithful. Whenever \<^verbatim>\<open>ownerTagName\<close> yields a tag, it has at most
  255 characters, all of them letters, digits, colons, hyphens or underscores, and
  \<^verbatim>\<open>ownerFromTag\<close> reads back exactly the owner, whatever bytes it is made of; so two owners never
  share a tag. Every non-empty owner of at most 177 bytes has a tag, and an empty one has none.
\<close>

theorem owner_tag_roundtrip:
  "(ownerTagName owner = Ok tag \<longrightarrow> ownerFromTag tag = Some owner \<and> length tag \<le> 255 \<and> list_all tag_char tag
      \<and> (ownerTagName other = Ok tag \<longrightarrow> other = owner))
   \<and> (owner \<noteq> [] \<and> length owner \<le> 177 \<longrightarrow> (\<exists>t. ownerTagName owner = Ok t))
   \<and> (\<exists>e. ownerTagName [] = Err e)"
proof (intro conjI impI)
  assume o: "ownerTagName owner = Ok tag"
  show "ownerFromTag tag = Some owner" by (rule ownerFromTag_name [OF o])
  show "length tag \<le> 255" "list_all tag_char tag" using owner_tag_props [OF o] by blast+
  show "other = owner" if "ownerTagName other = Ok tag"
    using ownerFromTag_name [OF o] ownerFromTag_name [OF that] by simp
next
  assume "owner \<noteq> [] \<and> length owner \<le> 177"
  moreover from this have "(4 * length owner + 2) div 3 \<le> 236" by linarith
  ultimately show "\<exists>t. ownerTagName owner = Ok t"
    by (simp add: ownerTagName_def Let_def ownershipTagMaxLen_def length_b64 ownershipTagPrefix_def)
qed (simp add: ownerTagName_def)

theorem owner_tag_roundtrip_witness:
  "ownerTagName ''ops team'' = Ok ''workflow-owner:b64:b3BzIHRlYW0'' \<and> ownerFromTag ''workflow-owner:b64:b3BzIHRlYW0'' = Some ''ops team''"
proof -
  have t: "ownerTagName ''ops team'' = Ok ''workflow-owner:b64:b3BzIHRlYW0''"
    by (simp add: ownerTagName_def isPlainOwnerSuffix_def has_prefix_def tag_char_def ownershipTagPrefix_def ownershipTagMaxLen_def
        b64_encode_def b64_digit_def Let_def) (intro conjI; code_simp)
  have "ownerFromTag ''workflow-owner:b64:b3BzIHRlYW0'' = Some ''ops team''"
    using mp [OF conjunct1 [OF owner_tag_roundtrip] t] by (rule conjunct1)
  with t show ?thesis by (rule conjI)
qed

section \<open>Setting the owner\<close>

text \<open>
  What the tag calls of the API do to the tags of one resource \<open>res\<close>, in the worlds where it
  \<open>exists\<close>: untagging removes one tag, tagging adds one, creating a tag succeeds or says the tag
  exists already and changes no resource.
\<close>

locale tagged_resource =
  fixes c :: "'w do_client"
    and resource :: "string \<times> resource_kind"
    and tags :: "'w \<Rightarrow> string list"
    and exist :: "'w \<Rightarrow> bool"
  assumes untag: "exist w \<Longrightarrow> \<exists>w'. UntagResources c t resource w = Some (Ok (), w') \<and> exist w' \<and> tags w' = removeAll t (tags w)"
    and create: "exist w \<Longrightarrow> \<exists>r w'. Tags_Create c t w = Some (r, w') \<and> (r = Ok () \<or> (\<exists>m. r = Err (GodoError (Some 422) m)))
        \<and> exist w' \<and> tags w' = tags w"
    and add_tag: "exist w \<Longrightarrow> \<exists>w'. TagResources c t resource w = Some (Ok (), w') \<and> exist w' \<and> set (tags w') = insert t (set (tags w))"
begin

lemma untag_others_result:
  "exist w \<Longrightarrow> \<exists>w'. untag_others c resource ref tag ts w = Some (Ok (), w') \<and> exist w'
     \<and> tags w' = filter (\<lambda>x. \<not> (x \<in> set ts \<and> ownerFromTag x \<noteq> None \<and> x \<noteq> tag)) (tags w)"
proof (induction ts arbitrary: w)
  case Nil
  then show ?case by (simp add: io_simps)
next
  case (Cons x xs)
  show ?case
  proof (cases "ownerFromTag x = None \<or> x = tag")
    case True
    obtain w' where w': "untag_others c resource ref tag xs w = Some (Ok (), w')" "exist w'"
      "tags w' = filter (\<lambda>y. \<not> (y \<in> set xs \<and> ownerFromTag y \<noteq> None \<and> y \<noteq> tag)) (tags w)"
      using Cons.IH [OF Cons.prems] by blast
    moreover have "filter (\<lambda>y. \<not> (y \<in> set xs \<and> ownerFromTag y \<noteq> None \<and> y \<noteq> tag)) (tags w)
        = filter (\<lambda>y. \<not> (y \<in> set (x # xs) \<and> ownerFromTag y \<noteq> None \<and> y \<noteq> tag)) (tags w)"
      using True by (intro filter_cong) auto
    ultimately show ?thesis using True by simp
  next
    case False
    obtain w1 where w1: "UntagResources c x resource w = Some (Ok (), w1)" "exist w1" "tags w1 = removeAll x (tags w)"
      using untag [OF Cons.prems] by blast
    obtain w' where w': "untag_others c resource ref tag xs w1 = Some (Ok (), w')" "exist w'"
      "tags w' = filter (\<lambda>y. \<not> (y \<in> set xs \<and> ownerFromTag y \<noteq> None \<and> y \<noteq> tag)) (tags w1)"
      using Cons.IH [OF w1(2)] by blast
    moreover have "filter (\<lambda>y. \<not> (y \<in> set xs \<and> ownerFromTag y \<noteq> None \<and> y \<noteq> tag)) (tags w1)
        = filter (\<lambda>y. \<not> (y \<in> set (x # xs) \<and> ownerFromTag y \<noteq> None \<and> y \<noteq> tag)) (tags w)"
      using False by (auto simp: w1(3) removeAll_filter_not_eq intro!: filter_cong)
    ultimately show ?thesis using False w1(1) by (auto simp: io_simps)
  qed
qed

lemma SetOwner_result:
  assumes "exist w" and "prov_client p = Some c" and "ownershipTagResource ref = Ok resource"
    and "ownerTagName owner = Ok tag" and "resourceTags p ref w = Some (Ok (tags w), w)"
  shows "\<exists>w'. SetOwner p ref owner w = Some (Ok (), w') \<and> exist w'
     \<and> set (tags w') = insert tag {x \<in> set (tags w). ownerFromTag x = None}"
proof -
  obtain w1 where w1: "untag_others c resource ref tag (tags w) w = Some (Ok (), w1)" "exist w1"
    "tags w1 = filter (\<lambda>x. \<not> (x \<in> set (tags w) \<and> ownerFromTag x \<noteq> None \<and> x \<noteq> tag)) (tags w)"
    using untag_others_result [OF assms(1)] by blast
  obtain r w2 where w2: "Tags_Create c tag w1 = Some (r, w2)" "r = Ok () \<or> (\<exists>m. r = Err (GodoError (Some 422) m))"
    "exist w2" "tags w2 = tags w1"
    using create [OF w1(2)] by blast
  obtain w3 where w3: "TagResources c tag resource w2 = Some (Ok (), w3)" "exist w3" "set (tags w3) = insert tag (set (tags w2))"
    using add_tag [OF w2(3)] by blast
  have "SetOwner p ref owner w = Some (Ok (), w3)"
    using w2(2) by (auto simp: SetOwner_def assms io_simps w1(1) w2(1) w3(1) isTagAlreadyExists_def)
  moreover have "set (tags w3) = insert tag {x \<in> set (tags w). ownerFromTag x = None}"
    by (auto simp: w3(3) w2(4) w1(3))
  ultimately show ?thesis using w3(2) by blast
qed

end

subsection \<open>The volumes of the account in memory\<close>

lemma first_match_update:
  "(\<And>v. vol_ID (g v) = vol_ID v) \<Longrightarrow> first_match (\<lambda>v. vol_ID v = i) (map (\<lambda>v. if vol_ID v = i then g v else v) vs)
     = map_option g (first_match (\<lambda>v. vol_ID v = i) vs)"
  by (induction vs) auto

definition volume_of :: "string \<Rightarrow> cloud \<Rightarrow> volume option" where
  "volume_of i w = first_match (\<lambda>v. vol_ID v = i) (cl_volumes w)"

definition volume_tags :: "string \<Rightarrow> cloud \<Rightarrow> string list" where
  "volume_tags i w = (case volume_of i w of None \<Rightarrow> [] | Some v \<Rightarrow> vol_Tags v)"

definition has_volume :: "string \<Rightarrow> cloud \<Rightarrow> bool" where
  "has_volume i w = (volume_of i w \<noteq> None)"

lemma volume_of_retag:
  "volume_of i (retag f (i, VolumeKind) w) = map_option (\<lambda>v. v\<lparr>vol_Tags := f (vol_Tags v)\<rparr>) (volume_of i w)"
  by (simp add: volume_of_def first_match_update)

lemma volume_tags_retag:
  "has_volume i w \<Longrightarrow> has_volume i (retag f (i, VolumeKind) w) \<and> volume_tags i (retag f (i, VolumeKind) w) = f (volume_tags i w)"
  by (auto simp: has_volume_def volume_tags_def volume_of_retag simp del: retag.simps)

interpretation cloud_volume: tagged_resource mem_client "(i, VolumeKind)" "volume_tags i" "has_volume i" for i
proof
  fix w :: cloud and t assume e: "has_volume i w"
  show "\<exists>w'. UntagResources mem_client t (i, VolumeKind) w = Some (Ok (), w') \<and> has_volume i w' \<and> volume_tags i w' = removeAll t (volume_tags i w)"
    using volume_tags_retag [OF e] by (simp add: mem_client_def del: retag.simps)
  show "\<exists>r w'. Tags_Create mem_client t w = Some (r, w') \<and> (r = Ok () \<or> (\<exists>m. r = Err (GodoError (Some 422) m)))
        \<and> has_volume i w' \<and> volume_tags i w' = volume_tags i w"
    using e by (simp add: mem_client_def has_volume_def volume_tags_def volume_of_def)
  show "\<exists>w'. TagResources mem_client t (i, VolumeKind) w = Some (Ok (), w') \<and> has_volume i w' \<and> set (volume_tags i w') = insert t (set (volume_tags i w))"
    using volume_tags_retag [OF e] by (auto simp: mem_client_def simp del: retag.simps)
qed

text \<open>The volume driver as the provider holds it, and on the account in memory.\<close>

definition volume_as_driver :: "'w volume_driver \<Rightarrow> 'w resource_driver" where
  "volume_as_driver d = \<lparr>rd_Read = (\<lambda>ref. io_bind (volume_Read d ref) (\<lambda>out. io_ok (Some out))),
     rd_Delete = volume_Delete d, rd_Diff = (\<lambda>spec cur. io_bind (io_res (volume_Diff spec cur)) (\<lambda>dif. io_ok (Some dif)))\<rparr>"

definition cloud_volumes :: "cloud volume_driver" where
  "cloud_volumes = \<lparr>vd_client = \<lparr>CreateVolume = (\<lambda>rq. io_err (Opaque ''read only'')),
       GetVolume = (\<lambda>i w. case volume_of i w of None \<Rightarrow> Some (Err (GodoError (Some 404) ''not found''), w) | Some v \<Rightarrow> Some (Ok (Some v), w)),
       DeleteVolume = (\<lambda>i w. Some (Ok (), w\<lparr>cl_volumes := filter (\<lambda>v. vol_ID v \<noteq> i) (cl_volumes w)\<rparr>))\<rparr>,
     vd_actions = None, vd_region = ''nyc3''\<rparr>"

definition owner_provider :: "cloud do_provider" where
  "owner_provider = \<lparr>prov_client = Some mem_client,
     prov_drivers = (\<lambda>t. if t = ''infra.volume'' then Some (volume_as_driver cloud_volumes) else None)\<rparr>"

lemma only_strings_GStr [simp]: "only_strings (map GStr ts) = ts"
  by (induction ts) auto

lemma volumeOutput_tags [simp]: "stringSliceFromAny (map_of (out_Outputs (volumeOutput v)) ''tags'') = vol_Tags v"
  by (simp add: volumeOutput_def stringSliceFromAny_def)

lemma owner_provider_tags:
  assumes "has_volume (ref_ProviderID ref) w" "ref_Type ref = ''infra.volume''" "ref_ProviderID ref \<noteq> []"
  shows "resourceTags owner_provider ref w = Some (Ok (volume_tags (ref_ProviderID ref) w), w)"
  using assms by (auto simp: resourceTags_def ownershipTagResource_def io_simps provider_driver_def owner_provider_def
      volume_as_driver_def volume_Read_def cloud_volumes_def has_volume_def volume_tags_def split: option.splits)

subsection \<open>The owner that was set is the one that is read\<close>

lemma first_owner_unique:
  assumes "t \<in> set ts" "ownerFromTag t = Some o'" "\<And>x. x \<in> set ts \<Longrightarrow> ownerFromTag x \<noteq> None \<Longrightarrow> x = t"
  shows "first_owner ts = Some o'"
  using assms
proof (induction ts)
  case (Cons x xs)
  show ?case
  proof (cases "ownerFromTag x")
    case None
    then have "t \<in> set xs" using Cons.prems(1,2) by auto
    moreover have "y = t" if "y \<in> set xs" "ownerFromTag y \<noteq> None" for y
      using Cons.prems(3) [of y] that by (simp del: not_None_eq)
    ultimately have "first_owner xs = Some o'" using Cons.IH Cons.prems(2) by blast
    then show ?thesis using None by simp
  next
    case (Some y)
    then have "x = t" using Cons.prems(3) [of x] by simp
    then show ?thesis using Cons.prems(2) by simp
  qed
qed simp

text \<open>
  C12: the owner that was set is the owner that is read, and the only one. Over an API that tags and
  untags one resource as documented, \<^verbatim>\<open>SetOwner\<close> with an owner that has a tag succeeds (whether the
  tag existed before or not), leaves on the resource exactly one owner tag, that of the new owner, and
  every tag that is not an owner tag; \<^verbatim>\<open>GetOwner\<close> then returns the owner. Setting it again changes
  no tag.
\<close>

theorem set_owner_get_owner:
  assumes "tagged_resource c res tags exist" and "prov_client p = Some c" and "ownershipTagResource ref = Ok res"
    and "\<forall>v. exist v \<longrightarrow> resourceTags p ref v = Some (Ok (tags v), v)"
    and "exist w" and "ownerTagName owner = Ok tag"
  shows "\<exists>w'. SetOwner p ref owner w = Some (Ok (), w') \<and> exist w'
     \<and> {x \<in> set (tags w'). ownerFromTag x \<noteq> None} = {tag}
     \<and> {x \<in> set (tags w'). ownerFromTag x = None} = {x \<in> set (tags w). ownerFromTag x = None}
     \<and> GetOwner p ref w' = Some (Ok \<lparr>ro_Ref = ref, ro_Owner = owner, ro_Source = ''tag:workflow-owner''\<rparr>, w')
     \<and> (\<exists>w2. SetOwner p ref owner w' = Some (Ok (), w2) \<and> set (tags w2) = set (tags w'))"
proof -
  note set_owner = tagged_resource.SetOwner_result [OF assms(1) _ assms(2,3,6) assms(4) [rule_format]]
  have o: "ownerFromTag tag = Some owner" by (rule ownerFromTag_name [OF assms(6)])
  obtain w' where w': "SetOwner p ref owner w = Some (Ok (), w')" "exist w'"
    "set (tags w') = insert tag {x \<in> set (tags w). ownerFromTag x = None}"
    using set_owner [OF assms(5,5)] by blast
  obtain w2 where w2: "SetOwner p ref owner w' = Some (Ok (), w2)"
    "set (tags w2) = insert tag {x \<in> set (tags w'). ownerFromTag x = None}"
    using set_owner [OF w'(2,2)] by blast
  have "first_owner (tags w') = Some owner"
    by (rule first_owner_unique [where t = tag]) (auto simp: w'(3) o)
  then have "GetOwner p ref w' = Some (Ok \<lparr>ro_Ref = ref, ro_Owner = owner, ro_Source = ''tag:workflow-owner''\<rparr>, w')"
    by (simp add: GetOwner_def assms(2) io_simps assms(4) [rule_format, OF w'(2)] owner_record_def)
  moreover have "set (tags w2) = set (tags w')" by (auto simp: w2(2) w'(3) o)
  moreover have "{x \<in> set (tags w'). ownerFromTag x \<noteq> None} = {tag}"
    "{x \<in> set (tags w'). ownerFromTag x = None} = {x \<in> set (tags w). ownerFromTag x = None}"
    by (auto simp: w'(3) o)
  ultimately show ?thesis using w' w2(1) by blast
qed

theorem set_owner_get_owner_witness:
  "\<exists>w'. SetOwner owner_provider (ex_ref ''infra.volume'' ''vol-0'') ''ops'' ex_cloud = Some (Ok (), w')
     \<and> GetOwner owner_provider (ex_ref ''infra.volume'' ''vol-0'') w'
       = Some (Ok \<lparr>ro_Ref = ex_ref ''infra.volume'' ''vol-0'', ro_Owner = ''ops'', ro_Source = ''tag:workflow-owner''\<rparr>, w')"
proof -
  let ?ref = "ex_ref ''infra.volume'' ''vol-0''"
  have ref: "ref_ProviderID ?ref = ''vol-0''" "ref_Type ?ref = ''infra.volume''" "ownershipTagResource ?ref = Ok (''vol-0'', VolumeKind)"
    by (simp_all add: ex_ref_def ownershipTagResource_def)
  have t: "\<forall>v. has_volume ''vol-0'' v \<longrightarrow> resourceTags owner_provider ?ref v = Some (Ok (volume_tags ''vol-0'' v), v)"
    using owner_provider_tags [of ?ref] ref by simp
  have c: "prov_client owner_provider = Some mem_client" by (simp add: owner_provider_def)
  have e: "has_volume ''vol-0'' ex_cloud" by (simp add: has_volume_def volume_of_def ex_cloud_def)
  have n: "ownerTagName ''ops'' = Ok ''workflow-owner:ops''" by code_simp
  show ?thesis
    using set_owner_get_owner [where tags = "volume_tags ''vol-0''" and exist = "has_volume ''vol-0''" and ref = ?ref,
        OF cloud_volume.tagged_resource_axioms c ref(3) t e n] by (elim exE conjE) (intro exI conjI)
qed

section \<open>Listing owners\<close>

text \<open>The resources the API shows under a tag.\<close>

definition tagged_refs :: "'w do_client \<Rightarrow> (string \<Rightarrow> 'w \<Rightarrow> droplet_entry list list) \<Rightarrow> ('w \<Rightarrow> volume list list)
    \<Rightarrow> ('w \<Rightarrow> database_entry list list) \<Rightarrow> string \<Rightarrow> 'w \<Rightarrow> resource_ref set" where
  "tagged_refs c dp vp bp tag w = droplet_ref_of ` set (concat (dp tag w))
     \<union> volume_ref_of ` {v \<in> set (concat (vp w)). tag \<in> set (vol_Tags v)}
     \<union> database_ref_of ` {b \<in> set (concat (bp w)). tag \<in> set (dbe_Tags b)}"

text \<open>An API whose listings return their pages in order, and whose tag lookup changes nothing.\<close>

definition listing_api :: "'w do_client \<Rightarrow> (string \<Rightarrow> 'w \<Rightarrow> droplet_entry list list) \<Rightarrow> ('w \<Rightarrow> volume list list)
    \<Rightarrow> ('w \<Rightarrow> database_entry list list) \<Rightarrow> bool" where
  "listing_api c dp vp bp = ((\<forall>t. linked_list (Droplets_ListByTag c t) (dp t)) \<and> linked_list (ListVolumes c) vp
     \<and> linked_list (Databases_List c) bp)"

lemma typed_part:
  assumes "\<And>d. ty (f d) \<noteq> t" "\<And>v. ty (g v) \<noteq> t" "\<And>b. ty (h b) = k b"
  shows "{r \<in> set (map h (filter (\<lambda>b. P b \<and> k b = t) xs)). ty r = t} = {r \<in> f ` D \<union> g ` V \<union> h ` {b \<in> set xs. P b}. ty r = t}"
proof (intro subset_antisym subsetI)
  fix r assume "r \<in> {r \<in> f ` D \<union> g ` V \<union> h ` {b \<in> set xs. P b}. ty r = t}"
  then obtain b where "r = h b" "b \<in> set xs" "P b" "ty r = t"
    using assms(1,2) by (elim CollectE conjE UnE imageE) simp_all
  then show "r \<in> {r \<in> set (map h (filter (\<lambda>b. P b \<and> k b = t) xs)). ty r = t}"
    using assms(3) [of b] by auto
next
  fix r assume "r \<in> {r \<in> set (map h (filter (\<lambda>b. P b \<and> k b = t) xs)). ty r = t}"
  then obtain b where "r = h b" "b \<in> set xs" "P b" "ty r = t" by (auto simp only: set_map set_filter)
  then show "r \<in> {r \<in> f ` D \<union> g ` V \<union> h ` {b \<in> set xs. P b}. ty r = t}" by simp
qed

lemma refs_by_tag:
  assumes "listing_api c dp vp bp" and "prov_client p = Some c" and "tag \<noteq> []" and "Tags_Get c tag w = Some (Ok (), w)"
  shows "\<exists>refs. ownershipRefsByTag p tag t w = Some (Ok refs, w)
     \<and> {r \<in> set refs. t \<noteq> [] \<longrightarrow> ref_Type r = t} = {r \<in> tagged_refs c dp vp bp tag w. t \<noteq> [] \<longrightarrow> ref_Type r = t}"
proof -
  have l: "linked_list (Droplets_ListByTag c t) (dp t)" "linked_list (ListVolumes c) vp" "linked_list (Databases_List c) bp" for t
    using assms(1) by (simp_all add: listing_api_def)
  have e: "EnumerateByTag p tag w = Some (Ok (map droplet_ref_of (concat (dp tag w))
      @ map volume_ref_of (filter (\<lambda>v. tag \<in> set (vol_Tags v)) (concat (vp w)))
      @ map database_ref_of (filter (\<lambda>b. tag \<in> set (dbe_Tags b)) (concat (bp w)))), w)"
    using assms(2-4) by (simp add: EnumerateByTag_def io_simps collect_not_last [OF l(1)] collect_not_last [OF l(2)] collect_not_last [OF l(3)])
  have ty: "ref_Type (droplet_ref_of d) = ''infra.droplet''" "ref_Type (volume_ref_of v) = ''infra.volume''"
    "ref_Type (database_ref_of b) = database_type b" "database_type b = ''infra.cache'' \<or> database_type b = ''infra.database''" for d v b
    by (auto simp: droplet_ref_of_def volume_ref_of_def database_ref_of_def database_type_def)
  note paged = ownershipDropletRefsByTag_def ownershipVolumeRefsByTag_def ownershipDatabaseRefsByTag_def
  show ?thesis
  proof (cases "t = []")
    case True
    then show ?thesis using e by (auto simp: ownershipRefsByTag_def tagged_refs_def)
  next
    case False
    have g: "ownershipRefsByTag p tag t w = (if t = ''infra.droplet'' then ownershipDropletRefsByTag c tag
               else if t = ''infra.volume'' then ownershipVolumeRefsByTag c tag
               else if t = ''infra.database'' \<or> t = ''infra.cache'' then ownershipDatabaseRefsByTag c tag t else io_ok []) w"
      using False assms(2,4) by (simp add: ownershipRefsByTag_def io_simps)
    consider "t = ''infra.droplet''" | "t = ''infra.volume''" | "t = ''infra.database'' \<or> t = ''infra.cache''"
      | "t \<noteq> ''infra.droplet''" "t \<noteq> ''infra.volume''" "t \<noteq> ''infra.database''" "t \<noteq> ''infra.cache''" by blast
    then show ?thesis
    proof cases
      case 1
      have "\<not> ref_Type (database_ref_of b) = t" for b using ty(3,4) [of b] 1 by auto
      moreover have "ownershipRefsByTag p tag t w = Some (Ok (map droplet_ref_of (concat (dp tag w))), w)"
        unfolding g using 1 by (simp add: paged io_simps collect_not_last [OF l(1)])
      ultimately show ?thesis using 1 by (intro exI conjI) (auto simp: tagged_refs_def ty(1,2) simp del: set_concat)
    next
      case 2
      have "\<not> ref_Type (database_ref_of b) = t" for b using ty(3,4) [of b] 2 by auto
      moreover have "ownershipRefsByTag p tag t w = Some (Ok (map volume_ref_of (filter (\<lambda>v. tag \<in> set (vol_Tags v)) (concat (vp w)))), w)"
        unfolding g using 2 by (simp add: paged io_simps collect_not_last [OF l(2)])
      ultimately show ?thesis using 2 by (intro exI conjI) (auto simp: tagged_refs_def ty(1,2) simp del: set_concat)
    next
      case 3
      have "ownershipRefsByTag p tag t w = Some (Ok (map database_ref_of
          (filter (\<lambda>db. tag \<in> set (dbe_Tags db) \<and> database_type db = t) (concat (bp w)))), w)"
        unfolding g using 3 by (auto simp: paged io_simps collect_not_last [OF l(3)])
      moreover have a: "ref_Type (droplet_ref_of d) \<noteq> t" and b: "ref_Type (volume_ref_of v) \<noteq> t" for d v
        unfolding ty(1,2) using 3 by auto
      have "{r \<in> set (map database_ref_of (filter (\<lambda>db. tag \<in> set (dbe_Tags db) \<and> database_type db = t) (concat (bp w)))). t \<noteq> [] \<longrightarrow> ref_Type r = t}
          = {r \<in> tagged_refs c dp vp bp tag w. t \<noteq> [] \<longrightarrow> ref_Type r = t}"
        unfolding tagged_refs_def using False
        by (simp only: simp_thms not_False_eq_True) (rule typed_part [where ty = ref_Type, OF a b ty(3)])
      ultimately show ?thesis by (intro exI conjI)
    next
      case 4
      have "\<not> ref_Type (database_ref_of b) = t" for b using ty(3,4) [of b] 4 by auto
      moreover have "ownershipRefsByTag p tag t w = Some (Ok [], w)"
        unfolding g using 4 by (simp add: io_simps)
      ultimately show ?thesis using 4 False by (intro exI conjI) (auto simp: tagged_refs_def ty(1,2) simp del: set_concat)
    qed
  qed
qed

lemma list_owners_for_tag:
  assumes "listing_api c dp vp bp" and "prov_client p = Some c" and "ownerTagName owner = Ok tag" and "Tags_Get c tag w = Some (Ok (), w)"
  shows "\<exists>os. listOwnersForTag p owner t w = Some (Ok os, w)
     \<and> set os = (\<lambda>r. owner_record r owner) ` {r \<in> tagged_refs c dp vp bp tag w. t \<noteq> [] \<longrightarrow> ref_Type r = t}"
proof -
  have "tag \<noteq> []" using owner_tag_props(3) [OF assms(3)] by (auto simp: has_prefix_def ownershipTagPrefix_def)
  then obtain refs where r: "ownershipRefsByTag p tag t w = Some (Ok refs, w)"
    "{r \<in> set refs. t \<noteq> [] \<longrightarrow> ref_Type r = t} = {r \<in> tagged_refs c dp vp bp tag w. t \<noteq> [] \<longrightarrow> ref_Type r = t}"
    using refs_by_tag [OF assms(1,2) _ assms(4)] by blast
  have "listOwnersForTag p owner t w = Some (Ok (map (\<lambda>ref. owner_record ref owner)
       (filter (\<lambda>ref. \<not> (t \<noteq> [] \<and> ref_Type ref \<noteq> t)) refs)), w)"
    by (simp add: listOwnersForTag_def io_simps assms(3) r(1))
  moreover have "set (filter (\<lambda>ref. \<not> (t \<noteq> [] \<and> ref_Type ref \<noteq> t)) refs) = {r \<in> set refs. t \<noteq> [] \<longrightarrow> ref_Type r = t}"
    by auto
  ultimately show ?thesis using r(2) by (metis (no_types, lifting) list.set_map)
qed

text \<open>All tags of the account, when listing the resources of each of them changes nothing.\<close>

lemma owner_pages_from:
  assumes "linked_list lst pages"
    and "\<And>xs. set xs \<subseteq> set (concat (pages w)) \<Longrightarrow> per_page xs w = Some (Ok (concat (map f xs)), w)"
  shows "i < length (pages w) \<Longrightarrow> owner_pages lst per_page (Suc i) acc w
     = Some (Ok (acc @ concat (map f (concat (drop i (pages w))))), w)"
proof (induction "length (pages w) - i" arbitrary: i acc)
  case 0
  then show ?case by simp
next
  case (Suc n)
  have d: "drop i (pages w) = pages w ! i # drop (Suc i) (pages w)"
    using Suc.prems by (simp add: Cons_nth_drop_Suc)
  have pp: "per_page (pages w ! i) w = Some (Ok (concat (map f (pages w ! i))), w)"
    by (rule assms(2)) (unfold set_concat, rule UN_upper, rule nth_mem [OF Suc.prems])
  from linked_list.page_step [OF assms(1) Suc.prems not_last_or]
  consider (last) l where "lst (Suc i) w = Some (Ok (pages w ! i, l), w)" "Suc i = length (pages w)"
      "l = None \<or> (\<exists>k. l = Some k \<and> \<not> not_last k)"
    | (further) k where "lst (Suc i) w = Some (Ok (pages w ! i, Some k), w)" "Suc i < length (pages w)"
      "not_last k" "current_page k = Ok (int (Suc i))"
    by metis
  then show ?case
  proof cases
    case (last l)
    then show ?thesis
      using d pp by (auto simp: owner_pages.simps not_last_def)
  next
    case (further k)
    have n: "n = length (pages w) - Suc i" using Suc.hyps(2) by arith
    have s: "nat (int (Suc i) + 1) = Suc (Suc i)" by arith
    show ?thesis
      using further d s pp Suc.hyps(1) [OF n further(2)]
      by (simp add: owner_pages.simps [of lst per_page "Suc i"] not_last_def)
  qed
qed

definition owners_of_tag :: "'w do_provider \<Rightarrow> string \<Rightarrow> string \<Rightarrow> ('w, resource_owner list) io" where
  "owners_of_tag p t tag = (case ownerFromTag tag of None \<Rightarrow> io_ok [] | Some o' \<Rightarrow> listOwnersForTag p o' t)"

lemma owners_of_tags_all:
  "list_all (\<lambda>x. owners_of_tag p t x w = Some (Ok (f x), w)) xs \<Longrightarrow> owners_of_tags p t xs w = Some (Ok (concat (map f xs)), w)"
  by (induction xs) (auto simp: owners_of_tag_def io_simps split: option.splits)

text \<open>
  The inventory of owners is complete and sound. Over listings that return their pages in order,
  when each owner tag of the account is the tag of its owner and can be looked up,
  \<^verbatim>\<open>ListOwners\<close> without an owner terminates and returns exactly the pairs of a tagged resource (of the
  asked type, or of any) with the owner its tag names, over every page of tags; with an owner it
  returns exactly the resources carrying that owner's tag. So filtering by the type in the API calls
  gives the same as listing everything and filtering afterwards.
\<close>

theorem list_owners_exact:
  assumes "listing_api c dp vp bp" and "linked_list (Tags_List c) tp" and "prov_client p = Some c"
    and "\<forall>tag \<in> set (concat (tp w)). \<forall>o'. ownerFromTag tag = Some o' \<longrightarrow>
           ownerTagName o' = Ok tag \<and> Tags_Get c tag w = Some (Ok (), w)"
  shows "(\<exists>os. ListOwners p [] t w = Some (Ok os, w) \<and> set os = {\<lparr>ro_Ref = r, ro_Owner = o', ro_Source = ''tag:workflow-owner''\<rparr> | r o' tag.
           tag \<in> set (concat (tp w)) \<and> ownerFromTag tag = Some o' \<and> r \<in> tagged_refs c dp vp bp tag w \<and> (t = [] \<or> ref_Type r = t)})
     \<and> (\<forall>tag o'. tag \<in> set (concat (tp w)) \<and> ownerFromTag tag = Some o' \<and> o' \<noteq> [] \<longrightarrow>
         (\<exists>os. ListOwners p o' t w = Some (Ok os, w) \<and> ro_Ref ` set os = {r \<in> tagged_refs c dp vp bp tag w. t = [] \<or> ref_Type r = t}))"
proof -
  have l: "\<exists>os. listOwnersForTag p o' t w = Some (Ok os, w)
     \<and> set os = (\<lambda>r. owner_record r o') ` {r \<in> tagged_refs c dp vp bp tag w. t \<noteq> [] \<longrightarrow> ref_Type r = t}"
    if "tag \<in> set (concat (tp w))" "ownerFromTag tag = Some o'" for tag o'
    using list_owners_for_tag [OF assms(1,3)] assms(4) that by blast
  define spec where "spec tag os = (owners_of_tag p t tag w = Some (Ok os, w) \<and> set os = {owner_record r o' | r o'.
      ownerFromTag tag = Some o' \<and> r \<in> tagged_refs c dp vp bp tag w \<and> (t = [] \<or> ref_Type r = t)})" for tag os
  have "\<exists>os. spec tag os" if "tag \<in> set (concat (tp w))" for tag
  proof (cases "ownerFromTag tag")
    case None
    then show ?thesis by (simp add: spec_def owners_of_tag_def io_simps)
  next
    case (Some o')
    then show ?thesis using l [OF that Some] by (auto simp: spec_def owners_of_tag_def)
  qed
  then obtain f where f: "spec tag (f tag)" if "tag \<in> set (concat (tp w))" for tag
    by metis
  have one: "owners_of_tag p t tag w = Some (Ok (f tag), w)" if "tag \<in> set (concat (tp w))" for tag
    using f [OF that] by (simp add: spec_def)
  have "0 < length (tp w)"
    using assms(2) by (simp add: linked_list_def paged_list_def)
  moreover have "owners_of_tags p t xs w = Some (Ok (concat (map f xs)), w)" if "set xs \<subseteq> set (concat (tp w))" for xs
    using that one by (intro owners_of_tags_all) (auto simp: list_all_iff simp del: set_concat)
  ultimately have "owner_pages (Tags_List c) (owners_of_tags p t) (Suc 0) [] w = Some (Ok (concat (map f (concat (tp w)))), w)"
    using owner_pages_from [OF assms(2), of w "owners_of_tags p t" f 0 "[]"] by (simp del: set_concat)
  then have A: "ListOwners p [] t w = Some (Ok (concat (map f (concat (tp w)))), w)"
    by (simp add: ListOwners_def assms(3))
  have B: "set (concat (map f (concat (tp w)))) = {\<lparr>ro_Ref = r, ro_Owner = o', ro_Source = ''tag:workflow-owner''\<rparr> | r o' tag.
           tag \<in> set (concat (tp w)) \<and> ownerFromTag tag = Some o' \<and> r \<in> tagged_refs c dp vp bp tag w \<and> (t = [] \<or> ref_Type r = t)}"
    (is "?l = ?r")
  proof -
    have "?l = (\<Union>tag \<in> set (concat (tp w)). set (f tag))" by (metis set_concat set_map image_image)
    also have "\<dots> = (\<Union>tag \<in> set (concat (tp w)). {owner_record r o' | r o'.
        ownerFromTag tag = Some o' \<and> r \<in> tagged_refs c dp vp bp tag w \<and> (t = [] \<or> ref_Type r = t)})"
      using f unfolding spec_def by (intro SUP_cong refl) blast
    also have "\<dots> = ?r" unfolding owner_record_def by blast
    finally show ?thesis .
  qed
  have D: "\<exists>os. ListOwners p o' t w = Some (Ok os, w) \<and> ro_Ref ` set os = {r \<in> tagged_refs c dp vp bp tag w. t = [] \<or> ref_Type r = t}"
    if pr: "tag \<in> set (concat (tp w))" "ownerFromTag tag = Some o'" "o' \<noteq> []" for tag o'
  proof -
    obtain os where "listOwnersForTag p o' t w = Some (Ok os, w)"
      "set os = (\<lambda>r. owner_record r o') ` {r \<in> tagged_refs c dp vp bp tag w. t \<noteq> [] \<longrightarrow> ref_Type r = t}"
      using l [OF pr(1,2)] by blast
    then show ?thesis using pr(3) by (intro exI [of _ os]) (auto simp: ListOwners_def assms(3) image_image owner_record_def)
  qed
  show ?thesis
    by (rule conjI, rule exI, rule conjI [OF A B], intro allI impI, elim conjE, rule D)
qed

definition ex_owned_volume :: volume where
  "ex_owned_volume = \<lparr>vol_ID = ''vol-0'', vol_Name = ''data'', vol_SizeGigaBytes = 10, vol_Region = Some ''nyc3'',
     vol_FilesystemType = ''ext4'', vol_Description = [], vol_Tags = [''prod'', ''workflow-owner:ops'']\<rparr>"

definition ex_owned :: cloud where
  "ex_owned = \<lparr>cl_droplets = [], cl_volumes = [ex_owned_volume], cl_databases = [], cl_domains = [], cl_keys = [],
     cl_tags = [''prod'', ''workflow-owner:ops'']\<rparr>"

lemma only_pair:
  assumes "f a = None" "f b = Some q" "R b = {x}" "ty x = k"
  shows "(tag \<in> set [a, b] \<and> f tag = Some o' \<and> r \<in> R tag \<and> (C \<or> ty r = k)) \<longleftrightarrow> tag = b \<and> o' = q \<and> r = x"
proof
  assume l: "tag \<in> set [a, b] \<and> f tag = Some o' \<and> r \<in> R tag \<and> (C \<or> ty r = k)"
  then have "tag = a \<or> tag = b" by simp
  moreover have "tag \<noteq> a" using l assms(1) by (metis option.distinct(1))
  ultimately have "tag = b" by blast
  with l show "tag = b \<and> o' = q \<and> r = x" using assms(2,3) by simp
next
  assume "tag = b \<and> o' = q \<and> r = x"
  then show "tag \<in> set [a, b] \<and> f tag = Some o' \<and> r \<in> R tag \<and> (C \<or> ty r = k)" using assms(2-4) by simp
qed

theorem list_owners_exact_witness:
  "\<exists>os. ListOwners owner_provider [] ''infra.volume'' ex_owned = Some (Ok os, ex_owned)
     \<and> set os = {\<lparr>ro_Ref = volume_ref_of ex_owned_volume, ro_Owner = ''ops'', ro_Source = ''tag:workflow-owner''\<rparr>}"
proof -
  define dp where "dp = (\<lambda>t (w :: cloud). nonempty_pages (one_per_page (map fst (filter (\<lambda>d. List.member (snd d) t) (cl_droplets w)))))"
  define vp where "vp = (\<lambda>w :: cloud. nonempty_pages (one_per_page (cl_volumes w)))"
  define bp where "bp = (\<lambda>w :: cloud. nonempty_pages (one_per_page (cl_databases w)))"
  define tp where "tp = (\<lambda>w :: cloud. nonempty_pages (one_per_page (cl_tags w)))"
  have l: "listing_api mem_client dp vp bp" "linked_list (Tags_List mem_client) tp"
    using mem_client_lists by (auto simp: listing_api_def dp_def vp_def bp_def tp_def)
  have c: "prov_client owner_provider = Some mem_client" by (simp add: owner_provider_def)
  have pages: "concat (dp t ex_owned) = []" "concat (vp ex_owned) = [ex_owned_volume]" "concat (bp ex_owned) = []"
    "concat (tp ex_owned) = [''prod'', ''workflow-owner:ops'']" for t
    by (simp_all add: dp_def vp_def bp_def tp_def, simp_all add: ex_owned_def)
  have o: "ownerFromTag ''prod'' = None" "ownerFromTag ''workflow-owner:ops'' = Some ''ops''" "ownerTagName ''ops'' = Ok ''workflow-owner:ops''"
    by code_simp+
  have g: "Tags_Get mem_client ''workflow-owner:ops'' ex_owned = Some (Ok (), ex_owned)"
    by (simp add: mem_client_def ex_owned_def)
  have tr: "tagged_refs mem_client dp vp bp ''workflow-owner:ops'' ex_owned = {volume_ref_of ex_owned_volume}"
    unfolding tagged_refs_def pages by (auto simp: ex_owned_volume_def)
  have h: "\<forall>tag \<in> set (concat (tp ex_owned)). \<forall>o'. ownerFromTag tag = Some o' \<longrightarrow>
           ownerTagName o' = Ok tag \<and> Tags_Get mem_client tag ex_owned = Some (Ok (), ex_owned)"
    unfolding pages by (simp add: o g)
  obtain os where os: "ListOwners owner_provider [] ''infra.volume'' ex_owned = Some (Ok os, ex_owned)"
    "set os = {\<lparr>ro_Ref = r, ro_Owner = o', ro_Source = ''tag:workflow-owner''\<rparr> | r o' tag. tag \<in> set (concat (tp ex_owned))
       \<and> ownerFromTag tag = Some o' \<and> r \<in> tagged_refs mem_client dp vp bp tag ex_owned \<and> (''infra.volume'' = [] \<or> ref_Type r = ''infra.volume'')}"
    using conjunct1 [OF list_owners_exact [OF l c h, of "''infra.volume''"]] by (elim exE conjE)
  have "(tag \<in> set [''prod'', ''workflow-owner:ops''] \<and> ownerFromTag tag = Some o'
       \<and> r \<in> tagged_refs mem_client dp vp bp tag ex_owned \<and> (''infra.volume'' = [] \<or> ref_Type r = ''infra.volume''))
     \<longleftrightarrow> tag = ''workflow-owner:ops'' \<and> o' = ''ops'' \<and> r = volume_ref_of ex_owned_volume" for r o' tag
    by (rule only_pair [where f = ownerFromTag and ty = ref_Type and R = "\<lambda>t. tagged_refs mem_client dp vp bp t ex_owned", OF o(1,2) tr]) (simp add: volume_ref_of_def)
  note eq = this
  have "set os = {\<lparr>ro_Ref = volume_ref_of ex_owned_volume, ro_Owner = ''ops'', ro_Source = ''tag:workflow-owner''\<rparr>}"
    using os(2) unfolding pages eq by simp
  with os(1) show ?thesis by (intro exI conjI)
qed

end
