(* ===== verification/AppTypes.thy ===== *)
theory AppTypes
  imports ConfigUtil
begin

text \<open>
  The App Platform objects of package \<^verbatim>\<open>godo\<close> that the plugin reads and writes: apps, their
  specs and deployments. A pointer is an option, a list of pointers a list of options; the string
  types of the package (registry types, phases, kinds) are strings. A spec's fields that the plugin
  never looks at are not represented.
\<close>

section \<open>Components of a spec\<close>

record image_source =
  img_RegistryType :: string
  img_Registry :: string
  img_Repository :: string
  img_Tag :: string
  img_Digest :: string
  img_Credentials :: string

record env_var =
  ev_Key :: string
  ev_Value :: string
  ev_Type :: string
  ev_Scope :: string

record app_route =
  rt_Path :: string
  rt_PreservePathPrefix :: bool

record string_match =
  sm_Exact :: string
  sm_Prefix :: string
  sm_Regex :: string

record cors_policy =
  cors_AllowOrigins :: "string_match list"
  cors_AllowMethods :: "string list"
  cors_AllowHeaders :: "string list"
  cors_ExposeHeaders :: "string list"
  cors_MaxAge :: string
  cors_AllowCredentials :: bool

text \<open>A service's health check and its liveness check have the same fields.\<close>

record health_check =
  hc_HTTPPath :: string
  hc_InitialDelaySeconds :: int
  hc_PeriodSeconds :: int
  hc_TimeoutSeconds :: int
  hc_SuccessThreshold :: int
  hc_FailureThreshold :: int
  hc_Port :: int

record autoscaling =
  as_MinInstanceCount :: int
  as_MaxInstanceCount :: int
  as_CPUPercent :: "int option"

text \<open>\<open>F32 x\<close> is \<^verbatim>\<open>float32(x)\<close>.\<close>

datatype f32 = F32 f64

record app_alert =
  al_Rule :: string
  al_Operator :: string
  al_Window :: string
  al_Value :: f32
  al_Disabled :: bool

record log_destination =
  ld_Name :: string
  ld_Endpoint :: string
  ld_TLSInsecure :: bool
  ld_Papertrail :: "string option"
  ld_Datadog :: "(string \<times> string) option"
  ld_Logtail :: "string option"

record termination_spec =
  tm_DrainSeconds :: int
  tm_GracePeriodSeconds :: int

record app_service =
  svc_Name :: string
  svc_Image :: "image_source option"
  svc_HTTPPort :: int
  svc_InstanceCount :: int
  svc_Envs :: "env_var option list"
  svc_BuildCommand :: string
  svc_RunCommand :: string
  svc_DockerfilePath :: string
  svc_SourceDir :: string
  svc_InstanceSizeSlug :: string
  svc_Protocol :: string
  svc_InternalPorts :: "int list"
  svc_Routes :: "app_route option list"
  svc_HealthCheck :: "health_check option"
  svc_LivenessHealthCheck :: "health_check option"
  svc_CORS :: "cors_policy option"
  svc_Autoscaling :: "autoscaling option"
  svc_Termination :: "termination_spec option"
  svc_LogDestinations :: "log_destination list"
  svc_Alerts :: "app_alert list"

record app_job =
  job_Name :: string
  job_Kind :: string
  job_RunCommand :: string
  job_BuildCommand :: string
  job_DockerfilePath :: string
  job_SourceDir :: string
  job_InstanceSizeSlug :: string
  job_Envs :: "env_var option list"
  job_Image :: "image_source option"
  job_Schedule :: "string option"
  job_Termination :: "int option"
  job_Timeout :: string

record app_worker =
  wk_Name :: string
  wk_RunCommand :: string
  wk_BuildCommand :: string
  wk_DockerfilePath :: string
  wk_SourceDir :: string
  wk_InstanceSizeSlug :: string
  wk_InstanceCount :: int
  wk_Envs :: "env_var option list"
  wk_Autoscaling :: "autoscaling option"
  wk_Image :: "image_source option"
  wk_Termination :: "int option"

record static_site =
  ss_Name :: string
  ss_BuildCommand :: string
  ss_OutputDir :: string
  ss_SourceDir :: string
  ss_DockerfilePath :: string
  ss_IndexDocument :: string
  ss_ErrorDocument :: string
  ss_CatchallDocument :: string
  ss_Envs :: "env_var option list"
  ss_Routes :: "app_route option list"
  ss_CORS :: "cors_policy option"

record app_domain =
  ad_Domain :: string
  ad_Type :: string
  ad_Zone :: string
  ad_Certificate :: string
  ad_MinimumTLSVersion :: string
  ad_Wildcard :: bool

record rule_path =
  rp_Prefix :: "string option"
  rp_Exact :: "string option"

record rule_component =
  rc_Name :: string
  rc_PreservePathPrefix :: bool

text \<open>\<open>ir_Path\<close> is \<^verbatim>\<open>Match.Path\<close>, absent where either pointer is nil.\<close>

record ingress_rule =
  ir_Path :: "rule_path option"
  ir_Component :: "rule_component option"

record app_ingress =
  ing_LoadBalancer :: string
  ing_Rules :: "ingress_rule option list"

record app_maintenance =
  mn_Enabled :: bool
  mn_Archive :: bool
  mn_OfflinePageURL :: string

record app_spec =
  as_Name :: string
  as_Region :: string
  as_Services :: "app_service option list"
  as_Jobs :: "app_job option list"
  as_Workers :: "app_worker option list"
  as_StaticSites :: "static_site option list"
  as_Functions :: "string option list"
  as_Databases :: "string option list"
  as_Domains :: "app_domain option list"
  as_Alerts :: "app_alert list"
  as_Ingress :: "app_ingress option"
  as_Egress :: "string option"
  as_Maintenance :: "app_maintenance option"
  as_Vpc :: "string option"
  as_Features :: "string list"
  as_DisableEdgeCache :: bool
  as_DisableEmailObfuscation :: bool
  as_EnhancedThreatControl :: bool

section \<open>Apps and deployments\<close>

record step_reason =
  sr_Code :: string
  sr_Message :: string

record deploy_step =
  dst_Name :: string
  dst_Status :: string
  dst_Reason :: "string option"

record deploy_progress =
  dp_SuccessSteps :: int
  dp_ErrorSteps :: int
  dp_TotalSteps :: int
  dp_SummarySteps :: "deploy_step option list"
  dp_Steps :: "deploy_step option list"

text \<open>
  The components of a deployment, and the functions and databases of a spec, are given by their names.
  \<open>dep_UpdatedAgo\<close> are the rounded seconds since \<^verbatim>\<open>UpdatedAt\<close>, nothing when that is not set.
\<close>

record deployment =
  dep_ID :: string
  dep_Phase :: string
  dep_Cause :: string
  dep_PreviousDeploymentID :: string
  dep_CreatedAt :: string
  dep_UpdatedAgo :: "int option"
  dep_Progress :: "deploy_progress option"
  dep_Spec :: "app_spec option"
  dep_Services :: "string option list"
  dep_StaticSites :: "string option list"
  dep_Workers :: "string option list"
  dep_Jobs :: "string option list"
  dep_Functions :: "string option list"

datatype domain_step = DomainStep string string "step_reason option" "domain_step option list"

record live_domain =
  lv_ID :: string
  lv_Spec :: "app_domain option"
  lv_Phase :: string
  lv_CertificateExpiresAt :: "string option"
  lv_Validation :: "(string \<times> string) option"
  lv_Validations :: "(string \<times> string) option list"
  lv_Progress :: "domain_step option list option"

record app =
  app_ID :: string
  app_Spec :: "app_spec option"
  app_LiveURL :: string
  app_DefaultIngress :: string
  app_Active :: "deployment option"
  app_InProgress :: "deployment option"
  app_Pending :: "deployment option"
  app_Domains :: "live_domain option list"

section \<open>The client\<close>

text \<open>\<open>Apps_GetLogs\<close> answers the historic URLs of the logs, if it answers logs at all.\<close>

record 'w app_client =
  Apps_Create :: "app_spec \<Rightarrow> ('w, app option) io"
  Apps_Get :: "string \<Rightarrow> ('w, app option) io"
  Apps_List :: "('w, app option) lister"
  Apps_Update :: "string \<Rightarrow> app_spec \<Rightarrow> ('w, app option) io"
  Apps_CreateDeployment :: "string \<Rightarrow> ('w, deployment option) io"
  Apps_ListDeployments :: "string \<Rightarrow> int \<Rightarrow> ('w, deployment option list) io"
  Apps_Delete :: "string \<Rightarrow> ('w, unit) io"
  Apps_GetLogs :: "string \<Rightarrow> string \<Rightarrow> string \<Rightarrow> string \<Rightarrow> int \<Rightarrow> ('w, string list option) io"

text \<open>The registry client: the name of the registry, and the tags of a repository by page.\<close>

record 'w registry_client =
  Registry_Get :: "('w, string option) io"
  Registry_Tags :: "string \<Rightarrow> string \<Rightarrow> ('w, string option) lister"

end
