(* ===== verification/ImageRef.thy ===== *)
theory ImageRef
  imports AppTypes
begin

text \<open>
  Image references (\<^verbatim>\<open>internal/drivers/app_platform.go\<close>): parsing a flat reference into the
  registry, repository and tag the API takes, formatting it back, comparing two references, and
  reading the image of a configuration.
\<close>

section \<open>Parsing and formatting\<close>

definition blanks :: "char list" where
  "blanks = [CHR '' '', CHR 0x09, CHR 0x0A, CHR 0x0D]"

definition image_ref :: "string \<Rightarrow> string \<Rightarrow> string \<Rightarrow> string \<Rightarrow> image_source" where
  "image_ref ty reg repo tag = \<lparr>img_RegistryType = ty, img_Registry = reg, img_Repository = repo, img_Tag = tag,
     img_Digest = [], img_Credentials = []\<rparr>"

definition image_parts :: "string \<Rightarrow> string \<Rightarrow> string list \<Rightarrow> string \<Rightarrow> image_source res" where
  "image_parts imageStr ref parts tag =
     (if has_prefix ref ''registry.digitalocean.com/'' then
        (if length parts < 3
         then Err (Errorf ''invalid DOCR image ref %q: expected registry.digitalocean.com/<registry>/<repo>'' [FStr imageStr])
         else Ok (image_ref ''DOCR'' [] (last parts) tag))
      else if has_prefix ref ''ghcr.io/'' then
        (if length parts < 3
         then Err (Errorf ''invalid GHCR image ref %q: expected ghcr.io/<org>/<repo>'' [FStr imageStr])
         else Ok (image_ref ''GHCR'' (parts ! 1) (last parts) tag))
      else if has_prefix ref ''docker.io/'' then
        (if length parts < 3
         then Err (Errorf ''invalid Docker Hub image ref %q: expected docker.io/<org>/<repo>'' [FStr imageStr])
         else Ok (image_ref ''DOCKER_HUB'' (parts ! 1) (last parts) tag))
      else if length parts < 2
      then Err (Errorf ''unsupported image ref %q'' [FStr imageStr])
      else Ok (image_ref ''DOCKER_HUB'' (parts ! 0) (last parts) tag))"

definition ParseImageRef :: "string \<Rightarrow> image_source res" where
  "ParseImageRef imageStr =
     (if imageStr = [] then Err (Errorf ''image ref is empty'' [])
      else if trim_space imageStr \<noteq> imageStr \<or> contains_any imageStr blanks
      then Err (Errorf ''invalid image ref %q: whitespace is not allowed'' [FStr imageStr])
      else
        let (ref, tag, hasExplicitTag) = (case cut_at (CHR '':'') imageStr of
              Some (a, b) \<Rightarrow> (a, b, True) | None \<Rightarrow> (imageStr, [], False))
        in if hasExplicitTag \<and> tag = []
           then Err (Errorf ''invalid image ref %q: explicit tag is empty'' [FStr imageStr])
           else if List.member tag (CHR '':'')
           then Err (Errorf ''invalid image ref %q: tag must not contain a colon'' [FStr imageStr])
           else
             let tag = (if tag = [] then ''latest'' else tag);
                 parts = split_on (CHR ''/'') ref
             in if contains_any tag blanks
                then Err (Errorf ''invalid image ref %q: tag whitespace is not allowed'' [FStr imageStr])
                else if list_ex (\<lambda>part. part = []) parts
                then Err (Errorf ''invalid image ref %q: empty path segment'' [FStr imageStr])
                else if list_ex (\<lambda>part. contains_any part blanks) parts
                then Err (Errorf ''invalid image ref %q: path whitespace is not allowed'' [FStr imageStr])
                else image_parts imageStr ref parts tag)"

definition formatImageSpec :: "image_source option \<Rightarrow> string" where
  "formatImageSpec image_opt = (case image_opt of
     None \<Rightarrow> []
   | Some img \<Rightarrow>
     if img_Repository img = [] then []
     else
       let tag = (if img_Tag img = [] then ''latest'' else img_Tag img);
           path = (if img_Registry img = [] then img_Repository img else img_Registry img @ ''/'' @ img_Repository img) @ '':'' @ tag
       in if img_RegistryType img = ''DOCR''
          then ''registry.digitalocean.com/'' @ (if img_Registry img = [] then img_Repository img else img_Registry img)
                 @ ''/'' @ img_Repository img @ '':'' @ tag
          else if img_RegistryType img = ''GHCR'' then ''ghcr.io/'' @ path
          else if img_RegistryType img = ''DOCKER_HUB'' then ''docker.io/'' @ path
          else path)"

definition imageRefsEqual :: "string \<Rightarrow> string \<Rightarrow> bool" where
  "imageRefsEqual a b =
     (if a = b then True
      else if a = [] \<or> b = [] then False
      else case (ParseImageRef a, ParseImageRef b) of
        (Ok x, Ok y) \<Rightarrow> img_RegistryType x = img_RegistryType y \<and> img_Registry x = img_Registry y
           \<and> img_Repository x = img_Repository y \<and> img_Tag x = img_Tag y
      | _ \<Rightarrow> False)"

section \<open>The image of a configuration\<close>

definition imageSpecFromMap :: "cfg \<Rightarrow> image_source res" where
  "imageSpecFromMap m =
     (let repo = str_or_empty (map_of m ''repository'') in
      if repo = [] then Err (Errorf ''image map config missing required field %s'' [FStr ''repository''])
      else Ok \<lparr>img_RegistryType = (let t = str_or_empty (map_of m ''registry_type'') in if t = [] then ''DOCR'' else t),
         img_Registry = str_or_empty (map_of m ''registry''), img_Repository = repo,
         img_Tag = (let t = str_or_empty (map_of m ''tag'') in if t = [] then ''latest'' else t),
         img_Digest = [], img_Credentials = str_or_empty (map_of m ''registry_credentials'')\<rparr>)"

definition provider_section :: "cfg \<Rightarrow> cfg option" where
  "provider_section config = (case as_map (map_of config ''provider_specific'') of
     None \<Rightarrow> None | Some ps \<Rightarrow> as_map (map_of ps ''digitalocean''))"

definition applyRegistryCredentialsFromConfig :: "image_source \<Rightarrow> cfg \<Rightarrow> image_source" where
  "applyRegistryCredentialsFromConfig img config =
     (if img_Credentials img \<noteq> [] then img
      else let credentials = str_or_empty (map_of config ''registry_credentials'') in
        if credentials \<noteq> [] then img\<lparr>img_Credentials := credentials\<rparr>
        else case provider_section config of
          None \<Rightarrow> img
        | Some s \<Rightarrow> img\<lparr>img_Credentials := str_or_empty (map_of s ''registry_credentials'')\<rparr>)"

definition imageSpecFromConfig :: "cfg \<Rightarrow> image_source res" where
  "imageSpecFromConfig config =
     res_bind
       (case map_of config ''image'' of
          Some (GStr v) \<Rightarrow> if v = [] then Err (Errorf ''image config is empty'' []) else ParseImageRef v
        | Some (GMap m) \<Rightarrow> imageSpecFromMap m
        | Some GNilMap \<Rightarrow> imageSpecFromMap []
        | v \<Rightarrow> Err (Errorf ''image config must be a string or map[string]any, got %T'' (case v of None \<Rightarrow> [] | Some x \<Rightarrow> [FVal x])))
       (\<lambda>img. Ok (applyRegistryCredentialsFromConfig img config))"

section \<open>Formatting is a normal form\<close>

lemma cut_at_NoneD: "cut_at c s = None \<Longrightarrow> c \<notin> set s"
  by (induction s) (auto split: if_splits)

lemma split_on_append: "c \<notin> set a \<Longrightarrow> split_on c (a @ c # b) = a # split_on c b"
  by (induction a) auto

lemma split_on_single: "c \<notin> set a \<Longrightarrow> split_on c a = [a]"
  by (induction a) auto

lemma split_on_ne [simp]: "split_on c s \<noteq> []"
  by (induction s) (auto split: list.splits)

lemma split_on_parts: "p \<in> set (split_on c s) \<Longrightarrow> set p \<subseteq> set s - {c}"
proof (induction s arbitrary: p)
  case (Cons x s)
  then show ?case by (fastforce split: if_splits list.splits)
qed simp

lemma trim_space_stable_iff: "trim_space s = s \<longleftrightarrow> s = [] \<or> (\<not> is_space (hd s) \<and> \<not> is_space (last s))"
proof (cases "s = []")
  case False
  have l: "trim_left t = t \<longleftrightarrow> \<not> is_space (hd t)" if "t \<noteq> []" for t
    using that by (cases t) (auto simp: trim_left_def, metis dropWhile_eq_Cons_conv)
  show ?thesis
  proof
    assume t: "trim_space s = s"
    have "length (trim_left (rev (trim_left s))) \<le> length (trim_left s)"
      using length_dropWhile_le [of is_space "rev (trim_left s)"] by (simp add: trim_left_def)
    moreover have "length (trim_left s) \<le> length s"
      using length_dropWhile_le [of is_space s] by (simp add: trim_left_def)
    ultimately have "length (trim_left s) = length s"
      using t by (metis le_antisym length_rev trim_space_def)
    then have tl: "trim_left s = s"
      unfolding trim_left_def by (metis dropWhile_append3 dropWhile_eq_self_iff length_append add_cancel_left_left length_0_conv takeWhile_dropWhile_id self_append_conv2)
    then have "trim_left (rev s) = rev s"
      using t by (metis rev_rev_ident trim_space_def)
    then show "s = [] \<or> (\<not> is_space (hd s) \<and> \<not> is_space (last s))"
      using tl l False by (simp add: hd_rev)
  next
    assume "s = [] \<or> (\<not> is_space (hd s) \<and> \<not> is_space (last s))"
    then show "trim_space s = s"
      using l [OF False] l [of "rev s"] False by (simp add: trim_space_def hd_rev)
  qed
qed simp

text \<open>A segment of a path, and a tag, as the parser accepts them.\<close>

definition segment :: "string \<Rightarrow> bool" where
  "segment p = (p \<noteq> [] \<and> \<not> contains_any p blanks \<and> CHR '':'' \<notin> set p \<and> CHR ''/'' \<notin> set p)"

definition tag_ok :: "string \<Rightarrow> bool" where
  "tag_ok t = (t \<noteq> [] \<and> \<not> contains_any t blanks \<and> CHR '':'' \<notin> set t \<and> \<not> is_space (last t))"

lemma contains_any_append [simp]: "contains_any (a @ b) cs \<longleftrightarrow> contains_any a cs \<or> contains_any b cs"
  by (simp add: contains_any_def)

lemma contains_any_Cons [simp]: "contains_any (x # b) cs \<longleftrightarrow> x \<in> set cs \<or> contains_any b cs"
  by (simp add: contains_any_def)

lemma contains_any_Nil [simp]: "\<not> contains_any [] cs"
  by (simp add: contains_any_def)

lemma parse_three:
  assumes "segment h" "segment a" "segment b" "tag_ok t" "\<not> is_space (hd h)"
  shows "ParseImageRef (h @ ''/'' @ a @ ''/'' @ b @ '':'' @ t)
    = image_parts (h @ ''/'' @ a @ ''/'' @ b @ '':'' @ t) (h @ ''/'' @ a @ ''/'' @ b) [h, a, b] t"
proof -
  let ?s = "h @ ''/'' @ a @ ''/'' @ b @ '':'' @ t"
  have c: "cut_at (CHR '':'') ?s = Some (h @ ''/'' @ a @ ''/'' @ b, t)"
    using assms(1-3) cut_at_append [of "CHR '':''" "h @ ''/'' @ a @ ''/'' @ b" t] by (simp add: segment_def)
  have p: "split_on (CHR ''/'') (h @ ''/'' @ a @ ''/'' @ b) = [h, a, b]"
    using assms(1-3) by (simp add: segment_def split_on_append split_on_single)
  have tr: "trim_space ?s = ?s"
    unfolding trim_space_stable_iff using assms(1,4,5) by (cases h) (auto simp: segment_def tag_ok_def)
  have bl: "\<not> contains_any ?s blanks"
    using assms(1-4) by (simp add: segment_def tag_ok_def) (simp add: blanks_def)
  show ?thesis
    unfolding ParseImageRef_def c using tr bl p assms by (simp add: Let_def segment_def tag_ok_def)
qed

lemma parse_OkD:
  assumes "ParseImageRef r = Ok x"
  obtains ref parts t where "image_parts r ref parts t = Ok x" "list_all segment parts" "tag_ok t" "parts = split_on (CHR ''/'') ref"
proof -
  obtain ref tag ex where c: "(case cut_at (CHR '':'') r of Some (a, b) \<Rightarrow> (a, b, True) | None \<Rightarrow> (r, [], False)) = (ref, tag, ex)"
    by (metis prod_cases3)
  define t where "t = (if tag = [] then ''latest'' else tag)"
  have ne: "r \<noteq> []" and ws: "trim_space r = r" "\<not> contains_any r blanks" and ok: "image_parts r ref (split_on (CHR ''/'') ref) t = Ok x"
    and tg: "\<not> (ex \<and> tag = [])" "CHR '':'' \<notin> set tag" "\<not> contains_any t blanks"
    and pt: "\<not> list_ex (\<lambda>part. part = []) (split_on (CHR ''/'') ref)" "\<not> list_ex (\<lambda>part. contains_any part blanks) (split_on (CHR ''/'') ref)"
    using assms unfolding ParseImageRef_def c t_def by (auto simp: Let_def split: if_splits)
  have nc: "CHR '':'' \<notin> set ref"
    using c by (auto split: option.splits dest: cut_at_SomeD cut_at_NoneD)
  have "list_all segment (split_on (CHR ''/'') ref)"
    using pt nc split_on_parts [of _ "CHR ''/''" ref] by (fastforce simp: list_all_iff list_ex_iff segment_def)
  moreover have "tag_ok t"
  proof (cases "tag = []")
    case True
    then show ?thesis by (simp add: t_def) code_simp
  next
    case False
    then have "r = ref @ '':'' @ tag" using c by (auto split: option.splits dest: cut_at_SomeD)
    then have "\<not> is_space (last tag)" using ws(1) ne False unfolding trim_space_stable_iff by auto
    then show ?thesis using False tg by (simp add: t_def tag_ok_def)
  qed
  ultimately show thesis using ok that by blast
qed

lemma segment_hosts: "segment ''registry.digitalocean.com''" "segment ''ghcr.io''" "segment ''docker.io''"
  by code_simp+

lemma image_ref_normal:
  assumes "ParseImageRef r = Ok x"
  shows "ParseImageRef (formatImageSpec (Some x)) = Ok x \<and> imageRefsEqual r (formatImageSpec (Some x))
    \<and> (\<exists>p. formatImageSpec (Some x) = p @ '':'' @ img_Tag x) \<and> img_Tag x \<noteq> []"
proof -
  obtain ref parts t where o: "image_parts r ref parts t = Ok x" "list_all segment parts" "tag_ok t" "parts = split_on (CHR ''/'') ref"
    using parse_OkD [OF assms] .
  have ne: "parts \<noteq> []" by (simp add: o(4))
  have seg: "segment (last parts)" "n < length parts \<Longrightarrow> segment (parts ! n)" for n
    using o(2) ne by (simp_all add: list_all_iff)
  have sp: "\<not> is_space (hd ''registry.digitalocean.com'')" "\<not> is_space (hd ''ghcr.io'')" "\<not> is_space (hd ''docker.io'')"
    by code_simp+
  note three = parse_three [OF segment_hosts(1) _ _ _ sp(1)] parse_three [OF segment_hosts(2) _ _ _ sp(2)] parse_three [OF segment_hosts(3) _ _ _ sp(3)]
  have ne1: "segment p \<Longrightarrow> p \<noteq> []" "tag_ok p \<Longrightarrow> p \<noteq> []" for p by (simp_all add: segment_def tag_ok_def)
  consider "x = image_ref ''DOCR'' [] (last parts) t" | reg where "x = image_ref ''GHCR'' reg (last parts) t" "segment reg"
    | reg where "x = image_ref ''DOCKER_HUB'' reg (last parts) t" "segment reg"
    using o(1) seg(2) [of 0] seg(2) [of 1] by (fastforce simp: image_parts_def split: if_splits)
  then have "ParseImageRef (formatImageSpec (Some x)) = Ok x \<and> (\<exists>p. formatImageSpec (Some x) = p @ '':'' @ t) \<and> img_Tag x = t"
  proof cases
    case 1
    have f: "formatImageSpec (Some x) = ''registry.digitalocean.com'' @ ''/'' @ last parts @ ''/'' @ last parts @ '':'' @ t"
      using 1 ne1 seg(1) o(3) by (simp add: formatImageSpec_def image_ref_def Let_def)
    show ?thesis
      unfolding f three(1) [OF seg(1) seg(1) o(3)] unfolding 1
      by (intro conjI exI [of _ "''registry.digitalocean.com'' @ ''/'' @ last parts @ ''/'' @ last parts"]) (simp_all add: image_parts_def has_prefix_def image_ref_def)
  next
    case 2
    have f: "formatImageSpec (Some x) = ''ghcr.io'' @ ''/'' @ reg @ ''/'' @ last parts @ '':'' @ t"
      using 2 ne1 seg(1) o(3) by (simp add: formatImageSpec_def image_ref_def Let_def)
    show ?thesis
      unfolding f three(2) [OF 2(2) seg(1) o(3)] unfolding 2(1)
      by (intro conjI exI [of _ "''ghcr.io'' @ ''/'' @ reg @ ''/'' @ last parts"]) (simp_all add: image_parts_def has_prefix_def image_ref_def)
  next
    case 3
    have f: "formatImageSpec (Some x) = ''docker.io'' @ ''/'' @ reg @ ''/'' @ last parts @ '':'' @ t"
      using 3 ne1 seg(1) o(3) by (simp add: formatImageSpec_def image_ref_def Let_def)
    show ?thesis
      unfolding f three(3) [OF 3(2) seg(1) o(3)] unfolding 3(1)
      by (intro conjI exI [of _ "''docker.io'' @ ''/'' @ reg @ ''/'' @ last parts"]) (simp_all add: image_parts_def has_prefix_def image_ref_def)
  qed
  moreover have "r \<noteq> []" using assms by (auto simp: ParseImageRef_def)
  ultimately show ?thesis
    using assms ne1(2) [OF o(3)] by (auto simp: imageRefsEqual_def)
qed

text \<open>
  C35: the formatted reference is a normal form. Whatever reference \<^verbatim>\<open>ParseImageRef\<close> accepts, the text
  \<^verbatim>\<open>formatImageSpec\<close> gives for the result parses back to that same result, and
  \<^verbatim>\<open>imageRefsEqual\<close> finds the two texts equal, so an app's recorded image never differs from the
  one its own configuration names. A tag is always present in the text.
\<close>

theorem image_ref_roundtrip:
  assumes "ParseImageRef r = Ok x"
  shows "ParseImageRef (formatImageSpec (Some x)) = Ok x \<and> imageRefsEqual r (formatImageSpec (Some x))
    \<and> (\<exists>p. formatImageSpec (Some x) = p @ '':'' @ img_Tag x) \<and> img_Tag x \<noteq> []"
  by (rule image_ref_normal [OF assms])

text \<open>Only the first and the last segment of a path count: the repository of a nested path is lost.\<close>

lemma image_refs_nested_equal:
  "imageRefsEqual ''ghcr.io/acme/billing/api:v1'' ''ghcr.io/acme/search/api:v1''"
  by code_simp

theorem image_ref_roundtrip_witness:
  "formatImageSpec (Some (image_ref ''DOCR'' [] ''api'' ''v1'')) = ''registry.digitalocean.com/api/api:v1''
   \<and> imageRefsEqual ''registry.digitalocean.com/acme/api:v1'' ''registry.digitalocean.com/api/api:v1''"
proof -
  have p: "ParseImageRef ''registry.digitalocean.com/acme/api:v1'' = Ok (image_ref ''DOCR'' [] ''api'' ''v1'')"
    by code_simp
  have f: "formatImageSpec (Some (image_ref ''DOCR'' [] ''api'' ''v1'')) = ''registry.digitalocean.com/api/api:v1''"
    by code_simp
  show ?thesis using image_ref_roundtrip [OF p] f by simp
qed

end
