(* ===== verification/AppBuild.thy ===== *)
theory AppBuild
  imports ImageRef Json
begin

text \<open>
  From a configuration to an app spec (\<^verbatim>\<open>internal/drivers/app_platform_buildspec.go\<close> and
  \<^verbatim>\<open>envVarsFromConfig\<close>). Each function reads one canonical key. Converting an integer to
  \<^verbatim>\<open>int32\<close> wraps. \<open>fl\<close> is what \<^verbatim>\<open>fmt\<close> prints for a float with \<^verbatim>\<open>%v\<close>.
\<close>

section \<open>Values as text\<close>

fun commas :: "string list \<Rightarrow> string" where
  "commas xs = str_join '' '' xs"

definition bracketed :: "string list \<Rightarrow> string" where
  "bracketed xs = ''['' @ str_join '' '' xs @ '']''"

definition map_text :: "(string \<times> string) list \<Rightarrow> string" where
  "map_text kvs = ''map['' @ str_join '' '' (map (\<lambda>(k, v). k @ '':'' @ v) (sort_key fst kvs)) @ '']''"

function sprint_v :: "(f64 \<Rightarrow> string) \<Rightarrow> gval \<Rightarrow> string" where
  "sprint_v fl GNil = ''<nil>''"
| "sprint_v fl (GBool b) = (if b then ''true'' else ''false'')"
| "sprint_v fl (GInt n) = show_int n"
| "sprint_v fl (GInt64 n) = show_int n"
| "sprint_v fl (GFloat f) = fl f"
| "sprint_v fl (GStr s) = s"
| "sprint_v fl (GStrs ss) = bracketed (elems ss)"
| "sprint_v fl (GInts ns) = bracketed (map show_int (elems ns))"
| "sprint_v fl (GAnys NilSlice) = bracketed []"
| "sprint_v fl (GAnys (Slice vs)) = bracketed (map (sprint_v fl) vs)"
| "sprint_v fl (GMap m) = map_text (with_keys m (map (\<lambda>kv. sprint_v fl (snd kv)) m))"
| "sprint_v fl (GMaps NilSlice) = bracketed []"
| "sprint_v fl (GMaps (Slice ms)) = bracketed (map (\<lambda>m. sprint_v fl (GMap m)) ms)"
| "sprint_v fl GNilMap = map_text []"
  by pat_completeness auto

termination sprint_v
proof (relation "measure (size \<circ> snd)")
  show "m \<in> set ms \<Longrightarrow> ((fl, GMap m), fl, GMaps (Slice ms)) \<in> measure (size \<circ> snd)" for fl :: "f64 \<Rightarrow> string" and m ms
    using size_elem_lt [of m ms "size_list (size_prod (\<lambda>_. 0) size)"] by simp
qed (use size_elem_lt [where f = size] size_snd_le le_imp_less_Suc in fastforce)+

section \<open>Reading sections of a configuration\<close>

definition int32 :: "int \<Rightarrow> int" where
  "int32 n = (n + 2 ^ 31) mod 2 ^ 32 - 2 ^ 31"

text \<open>A map or list under a key; an empty one is as good as an absent one.\<close>

definition section_of :: "cfg \<Rightarrow> string \<Rightarrow> cfg option" where
  "section_of config key = (case as_map (map_of config key) of Some (kv # kvs) \<Rightarrow> Some (kv # kvs) | _ \<Rightarrow> None)"

definition list_of :: "cfg \<Rightarrow> string \<Rightarrow> gval list" where
  "list_of config key = (case as_anys (map_of config key) of Some xs \<Rightarrow> elems xs | None \<Rightarrow> [])"

fun maps_in :: "gval list \<Rightarrow> cfg list" where
  "maps_in [] = []"
| "maps_in (v # vs) = (case as_map (Some v) of Some m \<Rightarrow> m # maps_in vs | None \<Rightarrow> maps_in vs)"

definition int_or0 :: "cfg \<Rightarrow> string \<Rightarrow> int" where
  "int_or0 config key = fst (intFromConfig config key 0)"

definition bool_or :: "cfg \<Rightarrow> string \<Rightarrow> bool" where
  "bool_or config key = (case as_bool (map_of config key) of Some b \<Rightarrow> b | None \<Rightarrow> False)"

fun some_strings :: "gval list \<Rightarrow> string list" where
  "some_strings [] = []"
| "some_strings (v # vs) = (case as_str (Some v) of Some s \<Rightarrow> s # some_strings vs | None \<Rightarrow> some_strings vs)"

definition stringsFromConfig :: "cfg \<Rightarrow> string \<Rightarrow> string list" where
  "stringsFromConfig config key = some_strings (list_of config key)"

section \<open>Environment variables\<close>

definition secret_section :: "cfg \<Rightarrow> cfg" where
  "secret_section config =
     (case map_of config ''env_vars_secret'' of
        Some v \<Rightarrow> (case as_map (Some v) of Some m \<Rightarrow> m | None \<Rightarrow> [])
      | None \<Rightarrow> (case as_map (map_of config ''secret_env_vars'') of Some m \<Rightarrow> m | None \<Rightarrow> []))"

definition plain_section :: "cfg \<Rightarrow> cfg" where
  "plain_section config = (case as_map (map_of config ''env_vars'') of Some m \<Rightarrow> m | None \<Rightarrow> [])"

definition env_of :: "(f64 \<Rightarrow> string) \<Rightarrow> string \<Rightarrow> string \<times> gval \<Rightarrow> env_var option" where
  "env_of fl ty kv = Some \<lparr>ev_Key = fst kv, ev_Value = sprint_v fl (snd kv), ev_Type = ty, ev_Scope = ''RUN_AND_BUILD_TIME''\<rparr>"

definition envVarsFromConfig :: "(f64 \<Rightarrow> string) \<Rightarrow> cfg \<Rightarrow> env_var option list" where
  "envVarsFromConfig fl config =
     map (env_of fl ''GENERAL'') (plain_section config) @ map (env_of fl ''SECRET'') (secret_section config)"

section \<open>The service component\<close>

definition containerSizingMap :: "(string \<times> string) list" where
  "containerSizingMap = [(''xs'', ''apps-s-1vcpu-0.5gb''), (''s'', ''apps-s-1vcpu-1gb''), (''m'', ''apps-s-2vcpu-4gb''),
     (''l'', ''apps-s-4vcpu-8gb''), (''xl'', ''apps-s-8vcpu-16gb'')]"

definition instanceSizeSlugFromConfig :: "cfg \<Rightarrow> string" where
  "instanceSizeSlugFromConfig config =
     (let slug = (case provider_section config of Some d \<Rightarrow> str_or_empty (map_of d ''instance_size_slug'') | None \<Rightarrow> [])
      in if slug \<noteq> [] then slug
         else case map_of containerSizingMap (strFromConfig config ''size'' []) of Some s \<Rightarrow> s | None \<Rightarrow> [])"

definition httpPortProtocolFromConfig :: "cfg \<Rightarrow> string" where
  "httpPortProtocolFromConfig config =
     (let raw = to_upper (case map_of config ''http_port_protocol'' of
                  Some v \<Rightarrow> str_or_empty (Some v)
                | None \<Rightarrow> strFromConfig config ''protocol'' [])
      in if raw = ''HTTP2'' \<or> raw = ''GRPC'' then ''HTTP2'' else if raw = ''HTTP'' \<or> raw = [] then [] else raw)"

definition internalPortsFromConfig :: "cfg \<Rightarrow> int list" where
  "internalPortsFromConfig config = ints_of (list_of config ''internal_ports'')"

definition exposeFromConfig :: "cfg \<Rightarrow> string res" where
  "exposeFromConfig config = (case map_of config ''expose'' of
     None \<Rightarrow> Ok []
   | Some v \<Rightarrow> (case as_str (Some v) of
       None \<Rightarrow> Err (Errorf ''expose: must be a string (one of [public, internal]), got %T'' [FVal v])
     | Some s \<Rightarrow> Ok (to_lower (trim_space s))))"

definition validTCPPort :: "int \<Rightarrow> bool" where
  "validTCPPort p = (1 \<le> p \<and> p \<le> 65535)"

definition applyExposeInternal :: "app_service \<Rightarrow> cfg \<Rightarrow> int \<Rightarrow> bool \<Rightarrow> app_service res" where
  "applyExposeInternal svc config httpPort httpPortSet =
     res_bind (exposeFromConfig config) (\<lambda>exp.
     if exp = [] \<or> exp = ''public'' then Ok svc
     else if exp \<noteq> ''internal'' then Err (Errorf ''expose: %q invalid; must be one of [public, internal]'' [FStr exp])
     else if \<not> httpPortSet \<and> svc_InternalPorts svc = []
     then Err (Errorf ''expose: internal requires http_port or internal_ports to be set'' [])
     else if httpPortSet \<and> \<not> validTCPPort httpPort
     then Err (Errorf ''http_port: %d invalid (must be between 1 and 65535)'' [FInt httpPort])
     else case first_match (\<lambda>p. \<not> validTCPPort p) (svc_InternalPorts svc) of
       Some p \<Rightarrow> Err (Errorf ''internal_ports: %d invalid (must be between 1 and 65535)'' [FInt p])
     | None \<Rightarrow>
       let hasMatch = List.member (svc_InternalPorts svc) httpPort in
       if httpPortSet \<and> svc_InternalPorts svc \<noteq> [] \<and> \<not> hasMatch
       then Err (Errorf ''internal_ports must include http_port when both are set; use one or the other'' [])
       else Ok (svc\<lparr>svc_InternalPorts := (if httpPortSet \<and> \<not> hasMatch then svc_InternalPorts svc @ [httpPort] else svc_InternalPorts svc),
                    svc_HTTPPort := 0, svc_Routes := []\<rparr>))"

definition canonicalExpose :: "cfg \<Rightarrow> string" where
  "canonicalExpose config = (case as_str (map_of config ''expose'') of
     None \<Rightarrow> ''public''
   | Some v \<Rightarrow> (let v = to_lower (trim_space v) in if v = [] then ''public'' else v))"

definition route_of :: "cfg \<Rightarrow> app_route" where
  "route_of m = \<lparr>rt_Path = strFromConfig m ''path'' ''/'', rt_PreservePathPrefix = bool_or m ''preserve_path_prefix''\<rparr>"

definition routesFromConfig :: "cfg \<Rightarrow> app_route option list" where
  "routesFromConfig config = map (\<lambda>m. Some (route_of m)) (maps_in (list_of config ''routes''))"

definition healthCheckFrom :: "cfg \<Rightarrow> string \<Rightarrow> health_check option" where
  "healthCheckFrom config key = (case section_of config key of
     None \<Rightarrow> None
   | Some raw \<Rightarrow> Some \<lparr>hc_HTTPPath = strFromConfig raw ''http_path'' [],
       hc_InitialDelaySeconds = int32 (int_or0 raw ''initial_delay_seconds''), hc_PeriodSeconds = int32 (int_or0 raw ''period_seconds''),
       hc_TimeoutSeconds = int32 (int_or0 raw ''timeout_seconds''), hc_SuccessThreshold = int32 (int_or0 raw ''success_threshold''),
       hc_FailureThreshold = int32 (int_or0 raw ''failure_threshold''), hc_Port = int_or0 raw ''port''\<rparr>)"

definition serviceHealthCheckFromConfig :: "cfg \<Rightarrow> health_check option" where
  "serviceHealthCheckFromConfig config = healthCheckFrom config ''health_check''"

definition livenessHealthCheckFromConfig :: "cfg \<Rightarrow> health_check option" where
  "livenessHealthCheckFromConfig config = healthCheckFrom config ''liveness_check''"

fun matches_in :: "gval list \<Rightarrow> string_match list" where
  "matches_in [] = []"
| "matches_in (v # vs) = (case v of
     GStr t \<Rightarrow> (if t = ''*'' then \<lparr>sm_Exact = [], sm_Prefix = [], sm_Regex = []\<rparr>
               else \<lparr>sm_Exact = t, sm_Prefix = [], sm_Regex = []\<rparr>) # matches_in vs
   | _ \<Rightarrow> (case as_map (Some v) of
       Some t \<Rightarrow> \<lparr>sm_Exact = strFromConfig t ''exact'' [], sm_Prefix = strFromConfig t ''prefix'' [], sm_Regex = strFromConfig t ''regex'' []\<rparr> # matches_in vs
     | None \<Rightarrow> matches_in vs))"

definition stringMatchesFromConfig :: "cfg \<Rightarrow> string \<Rightarrow> string_match list" where
  "stringMatchesFromConfig config key = matches_in (list_of config key)"

definition corsFromConfig :: "cfg \<Rightarrow> cors_policy option" where
  "corsFromConfig config = (case section_of config ''cors'' of
     None \<Rightarrow> None
   | Some raw \<Rightarrow>
     let policy = \<lparr>cors_AllowOrigins = stringMatchesFromConfig raw ''allow_origins'', cors_AllowMethods = stringsFromConfig raw ''allow_methods'',
           cors_AllowHeaders = stringsFromConfig raw ''allow_headers'', cors_ExposeHeaders = stringsFromConfig raw ''expose_headers'',
           cors_MaxAge = strFromConfig raw ''max_age'' [], cors_AllowCredentials = bool_or raw ''allow_credentials''\<rparr>
     in if cors_AllowOrigins policy = [] \<and> cors_AllowMethods policy = [] \<and> cors_AllowHeaders policy = [] \<and> cors_ExposeHeaders policy = []
           \<and> \<not> cors_AllowCredentials policy \<and> cors_MaxAge policy = []
        then None else Some policy)"

definition autoscalingFromConfig :: "cfg \<Rightarrow> autoscaling option" where
  "autoscalingFromConfig config = (case section_of config ''autoscaling'' of
     None \<Rightarrow> None
   | Some raw \<Rightarrow>
     let mn = int_or0 raw ''min''; mx = int_or0 raw ''max''; cpu = int_or0 raw ''cpu_percent'' in
     if mn = 0 \<and> mx = 0 then None
     else Some \<lparr>as_MinInstanceCount = mn, as_MaxInstanceCount = mx, as_CPUPercent = (if cpu > 0 then Some cpu else None)\<rparr>)"

definition serviceTerminationFromConfig :: "cfg \<Rightarrow> termination_spec option" where
  "serviceTerminationFromConfig config = (case section_of config ''termination'' of
     None \<Rightarrow> None
   | Some raw \<Rightarrow>
     let t = \<lparr>tm_DrainSeconds = int32 (int_or0 raw ''drain_seconds''), tm_GracePeriodSeconds = int32 (int_or0 raw ''grace_period_seconds'')\<rparr>
     in if tm_DrainSeconds t = 0 \<and> tm_GracePeriodSeconds t = 0 then None else Some t)"

definition alertSpecFromMap :: "cfg \<Rightarrow> app_alert option" where
  "alertSpecFromMap m =
     (let rule = strFromConfig m ''rule'' [] in
      if rule = [] then None
      else Some \<lparr>al_Rule = to_upper rule, al_Operator = to_upper (strFromConfig m ''operator'' []),
        al_Window = to_upper (strFromConfig m ''window'' []),
        al_Value = (case map_of m ''value'' of
            Some (GFloat v) \<Rightarrow> F32 v | Some (GInt v) \<Rightarrow> F32 (f64_of_int v) | Some (GInt64 v) \<Rightarrow> F32 (f64_of_int v)
          | _ \<Rightarrow> F32 (f64_of_int 0)),
        al_Disabled = bool_or m ''disabled''\<rparr>)"

definition alerts_in :: "gval list \<Rightarrow> app_alert list" where
  "alerts_in vs = List.map_filter alertSpecFromMap (maps_in vs)"

definition componentAlertsFromConfig :: "cfg \<Rightarrow> app_alert list" where
  "componentAlertsFromConfig config = alerts_in (list_of config ''alerts'')"

definition appAlertsFromConfig :: "cfg \<Rightarrow> app_alert list" where
  "appAlertsFromConfig config = (case provider_section config of None \<Rightarrow> [] | Some d \<Rightarrow> alerts_in (list_of d ''app_alerts''))"

definition log_destination_of :: "cfg \<Rightarrow> log_destination option" where
  "log_destination_of m =
     (let name = strFromConfig m ''name'' [] in
      if name = [] then None
      else Some \<lparr>ld_Name = name, ld_Endpoint = strFromConfig m ''endpoint'' [], ld_TLSInsecure = bool_or m ''tls_insecure'',
        ld_Papertrail = map_option (\<lambda>pt. strFromConfig pt ''endpoint'' []) (as_map (map_of m ''papertrail'')),
        ld_Datadog = map_option (\<lambda>dd. (strFromConfig dd ''api_key'' [], strFromConfig dd ''endpoint'' [])) (as_map (map_of m ''datadog'')),
        ld_Logtail = map_option (\<lambda>lt. strFromConfig lt ''token'' []) (as_map (map_of m ''logtail''))\<rparr>)"

definition logDestinationsFromConfig :: "cfg \<Rightarrow> log_destination list" where
  "logDestinationsFromConfig config = List.map_filter log_destination_of (maps_in (list_of config ''log_destinations''))"

end
