(* ===== verification/AppSpecBuild.thy ===== *)
theory AppSpecBuild
  imports AppBuild
begin

text \<open>
  From a configuration to an app spec, continued: domains, ingress, the components beside the main
  service, and \<^verbatim>\<open>buildAppSpec\<close> itself (\<^verbatim>\<open>internal/drivers/app_platform_buildspec.go\<close>,
  with the domain types of \<^verbatim>\<open>app_domain.go\<close>). What is proved: a spec built for an internal
  service has no public surface and can be reached.
\<close>

section \<open>Domains\<close>

definition desiredDomainType :: "cfg \<Rightarrow> string" where
  "desiredDomainType config = to_upper (trim_space (str_or_empty (map_of config ''type'')))"

definition validateAppDomainTypeConfig :: "cfg \<Rightarrow> unit res" where
  "validateAppDomainTypeConfig config =
     (let t = desiredDomainType config in
      if t = [] \<or> t = ''PRIMARY'' \<or> t = ''ALIAS'' then Ok ()
      else if t = ''DEFAULT''
      then Err (Errorf ''domain type DEFAULT is reserved for DigitalOcean starter domains and is rejected by App Platform for custom domains; use PRIMARY or ALIAS'' [])
      else Err (Errorf ''domain type %q is not supported; use PRIMARY or ALIAS'' [FStr t]))"

definition domain_of :: "cfg \<Rightarrow> string \<Rightarrow> app_domain" where
  "domain_of m domain = \<lparr>ad_Domain = domain, ad_Type = desiredDomainType m, ad_Zone = strFromConfig m ''zone'' [],
     ad_Certificate = strFromConfig m ''certificate'' [], ad_MinimumTLSVersion = strFromConfig m ''minimum_tls_version'' [],
     ad_Wildcard = bool_or m ''wildcard''\<rparr>"

fun domains_from :: "int \<Rightarrow> gval list \<Rightarrow> app_domain list res" where
  "domains_from i [] = Ok []"
| "domains_from i (v # vs) =
     (case as_map (Some v) of
        None \<Rightarrow> domains_from (i + 1) vs
      | Some m \<Rightarrow>
        let domain = strFromConfig m ''domain'' [] in
        if domain = [] then domains_from (i + 1) vs
        else res_bind (res_wrap (Wrapf ''domains[%d]: %w'' [FInt i]) (validateAppDomainTypeConfig m)) (\<lambda>_.
             res_bind (domains_from (i + 1) vs) (\<lambda>ds. Ok (domain_of m domain # ds))))"

definition domainsFromConfig :: "cfg \<Rightarrow> app_domain option list res" where
  "domainsFromConfig config = res_bind (domains_from 0 (list_of config ''domains'')) (\<lambda>ds. Ok (map Some ds))"

section \<open>Ingress, egress, maintenance and network\<close>

definition ingress_rule_of :: "string \<Rightarrow> cfg \<Rightarrow> ingress_rule" where
  "ingress_rule_of serviceName m =
     \<lparr>ir_Path = Some \<lparr>rp_Prefix = Some (strFromConfig m ''path'' ''/''), rp_Exact = None\<rparr>,
      ir_Component = Some \<lparr>rc_Name = serviceName, rc_PreservePathPrefix = bool_or m ''preserve_path_prefix''\<rparr>\<rparr>"

definition ingressRulesFromRoutesConfig :: "cfg \<Rightarrow> string \<Rightarrow> ingress_rule option list" where
  "ingressRulesFromRoutesConfig config serviceName =
     (if list_of config ''routes'' = [] \<or> canonicalExpose config = ''internal'' then []
      else map (\<lambda>m. Some (ingress_rule_of serviceName m)) (maps_in (list_of config ''routes'')))"

definition ingressFromConfig :: "cfg \<Rightarrow> string \<Rightarrow> app_ingress option" where
  "ingressFromConfig config serviceName =
     (let raw = (case as_map (map_of config ''ingress'') of Some m \<Rightarrow> m | None \<Rightarrow> []);
          spec = \<lparr>ing_LoadBalancer = to_upper (strFromConfig raw ''load_balancer'' []),
                  ing_Rules = ingressRulesFromRoutesConfig config serviceName\<rparr>
      in if ing_LoadBalancer spec = [] \<and> ing_Rules spec = [] then None else Some spec)"

definition egressFromConfig :: "cfg \<Rightarrow> string option" where
  "egressFromConfig config = (case section_of config ''egress'' of
     None \<Rightarrow> None
   | Some raw \<Rightarrow> (let t = strFromConfig raw ''type'' [] in if t = [] then None else Some (to_upper t)))"

definition maintenanceFromConfig :: "cfg \<Rightarrow> app_maintenance option" where
  "maintenanceFromConfig config = (case section_of config ''maintenance'' of
     None \<Rightarrow> None
   | Some raw \<Rightarrow>
     let spec = \<lparr>mn_Enabled = bool_or raw ''enabled'', mn_Archive = bool_or raw ''archive'',
           mn_OfflinePageURL = strFromConfig raw ''offline_page_url'' []\<rparr>
     in if \<not> mn_Enabled spec \<and> \<not> mn_Archive spec \<and> mn_OfflinePageURL spec = [] then None else Some spec)"

definition vpcFromConfig :: "cfg \<Rightarrow> string option" where
  "vpcFromConfig config = (let vpcID = strFromConfig config ''vpc_ref'' [] in if vpcID = [] then None else Some vpcID)"

section \<open>Jobs, workers, static sites and sidecars\<close>

definition envVarsFromJobConfig :: "(f64 \<Rightarrow> string) \<Rightarrow> cfg \<Rightarrow> env_var option list" where
  "envVarsFromJobConfig fl config = envVarsFromConfig fl config"

definition mapJobKind :: "string \<Rightarrow> string" where
  "mapJobKind kind =
     (let k = to_lower kind in
      if k = ''pre_deploy'' then ''PRE_DEPLOY'' else if k = ''post_deploy'' then ''POST_DEPLOY''
      else if k = ''failed_deploy'' then ''FAILED_DEPLOY'' else if k = ''scheduled'' then ''SCHEDULED''
      else ''UNSPECIFIED'')"

definition ok_option :: "'a res \<Rightarrow> 'a option" where
  "ok_option r = (case r of Ok x \<Rightarrow> Some x | _ \<Rightarrow> None)"

text \<open>The grace period of a \<^verbatim>\<open>termination\<close> section, if it has one.\<close>

definition grace_period :: "cfg \<Rightarrow> int option" where
  "grace_period m = (case as_map (map_of m ''termination'') of
     None \<Rightarrow> None
   | Some t \<Rightarrow> (case intFromConfig t ''grace_period_seconds'' 0 of (v, ok) \<Rightarrow> if ok then Some (int32 v) else None))"

definition buildJobSpec :: "(f64 \<Rightarrow> string) \<Rightarrow> cfg \<Rightarrow> app_job option" where
  "buildJobSpec fl m =
     (let name = strFromConfig m ''name'' [] in
      if name = [] then None
      else Some \<lparr>job_Name = name, job_Kind = mapJobKind (strFromConfig m ''kind'' []),
        job_RunCommand = strFromConfig m ''run_command'' [], job_BuildCommand = strFromConfig m ''build_command'' [],
        job_DockerfilePath = strFromConfig m ''dockerfile_path'' [], job_SourceDir = strFromConfig m ''source_dir'' [],
        job_InstanceSizeSlug = strFromConfig m ''instance_size_slug'' [], job_Envs = envVarsFromJobConfig fl m,
        job_Image = ok_option (imageSpecFromConfig m),
        job_Schedule = (let cron = strFromConfig m ''cron'' [] in if cron = [] then None else Some cron),
        job_Termination = grace_period m, job_Timeout = []\<rparr>)"

definition jobsFromConfig :: "(f64 \<Rightarrow> string) \<Rightarrow> cfg \<Rightarrow> app_job option list" where
  "jobsFromConfig fl config = map Some (List.map_filter (buildJobSpec fl) (maps_in (list_of config ''jobs'')))"

definition buildWorkerSpec :: "(f64 \<Rightarrow> string) \<Rightarrow> cfg \<Rightarrow> app_worker option" where
  "buildWorkerSpec fl m =
     (let name = strFromConfig m ''name'' [] in
      if name = [] then None
      else Some \<lparr>wk_Name = name, wk_RunCommand = strFromConfig m ''run_command'' [],
        wk_BuildCommand = strFromConfig m ''build_command'' [], wk_DockerfilePath = strFromConfig m ''dockerfile_path'' [],
        wk_SourceDir = strFromConfig m ''source_dir'' [],
        wk_InstanceSizeSlug =
          (let size_tier = strFromConfig m ''size'' [] in
           case (if size_tier = [] then None else map_of containerSizingMap size_tier) of
             Some slug \<Rightarrow> slug
           | None \<Rightarrow> strFromConfig m ''instance_size_slug'' []),
        wk_InstanceCount = fst (intFromConfig m ''instance_count'' 1), wk_Envs = envVarsFromJobConfig fl m,
        wk_Autoscaling = autoscalingFromConfig m,
        wk_Image = map_option (\<lambda>img. applyRegistryCredentialsFromConfig img m) (ok_option (imageSpecFromConfig m)),
        wk_Termination = (case grace_period m of Some g \<Rightarrow> if g = 0 then None else Some g | None \<Rightarrow> None)\<rparr>)"

definition workersFromConfig :: "(f64 \<Rightarrow> string) \<Rightarrow> cfg \<Rightarrow> app_worker option list" where
  "workersFromConfig fl config = map Some (List.map_filter (buildWorkerSpec fl) (maps_in (list_of config ''workers'')))"

definition buildStaticSiteSpec :: "(f64 \<Rightarrow> string) \<Rightarrow> cfg \<Rightarrow> static_site option" where
  "buildStaticSiteSpec fl m =
     (let name = strFromConfig m ''name'' [] in
      if name = [] then None
      else Some \<lparr>ss_Name = name, ss_BuildCommand = strFromConfig m ''build_command'' [], ss_OutputDir = strFromConfig m ''output_dir'' [],
        ss_SourceDir = strFromConfig m ''source_dir'' [], ss_DockerfilePath = strFromConfig m ''dockerfile_path'' [],
        ss_IndexDocument = strFromConfig m ''index_document'' [], ss_ErrorDocument = strFromConfig m ''error_document'' [],
        ss_CatchallDocument = strFromConfig m ''catchall_document'' [], ss_Envs = envVarsFromJobConfig fl m,
        ss_Routes = routesFromConfig m, ss_CORS = corsFromConfig m\<rparr>)"

definition staticSitesFromConfig :: "(f64 \<Rightarrow> string) \<Rightarrow> cfg \<Rightarrow> static_site option list" where
  "staticSitesFromConfig fl config = map Some (List.map_filter (buildStaticSiteSpec fl) (maps_in (list_of config ''static_sites'')))"

definition empty_service :: "string \<Rightarrow> app_service" where
  "empty_service name = \<lparr>svc_Name = name, svc_Image = None, svc_HTTPPort = 0, svc_InstanceCount = 0, svc_Envs = [],
     svc_BuildCommand = [], svc_RunCommand = [], svc_DockerfilePath = [], svc_SourceDir = [], svc_InstanceSizeSlug = [],
     svc_Protocol = [], svc_InternalPorts = [], svc_Routes = [], svc_HealthCheck = None, svc_LivenessHealthCheck = None,
     svc_CORS = None, svc_Autoscaling = None, svc_Termination = None, svc_LogDestinations = [], svc_Alerts = []\<rparr>"

text \<open>The first public port of a list that is set and positive; 0 when there is none.\<close>

fun public_port :: "cfg list \<Rightarrow> int" where
  "public_port [] = 0"
| "public_port (pm # pms) =
     (case intFromConfig pm ''port'' 0 of (port, ok) \<Rightarrow> if bool_or pm ''public'' \<and> ok \<and> port > 0 then port else public_port pms)"

definition sidecar_of :: "(f64 \<Rightarrow> string) \<Rightarrow> cfg \<Rightarrow> string \<Rightarrow> app_service res" where
  "sidecar_of fl m name =
     (let svc = (empty_service name)\<lparr>svc_RunCommand := strFromConfig m ''run_command'' [], svc_Envs := envVarsFromConfig fl m,
            svc_HTTPPort := public_port (maps_in (list_of m ''ports''))\<rparr>;
          imgStr = strFromConfig m ''image'' []
      in if imgStr = [] then Ok svc
         else res_bind (res_wrap (Wrapf ''sidecar %q: %w'' [FStr name]) (ParseImageRef imgStr)) (\<lambda>img. Ok (svc\<lparr>svc_Image := Some img\<rparr>)))"

fun sidecars_from :: "(f64 \<Rightarrow> string) \<Rightarrow> cfg list \<Rightarrow> app_service list res" where
  "sidecars_from fl [] = Ok []"
| "sidecars_from fl (m # ms) =
     (let name = strFromConfig m ''name'' [] in
      if name = [] then sidecars_from fl ms
      else res_bind (sidecar_of fl m name) (\<lambda>s. res_bind (sidecars_from fl ms) (\<lambda>ss. Ok (s # ss))))"

definition sidecarsFromConfig :: "(f64 \<Rightarrow> string) \<Rightarrow> cfg \<Rightarrow> app_service option list res" where
  "sidecarsFromConfig fl config = res_bind (sidecars_from fl (maps_in (list_of config ''sidecars''))) (\<lambda>ss. Ok (map Some ss))"

section \<open>The spec\<close>

definition main_service :: "(f64 \<Rightarrow> string) \<Rightarrow> string \<Rightarrow> cfg \<Rightarrow> image_source \<Rightarrow> app_service" where
  "main_service fl name config img =
     \<lparr>svc_Name = name, svc_Image = Some img, svc_HTTPPort = fst (intFromConfig config ''http_port'' 8080),
      svc_InstanceCount = fst (intFromConfig config ''instance_count'' 1), svc_Envs = envVarsFromConfig fl config,
      svc_BuildCommand = strFromConfig config ''build_command'' [], svc_RunCommand = strFromConfig config ''run_command'' [],
      svc_DockerfilePath = strFromConfig config ''dockerfile_path'' [], svc_SourceDir = strFromConfig config ''source_dir'' [],
      svc_InstanceSizeSlug = instanceSizeSlugFromConfig config, svc_Protocol = httpPortProtocolFromConfig config,
      svc_InternalPorts = internalPortsFromConfig config,
      svc_Routes = (case ingressFromConfig config name of
          Some ing \<Rightarrow> if ing_Rules ing \<noteq> [] then [] else routesFromConfig config
        | None \<Rightarrow> routesFromConfig config),
      svc_HealthCheck = serviceHealthCheckFromConfig config, svc_LivenessHealthCheck = livenessHealthCheckFromConfig config,
      svc_CORS = corsFromConfig config, svc_Autoscaling = autoscalingFromConfig config,
      svc_Termination = serviceTerminationFromConfig config, svc_LogDestinations = logDestinationsFromConfig config,
      svc_Alerts = componentAlertsFromConfig config\<rparr>"

definition provider_flag :: "cfg \<Rightarrow> string \<Rightarrow> bool" where
  "provider_flag config key = (case provider_section config of None \<Rightarrow> False | Some d \<Rightarrow> bool_or d key)"

definition provider_features :: "cfg \<Rightarrow> string list" where
  "provider_features config = (case provider_section config of None \<Rightarrow> [] | Some d \<Rightarrow> some_strings (list_of d ''features''))"

definition buildAppSpec :: "(f64 \<Rightarrow> string) \<Rightarrow> string \<Rightarrow> cfg \<Rightarrow> string \<Rightarrow> app_spec res" where
  "buildAppSpec fl name config region =
     res_bind (res_wrap (Wrapf ''app platform image config: %w'' []) (imageSpecFromConfig config)) (\<lambda>imgSpec.
     case intFromConfig config ''http_port'' 8080 of (httpPort, httpPortSet) \<Rightarrow>
     res_bind (res_wrap (Wrapf ''app platform expose config: %w'' [])
                 (applyExposeInternal (main_service fl name config imgSpec) config httpPort httpPortSet)) (\<lambda>svc.
     res_bind (res_wrap (Wrapf ''app platform sidecars: %w'' []) (sidecarsFromConfig fl config)) (\<lambda>sidecars.
     res_bind (res_wrap (Wrapf ''app platform domains: %w'' []) (domainsFromConfig config)) (\<lambda>domains.
       Ok \<lparr>as_Name = name, as_Region = region, as_Services = Some svc # sidecars, as_Jobs = jobsFromConfig fl config,
           as_Workers = workersFromConfig fl config, as_StaticSites = staticSitesFromConfig fl config, as_Functions = [], as_Databases = [],
           as_Domains = domains, as_Alerts = appAlertsFromConfig config, as_Ingress = ingressFromConfig config name,
           as_Egress = egressFromConfig config, as_Maintenance = maintenanceFromConfig config, as_Vpc = vpcFromConfig config,
           as_Features = provider_features config, as_DisableEdgeCache = provider_flag config ''disable_edge_cache'',
           as_DisableEmailObfuscation = provider_flag config ''disable_email_obfuscation'',
           as_EnhancedThreatControl = provider_flag config ''enhanced_threat_control_enabled''\<rparr>))))"

section \<open>Internal services\<close>

definition spec_of :: "(f64 \<Rightarrow> string) \<Rightarrow> string \<Rightarrow> cfg \<Rightarrow> string \<Rightarrow> app_service \<Rightarrow> app_service option list \<Rightarrow> app_domain option list \<Rightarrow> app_spec" where
  "spec_of fl name config region svc sidecars domains =
     \<lparr>as_Name = name, as_Region = region, as_Services = Some svc # sidecars, as_Jobs = jobsFromConfig fl config,
      as_Workers = workersFromConfig fl config, as_StaticSites = staticSitesFromConfig fl config, as_Functions = [], as_Databases = [],
      as_Domains = domains, as_Alerts = appAlertsFromConfig config, as_Ingress = ingressFromConfig config name,
      as_Egress = egressFromConfig config, as_Maintenance = maintenanceFromConfig config, as_Vpc = vpcFromConfig config,
      as_Features = provider_features config, as_DisableEdgeCache = provider_flag config ''disable_edge_cache'',
      as_DisableEmailObfuscation = provider_flag config ''disable_email_obfuscation'',
      as_EnhancedThreatControl = provider_flag config ''enhanced_threat_control_enabled''\<rparr>"

lemma buildAppSpec_OkE:
  assumes "buildAppSpec fl name config region = Ok spec"
  obtains img svc sidecars domains where "imageSpecFromConfig config = Ok img"
    "applyExposeInternal (main_service fl name config img) config
        (fst (intFromConfig config ''http_port'' 8080)) (snd (intFromConfig config ''http_port'' 8080)) = Ok svc"
    "sidecarsFromConfig fl config = Ok sidecars" "domainsFromConfig config = Ok domains"
    "spec = spec_of fl name config region svc sidecars domains"
  using assms unfolding buildAppSpec_def spec_of_def [symmetric] res_bind_Ok_iff res_wrap_Ok_iff case_prod_beta by blast

lemma canonicalExpose_internal: "canonicalExpose config = ''internal'' \<Longrightarrow> exposeFromConfig config = Ok ''internal''"
proof -
  assume a: "canonicalExpose config = ''internal''"
  have "''public'' \<noteq> ''internal''" by simp
  then obtain v where "map_of config ''expose'' = Some (GStr v)" "to_lower (trim_space v) = ''internal''"
    using a by (auto simp: canonicalExpose_def Let_def elim!: as_str.elims split: option.splits if_splits)
  then show ?thesis by (simp add: exposeFromConfig_def)
qed

lemma applyExposeInternal_values:
  assumes "applyExposeInternal svc config httpPort known = Ok svc'"
  shows "canonicalExpose config = ''public'' \<and> svc' = svc
    \<or> canonicalExpose config = ''internal'' \<and> svc_HTTPPort svc' = 0 \<and> svc_Routes svc' = [] \<and> svc_InternalPorts svc' \<noteq> []
       \<and> (\<forall>p \<in> set (svc_InternalPorts svc'). validTCPPort p) \<and> set (svc_InternalPorts svc) \<subseteq> set (svc_InternalPorts svc')
       \<and> (known \<longrightarrow> httpPort \<in> set (svc_InternalPorts svc')) \<and> svc_Name svc' = svc_Name svc
       \<and> svc_Image svc' = svc_Image svc \<and> svc_Envs svc' = svc_Envs svc"
proof -
  obtain e where e: "exposeFromConfig config = Ok e" using assms by (auto simp: applyExposeInternal_def res_bind_Ok_iff)
  have c: "canonicalExpose config = (if e = [] then ''public'' else e)"
    using e by (auto simp: exposeFromConfig_def canonicalExpose_def Let_def split: option.splits)
  consider "e = [] \<or> e = ''public''" | "e \<noteq> []" "e \<noteq> ''public''" "e = ''internal''"
    using assms e by (auto simp: applyExposeInternal_def split: if_splits)
  then show ?thesis
  proof cases
    case 1
    then show ?thesis using assms e c by (auto simp: applyExposeInternal_def)
  next
    case 2
    have ok: "\<not> (\<not> known \<and> svc_InternalPorts svc = [])" "\<not> (known \<and> \<not> validTCPPort httpPort)"
      "first_match (\<lambda>p. \<not> validTCPPort p) (svc_InternalPorts svc) = None"
      using assms 2 by (auto simp: applyExposeInternal_def e split: if_splits option.splits)
    have s: "svc' = svc\<lparr>svc_InternalPorts := (if known \<and> httpPort \<notin> set (svc_InternalPorts svc) then svc_InternalPorts svc @ [httpPort] else svc_InternalPorts svc),
                    svc_HTTPPort := 0, svc_Routes := []\<rparr>"
      using assms 2 ok by (auto simp: applyExposeInternal_def e Let_def split: if_splits)
    show ?thesis
      using ok 2 unfolding s c by (auto simp: first_match_None)
  qed
qed

text \<open>
  C23: an internal service has no public surface and can be reached. When \<^verbatim>\<open>buildAppSpec\<close> builds a
  spec, \<^verbatim>\<open>expose\<close> is one of public and internal; if it is internal, the main service has no HTTP
  port, no route and no ingress rule, it listens on at least one port, every port it listens on is a
  valid TCP port, the ports include those configured, and \<^verbatim>\<open>http_port\<close> when that is set.
\<close>

theorem internal_service_ports:
  assumes "buildAppSpec fl name config region = Ok spec"
  shows "(canonicalExpose config = ''public'' \<or> canonicalExpose config = ''internal'')
    \<and> (canonicalExpose config = ''internal'' \<longrightarrow>
       (\<exists>svc rest. as_Services spec = Some svc # rest \<and> svc_Name svc = name \<and> svc_HTTPPort svc = 0 \<and> svc_Routes svc = []
          \<and> svc_InternalPorts svc \<noteq> [] \<and> (\<forall>p \<in> set (svc_InternalPorts svc). 1 \<le> p \<and> p \<le> 65535)
          \<and> set (internalPortsFromConfig config) \<subseteq> set (svc_InternalPorts svc)
          \<and> (snd (intFromConfig config ''http_port'' 8080) \<longrightarrow> fst (intFromConfig config ''http_port'' 8080) \<in> set (svc_InternalPorts svc)))
       \<and> (\<forall>ing. as_Ingress spec = Some ing \<longrightarrow> ing_Rules ing = []))"
proof -
  obtain img svc sidecars domains where a: "applyExposeInternal (main_service fl name config img) config
        (fst (intFromConfig config ''http_port'' 8080)) (snd (intFromConfig config ''http_port'' 8080)) = Ok svc"
    and s: "spec = spec_of fl name config region svc sidecars domains"
    by (rule buildAppSpec_OkE [OF assms])
  have "canonicalExpose config = ''internal'' \<Longrightarrow> ingressFromConfig config name = Some ing \<Longrightarrow> ing_Rules ing = []" for ing
    by (auto simp: ingressFromConfig_def ingressRulesFromRoutesConfig_def Let_def split: if_splits)
  then show ?thesis
    using applyExposeInternal_values [OF a] s unfolding validTCPPort_def
    by (auto simp: main_service_def spec_of_def)
qed

definition ex_internal_config :: cfg where
  "ex_internal_config = [(''image'', GStr ''acme/api:v1''), (''expose'', GStr '' Internal ''), (''http_port'', GInt 8081),
     (''routes'', GAnys (Slice [GMap [(''path'', GStr ''/'')]]))]"

theorem internal_service_ports_witness:
  "\<exists>spec svc. buildAppSpec (\<lambda>_. []) ''api'' ex_internal_config ''nyc'' = Ok spec \<and> as_Services spec = [Some svc]
     \<and> svc_InternalPorts svc = [8081] \<and> svc_HTTPPort svc = 0"
proof -
  have v: "case buildAppSpec (\<lambda>_. []) ''api'' ex_internal_config ''nyc'' of
      Ok s \<Rightarrow> length (as_Services s) = 1 \<and> (case hd (as_Services s) of Some svc \<Rightarrow> svc_InternalPorts svc = [8081] \<and> svc_HTTPPort svc = 0 | None \<Rightarrow> False) | _ \<Rightarrow> False"
    by code_simp
  obtain spec svc where b: "buildAppSpec (\<lambda>_. []) ''api'' ex_internal_config ''nyc'' = Ok spec"
    and s: "as_Services spec = [Some svc]" "svc_InternalPorts svc = [8081]"
    using v by (auto simp: length_Suc_conv split: res.splits option.splits)
  have "canonicalExpose ex_internal_config = ''internal''" by code_simp
  then show ?thesis using internal_service_ports [OF b] b s by auto
qed

end
