(* ===== verification/AppHash.thy ===== *)
theory AppHash
  imports AppSpecBuild "HOL-Library.List_Lexorder" "HOL-Library.Char_ord"
begin

text \<open>
  The hashes of environment variables and components (\<^verbatim>\<open>internal/drivers/app_platform.go\<close>): what
  is recorded of a live spec and what is computed from a configuration. \<open>sha t\<close> is the lower-case
  hexadecimal SHA-256 of the bytes \<open>t\<close>.
\<close>

section \<open>The hashed text\<close>

definition env_entry :: "string \<times> string \<Rightarrow> string" where
  "env_entry kv = show_nat (length (fst kv)) @ '':'' @ fst kv @ ''='' @ show_nat (length (snd kv)) @ '':'' @ snd kv @ [CHR 0x00]"

definition env_text :: "(string \<times> string) list \<Rightarrow> string" where
  "env_text kvs = concat (map env_entry kvs)"

fun present :: "'a option list \<Rightarrow> 'a list" where
  "present [] = []"
| "present (None # xs) = present xs"
| "present (Some x # xs) = x # present xs"

text \<open>The map a Go loop builds by assigning the pairs one after the other.\<close>

definition last_value :: "(string \<times> string) list \<Rightarrow> string \<Rightarrow> string" where
  "last_value kvs k = (case map_of (rev kvs) k of Some v \<Rightarrow> v | None \<Rightarrow> [])"

definition envVarsHash :: "(string \<Rightarrow> string) \<Rightarrow> env_var option list \<Rightarrow> string" where
  "envVarsHash sha envs =
     (if envs = [] then []
      else let kvs = map (\<lambda>e. (ev_Key e, ev_Value e)) (present envs)
           in sha (env_text (map (\<lambda>k. (k, last_value kvs k)) (sort (map fst kvs)))))"

definition componentHash :: "(string \<Rightarrow> string) \<Rightarrow> string \<Rightarrow> env_var option list \<Rightarrow> string" where
  "componentHash sha kind envs = sha (''kind='' @ kind @ [CHR 0x00] @ envVarsHash sha envs)"

definition hashPreview :: "string \<Rightarrow> string" where
  "hashPreview hash =
     (if hash = [] then ''[hash:<empty>]''
      else if length hash < 8 then ''[hash:'' @ hash @ '']''
      else ''[hash:'' @ take 8 hash @ ''...]'')"

text \<open>Assigning all of one map, then all of another.\<close>

definition overlay :: "cfg \<Rightarrow> cfg \<Rightarrow> cfg" where
  "overlay raw secrets = filter (\<lambda>kv. fst kv \<notin> set (map fst secrets)) raw @ secrets"

definition desiredEnvVarsForHash :: "cfg \<Rightarrow> cfg option" where
  "desiredEnvVarsForHash config =
     (let raw = as_map (map_of config ''env_vars'');
          secretsOK = (map_of config ''env_vars_secret'' \<noteq> None \<or> as_map (map_of config ''secret_env_vars'') \<noteq> None)
      in if raw = None \<and> \<not> secretsOK then None
         else Some (overlay (case raw of Some m \<Rightarrow> m | None \<Rightarrow> []) (secret_section config)))"

definition env_map_text :: "(f64 \<Rightarrow> string) \<Rightarrow> cfg \<Rightarrow> string" where
  "env_map_text fl m = env_text (map (\<lambda>k. (k, case map_of m k of Some v \<Rightarrow> sprint_v fl v | None \<Rightarrow> ''<nil>'')) (sort (map fst m)))"

definition envVarsHashFromConfigMap :: "(f64 \<Rightarrow> string) \<Rightarrow> (string \<Rightarrow> string) \<Rightarrow> cfg \<Rightarrow> string" where
  "envVarsHashFromConfigMap fl sha m =
     (if m = [] then []
      else sha (env_map_text fl m))"

definition componentHashFromConfig :: "(f64 \<Rightarrow> string) \<Rightarrow> (string \<Rightarrow> string) \<Rightarrow> cfg \<Rightarrow> string" where
  "componentHashFromConfig fl sha m =
     (let kind = to_upper (str_or_empty (map_of m ''kind''));
          envs = (case desiredEnvVarsForHash m of Some e \<Rightarrow> e | None \<Rightarrow> [])
      in sha (''kind='' @ kind @ [CHR 0x00] @ envVarsHashFromConfigMap fl sha envs))"

section \<open>The text determines the variables\<close>

lemma show_nat_small: "n < 10 \<Longrightarrow> show_nat n = [char_of (48 + n)]"
  by (subst show_nat.simps) simp

lemma show_nat_step: "\<not> n < 10 \<Longrightarrow> show_nat n = show_nat (n div 10) @ [char_of (48 + n mod 10)]"
  by (subst show_nat.simps) simp

lemma show_nat_ne: "show_nat n \<noteq> []"
  by (cases "n < 10") (simp_all add: show_nat_small show_nat_step)

lemma show_nat_digits: "c \<in> set (show_nat n) \<Longrightarrow> \<exists>d :: nat. d < 10 \<and> c = char_of (48 + d)"
proof (induction n arbitrary: c rule: show_nat.induct)
  case (1 n)
  show ?case
  proof (cases "n < 10")
    case True
    then show ?thesis using 1(2) by (auto simp: show_nat_small)
  next
    case False
    then have "c \<in> set (show_nat (n div 10)) \<or> c = char_of (48 + n mod 10)"
      using 1(2) by (auto simp: show_nat_step)
    moreover have "n mod 10 < 10" by simp
    ultimately show ?thesis using 1(1) [OF False] by blast
  qed
qed

lemma show_nat_no_colon: "CHR '':'' \<notin> set (show_nat n)"
proof
  assume "CHR '':'' \<in> set (show_nat n)"
  then obtain d :: nat where "d < 10" "CHR '':'' = (char_of (48 + d) :: char)"
    using show_nat_digits by blast
  then have "(of_char (CHR '':'') :: nat) = 48 + d"
    by simp
  then show False using \<open>d < 10\<close> by simp
qed

lemma digit_inj: "a < 10 \<Longrightarrow> b < 10 \<Longrightarrow> (char_of (48 + a) :: char) = char_of (48 + b) \<Longrightarrow> a = (b :: nat)"
proof -
  assume "a < 10" "b < 10" "(char_of (48 + a) :: char) = char_of (48 + b)"
  then have "(of_char (char_of (48 + a) :: char) :: nat) = of_char (char_of (48 + b) :: char)" by simp
  then show "a = b" using \<open>a < 10\<close> \<open>b < 10\<close> by simp
qed

lemma show_nat_inj: "show_nat a = show_nat b \<Longrightarrow> a = b"
proof (induction a arbitrary: b rule: show_nat.induct)
  case (1 a)
  show ?case
  proof (cases "a < 10"; cases "b < 10")
    assume "\<not> a < 10" "\<not> b < 10"
    then have e: "show_nat (a div 10) @ [char_of (48 + a mod 10)] = show_nat (b div 10) @ [char_of (48 + b mod 10)]"
      using 1(2) by (simp add: show_nat_step)
    then have "a mod 10 = b mod 10" using digit_inj [of "a mod 10" "b mod 10"] by simp
    moreover have "a div 10 = b div 10" using e 1(1) [OF \<open>\<not> a < 10\<close>, of "b div 10"] by simp
    ultimately show ?thesis by (metis mult_div_mod_eq)
  next
    assume "a < 10" "b < 10"
    then show ?thesis using 1(2) digit_inj [of a b] by (simp add: show_nat_small)
  next
    assume "a < 10" "\<not> b < 10"
    then show ?thesis using 1(2) show_nat_ne [of "b div 10"] by (simp add: show_nat_small show_nat_step)
  next
    assume "\<not> a < 10" "b < 10"
    then show ?thesis using 1(2) show_nat_ne [of "a div 10"] by (simp add: show_nat_small show_nat_step)
  qed
qed

lemma prefixed_inj:
  assumes "show_nat (length k) @ '':'' @ k @ x = show_nat (length l) @ '':'' @ l @ y"
  shows "k = l \<and> x = y"
proof -
  have "cut_at (CHR '':'') (show_nat (length k) @ CHR '':'' # (k @ x)) = cut_at (CHR '':'') (show_nat (length l) @ CHR '':'' # (l @ y))"
    using assms by simp
  then have "show_nat (length k) = show_nat (length l)" and "k @ x = l @ y"
    by (simp_all add: cut_at_append show_nat_no_colon)
  then show ?thesis using show_nat_inj by (metis append_eq_append_conv)
qed

lemma env_entry_inj: "env_entry p @ x = env_entry q @ y \<Longrightarrow> p = q \<and> x = y"
proof -
  assume a: "env_entry p @ x = env_entry q @ y"
  have "fst p = fst q \<and> ''='' @ show_nat (length (snd p)) @ '':'' @ snd p @ [CHR 0x00] @ x
      = ''='' @ show_nat (length (snd q)) @ '':'' @ snd q @ [CHR 0x00] @ y"
    by (rule prefixed_inj) (use a in \<open>simp add: env_entry_def\<close>)
  then show ?thesis
    using prefixed_inj [of "snd p" "[CHR 0x00] @ x" "snd q" "[CHR 0x00] @ y"] by (auto simp: prod_eq_iff)
qed

lemma env_entry_ne: "env_entry p \<noteq> []"
  by (simp add: env_entry_def)

lemma env_text_inj: "env_text p = env_text q \<Longrightarrow> p = q"
proof (induction p arbitrary: q)
  case Nil
  then show ?case by (cases q) (simp_all add: env_text_def env_entry_ne)
next
  case (Cons a p)
  then obtain b q' where q: "q = b # q'" by (cases q) (simp_all add: env_text_def env_entry_ne)
  then have "env_entry a @ env_text p = env_entry b @ env_text q'"
    using Cons.prems by (simp add: env_text_def)
  then show ?case using env_entry_inj Cons.IH q by blast
qed

text \<open>A configuration's variables, as the hash takes them, and as they are sent.\<close>

definition merged_env :: "cfg \<Rightarrow> cfg" where
  "merged_env config = overlay (plain_section config) (secret_section config)"

definition distinct_env :: "cfg \<Rightarrow> bool" where
  "distinct_env config = distinct (map fst (plain_section config @ secret_section config))"

lemma merged_env_distinct: "distinct_env config \<Longrightarrow> merged_env config = plain_section config @ secret_section config"
  by (auto simp: merged_env_def overlay_def distinct_env_def intro!: filter_True)

lemma desired_env_merged: "desiredEnvVarsForHash config = Some e \<Longrightarrow> e = merged_env config"
  by (auto simp: desiredEnvVarsForHash_def merged_env_def plain_section_def Let_def split: if_splits)

lemma desired_env_None: "desiredEnvVarsForHash config = None \<Longrightarrow> merged_env config = []"
  by (auto simp: desiredEnvVarsForHash_def merged_env_def plain_section_def secret_section_def overlay_def Let_def split: if_splits option.splits)

lemma last_value_map:
  "distinct (map fst m) \<Longrightarrow> k \<in> set (map fst m) \<Longrightarrow>
   last_value (map (\<lambda>kv. (fst kv, f (snd kv))) m) k = (case map_of m k of Some v \<Rightarrow> f v | None \<Rightarrow> d)"
proof -
  assume d: "distinct (map fst m)" and k: "k \<in> set (map fst m)"
  have rev: "distinct (map fst ps) \<Longrightarrow> map_of (rev ps) = map_of ps" for ps :: "(string \<times> string) list"
    by (rule map_of_eqI) (auto simp: map_of_eq_Some_iff rev_map [symmetric])
  have "map_of (rev (map (\<lambda>kv. (fst kv, f (snd kv))) m)) k = map_of (map (\<lambda>kv. (fst kv, f (snd kv))) m) k"
    by (subst rev) (use d in \<open>simp_all add: comp_def\<close>)
  moreover have "map_of (map (\<lambda>kv. (fst kv, f (snd kv))) m) k = map_option f (map_of m k)"
    by (induction m) auto
  moreover obtain v where "map_of m k = Some v" using k by (metis map_of_eq_None_iff not_None_eq set_map)
  ultimately show ?thesis by (simp add: last_value_def)
qed

lemma envs_present: "present (envVarsFromConfig fl config) = map (\<lambda>kv. the (env_of fl ''GENERAL'' kv)) (plain_section config)
    @ map (\<lambda>kv. the (env_of fl ''SECRET'' kv)) (secret_section config)"
proof -
  have "present (map (env_of fl ty) m @ xs) = map (\<lambda>kv. the (env_of fl ty kv)) m @ present xs" for ty m xs
    by (induction m) (auto simp: env_of_def)
  from this [of "''GENERAL''"] this [of "''SECRET''" _ "[]"] show ?thesis by (simp add: envVarsFromConfig_def)
qed

lemma spec_hash_eq:
  assumes "distinct_env config"
  shows "envVarsHash sha (envVarsFromConfig fl config) = envVarsHashFromConfigMap fl sha (merged_env config)"
proof (cases "merged_env config = []")
  case True
  then show ?thesis
    using merged_env_distinct [OF assms] by (simp add: envVarsHash_def envVarsFromConfig_def envVarsHashFromConfigMap_def)
next
  case False
  let ?m = "merged_env config"
  have d: "distinct (map fst ?m)" using assms unfolding merged_env_distinct [OF assms] distinct_env_def .
  have kv: "map (\<lambda>e. (ev_Key e, ev_Value e)) (present (envVarsFromConfig fl config)) = map (\<lambda>kv. (fst kv, sprint_v fl (snd kv))) ?m"
    by (simp add: envs_present merged_env_distinct [OF assms] env_of_def)
  have eq: "map (\<lambda>k. (k, last_value (map (\<lambda>kv. (fst kv, sprint_v fl (snd kv))) ?m) k)) (sort (map fst ?m))
      = map (\<lambda>k. (k, case map_of ?m k of Some v \<Rightarrow> sprint_v fl v | None \<Rightarrow> ''<nil>'')) (sort (map fst ?m))"
    using last_value_map [OF d, where f = "sprint_v fl" and d = "''<nil>''"] by (intro map_cong) auto
  have mf: "map fst (map (\<lambda>kv. (fst kv, sprint_v fl (snd kv))) ?m) = map fst ?m" by simp
  have ne: "envVarsFromConfig fl config \<noteq> []"
    using False merged_env_distinct [OF assms] by (simp add: envVarsFromConfig_def)
  show ?thesis
    unfolding envVarsHash_def envVarsHashFromConfigMap_def env_map_text_def Let_def kv mf eq if_not_P [OF ne] if_not_P [OF False] ..
qed

lemma env_map_text_eq_iff:
  assumes "distinct (map fst m)" and "distinct (map fst n)"
  shows "env_map_text fl m = env_map_text fl n
    \<longleftrightarrow> (\<forall>k. map_option (sprint_v fl) (map_of m k) = map_option (sprint_v fl) (map_of n k))"
proof -
  define pairs where "pairs = (\<lambda>m :: cfg. map (\<lambda>k. (k, case map_of m k of Some v \<Rightarrow> sprint_v fl v | None \<Rightarrow> ''<nil>'')) (sort (map fst m)))"
  have look: "map_of (pairs c) k = map_option (sprint_v fl) (map_of c k)" for c k
  proof (cases "map_of c k")
    case None
    then have "k \<notin> set (sort (map fst c))" by (simp add: map_of_eq_None_iff)
    then have "map_of (pairs c) k = None" unfolding pairs_def map_of_eq_None_iff by (simp add: image_image)
    then show ?thesis using None by simp
  next
    case (Some v)
    then have "k \<in> set (sort (map fst c))" by (metis image_eqI fst_conv map_of_SomeD set_map set_sort)
    then have "map_of (map (\<lambda>k. (k, f k)) (sort (map fst c))) k = Some (f k)" for f :: "string \<Rightarrow> string"
      using map_of_map_restrict [of f "sort (map fst c)"] by simp
    then show ?thesis using Some by (simp add: pairs_def)
  qed
  have same: "pairs m = pairs n" if "\<forall>k. map_option (sprint_v fl) (map_of m k) = map_option (sprint_v fl) (map_of n k)"
  proof -
    have "set (map fst m) = set (map fst n)"
      using that unfolding set_eq_iff set_map by (metis map_of_eq_None_iff map_option_is_None)
    then have "sort (map fst m) = sort (map fst n)"
      using assms by (metis sorted_list_of_set_sort_remdups distinct_remdups_id)
    moreover have "(case map_of m k of Some v \<Rightarrow> sprint_v fl v | None \<Rightarrow> ''<nil>'') = (case map_of n k of Some v \<Rightarrow> sprint_v fl v | None \<Rightarrow> ''<nil>'')" for k
      using spec [OF that, of k] by (cases "map_of m k"; cases "map_of n k") simp_all
    ultimately show ?thesis by (simp add: pairs_def)
  qed
  have et: "env_map_text fl c = env_text (pairs c)" for c
    unfolding env_map_text_def pairs_def ..
  have "env_map_text fl m = env_map_text fl n \<longleftrightarrow> pairs m = pairs n"
    unfolding et by (rule iffI, erule env_text_inj, simp)
  moreover have "\<forall>k. map_option (sprint_v fl) (map_of m k) = map_option (sprint_v fl) (map_of n k)" if "pairs m = pairs n"
    unfolding look [symmetric] that by simp
  ultimately show ?thesis using same by blast
qed

text \<open>
  C26: the recorded hash detects exactly the changes of the variables. Let a spec be built from one
  configuration whose variables have distinct names. As long as SHA-256 does not collide on the two
  hashed texts, the hash recorded of that spec equals the hash of another configuration precisely
  when the two configurations give every variable the same text; the length prefixes make sure that
  no two different sets of variables are hashed as the same text.
\<close>

theorem env_hash_exact:
  assumes "distinct_env live" and "distinct_env desired" and "\<forall>t. sha t \<noteq> []"
    and "sha (env_map_text fl (merged_env live)) = sha (env_map_text fl (merged_env desired))
      \<longrightarrow> env_map_text fl (merged_env live) = env_map_text fl (merged_env desired)"
  shows "envVarsHash sha (envVarsFromConfig fl live) = envVarsHashFromConfigMap fl sha (merged_env desired)
    \<longleftrightarrow> (\<forall>k. map_option (sprint_v fl) (map_of (merged_env live) k) = map_option (sprint_v fl) (map_of (merged_env desired) k))"
proof -
  let ?m = "merged_env live" and ?n = "merged_env desired"
  have d: "distinct (map fst ?m)" "distinct (map fst ?n)"
    using assms(1,2) unfolding merged_env_distinct [OF assms(1)] merged_env_distinct [OF assms(2)] distinct_env_def .
  have "envVarsHashFromConfigMap fl sha ?m = envVarsHashFromConfigMap fl sha ?n \<longleftrightarrow> env_map_text fl ?m = env_map_text fl ?n"
  proof (cases "?m = [] \<or> ?n = []")
    case True
    have "env_map_text fl c \<noteq> env_map_text fl []" if "c \<noteq> []" for c
      using that by (auto simp: env_map_text_def dest!: env_text_inj) (metis length_0_conv length_map length_sort)
    then show ?thesis using True assms(3) by (auto simp: envVarsHashFromConfigMap_def) metis+
  next
    case False
    then show ?thesis using assms(4) by (auto simp: envVarsHashFromConfigMap_def)
  qed
  then show ?thesis unfolding spec_hash_eq [OF assms(1)] env_map_text_eq_iff [OF d] .
qed

definition ex_env :: "string \<Rightarrow> string \<Rightarrow> cfg" where
  "ex_env k v = [(''env_vars'', GMap [(k, GStr v)])]"

text \<open>Without the prefixes, both would be hashed as \<^verbatim>\<open>AB=CD\<close>. The identity never collides.\<close>

theorem env_hash_exact_witness:
  "envVarsHash (\<lambda>t. t @ ''!'') (envVarsFromConfig (\<lambda>_. []) (ex_env ''AB'' ''C=D''))
     \<noteq> envVarsHashFromConfigMap (\<lambda>_. []) (\<lambda>t. t @ ''!'') (merged_env (ex_env ''AB=C'' ''D''))"
proof -
  have m: "distinct_env (ex_env k v)" "merged_env (ex_env k v) = [(k, GStr v)]" for k v
    by (simp_all add: distinct_env_def ex_env_def plain_section_def secret_section_def merged_env_def overlay_def)
  show ?thesis
    by (subst env_hash_exact [OF m(1) m(1)]) (auto simp: m(2) intro: exI [of _ "''AB''"])
qed

end
