(* ===== verification/AppOutput.thy ===== *)
theory AppOutput
  imports AppHash Json Regions
begin

text \<open>
  What is recorded of a live app (\<^verbatim>\<open>appOutput\<close> and the functions it calls) and how a desired
  configuration is compared with it (\<^verbatim>\<open>AppPlatformDriver.Diff\<close>, after the check of the image), both of
  \<^verbatim>\<open>internal/drivers/app_platform.go\<close>.
\<close>

section \<open>Recorded values\<close>

text \<open>\<^verbatim>\<open>m[k] = v\<close>\<close>

definition put :: "string \<Rightarrow> gval \<Rightarrow> cfg \<Rightarrow> cfg" where
  "put k v m = filter (\<lambda>kv. fst kv \<noteq> k) m @ [(k, v)]"

fun put_all :: "('a \<Rightarrow> (string \<times> gval) option) \<Rightarrow> 'a list \<Rightarrow> cfg \<Rightarrow> cfg" where
  "put_all f [] m = m"
| "put_all f (x # xs) m = put_all f xs (case f x of Some (k, v) \<Rightarrow> put k v m | None \<Rightarrow> m)"

definition routeCanonicalMap :: "string \<Rightarrow> bool \<Rightarrow> gval" where
  "routeCanonicalMap path preserve = GMap [(''path'', GStr path), (''preserve_path_prefix'', GBool preserve)]"

definition slash :: "string \<Rightarrow> string" where
  "slash path = (if path = [] then ''/'' else path)"

definition canonical_of_map :: "cfg \<Rightarrow> gval" where
  "canonical_of_map m = routeCanonicalMap (slash (str_or_empty (map_of m ''path''))) (bool_or m ''preserve_path_prefix'')"

definition routesCanonicalFromConfigList :: "gval list \<Rightarrow> gval slice" where
  "routesCanonicalFromConfigList raw = (if raw = [] then NilSlice else Slice (map canonical_of_map (maps_in raw)))"

definition desiredRoutesCanonicalFromConfig :: "cfg \<Rightarrow> gval slice option" where
  "desiredRoutesCanonicalFromConfig config = map_option (\<lambda>raw. routesCanonicalFromConfigList (elems raw)) (as_anys (map_of config ''routes''))"

definition routesCanonicalFromOutput :: "gval option \<Rightarrow> gval slice" where
  "routesCanonicalFromOutput v = (case as_anys v of
     None \<Rightarrow> NilSlice
   | Some raw \<Rightarrow> if elems raw = [] then NilSlice else Slice (map canonical_of_map (maps_in (elems raw))))"

definition ingress_route :: "string \<Rightarrow> ingress_rule option \<Rightarrow> gval option" where
  "ingress_route serviceName rule = (case rule of
     Some r \<Rightarrow> (case (ir_Path r, ir_Component r) of
       (Some p, Some c) \<Rightarrow>
         if serviceName \<noteq> [] \<and> rc_Name c \<noteq> serviceName then None
         else Some (routeCanonicalMap (slash (case rp_Prefix p of Some s \<Rightarrow> s | None \<Rightarrow> (case rp_Exact p of Some s \<Rightarrow> s | None \<Rightarrow> [])))
                (rc_PreservePathPrefix c))
     | _ \<Rightarrow> None)
   | None \<Rightarrow> None)"

definition routesCanonicalFromIngressSpec :: "app_ingress option \<Rightarrow> string \<Rightarrow> gval list" where
  "routesCanonicalFromIngressSpec ingress serviceName =
     (case ingress of None \<Rightarrow> [] | Some ing \<Rightarrow> List.map_filter (ingress_route serviceName) (ing_Rules ing))"

definition first_service :: "app_spec \<Rightarrow> app_service option" where
  "first_service spec = (case as_Services spec of Some svc # _ \<Rightarrow> Some svc | _ \<Rightarrow> None)"

text \<open>The result is nil rather than an empty list when there is nothing to list.\<close>

definition routesCanonicalFromSpec :: "app_spec \<Rightarrow> gval slice" where
  "routesCanonicalFromSpec spec =
     (let primaryServiceName = (case first_service spec of Some svc \<Rightarrow> svc_Name svc | None \<Rightarrow> []);
          routes = routesCanonicalFromIngressSpec (as_Ingress spec) primaryServiceName
      in if routes \<noteq> [] then Slice routes
         else case first_service spec of
           None \<Rightarrow> NilSlice
         | Some svc \<Rightarrow>
           if svc_Routes svc = [] then NilSlice
           else Slice (map (\<lambda>r. routeCanonicalMap (slash (rt_Path r)) (rt_PreservePathPrefix r)) (present (svc_Routes svc))))"

definition route_maps_agree :: "gval \<Rightarrow> gval \<Rightarrow> bool option" where
  "route_maps_agree d c = (case (as_map (Some d), as_map (Some c)) of
     (Some dm, Some cm) \<Rightarrow>
       if map_of dm ''path'' \<noteq> map_of cm ''path'' \<or> map_of dm ''preserve_path_prefix'' \<noteq> map_of cm ''preserve_path_prefix''
       then Some False else None
   | (None, None) \<Rightarrow> Some True
   | _ \<Rightarrow> Some False)"

text \<open>Two entries that are no maps end the comparison with true.\<close>

fun routes_agree :: "gval list \<Rightarrow> gval list \<Rightarrow> bool" where
  "routes_agree (d # ds) (c # cs) = (case route_maps_agree d c of Some b \<Rightarrow> b | None \<Rightarrow> routes_agree ds cs)"
| "routes_agree _ _ = True"

definition routesCanonicalEqual :: "gval list \<Rightarrow> gval list \<Rightarrow> bool" where
  "routesCanonicalEqual desired current = (if length desired \<noteq> length current then False else routes_agree desired current)"

definition serviceEnvVarsHashFromSpec :: "(string \<Rightarrow> string) \<Rightarrow> app_spec \<Rightarrow> string" where
  "serviceEnvVarsHashFromSpec sha spec = (case first_service spec of None \<Rightarrow> [] | Some svc \<Rightarrow> envVarsHash sha (svc_Envs svc))"

definition jobsHashFromSpec :: "(string \<Rightarrow> string) \<Rightarrow> app_spec \<Rightarrow> gval" where
  "jobsHashFromSpec sha spec =
     (if as_Jobs spec = [] then GNilMap
      else GMap (put_all (\<lambda>j. if job_Name j = [] then None else Some (job_Name j, GStr (componentHash sha (job_Kind j) (job_Envs j))))
             (present (as_Jobs spec)) []))"

definition workersHashFromSpec :: "(string \<Rightarrow> string) \<Rightarrow> app_spec \<Rightarrow> gval" where
  "workersHashFromSpec sha spec =
     (if as_Workers spec = [] then GNilMap
      else GMap (put_all (\<lambda>w. if wk_Name w = [] then None else Some (wk_Name w, GStr (componentHash sha [] (wk_Envs w))))
             (present (as_Workers spec)) []))"

definition vpcUUIDFromSpec :: "app_spec \<Rightarrow> string" where
  "vpcUUIDFromSpec spec = (case as_Vpc spec of None \<Rightarrow> [] | Some vpcID \<Rightarrow> vpcID)"

definition deriveImageFromAppSpec :: "app_spec \<Rightarrow> string" where
  "deriveImageFromAppSpec spec = (case first_service spec of None \<Rightarrow> [] | Some svc \<Rightarrow> formatImageSpec (svc_Image svc))"

definition deriveExposeFromAppSpec :: "app_spec \<Rightarrow> string" where
  "deriveExposeFromAppSpec spec = (case first_service spec of
     None \<Rightarrow> ''public''
   | Some svc \<Rightarrow> if svc_HTTPPort svc = 0 \<and> svc_InternalPorts svc \<noteq> [] then ''internal'' else ''public'')"

section \<open>The output of an app\<close>

definition addDeploymentSlotOutputs :: "string list \<Rightarrow> string \<Rightarrow> deployment option \<Rightarrow> cfg \<times> string list" where
  "addDeploymentSlotOutputs emittedIDs slot dep =
     (let entry = (\<lambda>id phase. [(slot @ ''_deployment_id'', GStr id), (slot @ ''_deployment_phase'', GStr phase)]) in
      case dep of
        None \<Rightarrow> (entry [] [], emittedIDs)
      | Some d \<Rightarrow>
        if dep_ID d \<noteq> [] \<and> dep_ID d \<in> set emittedIDs then (entry [] [], emittedIDs)
        else (entry (dep_ID d) (dep_Phase d), if dep_ID d \<noteq> [] then dep_ID d # emittedIDs else emittedIDs))"

definition componentImageRef :: "string \<times> image_source option \<Rightarrow> (string \<times> gval) option" where
  "componentImageRef component = (case component of (name, image_opt) \<Rightarrow>
     (case image_opt of
        None \<Rightarrow> None
      | Some img \<Rightarrow>
        if name = [] \<or> img_Digest img \<noteq> [] then None
        else if img_RegistryType img = ''DOCR'' \<and> img_Registry img = [] then None
        else if img_RegistryType img \<notin> {''DOCR'', ''GHCR'', ''DOCKER_HUB''} then None
        else let ref = formatImageSpec image_opt in if ref = [] then None else Some (name, GStr ref)))"

definition componentImageRefs :: "(string \<times> image_source option) list \<Rightarrow> cfg" where
  "componentImageRefs components = put_all componentImageRef components []"

definition activeDeploymentImageRefs :: "app_spec option \<Rightarrow> cfg" where
  "activeDeploymentImageRefs spec_opt = (case spec_opt of
     None \<Rightarrow> []
   | Some spec \<Rightarrow>
     let services = componentImageRefs (map (\<lambda>s. (svc_Name s, svc_Image s)) (present (as_Services spec)));
         workers = componentImageRefs (map (\<lambda>w. (wk_Name w, wk_Image w)) (present (as_Workers spec)))
     in (if services \<noteq> [] then [(''services'', GMap services)] else [])
        @ (if workers \<noteq> [] then [(''workers'', GMap workers)] else []))"

definition spec_outputs :: "(string \<Rightarrow> string) \<Rightarrow> app \<Rightarrow> app_spec \<Rightarrow> cfg" where
  "spec_outputs sha a spec =
     [(''live_url'', GStr (app_LiveURL a)), (''default_ingress'', GStr (app_DefaultIngress a)),
      (''expose'', GStr (deriveExposeFromAppSpec spec)), (''image'', GStr (deriveImageFromAppSpec spec)),
      (''region'', GStr (as_Region spec)), (''env_vars_hash'', GStr (serviceEnvVarsHashFromSpec sha spec)),
      (''jobs_hash'', jobsHashFromSpec sha spec), (''workers_hash'', workersHashFromSpec sha spec),
      (''routes'', GAnys (routesCanonicalFromSpec spec)), (''vpc_uuid'', GStr (vpcUUIDFromSpec spec))]"

definition deployment_outputs :: "app \<Rightarrow> cfg" where
  "deployment_outputs a =
     (let (o1, e1) = addDeploymentSlotOutputs [] ''active'' (app_Active a);
          (o2, e2) = addDeploymentSlotOutputs e1 ''in_progress'' (app_InProgress a);
          (o3, e3) = addDeploymentSlotOutputs e2 ''pending'' (app_Pending a)
      in o1 @ o2 @ o3 @
         (case app_Active a of
            None \<Rightarrow> []
          | Some active \<Rightarrow>
            if dep_ID active \<noteq> [] \<and> dep_Phase active = ''ACTIVE'' \<and> activeDeploymentImageRefs (dep_Spec active) \<noteq> []
            then [(''active_deployment_image_refs'', GMap (activeDeploymentImageRefs (dep_Spec active))),
                  (''active_deployment_image_refs_source'', GStr ''active_deployment.spec'')]
            else []))"

text \<open>An app without a spec panics.\<close>

definition appOutput :: "(string \<Rightarrow> string) \<Rightarrow> app \<Rightarrow> resource_output res" where
  "appOutput sha a = (case app_Spec a of
     None \<Rightarrow> Panic ''nil pointer dereference''
   | Some spec \<Rightarrow> Ok \<lparr>out_Name = as_Name spec, out_Type = ''infra.container_service'', out_ProviderID = app_ID a,
       out_Outputs = spec_outputs sha a spec @ deployment_outputs a, out_Sensitive = [],
       out_Status = (if app_Active a = None then ''pending'' else ''running'')\<rparr>)"

section \<open>Comparing a configuration with the record\<close>

definition componentHashesByName :: "(f64 \<Rightarrow> string) \<Rightarrow> (string \<Rightarrow> string) \<Rightarrow> gval list \<Rightarrow> cfg" where
  "componentHashesByName fl sha comps =
     put_all (\<lambda>m. let name = str_or_empty (map_of m ''name'') in
        if name = [] then None else Some (name, GStr (componentHashFromConfig fl sha m))) (maps_in comps) []"

definition hashMapsEqual :: "cfg \<Rightarrow> cfg \<Rightarrow> bool" where
  "hashMapsEqual desired current =
     (if length desired \<noteq> length current then False
      else list_all (\<lambda>(name, dh). map_of current name = Some dh) desired)"

definition hashes_differ :: "(f64 \<Rightarrow> string) \<Rightarrow> (string \<Rightarrow> string) \<Rightarrow> gval option \<Rightarrow> gval option \<Rightarrow> bool" where
  "hashes_differ fl sha desired current = (case (as_anys desired, as_map current) of
     (Some comps, Some curHashes) \<Rightarrow> \<not> hashMapsEqual (componentHashesByName fl sha (elems comps)) curHashes
   | _ \<Rightarrow> False)"

definition desired_vpc :: "cfg \<Rightarrow> string" where
  "desired_vpc config = (let v = strFromConfig config ''vpc_ref'' [] in if v = [] then strFromConfig config ''vpc_uuid'' [] else v)"

definition routes_step :: "cfg \<Rightarrow> cfg \<Rightarrow> diff_state \<Rightarrow> diff_state" where
  "routes_step config outs s = (case desiredRoutesCanonicalFromConfig config of
     None \<Rightarrow> s
   | Some routes \<Rightarrow>
     let desiredRoutes = (if canonicalExpose config = ''internal'' then NilSlice else routes);
         curRoutes = routesCanonicalFromOutput (map_of outs ''routes'')
     in if map_of outs ''routes'' = None
        then diff_step True (change ''routes'' (GStr ''<unknown>'') (GAnys desiredRoutes)) s
        else diff_step (\<not> routesCanonicalEqual (elems desiredRoutes) (elems curRoutes))
               (change ''routes'' (GAnys curRoutes) (GAnys desiredRoutes)) s)"

definition env_step :: "(f64 \<Rightarrow> string) \<Rightarrow> (string \<Rightarrow> string) \<Rightarrow> cfg \<Rightarrow> cfg \<Rightarrow> diff_state \<Rightarrow> diff_state" where
  "env_step fl sha config outs s = (case (desiredEnvVarsForHash config, as_str (map_of outs ''env_vars_hash'')) of
     (Some desiredEnvs, Some curHash) \<Rightarrow>
       let desiredHash = envVarsHashFromConfigMap fl sha desiredEnvs
       in diff_step (desiredHash \<noteq> curHash) (change ''env_vars'' (GStr (hashPreview curHash)) (GStr (hashPreview desiredHash))) s
   | _ \<Rightarrow> s)"

definition app_diff_state :: "(f64 \<Rightarrow> string) \<Rightarrow> (string \<Rightarrow> string) \<Rightarrow> cfg \<Rightarrow> cfg \<Rightarrow> diff_state" where
  "app_diff_state fl sha config outs =
     (let img = str_or_empty (map_of config ''image''); curImg = str_or_empty (map_of outs ''image'');
          desiredExpose = canonicalExpose config;
          curExpose = (let e = str_or_empty (map_of outs ''expose'') in if e = [] then ''public'' else e);
          region = strFromConfig config ''region'' []; curRegion = str_or_empty (map_of outs ''region'');
          curVPC = str_or_empty (map_of outs ''vpc_uuid'');
          s1 = diff_step (img \<noteq> [] \<and> \<not> imageRefsEqual img curImg) (change ''image'' (GStr curImg) (GStr img)) ([], False);
          s2 = diff_step (desiredExpose \<noteq> curExpose) (change ''expose'' (GStr curExpose) (GStr desiredExpose)) s1;
          s3 = routes_step config outs s2;
          s4 = diff_step (region \<noteq> [] \<and> curRegion \<noteq> []
                 \<and> normalizeAppPlatformRegionForDiff curRegion \<noteq> normalizeAppPlatformRegionForDiff region)
                 (change_new ''region'' (GStr curRegion) (GStr region)) s3;
          s5 = env_step fl sha config outs s4;
          s6 = diff_step (hashes_differ fl sha (map_of config ''jobs'') (map_of outs ''jobs_hash''))
                 (change ''jobs'' (GStr ''[hash-map]'') (GStr ''[hash-map]'')) s5;
          s7 = diff_step (hashes_differ fl sha (map_of config ''workers'') (map_of outs ''workers_hash''))
                 (change ''workers'' (GStr ''[hash-map]'') (GStr ''[hash-map]'')) s6
      in diff_step (map_of outs ''vpc_uuid'' \<noteq> None \<and> curVPC \<noteq> desired_vpc config)
           (change ''vpc_uuid'' (GStr curVPC) (GStr (desired_vpc config))) s7)"

definition app_compare :: "(f64 \<Rightarrow> string) \<Rightarrow> (string \<Rightarrow> string) \<Rightarrow> cfg \<Rightarrow> resource_output option \<Rightarrow> diff_result" where
  "app_compare fl sha config current = (case current of
     None \<Rightarrow> diff_absent
   | Some cur \<Rightarrow> diff_result_of (app_diff_state fl sha config (out_Outputs cur)))"

end
