(* ===== verification/AppDrift.thy ===== *)
theory AppDrift
  imports AppOutput
begin

text \<open>
  An app that was just created from a configuration shows no difference to it: the record made of
  the spec the configuration is built into, sent through JSON into the state and compared with the
  same configuration. What a configuration must keep to for this is \<open>stable_config\<close>; the lemmas at
  the end show that each of its conditions is needed, and one change that goes unseen.
\<close>

lemma put_distinct: "distinct (map fst m) \<Longrightarrow> distinct (map fst (put k v m))"
  by (auto simp: put_def distinct_map_filter)

lemma put_all_distinct: "distinct (map fst m) \<Longrightarrow> distinct (map fst (put_all f xs m))"
  by (induction f xs m rule: put_all.induct) (auto simp: put_distinct split: option.splits)

lemma put_all_map_filter:
  assumes "\<forall>x \<in> set xs. h x = (case b x of None \<Rightarrow> None | Some y \<Rightarrow> g y)"
  shows "put_all g (List.map_filter b xs) m = put_all h xs m"
  using assms by (induction xs arbitrary: m) (auto simp: List.map_filter_def split: option.splits)

lemma put_all_strings:
  assumes "\<forall>x \<in> set xs. \<forall>k v. f x = Some (k, v) \<longrightarrow> json_norm v = v" and "norm_map m = m"
  shows "norm_map (put_all f xs m) = put_all f xs m"
  using assms
proof (induction f xs m rule: put_all.induct)
  case (2 f x xs m)
  have "norm_map (put k v m) = put k v m" if "json_norm v = v" for k v
  proof -
    have "norm_map (filter P m) = filter P m" for P
      using 2(3) by (induction m) (auto simp: norm_map_def)
    then show ?thesis using that by (simp add: put_def norm_map_def)
  qed
  then show ?case using 2 by (auto split: option.splits)
qed simp

lemma hashMapsEqual_refl: "distinct (map fst m) \<Longrightarrow> hashMapsEqual m m"
  by (auto simp: hashMapsEqual_def list_all_iff)

lemma present_map_Some [simp]: "present (map Some xs) = xs"
  by (induction xs) auto

lemma present_map_Some_comp [simp]: "present (map (\<lambda>x. Some (f x)) xs) = map f xs"
  by (induction xs) auto

section \<open>Each field\<close>

lemma format_credentials: "formatImageSpec (Some (img\<lparr>img_Credentials := c\<rparr>)) = formatImageSpec (Some img)"
  by (simp add: formatImageSpec_def Let_def)

lemma format_applied: "formatImageSpec (Some (applyRegistryCredentialsFromConfig img config)) = formatImageSpec (Some img)"
  by (simp add: applyRegistryCredentialsFromConfig_def Let_def format_credentials split: option.splits)

lemma image_unchanged:
  assumes "imageSpecFromConfig config = Ok img" and "str_or_empty (map_of config ''image'') \<noteq> []"
  shows "imageRefsEqual (str_or_empty (map_of config ''image'')) (formatImageSpec (Some img))"
proof -
  obtain v where v: "map_of config ''image'' = Some (GStr v)" "v \<noteq> []"
    using assms(2) by (auto simp: str_or_empty_def elim!: as_str.elims split: option.splits)
  then obtain x where "ParseImageRef v = Ok x" "img = applyRegistryCredentialsFromConfig x config"
    using assms(1) by (auto simp: imageSpecFromConfig_def res_bind_Ok_iff)
  then show ?thesis
    using image_ref_normal v by (simp add: format_applied str_or_empty_def)
qed

lemma route_maps_agree_refl: "route_maps_agree (routeCanonicalMap p b) (routeCanonicalMap p b) = None"
  by (simp add: route_maps_agree_def routeCanonicalMap_def)

lemma routes_agree_refl: "routesCanonicalEqual (map canonical_of_map ms) (map canonical_of_map ms)"
proof -
  have "routes_agree (map canonical_of_map ms) (map canonical_of_map ms)"
    by (induction ms) (simp_all add: canonical_of_map_def route_maps_agree_refl)
  then show ?thesis by (simp add: routesCanonicalEqual_def)
qed

lemma canonical_of_norm: "canonical_of_map (norm_map [(''path'', GStr p), (''preserve_path_prefix'', GBool b)]) = routeCanonicalMap (slash p) b"
  by (simp add: canonical_of_map_def norm_map_def bool_or_def str_or_empty_def)

lemma slash_slash: "slash (slash p) = slash p"
  by (simp add: slash_def)

lemma routes_recorded:
  "elems (routesCanonicalFromOutput (Some (json_norm (GAnys (Slice (map canonical_of_map ms)))))) = map canonical_of_map ms"
proof -
  have "maps_in (map json_norm (map canonical_of_map ms))
      = map (\<lambda>m. norm_map [(''path'', GStr (slash (str_or_empty (map_of m ''path'')))), (''preserve_path_prefix'', GBool (bool_or m ''preserve_path_prefix''))]) ms"
    by (induction ms) (simp_all add: canonical_of_map_def routeCanonicalMap_def)
  then show ?thesis
    by (simp add: routesCanonicalFromOutput_def comp_def canonical_of_norm slash_slash)
      (simp add: canonical_of_map_def)
qed

lemma routes_recorded_nil: "elems (routesCanonicalFromOutput (Some (json_norm (GAnys NilSlice)))) = []"
  by (simp add: routesCanonicalFromOutput_def)

lemma ingress_routes:
  "List.map_filter (ingress_route name) (map (\<lambda>m. Some (ingress_rule_of name m)) ms)
    = map (\<lambda>m. routeCanonicalMap (strFromConfig m ''path'' ''/'') (bool_or m ''preserve_path_prefix'')) ms"
proof -
  have "slash (strFromConfig m ''path'' ''/'') = strFromConfig m ''path'' ''/''" for m
    by (auto simp: strFromConfig_def slash_def split: option.splits)
  then show ?thesis
    by (induction ms) (auto simp: List.map_filter_def ingress_route_def ingress_rule_of_def)
qed

lemma path_default: "strFromConfig m ''path'' ''/'' = slash (str_or_empty (map_of m ''path''))"
  by (auto simp: strFromConfig_def slash_def str_or_empty_def split: option.splits)

section \<open>Nothing differs after a create\<close>

definition known_kind :: "string \<Rightarrow> bool" where
  "known_kind kind = (to_lower kind \<in> {''pre_deploy'', ''post_deploy'', ''failed_deploy'', ''scheduled''})"

definition stable_job :: "cfg \<Rightarrow> bool" where
  "stable_job m = (distinct_env m \<and> known_kind (strFromConfig m ''kind'' []))"

definition stable_worker :: "cfg \<Rightarrow> bool" where
  "stable_worker m = (distinct_env m \<and> strFromConfig m ''kind'' [] = [])"

definition stable_config :: "cfg \<Rightarrow> bool" where
  "stable_config config =
     (distinct_env config \<and> list_all stable_job (maps_in (list_of config ''jobs''))
      \<and> list_all stable_worker (maps_in (list_of config ''workers''))
      \<and> (strFromConfig config ''vpc_uuid'' [] \<noteq> [] \<longrightarrow> strFromConfig config ''vpc_ref'' [] \<noteq> [])
      \<and> (canonicalExpose config = ''public'' \<longrightarrow> fst (intFromConfig config ''http_port'' 8080) = 0 \<longrightarrow> internalPortsFromConfig config = []))"

lemma strFromConfig_empty [simp]: "strFromConfig m k [] = str_or_empty (map_of m k)"
  by (auto simp: strFromConfig_def str_or_empty_def split: option.splits)

lemma known_kind_upper: "known_kind kind \<Longrightarrow> to_upper kind = mapJobKind kind"
proof -
  assume "known_kind kind"
  then have "to_lower kind \<in> {''pre_deploy'', ''post_deploy'', ''failed_deploy'', ''scheduled''}" by (simp add: known_kind_def)
  moreover have "to_upper ''pre_deploy'' = ''PRE_DEPLOY''" "to_upper ''post_deploy'' = ''POST_DEPLOY''"
    "to_upper ''failed_deploy'' = ''FAILED_DEPLOY''" "to_upper ''scheduled'' = ''SCHEDULED''" by code_simp+
  moreover have "to_upper kind = to_upper (to_lower kind)" by simp
  ultimately show ?thesis by (auto simp: mapJobKind_def Let_def simp del: to_upper_lower)
qed

lemma component_hash_eq:
  assumes "distinct_env m" and "to_upper (str_or_empty (map_of m ''kind'')) = kind"
  shows "componentHashFromConfig fl sha m = componentHash sha kind (envVarsFromConfig fl m)"
proof -
  have "(case desiredEnvVarsForHash m of Some e \<Rightarrow> e | None \<Rightarrow> []) = merged_env m"
    using desired_env_merged desired_env_None by (auto split: option.splits)
  then show ?thesis
    by (simp add: componentHashFromConfig_def componentHash_def spec_hash_eq [OF assms(1)] assms(2) Let_def)
qed

lemma recorded_hashes:
  assumes "\<forall>x \<in> set ms. (case b x of None \<Rightarrow> None | Some y \<Rightarrow> g y)
      = (let name = str_or_empty (map_of x ''name'') in if name = [] then None else Some (name, GStr (componentHashFromConfig fl sha x)))"
    and "ms = maps_in (elems comps)" and "h = (if List.map_filter b ms = [] then GNilMap else GMap (put_all g (List.map_filter b ms) []))"
  shows "\<not> hashes_differ fl sha (Some (GAnys comps)) (Some (json_norm h))"
proof (cases "List.map_filter b ms = []")
  case True
  then show ?thesis using assms(3) by (simp add: hashes_differ_def)
next
  case False
  have p: "put_all g (List.map_filter b ms) [] = componentHashesByName fl sha (elems comps)"
    unfolding componentHashesByName_def assms(2) [symmetric] by (rule put_all_map_filter) (use assms(1) in simp)
  have "norm_map (componentHashesByName fl sha (elems comps)) = componentHashesByName fl sha (elems comps)"
    unfolding componentHashesByName_def by (rule put_all_strings) (auto simp: Let_def norm_map_def split: if_splits)
  moreover have "distinct (map fst (componentHashesByName fl sha (elems comps)))"
    unfolding componentHashesByName_def by (rule put_all_distinct) simp
  ultimately show ?thesis
    using assms(3) False by (simp add: hashes_differ_def p hashMapsEqual_refl)
qed

lemma jobs_unchanged:
  assumes "list_all stable_job (maps_in (list_of config ''jobs''))" and "as_Jobs spec = jobsFromConfig fl config"
  shows "\<not> hashes_differ fl sha (map_of config ''jobs'') (Some (json_norm (jobsHashFromSpec sha spec)))"
proof (cases "as_anys (map_of config ''jobs'')")
  case None
  then show ?thesis by (simp add: hashes_differ_def)
next
  case (Some comps)
  then have c: "map_of config ''jobs'' = Some (GAnys comps)" by (auto elim: as_anys.elims)
  let ?ms = "maps_in (elems comps)"
  have st: "\<forall>m \<in> set ?ms. stable_job m" using assms(1) Some by (simp add: list_of_def list_all_iff)
  have "componentHashFromConfig fl sha m = componentHash sha (mapJobKind (str_or_empty (map_of m ''kind''))) (envVarsFromConfig fl m)"
    if "m \<in> set ?ms" for m
    by (rule component_hash_eq) (use st that known_kind_upper in \<open>auto simp: stable_job_def\<close>)
  then show ?thesis unfolding c
    by (intro recorded_hashes [where ms = ?ms and b = "buildJobSpec fl"
          and g = "\<lambda>j. if job_Name j = [] then None else Some (job_Name j, GStr (componentHash sha (job_Kind j) (job_Envs j)))"])
      (auto simp: buildJobSpec_def Let_def envVarsFromJobConfig_def jobsHashFromSpec_def assms(2) jobsFromConfig_def list_of_def Some)
qed

lemma workers_unchanged:
  assumes "list_all stable_worker (maps_in (list_of config ''workers''))" and "as_Workers spec = workersFromConfig fl config"
  shows "\<not> hashes_differ fl sha (map_of config ''workers'') (Some (json_norm (workersHashFromSpec sha spec)))"
proof (cases "as_anys (map_of config ''workers'')")
  case None
  then show ?thesis by (simp add: hashes_differ_def)
next
  case (Some comps)
  then have c: "map_of config ''workers'' = Some (GAnys comps)" by (auto elim: as_anys.elims)
  let ?ms = "maps_in (elems comps)"
  have st: "\<forall>m \<in> set ?ms. stable_worker m" using assms(1) Some by (simp add: list_of_def list_all_iff)
  have "componentHashFromConfig fl sha m = componentHash sha [] (envVarsFromConfig fl m)" if "m \<in> set ?ms" for m
    by (rule component_hash_eq) (use st that in \<open>auto simp: stable_worker_def to_upper_def\<close>)
  then show ?thesis unfolding c
    by (intro recorded_hashes [where ms = ?ms and b = "buildWorkerSpec fl"
          and g = "\<lambda>w. if wk_Name w = [] then None else Some (wk_Name w, GStr (componentHash sha [] (wk_Envs w)))"])
      (auto simp: buildWorkerSpec_def Let_def envVarsFromJobConfig_def workersHashFromSpec_def assms(2) workersFromConfig_def list_of_def Some)
qed

lemma route_entry: "routeCanonicalMap (strFromConfig m ''path'' ''/'') (bool_or m ''preserve_path_prefix'') = canonical_of_map m"
  by (simp add: canonical_of_map_def path_default)

lemma routes_of_spec:
  assumes "applyExposeInternal (main_service fl name config img) config p known = Ok svc"
  shows "routesCanonicalFromSpec (spec_of fl name config region svc sidecars domains)
    = (if canonicalExpose config = ''internal'' \<or> maps_in (list_of config ''routes'') = [] then NilSlice
       else Slice (map canonical_of_map (maps_in (list_of config ''routes''))))"
proof -
  let ?ms = "maps_in (list_of config ''routes'')" and ?s = "spec_of fl name config region svc sidecars domains"
  note v = applyExposeInternal_values [OF assms]
  have f: "first_service ?s = Some svc" by (simp add: first_service_def spec_of_def)
  have nm: "svc_Name svc = name" using v by (auto simp: main_service_def)
  have i: "as_Ingress ?s = ingressFromConfig config name" by (simp add: spec_of_def)
  have e: "list_of config ''routes'' = [] \<Longrightarrow> ?ms = []" by simp
  show ?thesis
  proof (cases "canonicalExpose config = ''internal'' \<or> ?ms = []")
    case True
    then have r: "ingressRulesFromRoutesConfig config name = []" by (auto simp: ingressRulesFromRoutesConfig_def)
    then have "routesCanonicalFromIngressSpec (ingressFromConfig config name) name = []"
      by (auto simp: routesCanonicalFromIngressSpec_def ingressFromConfig_def Let_def List.map_filter_def split: option.splits)
    moreover have "svc_Routes svc = []"
      using True v by (auto simp: main_service_def routesFromConfig_def split: option.splits)
    ultimately show ?thesis using True by (simp add: routesCanonicalFromSpec_def f i nm Let_def)
  next
    case False
    then have "ingressRulesFromRoutesConfig config name = map (\<lambda>m. Some (ingress_rule_of name m)) ?ms"
      using e by (auto simp: ingressRulesFromRoutesConfig_def)
    then have "routesCanonicalFromIngressSpec (ingressFromConfig config name) name = map canonical_of_map ?ms"
      using False by (simp add: routesCanonicalFromIngressSpec_def ingressFromConfig_def Let_def ingress_routes route_entry)
    then show ?thesis using False by (simp add: routesCanonicalFromSpec_def f i nm Let_def)
  qed
qed

lemma expose_of_spec:
  assumes "applyExposeInternal (main_service fl name config img) config (fst (intFromConfig config ''http_port'' 8080)) known = Ok svc"
    and "stable_config config"
  shows "deriveExposeFromAppSpec (spec_of fl name config region svc sidecars domains) = canonicalExpose config"
  using applyExposeInternal_values [OF assms(1)] assms(2)
  by (auto simp: deriveExposeFromAppSpec_def first_service_def spec_of_def main_service_def stable_config_def)

lemma routes_step_same:
  assumes "map_of outs ''routes'' = Some (json_norm (GAnys (if canonicalExpose config = ''internal'' \<or> maps_in (list_of config ''routes'') = []
        then NilSlice else Slice (map canonical_of_map (maps_in (list_of config ''routes''))))))"
  shows "routes_step config outs s = s"
proof (cases "as_anys (map_of config ''routes'')")
  case None
  then show ?thesis by (simp add: routes_step_def desiredRoutesCanonicalFromConfig_def)
next
  case (Some raw)
  have l: "list_of config ''routes'' = elems raw" by (simp add: list_of_def Some)
  have "routesCanonicalEqual [] []" by (simp add: routesCanonicalEqual_def)
  then show ?thesis
    using assms routes_agree_refl [of "maps_in (elems raw)"] unfolding l
    by (auto simp del: json_norm.simps simp: routes_step_def desiredRoutesCanonicalFromConfig_def Some Let_def
        routesCanonicalFromConfigList_def routes_recorded routes_recorded_nil split: if_splits)
qed

text \<open>The recorded fields, after JSON.\<close>

lemma recorded_fields:
  assumes "appOutput sha a = Ok out" and "app_Spec a = Some spec" and "outs = out_Outputs (after_json out)"
  shows "map_of outs ''image'' = Some (GStr (deriveImageFromAppSpec spec))" "map_of outs ''expose'' = Some (GStr (deriveExposeFromAppSpec spec))"
    "map_of outs ''region'' = Some (GStr (as_Region spec))" "map_of outs ''env_vars_hash'' = Some (GStr (serviceEnvVarsHashFromSpec sha spec))"
    "map_of outs ''jobs_hash'' = Some (json_norm (jobsHashFromSpec sha spec))"
    "map_of outs ''workers_hash'' = Some (json_norm (workersHashFromSpec sha spec))"
    "map_of outs ''routes'' = Some (json_norm (GAnys (routesCanonicalFromSpec spec)))"
    "map_of outs ''vpc_uuid'' = Some (GStr (vpcUUIDFromSpec spec))"
proof -
  have o: "out_Outputs out = spec_outputs sha a spec @ deployment_outputs a"
    using assms(1,2) by (auto simp: appOutput_def)
  have m: "map_of outs k = map_option json_norm (map_of (spec_outputs sha a spec) k)" if "map_of (spec_outputs sha a spec) k \<noteq> None" for k
    using that by (auto simp: assms(3) after_json_def map_of_norm_map o)
  show "map_of outs ''image'' = Some (GStr (deriveImageFromAppSpec spec))" "map_of outs ''expose'' = Some (GStr (deriveExposeFromAppSpec spec))"
    "map_of outs ''region'' = Some (GStr (as_Region spec))" "map_of outs ''env_vars_hash'' = Some (GStr (serviceEnvVarsHashFromSpec sha spec))"
    "map_of outs ''jobs_hash'' = Some (json_norm (jobsHashFromSpec sha spec))"
    "map_of outs ''workers_hash'' = Some (json_norm (workersHashFromSpec sha spec))"
    "map_of outs ''routes'' = Some (json_norm (GAnys (routesCanonicalFromSpec spec)))"
    "map_of outs ''vpc_uuid'' = Some (GStr (vpcUUIDFromSpec spec))"
    by (subst m; simp add: spec_outputs_def)+
qed

lemma created_app_unchanged:
  assumes b: "buildAppSpec fl name config region = Ok spec" and stable: "stable_config config"
    and r: "str_or_empty (map_of config ''region'') \<noteq> [] \<longrightarrow> region = str_or_empty (map_of config ''region'')"
    and a: "app_Spec a = Some spec" and o: "appOutput sha a = Ok out"
  shows "app_compare fl sha config (Some (after_json out)) = \<lparr>NeedsUpdate = False, NeedsReplace = False, Changes = []\<rparr>"
proof -
  define outs where "outs = out_Outputs (after_json out)"
  obtain img svc sidecars domains where p: "imageSpecFromConfig config = Ok img"
    "applyExposeInternal (main_service fl name config img) config
        (fst (intFromConfig config ''http_port'' 8080)) (snd (intFromConfig config ''http_port'' 8080)) = Ok svc"
    "spec = spec_of fl name config region svc sidecars domains"
    by (rule buildAppSpec_OkE [OF b])
  note v = applyExposeInternal_values [OF p(2)] and f = recorded_fields [OF o a outs_def]
  have fs: "first_service spec = Some svc" by (simp add: p(3) first_service_def spec_of_def)
  have sv: "svc_Image svc = Some img" "svc_Envs svc = envVarsFromConfig fl config" using v by (auto simp: main_service_def)
  have im: "str_or_empty (map_of config ''image'') \<noteq> [] \<Longrightarrow>
      imageRefsEqual (str_or_empty (map_of config ''image'')) (str_or_empty (map_of outs ''image''))"
    using image_unchanged [OF p(1)] by (simp add: f deriveImageFromAppSpec_def fs sv str_or_empty_def)
  have ex: "(let e = str_or_empty (map_of outs ''expose'') in if e = [] then ''public'' else e) = canonicalExpose config"
    using expose_of_spec [OF p(2) stable] v by (auto simp: f str_or_empty_def p(3))
  have rt: "routes_step config outs s = s" for s
    by (rule routes_step_same) (simp add: f p(3) routes_of_spec [OF p(2)] del: json_norm.simps(11,12))
  have rg: "str_or_empty (map_of config ''region'') \<noteq> [] \<Longrightarrow> str_or_empty (map_of outs ''region'') = str_or_empty (map_of config ''region'')"
    using r by (simp add: f p(3) spec_of_def str_or_empty_def)
  have ev: "env_step fl sha config outs s = s" for s
    using stable desired_env_merged by (auto simp: env_step_def f serviceEnvVarsHashFromSpec_def fs sv spec_hash_eq stable_config_def
        split: option.splits)
  have jb: "\<not> hashes_differ fl sha (map_of config ''jobs'') (map_of outs ''jobs_hash'')"
    using stable unfolding f by (intro jobs_unchanged) (simp_all add: stable_config_def p(3) spec_of_def)
  have wk: "\<not> hashes_differ fl sha (map_of config ''workers'') (map_of outs ''workers_hash'')"
    using stable unfolding f by (intro workers_unchanged) (simp_all add: stable_config_def p(3) spec_of_def)
  have vp: "str_or_empty (map_of outs ''vpc_uuid'') = desired_vpc config"
    using stable by (auto simp: f vpcUUIDFromSpec_def p(3) spec_of_def vpcFromConfig_def desired_vpc_def stable_config_def str_or_empty_def Let_def)
  have i1: "\<not> (str_or_empty (map_of config ''image'') \<noteq> [] \<and>
      \<not> imageRefsEqual (str_or_empty (map_of config ''image'')) (str_or_empty (map_of outs ''image'')))"
    using im by blast
  have r1: "\<not> (str_or_empty (map_of config ''region'') \<noteq> [] \<and> str_or_empty (map_of outs ''region'') \<noteq> []
      \<and> normalizeAppPlatformRegionForDiff (str_or_empty (map_of outs ''region'')) \<noteq> normalizeAppPlatformRegionForDiff (str_or_empty (map_of config ''region'')))"
    using rg by auto
  have skip: "\<not> b \<Longrightarrow> diff_step b c s = s" for b c s by simp
  have "app_diff_state fl sha config outs = ([], False)"
    unfolding app_diff_state_def Let_def rt ev vp strFromConfig_empty ex [unfolded Let_def] skip [OF i1] skip [OF r1] skip [OF jb] skip [OF wk]
    by simp
  then show ?thesis by (simp add: app_compare_def diff_result_of_def outs_def [symmetric])
qed

section \<open>Each condition is needed\<close>

definition new_app :: "string \<Rightarrow> app_spec \<Rightarrow> app" where
  "new_app i spec = \<lparr>app_ID = i, app_Spec = Some spec, app_LiveURL = [], app_DefaultIngress = [], app_Active = None,
     app_InProgress = None, app_Pending = None, app_Domains = []\<rparr>"

text \<open>The fields that differ when an app built from one configuration is compared with another.\<close>

definition differing :: "cfg \<Rightarrow> cfg \<Rightarrow> string list" where
  "differing built desired =
     (case buildAppSpec (\<lambda>_. []) ''web'' built ''nyc'' of
        Ok spec \<Rightarrow> (case appOutput (\<lambda>t. t) (new_app ''1'' spec) of
           Ok out \<Rightarrow> map fc_Path (Changes (app_compare (\<lambda>_. []) (\<lambda>t. t) desired (Some (after_json out))))
         | _ \<Rightarrow> [''panic''])
      | _ \<Rightarrow> [''error''])"

definition ex_web :: cfg where
  "ex_web = [(''image'', GStr ''acme/web:v1'')]"

definition ex_job :: "string \<Rightarrow> gval" where
  "ex_job kind = GAnys (Slice [GMap [(''name'', GStr ''migrate''), (''kind'', GStr kind)]])"

text \<open>
  The alias \<^verbatim>\<open>vpc_uuid\<close> is compared but never sent; a job without a known kind, a variable that is
  both plain and secret, and internal ports beside \<^verbatim>\<open>http_port: 0\<close> differ from their own spec for ever.
\<close>

lemma perpetual_drift:
  "differing (ex_web @ [(''vpc_uuid'', GStr ''v'')]) (ex_web @ [(''vpc_uuid'', GStr ''v'')]) = [''vpc_uuid'']"
  "differing (ex_web @ [(''jobs'', ex_job [])]) (ex_web @ [(''jobs'', ex_job [])]) = [''jobs'']"
  "differing (ex_web @ [(''env_vars'', GMap [(''A'', GStr ''1'')]), (''env_vars_secret'', GMap [(''A'', GStr ''2'')])])
     (ex_web @ [(''env_vars'', GMap [(''A'', GStr ''1'')]), (''env_vars_secret'', GMap [(''A'', GStr ''2'')])]) = [''env_vars'']"
  "differing (ex_web @ [(''http_port'', GInt 0), (''internal_ports'', GAnys (Slice [GInt 81]))])
     (ex_web @ [(''http_port'', GInt 0), (''internal_ports'', GAnys (Slice [GInt 81]))]) = [''expose'']"
  by code_simp+

text \<open>
  The hashes of an app without jobs are a nil map, which JSON records as null: a job that is added
  later goes unseen, though the same job added beside another is seen.
\<close>

lemma first_job_unseen:
  "differing ex_web (ex_web @ [(''jobs'', ex_job ''pre_deploy'')]) = []"
  "differing (ex_web @ [(''jobs'', ex_job ''pre_deploy'')]) (ex_web @ [(''jobs'', ex_job ''post_deploy'')]) = [''jobs'']"
  by code_simp+

end
