(* ===== verification/NetIP.thy ===== *)
theory NetIP
  imports Prelude
begin

text \<open>
  Which texts \<^verbatim>\<open>netip.ParseAddr\<close> accepts, and as which kind of address: the standard library's
  parser, field by field. Only the kind is used by the plugin, not the address.
\<close>

definition is_digit :: "char \<Rightarrow> bool" where
  "is_digit c = (let n = (of_char c :: nat) in 48 \<le> n \<and> n \<le> 57)"

definition is_hex :: "char \<Rightarrow> bool" where
  "is_hex c = (let n = (of_char c :: nat) in (48 \<le> n \<and> n \<le> 57) \<or> (97 \<le> n \<and> n \<le> 102) \<or> (65 \<le> n \<and> n \<le> 70))"

definition decimal :: "string \<Rightarrow> nat" where
  "decimal s = foldl (\<lambda>v c. v * 10 + ((of_char c :: nat) - 48)) 0 s"

text \<open>A field of a dotted address: digits, no leading zero, at most 255.\<close>

definition v4_field :: "string \<Rightarrow> bool" where
  "v4_field f = (f \<noteq> [] \<and> list_all is_digit f \<and> (length f > 1 \<longrightarrow> hd f \<noteq> CHR ''0'') \<and> decimal f \<le> 255)"

definition is_ipv4 :: "string \<Rightarrow> bool" where
  "is_ipv4 s = (let fs = split_on (CHR ''.'') s in length fs = 4 \<and> list_all v4_field fs)"

text \<open>
  The fields of a colon address: \<open>i\<close> bytes are filled, \<open>gap\<close> tells that the double colon has been
  seen. The result is the number of bytes filled in the end and whether there was a gap; \<open>None\<close>
  stands for an error.
\<close>

function v6_fields :: "nat \<Rightarrow> bool \<Rightarrow> string \<Rightarrow> (nat \<times> bool) option" where
  "v6_fields i gap s =
     (if i \<ge> 16 then (if s = [] then Some (i, gap) else None)
      else
        let h = takeWhile is_hex s; rest = dropWhile is_hex s in
        if h = [] \<or> length h > 4 then None
        else case rest of
          [] \<Rightarrow> Some (i + 2, gap)
        | c # rest' \<Rightarrow>
          if c = CHR ''.'' then (if (\<not> gap \<and> i \<noteq> 12) \<or> i + 4 > 16 \<or> \<not> is_ipv4 s then None else Some (i + 4, gap))
          else if c \<noteq> CHR '':'' then None
          else (case rest' of
              [] \<Rightarrow> None
            | d # more' \<Rightarrow>
              if d = CHR '':'' then (if gap then None else if more' = [] then Some (i + 2, True) else v6_fields (i + 2) True more')
              else v6_fields (i + 2) gap rest'))"
  by pat_completeness auto

termination
proof (relation "measure (\<lambda>(i, gap, s). 16 - i)")
qed auto

definition is_ipv6 :: "string \<Rightarrow> bool" where
  "is_ipv6 addr =
     (let (s, zone_ok) = (case cut_at (CHR ''%'') addr of Some (a, z) \<Rightarrow> (a, z \<noteq> []) | None \<Rightarrow> (addr, True)) in
      zone_ok \<and>
      (if s = ''::'' then True
       else case v6_fields 0 (has_prefix s ''::'') (if has_prefix s ''::'' then drop 2 s else s) of
         None \<Rightarrow> False
       | Some (i, gap) \<Rightarrow> (i < 16) = gap))"

datatype ip_kind = V4 | V6

text \<open>The first dot, colon or percent sign decides how the text is read.\<close>

definition ParseAddr :: "string \<Rightarrow> ip_kind option" where
  "ParseAddr s =
     (case dropWhile (\<lambda>c. c \<notin> {CHR ''.'', CHR '':'', CHR ''%''}) s of
        [] \<Rightarrow> None
      | c # _ \<Rightarrow>
        if c = CHR ''.'' then (if is_ipv4 s then Some V4 else None)
        else if c = CHR '':'' then (if is_ipv6 s then Some V6 else None)
        else None)"

end
