(* ===== verification/DnsRecord.thy ===== *)
theory DnsRecord
  imports DnsTypes NetIP
begin

text \<open>
  DNS records as \<^verbatim>\<open>internal/drivers/dns.go\<close> reads, validates, identifies and compares them. Nothing
  here calls the API. \<open>valid_domain\<close> is \<^verbatim>\<open>interfaces.ValidateProviderID\<close> for domain names.
\<close>

section \<open>Names\<close>

definition name_blanks :: "char list" where
  "name_blanks = [CHR '' '', CHR 0x09, CHR 0x0D, CHR 0x0A]"

definition label_char :: "char \<Rightarrow> bool" where
  "label_char r = (let n = (of_char r :: nat) in (97 \<le> n \<and> n \<le> 122) \<or> (65 \<le> n \<and> n \<le> 90) \<or> (48 \<le> n \<and> n \<le> 57) \<or> n = 45)"

definition label_chars :: "bool \<Rightarrow> string \<Rightarrow> bool" where
  "label_chars allowUnderscore label =
     (case label of
        [] \<Rightarrow> True
      | r # rest \<Rightarrow> (label_char r \<or> (allowUnderscore \<and> r = CHR ''_'' \<and> rest \<noteq> [])) \<and> list_all label_char rest)"

fun labels_ok :: "bool \<Rightarrow> bool \<Rightarrow> bool \<Rightarrow> string list \<Rightarrow> bool" where
  "labels_ok first allowWildcard allowUnderscore [] = True"
| "labels_ok first allowWildcard allowUnderscore (label # rest) =
     (if label = [] \<or> length label > 63 then False
      else if label = ''*'' then (if \<not> allowWildcard \<or> \<not> first then False else labels_ok False allowWildcard allowUnderscore rest)
      else if hd label = CHR ''-'' \<or> last label = CHR ''-'' then False
      else label_chars allowUnderscore label \<and> labels_ok False allowWildcard allowUnderscore rest)"

definition isValidDNSName :: "string \<Rightarrow> bool \<Rightarrow> bool \<Rightarrow> bool" where
  "isValidDNSName name allowWildcard allowUnderscore =
     (if name = [] \<or> contains_any name name_blanks then False
      else if length name > 253 then False
      else let trimmed = trim_suffix name ''.'' in
        if trimmed = [] \<or> str_contains trimmed ''..'' then False
        else labels_ok True allowWildcard allowUnderscore (split_on (CHR ''.'') trimmed))"

definition isValidDNSRecordName :: "string \<Rightarrow> bool" where
  "isValidDNSRecordName name = (if name = ''@'' then True else isValidDNSName name True True)"

definition isValidDNSHostnameValue :: "string \<Rightarrow> bool" where
  "isValidDNSHostnameValue host = (if ParseAddr host \<noteq> None then False else isValidDNSName host False False)"

definition isDigitalOceanManagedDomainName :: "(string \<Rightarrow> bool) \<Rightarrow> string \<Rightarrow> bool" where
  "isDigitalOceanManagedDomainName valid_domain domain =
     (\<not> has_suffix domain ''.'' \<and> str_contains domain ''.'' \<and> valid_domain domain)"

definition isSupportedDNSRecordType :: "string \<Rightarrow> bool" where
  "isSupportedDNSRecordType recordType = (recordType \<in> {''A'', ''AAAA'', ''CAA'', ''CNAME'', ''MX'', ''NS'', ''SRV'', ''TXT''})"

definition dnsRecordTypeExpectsHostnameValue :: "string \<Rightarrow> bool" where
  "dnsRecordTypeExpectsHostnameValue recordType = (recordType \<in> {''CNAME'', ''MX'', ''NS'', ''SRV''})"

section \<open>Canonical forms and identity\<close>

definition dnsCanonicalRecordName :: "string \<Rightarrow> string" where
  "dnsCanonicalRecordName name = to_lower (trim_suffix name ''.'')"

definition dnsCanonicalRecordData :: "string \<Rightarrow> string \<Rightarrow> string" where
  "dnsCanonicalRecordData recordType dat =
     (if dnsRecordTypeExpectsHostnameValue (to_upper recordType) then to_lower (trim_suffix dat ''.'') else dat)"

definition dnsRecordDataMatches :: "string \<Rightarrow> string \<Rightarrow> string \<Rightarrow> bool" where
  "dnsRecordDataMatches recordType a b = (dnsCanonicalRecordData recordType a = dnsCanonicalRecordData recordType b)"

definition dnsCanonicalRecordTag :: "string \<Rightarrow> string \<Rightarrow> string" where
  "dnsCanonicalRecordTag recordType tag = (if equal_fold recordType ''CAA'' then to_lower tag else tag)"

definition dnsRecordIdentity :: "string \<Rightarrow> string \<Rightarrow> string \<Rightarrow> int \<Rightarrow> int \<Rightarrow> int \<Rightarrow> int \<Rightarrow> string \<Rightarrow> string" where
  "dnsRecordIdentity recordType name dat priority port weight flags tag =
     (let ty = to_upper recordType;
          parts = [ty, dnsCanonicalRecordName name, dnsCanonicalRecordData recordType dat];
          extra = (if ty = ''CAA'' then [show_int flags, dnsCanonicalRecordTag recordType tag]
             else if ty = ''MX'' then [show_int priority]
             else if ty = ''SRV'' then [show_int priority, show_int port, show_int weight]
             else [])
      in str_join [CHR 0x00] (parts @ extra))"

definition dnsRecordRequestIdentity :: "edit_request \<Rightarrow> string" where
  "dnsRecordRequestIdentity req = dnsRecordIdentity (er_Type req) (er_Name req) (er_Data req) (er_Priority req) (er_Port req)
     (er_Weight req) (er_Flags req) (er_Tag req)"

definition dnsDomainRecordIdentity :: "domain_record \<Rightarrow> string" where
  "dnsDomainRecordIdentity r = dnsRecordIdentity (dr_Type r) (dr_Name r) (dr_Data r) (dr_Priority r) (dr_Port r)
     (dr_Weight r) (dr_Flags r) (dr_Tag r)"

definition dnsRecordNameTypeKey :: "string \<Rightarrow> string \<Rightarrow> string" where
  "dnsRecordNameTypeKey recordType name = to_upper recordType @ [CHR 0x00] @ dnsCanonicalRecordName name"

definition dnsRecordRequestUpsertKey :: "edit_request \<Rightarrow> string" where
  "dnsRecordRequestUpsertKey req =
     (if equal_fold (er_Type req) ''CNAME'' then dnsRecordNameTypeKey (er_Type req) (er_Name req) else dnsRecordRequestIdentity req)"

definition dnsDomainRecordUpsertKey :: "domain_record \<Rightarrow> string" where
  "dnsDomainRecordUpsertKey r =
     (if equal_fold (dr_Type r) ''CNAME'' then dnsRecordNameTypeKey (dr_Type r) (dr_Name r) else dnsDomainRecordIdentity r)"

definition dnsRecordMatchesRequest :: "domain_record \<Rightarrow> edit_request \<Rightarrow> bool" where
  "dnsRecordMatchesRequest r req =
     (equal_fold (dr_Type r) (er_Type req) \<and> dnsCanonicalRecordName (dr_Name r) = dnsCanonicalRecordName (er_Name req)
      \<and> dnsRecordDataMatches (dr_Type r) (dr_Data r) (er_Data req) \<and> dr_TTL r = er_TTL req \<and> dr_Priority r = er_Priority req
      \<and> dr_Port r = er_Port req \<and> dr_Weight r = er_Weight req \<and> dr_Flags r = er_Flags req
      \<and> dnsCanonicalRecordTag (dr_Type r) (dr_Tag r) = dnsCanonicalRecordTag (er_Type req) (er_Tag req))"

definition dnsRecordRequestsEqual :: "edit_request \<Rightarrow> edit_request \<Rightarrow> bool" where
  "dnsRecordRequestsEqual a b =
     (equal_fold (er_Type a) (er_Type b) \<and> equal_fold (er_Name a) (er_Name b) \<and> dnsRecordDataMatches (er_Type a) (er_Data a) (er_Data b)
      \<and> er_TTL a = er_TTL b \<and> er_Priority a = er_Priority b \<and> er_Port a = er_Port b \<and> er_Weight a = er_Weight b
      \<and> er_Flags a = er_Flags b \<and> dnsCanonicalRecordTag (er_Type a) (er_Tag a) = dnsCanonicalRecordTag (er_Type b) (er_Tag b))"

section \<open>Reading a configuration\<close>

fun record_maps :: "string \<Rightarrow> int \<Rightarrow> gval list \<Rightarrow> cfg list res" where
  "record_maps label i [] = Ok []"
| "record_maps label i (v # vs) = (case as_map (Some v) of
     None \<Rightarrow> Err (Errorf ''dns %s[%d] must be an object'' [FStr label, FInt i])
   | Some m \<Rightarrow> res_bind (record_maps label (i + 1) vs) (\<lambda>ms. Ok (m # ms)))"

definition dnsRecordConfigMapsWithLabel :: "gval \<Rightarrow> string \<Rightarrow> cfg list res" where
  "dnsRecordConfigMapsWithLabel rawValue label = (case rawValue of
     GMaps raw \<Rightarrow> Ok (elems raw)
   | GAnys raw \<Rightarrow> record_maps label 0 (elems raw)
   | _ \<Rightarrow> Err (Errorf ''dns %s must be a list'' [FStr label]))"

definition dnsRecordConfigMaps :: "gval \<Rightarrow> cfg list res" where
  "dnsRecordConfigMaps rawValue = dnsRecordConfigMapsWithLabel rawValue ''records''"

definition dnsOptionalStringFieldWithLabel :: "int \<Rightarrow> cfg \<Rightarrow> string \<Rightarrow> string \<Rightarrow> string \<Rightarrow> string res" where
  "dnsOptionalStringFieldWithLabel index m key defaultValue label = (case map_of m key of
     None \<Rightarrow> Ok defaultValue
   | Some v \<Rightarrow> (case as_str (Some v) of
       None \<Rightarrow> Err (Errorf ''dns %s[%d].%s must be a string'' [FStr label, FInt index, FStr key])
     | Some t \<Rightarrow> if t = [] \<and> defaultValue \<noteq> [] then Err (Errorf ''dns %s[%d].%s must not be empty'' [FStr label, FInt index, FStr key])
         else Ok t))"

definition dnsOptionalStringField :: "int \<Rightarrow> cfg \<Rightarrow> string \<Rightarrow> string \<Rightarrow> string res" where
  "dnsOptionalStringField index m key defaultValue = dnsOptionalStringFieldWithLabel index m key defaultValue ''records''"

definition dnsRequiredStringField :: "int \<Rightarrow> cfg \<Rightarrow> string \<Rightarrow> string res" where
  "dnsRequiredStringField index m key = (case map_of m key of
     None \<Rightarrow> Err (Errorf ''dns records[%d].%s is required'' [FInt index, FStr key])
   | Some v \<Rightarrow> (case as_str (Some v) of
       None \<Rightarrow> Err (Errorf ''dns records[%d].%s must be a string'' [FInt index, FStr key])
     | Some t \<Rightarrow> if t = [] then Err (Errorf ''dns records[%d].%s is required'' [FInt index, FStr key]) else Ok t))"

definition dnsOptionalIntField :: "int \<Rightarrow> cfg \<Rightarrow> string \<Rightarrow> int \<Rightarrow> bool \<Rightarrow> (int \<times> bool) res" where
  "dnsOptionalIntField index m key defaultValue positive = (case map_of m key of
     None \<Rightarrow> Ok (defaultValue, False)
   | Some v \<Rightarrow>
     res_bind
       (case v of
          GInt n \<Rightarrow> Ok n
        | GInt64 n \<Rightarrow> Ok n
        | GFloat f \<Rightarrow> if f64_integral f then Ok (f64_to_int f) else Err (Errorf ''dns records[%d].%s must be an integer'' [FInt index, FStr key])
        | _ \<Rightarrow> Err (Errorf ''dns records[%d].%s must be an integer'' [FInt index, FStr key]))
       (\<lambda>out.
          if positive \<and> out \<le> 0 then Err (Errorf ''dns records[%d].%s must be positive'' [FInt index, FStr key])
          else if \<not> positive \<and> out < 0 then Err (Errorf ''dns records[%d].%s must be non-negative'' [FInt index, FStr key])
          else Ok (out, True)))"

definition rejectDNSRecordFields :: "int \<Rightarrow> string \<Rightarrow> bool \<Rightarrow> bool \<Rightarrow> bool \<Rightarrow> bool \<Rightarrow> bool \<Rightarrow> unit res" where
  "rejectDNSRecordFields index recordType hasPriority hasPort hasWeight hasFlags hasTag =
     (case first_match snd [(''priority'', hasPriority), (''port'', hasPort), (''weight'', hasWeight), (''flags'', hasFlags), (''tag'', hasTag)] of
        None \<Rightarrow> Ok ()
      | Some (field, _) \<Rightarrow> Err (Errorf ''dns records[%d].%s is not valid for %s records'' [FInt index, FStr field, FStr recordType]))"

definition validateDNSUint16 :: "int \<Rightarrow> string \<Rightarrow> int \<Rightarrow> unit res" where
  "validateDNSUint16 index field v =
     (if v < 0 \<or> v > 65535 then Err (Errorf ''dns records[%d].%s must be between 0 and 65535'' [FInt index, FStr field]) else Ok ())"

definition check :: "bool \<Rightarrow> string \<Rightarrow> int \<Rightarrow> unit res" where
  "check ok fmt index = (if ok then Ok () else Err (Errorf fmt [FInt index]))"

definition validateDNSRecordRequest :: "int \<Rightarrow> edit_request \<Rightarrow> bool \<Rightarrow> bool \<Rightarrow> bool \<Rightarrow> bool \<Rightarrow> bool \<Rightarrow> unit res" where
  "validateDNSRecordRequest index req hasPriority hasPort hasWeight hasFlags hasTag =
     (let ty = er_Type req; hostname = isValidDNSHostnameValue (er_Data req) in
      res_bind (check (isValidDNSRecordName (er_Name req)) ''dns records[%d].name must be a valid DNS record name'' index) (\<lambda>_.
      res_bind (check (\<not> (ty = ''CNAME'' \<and> er_Name req = ''@'')) ''dns records[%d].name CNAME records cannot be declared at the zone apex'' index) (\<lambda>_.
      if ty = ''A'' then
        res_bind (rejectDNSRecordFields index ty hasPriority hasPort hasWeight hasFlags hasTag) (\<lambda>_.
        check (ParseAddr (er_Data req) = Some V4) ''dns records[%d].data must be an IPv4 address'' index)
      else if ty = ''AAAA'' then
        res_bind (rejectDNSRecordFields index ty hasPriority hasPort hasWeight hasFlags hasTag) (\<lambda>_.
        check (ParseAddr (er_Data req) = Some V6) ''dns records[%d].data must be an IPv6 address'' index)
      else if ty = ''CNAME'' then
        res_bind (rejectDNSRecordFields index ty hasPriority hasPort hasWeight hasFlags hasTag) (\<lambda>_.
        check hostname ''dns records[%d].data must be a hostname for CNAME records'' index)
      else if ty = ''MX'' then
        res_bind (rejectDNSRecordFields index ty False hasPort hasWeight hasFlags hasTag) (\<lambda>_.
        res_bind (check hasPriority ''dns records[%d].priority is required for MX records'' index) (\<lambda>_.
        res_bind (validateDNSUint16 index ''priority'' (er_Priority req)) (\<lambda>_.
        check hostname ''dns records[%d].data must be a hostname for MX records'' index)))
      else if ty = ''NS'' then
        res_bind (rejectDNSRecordFields index ty hasPriority hasPort hasWeight hasFlags hasTag) (\<lambda>_.
        check hostname ''dns records[%d].data must be a hostname for NS records'' index)
      else if ty = ''SRV'' then
        res_bind (rejectDNSRecordFields index ty False False False hasFlags hasTag) (\<lambda>_.
        res_bind (check hasPriority ''dns records[%d].priority is required for SRV records'' index) (\<lambda>_.
        res_bind (check hasPort ''dns records[%d].port is required for SRV records'' index) (\<lambda>_.
        res_bind (check hasWeight ''dns records[%d].weight is required for SRV records'' index) (\<lambda>_.
        res_bind (validateDNSUint16 index ''priority'' (er_Priority req)) (\<lambda>_.
        res_bind (check (\<not> (er_Port req \<le> 0 \<or> er_Port req > 65535)) ''dns records[%d].port must be between 1 and 65535'' index) (\<lambda>_.
        res_bind (validateDNSUint16 index ''weight'' (er_Weight req)) (\<lambda>_.
        check hostname ''dns records[%d].data must be a hostname for SRV records'' index)))))))
      else if ty = ''CAA'' then
        res_bind (rejectDNSRecordFields index ty hasPriority hasPort hasWeight False False) (\<lambda>_.
        res_bind (check (er_Tag req \<noteq> []) ''dns records[%d].tag is required for CAA records'' index) (\<lambda>_.
        res_bind (check (\<not> contains_any (er_Tag req) name_blanks) ''dns records[%d].tag must not contain whitespace'' index) (\<lambda>_.
        res_bind (check (to_lower (er_Tag req) \<in> {''issue'', ''issuewild'', ''iodef''}) ''dns records[%d].tag must be one of issue, issuewild, iodef'' index) (\<lambda>_.
        check (\<not> (er_Flags req < 0 \<or> er_Flags req > 255)) ''dns records[%d].flags must be between 0 and 255'' index))))
      else if ty = ''TXT'' then rejectDNSRecordFields index ty hasPriority hasPort hasWeight hasFlags hasTag
      else Ok ())))"

definition dnsRecordEditRequestFromConfig :: "int \<Rightarrow> cfg \<Rightarrow> edit_request res" where
  "dnsRecordEditRequestFromConfig index m =
     res_bind (dnsOptionalStringField index m ''type'' ''A'') (\<lambda>rawType.
     let recordType = to_upper rawType in
     if \<not> isSupportedDNSRecordType recordType then Err (Errorf ''dns records[%d].type %q is not supported'' [FInt index, FStr recordType])
     else
     res_bind (dnsOptionalStringField index m ''name'' ''@'') (\<lambda>name.
     res_bind (dnsRequiredStringField index m ''data'') (\<lambda>dat.
     res_bind (dnsOptionalStringField index m ''tag'' []) (\<lambda>tag.
     res_bind (dnsOptionalIntField index m ''ttl'' 300 True) (\<lambda>(ttl, _).
     res_bind (dnsOptionalIntField index m ''priority'' 0 False) (\<lambda>(priority, hasPriority).
     res_bind (dnsOptionalIntField index m ''port'' 0 False) (\<lambda>(port, hasPort).
     res_bind (dnsOptionalIntField index m ''weight'' 0 False) (\<lambda>(weight, hasWeight).
     res_bind (dnsOptionalIntField index m ''flags'' 0 False) (\<lambda>(flags, hasFlags).
     let req = \<lparr>er_Type = recordType, er_Name = name, er_Data = dat, er_Priority = priority, er_Port = port, er_TTL = ttl,
           er_Weight = weight, er_Flags = flags, er_Tag = dnsCanonicalRecordTag recordType tag\<rparr>
     in res_bind (validateDNSRecordRequest index req hasPriority hasPort hasWeight hasFlags (map_of m ''tag'' \<noteq> None)) (\<lambda>_. Ok req))))))))))"

definition validateDNSRecordNameConflict :: "edit_request \<Rightarrow> edit_request list \<Rightarrow> unit res" where
  "validateDNSRecordNameConflict req existing =
     (case first_match (\<lambda>other. er_Type req = ''CNAME'' \<or> er_Type other = ''CNAME'') existing of
        None \<Rightarrow> Ok ()
      | Some other \<Rightarrow> Err (Errorf ''dns conflicting DNS record %s/%s conflicts with %s/%s''
          [FStr (er_Type req), FStr (er_Name req), FStr (er_Type other), FStr (er_Name other)]))"

text \<open>
  \<open>out\<close> are the records accepted so far: the map \<^verbatim>\<open>seen\<close> of the code holds them by identity,
  \<^verbatim>\<open>recordsByName\<close> by name.
\<close>

fun declared_loop :: "int \<Rightarrow> edit_request list \<Rightarrow> cfg list \<Rightarrow> edit_request list res" where
  "declared_loop i out [] = Ok out"
| "declared_loop i out (m # ms) =
     res_bind (dnsRecordEditRequestFromConfig i m) (\<lambda>req.
     case first_match (\<lambda>r. dnsRecordRequestIdentity r = dnsRecordRequestIdentity req) out of
       Some existing \<Rightarrow>
         if \<not> dnsRecordRequestsEqual existing req
         then Err (Errorf ''dns conflicting duplicate DNS record %s/%s data %q'' [FStr (er_Type req), FStr (er_Name req), FStr (er_Data req)])
         else declared_loop (i + 1) out ms
     | None \<Rightarrow>
         res_bind (validateDNSRecordNameConflict req
             (filter (\<lambda>r. dnsCanonicalRecordName (er_Name r) = dnsCanonicalRecordName (er_Name req)) out)) (\<lambda>_.
         declared_loop (i + 1) (out @ [req]) ms))"

definition declaredDNSRecords :: "cfg \<Rightarrow> edit_request list res" where
  "declaredDNSRecords config = (case map_of config ''records'' of
     None \<Rightarrow> Ok []
   | Some rawValue \<Rightarrow> res_bind (dnsRecordConfigMaps rawValue) (declared_loop 0 []))"

record absent_record =
  ab_Type :: string
  ab_Name :: string
  ab_Data :: string

definition dnsAbsentRecordIdentity :: "absent_record \<Rightarrow> string" where
  "dnsAbsentRecordIdentity r = to_upper (ab_Type r) @ [CHR 0x00] @ dnsCanonicalRecordName (ab_Name r) @ [CHR 0x00]
     @ dnsCanonicalRecordData (ab_Type r) (ab_Data r)"

definition validateDNSAbsentRecord :: "int \<Rightarrow> absent_record \<Rightarrow> unit res" where
  "validateDNSAbsentRecord index r =
     res_bind (check (isValidDNSRecordName (ab_Name r)) ''dns absent_records[%d].name must be a valid DNS record name'' index) (\<lambda>_.
     res_bind (check (\<not> (ab_Type r = ''CNAME'' \<and> ab_Name r = ''@'')) ''dns absent_records[%d].name CNAME records cannot be declared at the zone apex'' index) (\<lambda>_.
     if ab_Data r \<noteq> [] \<and> dnsRecordTypeExpectsHostnameValue (ab_Type r) \<and> \<not> isValidDNSHostnameValue (ab_Data r)
     then Err (Errorf ''dns absent_records[%d].data must be a hostname for %s records'' [FInt index, FStr (ab_Type r)])
     else Ok ()))"

fun absent_loop :: "int \<Rightarrow> absent_record list \<Rightarrow> cfg list \<Rightarrow> absent_record list res" where
  "absent_loop i out [] = Ok out"
| "absent_loop i out (m # ms) =
     res_bind (dnsOptionalStringFieldWithLabel i m ''type'' ''A'' ''absent_records'') (\<lambda>rawType.
     let recordType = to_upper rawType in
     if \<not> isSupportedDNSRecordType recordType then Err (Errorf ''dns absent_records[%d].type %q is not supported'' [FInt i, FStr recordType])
     else
     res_bind (dnsOptionalStringFieldWithLabel i m ''name'' ''@'' ''absent_records'') (\<lambda>name.
     res_bind (dnsOptionalStringFieldWithLabel i m ''data'' [] ''absent_records'') (\<lambda>dat.
     let absent = \<lparr>ab_Type = recordType, ab_Name = name, ab_Data = dat\<rparr> in
     res_bind (validateDNSAbsentRecord i absent) (\<lambda>_.
     if dnsAbsentRecordIdentity absent \<in> set (map dnsAbsentRecordIdentity out) then absent_loop (i + 1) out ms
     else absent_loop (i + 1) (out @ [absent]) ms))))"

definition declaredAbsentDNSRecords :: "cfg \<Rightarrow> absent_record list res" where
  "declaredAbsentDNSRecords config = (case map_of config ''absent_records'' of
     None \<Rightarrow> Ok []
   | Some rawValue \<Rightarrow> res_bind (dnsRecordConfigMapsWithLabel rawValue ''absent_records'') (absent_loop 0 []))"

definition dnsAbsentRecordMatches :: "absent_record \<Rightarrow> domain_record \<Rightarrow> bool" where
  "dnsAbsentRecordMatches absent r =
     (equal_fold (ab_Type absent) (dr_Type r) \<and> dnsCanonicalRecordName (ab_Name absent) = dnsCanonicalRecordName (dr_Name r)
      \<and> (ab_Data absent = [] \<or> dnsRecordDataMatches (ab_Type absent) (ab_Data absent) (dr_Data r)))"

definition dnsAnyAbsentRecordPresent :: "absent_record list \<Rightarrow> domain_record list \<Rightarrow> bool" where
  "dnsAnyAbsentRecordPresent absentRecords currentRecords =
     list_ex (\<lambda>current. list_ex (\<lambda>absent. dnsAbsentRecordMatches absent current) absentRecords) currentRecords"

definition both_declared_and_absent :: "absent_record list \<Rightarrow> edit_request \<Rightarrow> bool" where
  "both_declared_and_absent absentRecords req =
     list_ex (\<lambda>absent. ab_Type absent = er_Type req \<and> dnsCanonicalRecordName (ab_Name absent) = dnsCanonicalRecordName (er_Name req)
        \<and> (ab_Data absent = [] \<or> dnsRecordDataMatches (ab_Type absent) (ab_Data absent) (er_Data req))) absentRecords"

definition validateDNSAbsentRecordsDoNotConflict :: "edit_request list \<Rightarrow> absent_record list \<Rightarrow> unit res" where
  "validateDNSAbsentRecordsDoNotConflict records absentRecords =
     (case first_match (both_declared_and_absent absentRecords) records of
        None \<Rightarrow> Ok ()
      | Some req \<Rightarrow> Err (Errorf ''dns records %s/%s cannot be both declared and absent'' [FStr (er_Type req), FStr (er_Name req)]))"

definition live_conflict :: "domain_record list \<Rightarrow> edit_request \<Rightarrow> domain_record option" where
  "live_conflict existing req =
     first_match (\<lambda>other. \<not> (er_Type req \<noteq> ''CNAME'' \<and> \<not> equal_fold (dr_Type other) ''CNAME'')
         \<and> \<not> (er_Type req = ''CNAME'' \<and> equal_fold (dr_Type other) ''CNAME''))
       (filter (\<lambda>r. dnsCanonicalRecordName (dr_Name r) = dnsCanonicalRecordName (er_Name req)) existing)"

fun validateDNSRecordLiveConflicts :: "edit_request list \<Rightarrow> domain_record list \<Rightarrow> unit res" where
  "validateDNSRecordLiveConflicts [] existing = Ok ()"
| "validateDNSRecordLiveConflicts (req # reqs) existing = (case live_conflict existing req of
     Some other \<Rightarrow> Err (Errorf ''dns conflicting DNS record %s/%s conflicts with %s/%s''
        [FStr (er_Type req), FStr (er_Name req), FStr (dr_Type other), FStr (dr_Name other)])
   | None \<Rightarrow> validateDNSRecordLiveConflicts reqs existing)"

definition dnsDomainFromConfigIfPresent :: "(string \<Rightarrow> bool) \<Rightarrow> cfg \<Rightarrow> (string \<times> bool) res" where
  "dnsDomainFromConfigIfPresent valid_domain config = (case map_of config ''domain'' of
     None \<Rightarrow> Ok ([], False)
   | Some v \<Rightarrow> (case as_str (Some v) of
       None \<Rightarrow> Err (Errorf ''dns domain must be a string'' [])
     | Some domain \<Rightarrow>
       if domain = [] then Err (Errorf ''dns domain must not be empty'' [])
       else if \<not> isDigitalOceanManagedDomainName valid_domain domain then Err (Errorf ''dns domain %q is not a valid domain name'' [FStr domain])
       else Ok (domain, True)))"

definition dnsDomainFromConfig :: "(string \<Rightarrow> bool) \<Rightarrow> cfg \<Rightarrow> string \<Rightarrow> string res" where
  "dnsDomainFromConfig valid_domain config fallback =
     res_bind (dnsDomainFromConfigIfPresent valid_domain config) (\<lambda>(d, ok).
     let domain = (if \<not> ok then fallback else d) in
     if domain = [] then Err (Errorf ''dns domain is required'' [])
     else if \<not> isDigitalOceanManagedDomainName valid_domain domain then Err (Errorf ''dns domain %q is not a valid domain name'' [FStr domain])
     else Ok domain)"

section \<open>Recorded records\<close>

definition digitalOceanAuthoritativeNameservers :: "string list" where
  "digitalOceanAuthoritativeNameservers = [''ns1.digitalocean.com'', ''ns2.digitalocean.com'', ''ns3.digitalocean.com'']"

definition record_map :: "domain_record \<Rightarrow> cfg" where
  "record_map r = [(''id'', GInt (dr_ID r)), (''type'', GStr (dr_Type r)), (''name'', GStr (dr_Name r)), (''data'', GStr (dr_Data r)),
     (''ttl'', GInt (dr_TTL r)), (''priority'', GInt (dr_Priority r)), (''port'', GInt (dr_Port r)), (''weight'', GInt (dr_Weight r)),
     (''flags'', GInt (dr_Flags r)), (''tag'', GStr (dnsCanonicalRecordTag (dr_Type r) (dr_Tag r)))]"

definition dnsRecordOutputs :: "domain_record list \<Rightarrow> gval" where
  "dnsRecordOutputs records = GMaps (Slice (map record_map records))"

text \<open>The list of records is nil when the zone has none.\<close>

definition dnsOutput :: "domain_entry \<Rightarrow> string \<Rightarrow> domain_record list \<Rightarrow> resource_output" where
  "dnsOutput d name records =
     (let nameservers = GStrs (Slice digitalOceanAuthoritativeNameservers) in
      \<lparr>out_Name = name, out_Type = ''infra.dns'', out_ProviderID = dom_Name d,
       out_Outputs = [(''domain'', GStr (dom_Name d)), (''ttl'', GInt (dom_TTL d)), (''zone_file'', GStr (dom_ZoneFile d)),
          (''record_count'', GInt (int (length records))), (''authoritative_nameservers'', nameservers),
          (''authority'', GMap [(''role'', GStr ''authoritative_dns''), (''dns_host'', GStr ''DigitalOcean''), (''name_servers'', nameservers)])]
          @ (if records \<noteq> [] then [(''records'', dnsRecordOutputs records)] else []),
       out_Sensitive = [], out_Status = ''active''\<rparr>)"

definition dnsDomainRecordFromOutputMap :: "int \<Rightarrow> cfg \<Rightarrow> domain_record option res" where
  "dnsDomainRecordFromOutputMap index m =
     res_bind (dnsOptionalStringField index m ''type'' []) (\<lambda>rawType.
     let recordType = to_upper rawType in
     if \<not> isSupportedDNSRecordType recordType then Ok None
     else
     res_bind (dnsOptionalStringField index m ''name'' ''@'') (\<lambda>name.
     res_bind (dnsOptionalStringField index m ''data'' []) (\<lambda>dat.
     res_bind (dnsOptionalStringField index m ''tag'' []) (\<lambda>tag.
     res_bind (dnsOptionalIntField index m ''ttl'' 0 False) (\<lambda>(ttl, _).
     res_bind (dnsOptionalIntField index m ''priority'' 0 False) (\<lambda>(priority, _).
     res_bind (dnsOptionalIntField index m ''port'' 0 False) (\<lambda>(port, _).
     res_bind (dnsOptionalIntField index m ''weight'' 0 False) (\<lambda>(weight, _).
     res_bind (dnsOptionalIntField index m ''flags'' 0 False) (\<lambda>(flags, _).
     Ok (Some \<lparr>dr_ID = 0, dr_Type = recordType, dr_Name = name, dr_Data = dat, dr_Priority = priority, dr_Port = port, dr_TTL = ttl,
        dr_Weight = weight, dr_Flags = flags, dr_Tag = dnsCanonicalRecordTag recordType tag\<rparr>))))))))))"

fun output_objects :: "int \<Rightarrow> gval list \<Rightarrow> cfg list res" where
  "output_objects i [] = Ok []"
| "output_objects i (v # vs) = (case as_map (Some v) of
     None \<Rightarrow> Err (Errorf ''dns outputs.records[%d] must be an object'' [FInt i])
   | Some m \<Rightarrow> res_bind (output_objects (i + 1) vs) (\<lambda>ms. Ok (m # ms)))"

fun output_records :: "int \<Rightarrow> cfg list \<Rightarrow> domain_record list res" where
  "output_records i [] = Ok []"
| "output_records i (m # ms) =
     res_bind (dnsDomainRecordFromOutputMap i m) (\<lambda>r.
     res_bind (output_records (i + 1) ms) (\<lambda>rs. Ok (case r of Some x \<Rightarrow> x # rs | None \<Rightarrow> rs)))"

definition dnsRecordsFromOutput :: "resource_output \<Rightarrow> domain_record list res" where
  "dnsRecordsFromOutput current = (case map_of (out_Outputs current) ''records'' of
     None \<Rightarrow> Ok []
   | Some GNil \<Rightarrow> Ok []
   | Some (GMaps typed) \<Rightarrow> output_records 0 (elems typed)
   | Some (GAnys typed) \<Rightarrow> res_bind (output_objects 0 (elems typed)) (output_records 0)
   | _ \<Rightarrow> Err (Errorf ''dns outputs.records must be a list'' []))"

end
