(* ===== verification/Dns.thy ===== *)
theory Dns
  imports DnsRecord Json
begin

text \<open>
  The DNS driver (\<^verbatim>\<open>internal/drivers/dns.go\<close>): a zone and its declared records, with the repair of
  create conflicts. \<open>ctx_err\<close> is \<^verbatim>\<open>ctx.Err()\<close>; \<open>sleep n\<close> waits for \<open>n\<close> nanoseconds or until the
  context is done, and gives the context's error in the second case. \<open>vd\<close> is the validator of domain
  names of package \<^verbatim>\<open>interfaces\<close>.
\<close>

section \<open>Parameters and small steps\<close>

record 'w dns_env =
  ctx_err :: "'w \<Rightarrow> go_error option"
  sleep :: "int \<Rightarrow> ('w, go_error option) io"

text \<open>\<open>guard fmt args\<close>: stop with the context's error, if it has one.\<close>

definition guard :: "'w dns_env \<Rightarrow> string \<Rightarrow> farg list \<Rightarrow> ('w, unit) io" where
  "guard env fmt args = io_bind (io_ask (ctx_err env)) (\<lambda>e. case e of Some err \<Rightarrow> io_err (Wrapf fmt args err) | None \<Rightarrow> io_ok ())"

definition dnsConflictRetryAttempts :: nat where
  "dnsConflictRetryAttempts = 5"

definition dnsConflictBackoffDelay :: "nat \<Rightarrow> int" where
  "dnsConflictBackoffDelay attempt = (let delay = 25000000 * 2 ^ attempt in if delay > 200000000 then 200000000 else delay)"

definition waitDNSConflictRetry :: "'w dns_env \<Rightarrow> string \<Rightarrow> string \<Rightarrow> string \<Rightarrow> nat \<Rightarrow> ('w, unit) io" where
  "waitDNSConflictRetry env domain recordType name attempt =
     io_bind (sleep env (dnsConflictBackoffDelay attempt)) (\<lambda>e. case e of
       Some err \<Rightarrow> io_err (Wrapf ''dns retry %q %s/%s after create conflict: %w'' [FStr domain, FStr recordType, FStr name] err)
     | None \<Rightarrow> io_ok ())"

definition isRetryableDNSConflictError :: "go_error \<Rightarrow> bool" where
  "isRetryableDNSConflictError err = (errors_is err ErrTransient \<or> errors_is err ErrRateLimited)"

definition listRecords :: "'w domains_client \<Rightarrow> string \<Rightarrow> ('w, domain_record list) io" where
  "listRecords client domain =
     io_wrap (\<lambda>e. Wrapf ''dns list records %q: %w'' [FStr domain] (WrapGodoError e)) (collect_pages (Domains_Records client domain) 1 [])"

definition validateDNSDomainResponse :: "string \<Rightarrow> string \<Rightarrow> domain_entry option \<Rightarrow> unit res" where
  "validateDNSDomainResponse domain op d =
     (if (case d of None \<Rightarrow> True | Some x \<Rightarrow> dom_Name x = [])
      then Err (Errorf ''dns %s %q: API returned empty domain'' [FStr op, FStr domain]) else Ok ())"

section \<open>Create conflicts\<close>

text \<open>\<open>left\<close> attempts remain, \<open>attempt\<close> have been made.\<close>

fun conflict_get :: "'w dns_env \<Rightarrow> 'w domains_client \<Rightarrow> string \<Rightarrow> go_error \<Rightarrow> nat \<Rightarrow> nat \<Rightarrow> go_error option \<Rightarrow> ('w, domain_entry option) io" where
  "conflict_get env client domain conflictErr 0 attempt lastRetryable =
     (case lastRetryable of
        Some e \<Rightarrow> io_err (Wrapf ''dns get domain %q after create conflict: %w'' [FStr domain] e)
      | None \<Rightarrow> io_err (Wrapf ''dns create domain %q: %w'' [FStr domain] conflictErr))"
| "conflict_get env client domain conflictErr (Suc left) attempt lastRetryable =
     io_bind (guard env ''dns get domain %q after create conflict: %w'' [FStr domain]) (\<lambda>_.
     io_handle (Domains_Get client domain)
       (\<lambda>d. io_bind (io_res (validateDNSDomainResponse domain ''get domain after create conflict'' d)) (\<lambda>_. io_ok d))
       (\<lambda>err. let wrapped = WrapGodoError err in
          if \<not> errors_is wrapped ErrResourceNotFound \<and> \<not> isRetryableDNSConflictError wrapped
          then io_err (Wrapf ''dns get domain %q after create conflict: %w'' [FStr domain] wrapped)
          else let last_err = (if isRetryableDNSConflictError wrapped then Some wrapped else None) in
            if left = 0 then conflict_get env client domain conflictErr 0 (Suc attempt) last_err
            else io_bind (waitDNSConflictRetry env domain ''domain'' domain attempt) (\<lambda>_.
                 conflict_get env client domain conflictErr left (Suc attempt) last_err)))"

definition getDomainAfterCreateConflict :: "'w dns_env \<Rightarrow> 'w domains_client \<Rightarrow> string \<Rightarrow> go_error \<Rightarrow> ('w, domain_entry option) io" where
  "getDomainAfterCreateConflict env client domain conflictErr =
     conflict_get env client domain conflictErr dnsConflictRetryAttempts 0 None"

text \<open>The first record with the key of the request, with those before and after it.\<close>

fun split_at_key :: "string \<Rightarrow> domain_record list \<Rightarrow> (domain_record list \<times> domain_record \<times> domain_record list) option" where
  "split_at_key key [] = None"
| "split_at_key key (r # rs) =
     (if dnsDomainRecordUpsertKey r = key then Some ([], r, rs)
      else map_option (\<lambda>(before, x, after). (r # before, x, after)) (split_at_key key rs))"

definition create_failed :: "string \<Rightarrow> edit_request \<Rightarrow> go_error \<Rightarrow> go_error" where
  "create_failed domain req wrapped = Wrapf ''dns create record %q %s/%s: %w'' [FStr domain, FStr (er_Type req), FStr (er_Name req)] wrapped"

definition req_args :: "string \<Rightarrow> edit_request \<Rightarrow> farg list" where
  "req_args domain req = [FStr domain, FStr (er_Type req), FStr (er_Name req)]"

fun conflict_record :: "'w dns_env \<Rightarrow> 'w domains_client \<Rightarrow> string \<Rightarrow> edit_request \<Rightarrow> go_error \<Rightarrow> nat \<Rightarrow> nat \<Rightarrow> ('w, domain_record list) io" where
  "conflict_record env client domain req wrapped 0 attempt = io_err (create_failed domain req wrapped)"
| "conflict_record env client domain req wrapped (Suc left) attempt =
     io_bind (guard env ''dns create record %q %s/%s after create conflict: %w'' (req_args domain req)) (\<lambda>_.
     io_handle (listRecords client domain)
       (\<lambda>existing.
          io_bind (io_res (validateDNSRecordLiveConflicts [req] existing)) (\<lambda>_.
          case split_at_key (dnsRecordRequestUpsertKey req) existing of
            Some (before, r, after) \<Rightarrow>
              if dnsRecordMatchesRequest r req then io_ok existing
              else io_bind (guard env ''dns update record %q %s/%s after create conflict: %w'' (req_args domain req)) (\<lambda>_.
                io_bind (io_wrap (\<lambda>e. Wrapf ''dns update record %q %s/%s after create conflict: %w'' (req_args domain req) (WrapGodoError e))
                           (Domains_EditRecord client domain (dr_ID r) req)) (\<lambda>updated.
                io_ok (before @ (case updated of Some u \<Rightarrow> u | None \<Rightarrow> record_of (dr_ID r) req) # after)))
          | None \<Rightarrow>
              if left = 0 then io_err (create_failed domain req wrapped)
              else io_bind (waitDNSConflictRetry env domain (er_Type req) (er_Name req) attempt) (\<lambda>_.
                   conflict_record env client domain req wrapped left (Suc attempt))))
       (\<lambda>err.
          if isRetryableDNSConflictError err \<and> left \<noteq> 0
          then io_bind (waitDNSConflictRetry env domain (er_Type req) (er_Name req) attempt) (\<lambda>_.
               conflict_record env client domain req wrapped left (Suc attempt))
          else io_err (Wrapf ''dns list records %q after create conflict %s/%s: %w'' (req_args domain req) err)))"

definition handleCreateRecordConflict :: "'w dns_env \<Rightarrow> 'w domains_client \<Rightarrow> string \<Rightarrow> edit_request \<Rightarrow> go_error \<Rightarrow> ('w, domain_record list) io" where
  "handleCreateRecordConflict env client domain req createErr =
     (let wrapped = WrapGodoError createErr in
      if \<not> errors_is wrapped ErrResourceAlreadyExists then io_err (create_failed domain req wrapped)
      else conflict_record env client domain req wrapped dnsConflictRetryAttempts 0)"

section \<open>Making the zone as declared\<close>

text \<open>A map from keys to lists of records is a function that is empty elsewhere.\<close>

definition dnsRecordsByUpsertKey :: "domain_record list \<Rightarrow> string \<Rightarrow> domain_record list" where
  "dnsRecordsByUpsertKey records key = filter (\<lambda>r. dnsDomainRecordUpsertKey r = key) records"

fun upsert_loop :: "'w dns_env \<Rightarrow> 'w domains_client \<Rightarrow> string \<Rightarrow> (string \<Rightarrow> domain_record list) \<Rightarrow> string list \<Rightarrow> edit_request list \<Rightarrow> ('w, unit) io" where
  "upsert_loop env client domain byKey seen [] = io_ok ()"
| "upsert_loop env client domain byKey seen (req # reqs) =
     (let key = dnsRecordRequestUpsertKey req in
      if key \<in> set seen then upsert_loop env client domain byKey seen reqs
      else case byKey key of
        existing # candidates \<Rightarrow>
          if dnsRecordMatchesRequest existing req
          then upsert_loop env client domain (byKey(key := candidates)) (key # seen) reqs
          else io_bind (guard env ''dns update record %q %s/%s: %w'' (req_args domain req)) (\<lambda>_.
               io_bind (io_wrap (\<lambda>e. Wrapf ''dns update record %q %s/%s: %w'' (req_args domain req) (WrapGodoError e))
                          (Domains_EditRecord client domain (dr_ID existing) req)) (\<lambda>_.
               upsert_loop env client domain (byKey(key := candidates)) (key # seen) reqs))
      | [] \<Rightarrow>
          io_bind (guard env ''dns create record %q %s/%s: %w'' (req_args domain req)) (\<lambda>_.
          io_handle (Domains_CreateRecord client domain req)
            (\<lambda>_. upsert_loop env client domain byKey (key # seen) reqs)
            (\<lambda>err. io_bind (handleCreateRecordConflict env client domain req err) (\<lambda>latest.
               upsert_loop env client domain (dnsRecordsByUpsertKey latest) (key # seen) reqs))))"

definition upsertRecords :: "'w dns_env \<Rightarrow> 'w domains_client \<Rightarrow> string \<Rightarrow> edit_request list \<Rightarrow> ('w, unit) io" where
  "upsertRecords env client domain records =
     (if records = [] then io_ok ()
      else io_bind (listRecords client domain) (\<lambda>existing.
           io_bind (io_res (validateDNSRecordLiveConflicts records existing)) (\<lambda>_.
           upsert_loop env client domain (dnsRecordsByUpsertKey existing) [] records)))"

fun delete_loop :: "'w dns_env \<Rightarrow> 'w domains_client \<Rightarrow> string \<Rightarrow> absent_record list \<Rightarrow> domain_record list \<Rightarrow> ('w, unit) io" where
  "delete_loop env client domain absents [] = io_ok ()"
| "delete_loop env client domain absents (r # rs) =
     (if \<not> list_ex (\<lambda>absent. dnsAbsentRecordMatches absent r) absents then delete_loop env client domain absents rs
      else
        let args = [FStr domain, FStr (dr_Type r), FStr (dr_Name r)] in
        io_bind (guard env ''dns delete record %q %s/%s: %w'' args) (\<lambda>_.
        io_bind (io_wrap (\<lambda>e. Wrapf ''dns delete record %q %s/%s: %w'' args (WrapGodoError e)) (Domains_DeleteRecord client domain (dr_ID r))) (\<lambda>_.
        delete_loop env client domain absents rs)))"

definition deleteRecords :: "'w dns_env \<Rightarrow> 'w domains_client \<Rightarrow> string \<Rightarrow> absent_record list \<Rightarrow> ('w, unit) io" where
  "deleteRecords env client domain absents =
     (if absents = [] then io_ok ()
      else io_bind (listRecords client domain) (delete_loop env client domain absents))"

section \<open>The driver\<close>

definition create_domain :: "'w dns_env \<Rightarrow> 'w domains_client \<Rightarrow> string \<Rightarrow> ('w, domain_entry option) io" where
  "create_domain env client domain =
     io_handle (Domains_Get client domain)
       (\<lambda>d. io_bind (io_res (validateDNSDomainResponse domain ''get domain'' d)) (\<lambda>_. io_ok d))
       (\<lambda>err. let wrapped = WrapGodoError err in
          if \<not> errors_is wrapped ErrResourceNotFound then io_err (Wrapf ''dns get domain %q: %w'' [FStr domain] wrapped)
          else io_bind (guard env ''dns create domain %q: %w'' [FStr domain]) (\<lambda>_.
            io_handle (Domains_Create client domain) io_ok
              (\<lambda>e2. let wrapped = WrapGodoError e2 in
                 if \<not> errors_is wrapped ErrResourceAlreadyExists then io_err (Wrapf ''dns create domain %q: %w'' [FStr domain] wrapped)
                 else getDomainAfterCreateConflict env client domain wrapped)))"

definition dns_Create :: "(string \<Rightarrow> bool) \<Rightarrow> 'w dns_env \<Rightarrow> 'w domains_client \<Rightarrow> resource_spec \<Rightarrow> ('w, resource_output) io" where
  "dns_Create vd env client spec =
     io_bind (io_res (dnsDomainFromConfig vd (spec_Config spec) (spec_Name spec))) (\<lambda>domain.
     io_bind (io_res (declaredDNSRecords (spec_Config spec))) (\<lambda>declaredRecords.
     io_bind (io_res (declaredAbsentDNSRecords (spec_Config spec))) (\<lambda>absentRecords.
     io_bind (create_domain env client domain) (\<lambda>dm.
     io_bind (io_res (validateDNSDomainResponse domain ''create domain'' dm)) (\<lambda>_.
     io_bind (io_res (validateDNSAbsentRecordsDoNotConflict declaredRecords absentRecords)) (\<lambda>_.
     io_bind (deleteRecords env client domain absentRecords) (\<lambda>_.
     io_bind (upsertRecords env client domain declaredRecords) (\<lambda>_.
     io_bind (listRecords client domain) (\<lambda>records.
     io_deref dm (\<lambda>d. io_ok (dnsOutput d (spec_Name spec) records)))))))))))"

definition dns_Read :: "'w domains_client \<Rightarrow> resource_ref \<Rightarrow> ('w, resource_output) io" where
  "dns_Read client ref =
     (let domain = ref_ProviderID ref in
      io_bind (io_wrap (\<lambda>e. Wrapf ''dns read %q: %w'' [FStr (ref_Name ref)] (WrapGodoError e)) (Domains_Get client domain)) (\<lambda>dm.
      io_bind (io_res (validateDNSDomainResponse domain ''read domain'' dm)) (\<lambda>_.
      io_bind (listRecords client domain) (\<lambda>records.
      io_deref dm (\<lambda>d. io_ok (dnsOutput d (ref_Name ref) records))))))"

definition dns_Update :: "(string \<Rightarrow> bool) \<Rightarrow> 'w dns_env \<Rightarrow> 'w domains_client \<Rightarrow> resource_ref \<Rightarrow> resource_spec \<Rightarrow> ('w, resource_output) io" where
  "dns_Update vd env client ref spec =
     io_bind (io_res (dnsDomainFromConfig vd (spec_Config spec) (ref_ProviderID ref))) (\<lambda>domain.
     io_bind (io_res (declaredDNSRecords (spec_Config spec))) (\<lambda>declaredRecords.
     io_bind (io_res (declaredAbsentDNSRecords (spec_Config spec))) (\<lambda>absentRecords.
     if ref_ProviderID ref \<noteq> [] \<and> \<not> equal_fold domain (ref_ProviderID ref)
     then io_err (Errorf ''dns update %q: cannot change domain from %q to %q'' [FStr (ref_Name ref), FStr (ref_ProviderID ref), FStr domain])
     else
     io_bind (io_res (validateDNSAbsentRecordsDoNotConflict declaredRecords absentRecords)) (\<lambda>_.
     io_bind (deleteRecords env client domain absentRecords) (\<lambda>_.
     io_bind (upsertRecords env client domain declaredRecords) (\<lambda>_.
     dns_Read client \<lparr>ref_Name = ref_Name ref, ref_Type = [], ref_ProviderID = domain\<rparr>))))))"

definition dns_Delete :: "'w dns_env \<Rightarrow> 'w domains_client \<Rightarrow> resource_ref \<Rightarrow> ('w, unit) io" where
  "dns_Delete env client ref =
     io_bind (guard env ''dns delete %q: %w'' [FStr (ref_Name ref)]) (\<lambda>_.
     io_wrap (\<lambda>e. Wrapf ''dns delete %q: %w'' [FStr (ref_Name ref)] (WrapGodoError e)) (Domains_Delete client (ref_ProviderID ref)))"

definition needs :: "bool \<Rightarrow> diff_result" where
  "needs b = \<lparr>NeedsUpdate = b, NeedsReplace = False, Changes = []\<rparr>"

fun find_each :: "(string \<Rightarrow> domain_record list) \<Rightarrow> edit_request list \<Rightarrow> bool" where
  "find_each byKey [] = True"
| "find_each byKey (req # reqs) =
     (let key = dnsRecordRequestIdentity req in
      case byKey key of
        [] \<Rightarrow> False
      | r # candidates \<Rightarrow> if \<not> dnsRecordMatchesRequest r req then False else find_each (byKey(key := candidates)) reqs)"

definition dnsRecordsByIdentity :: "domain_record list \<Rightarrow> string \<Rightarrow> domain_record list" where
  "dnsRecordsByIdentity records key = filter (\<lambda>r. dnsDomainRecordIdentity r = key) records"

definition dns_Diff :: "(string \<Rightarrow> bool) \<Rightarrow> 'w domains_client \<Rightarrow> resource_spec \<Rightarrow> resource_output option \<Rightarrow> ('w, diff_result) io" where
  "dns_Diff vd client desired current =
     io_bind (io_res (dnsDomainFromConfigIfPresent vd (spec_Config desired))) (\<lambda>(desiredDomain, hasDesiredDomain).
     io_bind (io_res (declaredDNSRecords (spec_Config desired))) (\<lambda>desiredRecords.
     io_bind (io_res (declaredAbsentDNSRecords (spec_Config desired))) (\<lambda>absentRecords.
     io_bind (io_res (validateDNSAbsentRecordsDoNotConflict desiredRecords absentRecords)) (\<lambda>_.
     case current of
       None \<Rightarrow> io_ok diff_absent
     | Some cur \<Rightarrow>
       if hasDesiredDomain \<and> \<not> equal_fold desiredDomain (out_ProviderID cur)
       then io_ok \<lparr>NeedsUpdate = True, NeedsReplace = True,
              Changes = [change_new ''domain'' (GStr (out_ProviderID cur)) (GStr desiredDomain)]\<rparr>
       else
       io_bind (io_res (dnsRecordsFromOutput cur)) (\<lambda>currentRecords.
       io_bind (let domain = (if hasDesiredDomain then desiredDomain else out_ProviderID cur) in
                if absentRecords \<noteq> [] \<and> domain \<noteq> [] then listRecords client domain else io_ok currentRecords) (\<lambda>absentCheckRecords.
       io_ok (if dnsAnyAbsentRecordPresent absentRecords absentCheckRecords then needs True
              else if desiredRecords = [] then needs False
              else needs (\<not> find_each (dnsRecordsByIdentity currentRecords) desiredRecords))))))))"

definition dns_HealthCheck :: "'w domains_client \<Rightarrow> resource_ref \<Rightarrow> ('w, health_result) io" where
  "dns_HealthCheck client ref =
     io_handle (Domains_Get client (ref_ProviderID ref))
       (\<lambda>_. io_ok \<lparr>Healthy = True, Message = Text []\<rparr>)
       (\<lambda>err. io_ok \<lparr>Healthy = False, Message = ErrorText err\<rparr>)"

definition dns_Scale :: "resource_ref \<Rightarrow> int \<Rightarrow> ('w, resource_output) io" where
  "dns_Scale ref n = io_err (Errorf ''dns does not support scale operation'' [])"

end
