(* ===== verification/DnsZone.thy ===== *)
theory DnsZone
  imports Dns
begin

text \<open>
  What the DNS driver achieves on a zone nobody else writes to: after \<^verbatim>\<open>upsertRecords\<close> every
  declared record is there, the other records are as before, and doing it again does nothing.
\<close>

section \<open>The zone\<close>

text \<open>
  \<open>recs w\<close> are the records of the zone. Listing returns them page by page; a successful creation adds
  a record under a fresh number, a successful edit replaces the record in place; the record matches
  the request and has its key. The domain is returned under its name. A failed call, and waiting, leave the zone alone.
\<close>

definition made_by :: "edit_request \<Rightarrow> domain_record \<Rightarrow> bool" where
  "made_by req r = (dnsRecordMatchesRequest r req \<and> dnsDomainRecordUpsertKey r = dnsRecordRequestUpsertKey req)"

locale dns_zone =
  fixes env :: "'w dns_env" and client :: "'w domains_client" and domain :: string and recs :: "'w \<Rightarrow> domain_record list"
  assumes ids_distinct: "distinct (map dr_ID (recs w))"
    and records_listed: "\<exists>pages. paged_list (Domains_Records client domain) pages \<and> (\<forall>w. concat (pages w) = recs w)"
    and create_law: "Domains_CreateRecord client domain req w = Some (r, w') \<Longrightarrow>
      (case r of Ok _ \<Rightarrow> \<exists>x. made_by req x \<and> recs w' = recs w @ [x] | _ \<Rightarrow> recs w' = recs w)"
    and edit_law: "Domains_EditRecord client domain i req w = Some (edited, w') \<Longrightarrow>
      (case edited of Ok u \<Rightarrow> \<exists>x. made_by req x \<and> dr_ID x = i \<and> recs w' = map (\<lambda>y. if dr_ID y = i then x else y) (recs w)
         \<and> (\<forall>y. u = Some y \<longrightarrow> made_by req y)
       | _ \<Rightarrow> recs w' = recs w)"
    and delete_law: "Domains_DeleteRecord client domain i w = Some (deleted, w') \<Longrightarrow>
      recs w' = (case deleted of Ok _ \<Rightarrow> filter (\<lambda>y. dr_ID y \<noteq> i) (recs w) | _ \<Rightarrow> recs w)"
    and get_law: "Domains_Get client domain w = Some (got, w') \<Longrightarrow>
      recs w' = recs w \<and> (\<forall>d. got = Ok (Some d) \<longrightarrow> dom_Name d = domain)"
    and sleep_law: "sleep env n w = Some (slept, w') \<Longrightarrow> recs w' = recs w"
begin

lemma list_recs: "listRecords client domain w = Some (Ok (recs w), w)"
proof -
  obtain pages where p: "paged_list (Domains_Records client domain) pages" "concat (pages w) = recs w"
    using records_listed by blast
  then show ?thesis
    using paged_list.collect_pages_all [OF p(1), of w] by (simp add: listRecords_def io_simps)
qed

end

section \<open>Keys\<close>

lemma key_record_of [simp]: "dnsDomainRecordUpsertKey (record_of i req) = dnsRecordRequestUpsertKey req"
  by (simp add: dnsDomainRecordUpsertKey_def dnsRecordRequestUpsertKey_def record_of_def dnsDomainRecordIdentity_def
      dnsRecordRequestIdentity_def)

lemma record_of_matches [simp]: "dnsRecordMatchesRequest (record_of i req) req"
  by (simp add: dnsRecordMatchesRequest_def record_of_def dnsRecordDataMatches_def)

lemma made_by_record_of [simp]: "made_by req (record_of i req)"
  by (simp add: made_by_def)

definition of_key :: "string \<Rightarrow> domain_record list \<Rightarrow> domain_record list" where
  "of_key k rs = filter (\<lambda>r. dnsDomainRecordUpsertKey r = k) rs"

lemma byKey_of_key: "dnsRecordsByUpsertKey rs = (\<lambda>k. of_key k rs)"
  by (simp add: dnsRecordsByUpsertKey_def of_key_def fun_eq_iff)

lemma of_key_append [simp]: "of_key k (xs @ ys) = of_key k xs @ of_key k ys"
  by (simp add: of_key_def)

lemma of_key_Cons: "of_key k (x # xs) = (if dnsDomainRecordUpsertKey x = k then x # of_key k xs else of_key k xs)"
  by (simp add: of_key_def)

lemma of_key_Nil [simp]: "of_key k [] = []"
  by (simp add: of_key_def)

lemma of_key_mem: "r \<in> set (of_key k rs) \<longleftrightarrow> r \<in> set rs \<and> dnsDomainRecordUpsertKey r = k"
  by (auto simp: of_key_def)

text \<open>The zone satisfies a request when the first record with its key matches it.\<close>

definition satisfied :: "domain_record list \<Rightarrow> edit_request \<Rightarrow> bool" where
  "satisfied rs req = (case of_key (dnsRecordRequestUpsertKey req) rs of [] \<Rightarrow> False | r # _ \<Rightarrow> dnsRecordMatchesRequest r req)"

lemma split_at_key_Some:
  "split_at_key k rs = Some (before, r, after) \<Longrightarrow>
   rs = before @ r # after \<and> dnsDomainRecordUpsertKey r = k \<and> of_key k before = []"
  by (induction rs arbitrary: before) (auto simp: of_key_Cons split: if_splits)

lemma split_at_key_None: "split_at_key k rs = None \<Longrightarrow> of_key k rs = []"
  by (induction rs) (auto simp: of_key_Cons split: if_splits)

text \<open>Replacing the first record of a key by one of the same key.\<close>

lemma replaced:
  assumes "distinct (map dr_ID rs)" and "r \<in> set rs" and "dnsDomainRecordUpsertKey r = k" and "dnsDomainRecordUpsertKey x = k"
  shows "k' \<noteq> k \<Longrightarrow> of_key k' (map (\<lambda>y. if dr_ID y = dr_ID r then x else y) rs) = of_key k' rs"
    and "of_key k rs = r # rest \<Longrightarrow> \<exists>rest'. of_key k (map (\<lambda>y. if dr_ID y = dr_ID r then x else y) rs) = x # rest'"
proof -
  let ?f = "\<lambda>y. if dr_ID y = dr_ID r then x else y"
  obtain a b where s: "rs = a @ r # b" using assms(2) by (metis split_list)
  have notin: "dr_ID r \<notin> dr_ID ` set a" "dr_ID r \<notin> dr_ID ` set b" using assms(1) by (simp_all add: s)
  have ids: "y \<in> set a \<or> y \<in> set b \<Longrightarrow> dr_ID y \<noteq> dr_ID r" for y
    using notin by (metis imageI)
  have ab: "map ?f a = a" "map ?f b = b" by (rule map_idI, simp add: ids)+
  then have m: "map ?f rs = a @ x # b" by (simp add: s)
  show "k' \<noteq> k \<Longrightarrow> of_key k' (map ?f rs) = of_key k' rs"
    unfolding m using assms(3,4) by (simp add: s of_key_Cons)
  assume f: "of_key k rs = r # rest"
  have "of_key k a = []"
  proof (rule ccontr)
    assume "of_key k a \<noteq> []"
    then obtain y ys where y: "of_key k a = y # ys" by (cases "of_key k a") auto
    then have "y = r" using f by (simp add: s)
    then have "r \<in> set a" using y of_key_mem [of r k a] by simp
    then show False using ids [of r] by simp
  qed
  then show "\<exists>rest'. of_key k (map ?f rs) = x # rest'"
    unfolding m using assms(4) by (simp add: of_key_Cons)
qed

section \<open>One request\<close>

text \<open>What one step for a request does to the zone.\<close>

definition step_done :: "edit_request \<Rightarrow> domain_record list \<Rightarrow> domain_record list \<Rightarrow> bool" where
  "step_done req rs rs' =
     (satisfied rs' req \<and> (\<forall>k. k \<noteq> dnsRecordRequestUpsertKey req \<longrightarrow> of_key k rs' = of_key k rs)
      \<and> (\<forall>r \<in> set rs'. r \<in> set rs \<or> dnsRecordMatchesRequest r req))"

lemma step_replaced:
  assumes "distinct (map dr_ID rs)" and "of_key (dnsRecordRequestUpsertKey req) rs = r # rest" and "made_by req x"
  shows "step_done req rs (map (\<lambda>y. if dr_ID y = dr_ID r then x else y) rs)"
proof -
  have r: "r \<in> set rs" "dnsDomainRecordUpsertKey r = dnsRecordRequestUpsertKey req"
    using assms(2) of_key_mem [of r "dnsRecordRequestUpsertKey req" rs] by simp_all
  have x: "dnsDomainRecordUpsertKey x = dnsRecordRequestUpsertKey req" "dnsRecordMatchesRequest x req"
    using assms(3) by (auto simp: made_by_def)
  show ?thesis
    using replaced(1) [OF assms(1) r x(1)] replaced(2) [OF assms(1) r x(1) assms(2)] x(2)
    by (auto simp: step_done_def satisfied_def)
qed

lemma step_added:
  assumes "of_key (dnsRecordRequestUpsertKey req) rs = []" and "made_by req x"
  shows "step_done req rs (rs @ [x])"
  using assms by (auto simp: step_done_def satisfied_def of_key_Cons made_by_def)

context dns_zone
begin

lemma guard_Ok: "guard env f args w = Some (Ok u, w') \<Longrightarrow> w' = w"
  by (auto simp: guard_def io_simps split: option.splits)

lemma wait_Ok: "waitDNSConflictRetry env dm ty nm n w = Some (Ok u, w') \<Longrightarrow> recs w' = recs w"
  by (auto simp: waitDNSConflictRetry_def io_simps dest!: sleep_law split: option.splits res.splits prod.splits)

lemma edit_step:
  assumes "Domains_EditRecord client domain (dr_ID r) req w = Some (Ok u, w')"
    and "of_key (dnsRecordRequestUpsertKey req) (recs w) = r # rest"
  shows "step_done req (recs w) (recs w')" and "u = Some y \<Longrightarrow> made_by req y"
  using edit_law [OF assms(1)] step_replaced [OF ids_distinct assms(2)] by auto

lemma conflict_record_step:
  assumes "conflict_record env client domain req wrapped left attempt w = Some (Ok latest, w')"
  shows "step_done req (recs w) (recs w') \<and> (\<forall>k. k \<noteq> dnsRecordRequestUpsertKey req \<longrightarrow> of_key k latest = of_key k (recs w'))"
  using assms
proof (induction left arbitrary: attempt w)
  case 0
  then show ?case by (simp add: io_simps)
next
  case (Suc left)
  let ?k = "dnsRecordRequestUpsertKey req"
  obtain w1 where g: "guard env ''dns create record %q %s/%s after create conflict: %w'' (req_args domain req) w = Some (Ok (), w1)"
    using Suc.prems unfolding conflict_record.simps by (elim io_bind_OkE) simp
  then have w1: "w1 = w" by (rule guard_Ok)
  note st = Suc.prems [unfolded conflict_record.simps io_bind_SomeD [where m = "guard env f a" for f a, OF g [unfolded w1]]]
  show ?case
  proof (cases "split_at_key ?k (recs w)")
    case None
    then have "left \<noteq> 0" and "\<exists>w2. waitDNSConflictRetry env domain (er_Type req) (er_Name req) attempt w = Some (Ok (), w2)
        \<and> conflict_record env client domain req wrapped left (Suc attempt) w2 = Some (Ok latest, w')"
      using st by (auto simp: io_handle_def list_recs io_bind_def io_res_def io_err_def split: res.splits option.splits prod.splits if_splits)
    then show ?thesis using Suc.IH wait_Ok by metis
  next
    case (Some p)
    obtain before r after where p: "p = (before, r, after)" by (cases p)
    note sp = split_at_key_Some [OF Some [unfolded p]]
    have k: "of_key ?k (recs w) = r # of_key ?k after" using sp by (simp add: of_key_Cons)
    show ?thesis
    proof (cases "dnsRecordMatchesRequest r req")
      case True
      then have "latest = recs w \<and> w' = w"
        using st Some p by (auto simp: io_handle_def list_recs io_bind_def io_res_def io_ok_def split: res.splits)
      then show ?thesis using True k by (simp add: step_done_def satisfied_def)
    next
      case False
      have "\<exists>u. Domains_EditRecord client domain (dr_ID r) req w = Some (Ok u, w')
          \<and> latest = before @ (case u of Some x \<Rightarrow> x | None \<Rightarrow> record_of (dr_ID r) req) # after"
        using st Some p False
        by (auto simp: io_handle_def list_recs io_bind_def io_res_def io_ok_def io_wrap_def io_err_def dest!: guard_Ok
            split: res.splits option.splits prod.splits)
      then obtain u where u: "Domains_EditRecord client domain (dr_ID r) req w = Some (Ok u, w')"
          "latest = before @ (case u of Some x \<Rightarrow> x | None \<Rightarrow> record_of (dr_ID r) req) # after" by blast
      have kk: "dnsDomainRecordUpsertKey (case u of Some x \<Rightarrow> x | None \<Rightarrow> record_of (dr_ID r) req) = ?k"
        using edit_step(2) [OF u(1) k] by (auto simp: made_by_def split: option.splits)
      have "of_key k' latest = of_key k' (recs w)" if "k' \<noteq> ?k" for k'
        using that kk sp by (simp add: u(2) of_key_Cons)
      then show ?thesis using edit_step(1) [OF u(1) k] by (simp add: step_done_def)
    qed
  qed
qed

end

section \<open>All requests\<close>

lemma satisfied_cong: "of_key (dnsRecordRequestUpsertKey req) rs' = of_key (dnsRecordRequestUpsertKey req) rs \<Longrightarrow> satisfied rs' req = satisfied rs req"
  by (simp add: satisfied_def)

text \<open>What a list of requests does to the zone.\<close>

definition all_done :: "edit_request list \<Rightarrow> domain_record list \<Rightarrow> domain_record list \<Rightarrow> bool" where
  "all_done reqs rs rs' =
     ((\<forall>req \<in> set reqs. satisfied rs' req)
      \<and> (\<forall>k. k \<notin> dnsRecordRequestUpsertKey ` set reqs \<longrightarrow> of_key k rs' = of_key k rs)
      \<and> (\<forall>r \<in> set rs'. r \<in> set rs \<or> (\<exists>req \<in> set reqs. dnsRecordMatchesRequest r req)))"

lemma all_done_Cons:
  assumes "step_done req rs rs1" and "all_done reqs rs1 rs2" and "dnsRecordRequestUpsertKey req \<notin> dnsRecordRequestUpsertKey ` set reqs"
  shows "all_done (req # reqs) rs rs2"
proof -
  have "satisfied rs2 req"
    using assms satisfied_cong [of req rs2 rs1] by (simp add: all_done_def step_done_def)
  then show ?thesis
    using assms(1,2) by (auto simp: all_done_def step_done_def)
qed

definition accurate :: "(string \<Rightarrow> domain_record list) \<Rightarrow> string list \<Rightarrow> domain_record list \<Rightarrow> bool" where
  "accurate byKey seen rs = (\<forall>k. k \<notin> set seen \<longrightarrow> byKey k = of_key k rs)"

lemma accurate_step:
  assumes "accurate byKey seen rs" and "step_done req rs rs'"
  shows "accurate (byKey(dnsRecordRequestUpsertKey req := c)) (dnsRecordRequestUpsertKey req # seen) rs'"
    and "accurate byKey (dnsRecordRequestUpsertKey req # seen) rs'"
  using assms by (auto simp: accurate_def step_done_def)

context dns_zone
begin

lemma create_step:
  assumes "io_handle (Domains_CreateRecord client domain req) (\<lambda>_. cont byKey)
      (\<lambda>err. io_bind (handleCreateRecordConflict env client domain req err) (\<lambda>latest. cont (dnsRecordsByUpsertKey latest))) w = Some (Ok u, w')"
    and "accurate byKey seen (recs w)" and "dnsRecordRequestUpsertKey req \<notin> set seen" and "byKey (dnsRecordRequestUpsertKey req) = []"
  shows "\<exists>byKey' w1. cont byKey' w1 = Some (Ok u, w') \<and> step_done req (recs w) (recs w1)
    \<and> accurate byKey' (dnsRecordRequestUpsertKey req # seen) (recs w1)"
proof -
  have none: "of_key (dnsRecordRequestUpsertKey req) (recs w) = []"
    using assms(2-4) by (simp add: accurate_def)
  obtain r w1 where c: "Domains_CreateRecord client domain req w = Some (r, w1)"
    using assms(1) by (auto simp: io_handle_def split: option.splits prod.splits)
  show ?thesis
  proof (cases r)
    case (Ok x)
    obtain y where y: "made_by req y" "recs w1 = recs w @ [y]" using create_law [OF c] Ok by auto
    have "step_done req (recs w) (recs w1)" unfolding y(2) by (rule step_added [OF none y(1)])
    moreover have "cont byKey w1 = Some (Ok u, w')" using assms(1) c Ok by (simp add: io_handle_def)
    ultimately show ?thesis using accurate_step(2) [OF assms(2)] by blast
  next
    case (Err e)
    then have rw: "recs w1 = recs w" using create_law [OF c] by simp
    have "io_bind (handleCreateRecordConflict env client domain req e) (\<lambda>latest. cont (dnsRecordsByUpsertKey latest)) w1 = Some (Ok u, w')"
      using assms(1) c Err by (simp add: io_handle_def)
    then obtain latest w2 where h: "handleCreateRecordConflict env client domain req e w1 = Some (Ok latest, w2)"
      "cont (dnsRecordsByUpsertKey latest) w2 = Some (Ok u, w')" by (elim io_bind_OkE)
    then have "conflict_record env client domain req (WrapGodoError e) dnsConflictRetryAttempts 0 w1 = Some (Ok latest, w2)"
      by (auto simp: handleCreateRecordConflict_def Let_def io_err_def split: if_splits)
    from conflict_record_step [OF this] show ?thesis
      using h(2) rw by (auto simp: accurate_def byKey_of_key)
  next
    case (Panic m)
    then show ?thesis using assms(1) c by (simp add: io_handle_def)
  qed
qed

lemma upsert_loop_all:
  assumes "upsert_loop env client domain byKey seen reqs w = Some (Ok (), w')" and "distinct (map dnsRecordRequestUpsertKey reqs)"
    and "dnsRecordRequestUpsertKey ` set reqs \<inter> set seen = {}" and "accurate byKey seen (recs w)"
  shows "all_done reqs (recs w) (recs w')"
  using assms
proof (induction reqs arbitrary: byKey seen w)
  case Nil
  then show ?case by (auto simp: io_ok_def all_done_def)
next
  case (Cons req reqs)
  let ?k = "dnsRecordRequestUpsertKey req"
  have new: "?k \<notin> set seen" "?k \<notin> dnsRecordRequestUpsertKey ` set reqs" using Cons.prems(2,3) by auto
  have bk: "byKey ?k = of_key ?k (recs w)" using Cons.prems(4) new by (simp add: accurate_def)
  have "\<exists>byKey' w1. upsert_loop env client domain byKey' (?k # seen) reqs w1 = Some (Ok (), w') \<and> step_done req (recs w) (recs w1)
      \<and> accurate byKey' (?k # seen) (recs w1)"
  proof (cases "byKey ?k")
    case Nil
    from Cons.prems(1) obtain w0 where g: "guard env ''dns create record %q %s/%s: %w'' (req_args domain req) w = Some (Ok (), w0)"
        "io_handle (Domains_CreateRecord client domain req)
            (\<lambda>_. upsert_loop env client domain byKey (?k # seen) reqs)
            (\<lambda>err. io_bind (handleCreateRecordConflict env client domain req err) (\<lambda>latest.
               upsert_loop env client domain (dnsRecordsByUpsertKey latest) (?k # seen) reqs)) w0 = Some (Ok (), w')"
      using new Nil by (auto simp: Let_def elim!: io_bind_OkE)
    show ?thesis
      using create_step [where cont = "\<lambda>b. upsert_loop env client domain b (?k # seen) reqs", OF g(2) _ new(1) Nil]
        guard_Ok [OF g(1)] Cons.prems(4) by simp
  next
    case (Cons r rest)
    have k: "of_key ?k (recs w) = r # rest" using bk Cons by simp
    show ?thesis
    proof (cases "dnsRecordMatchesRequest r req")
      case True
      then have "step_done req (recs w) (recs w)" using k by (simp add: step_done_def satisfied_def)
      moreover have "upsert_loop env client domain (byKey(?k := rest)) (?k # seen) reqs w = Some (Ok (), w')"
        using Cons.prems(1) new True Cons by (simp add: Let_def)
      ultimately show ?thesis using accurate_step(1) [OF Cons.prems(4)] by blast
    next
      case False
      then obtain u w1 where u: "Domains_EditRecord client domain (dr_ID r) req w = Some (Ok u, w1)"
          "upsert_loop env client domain (byKey(?k := rest)) (?k # seen) reqs w1 = Some (Ok (), w')"
        using Cons.prems(1) new Cons by (auto simp: Let_def elim!: io_bind_OkE io_wrap_OkE dest!: guard_Ok)
      then show ?thesis using edit_step(1) [OF u(1) k] accurate_step(1) [OF Cons.prems(4)] by blast
    qed
  qed
  then obtain byKey' w1 where s: "upsert_loop env client domain byKey' (?k # seen) reqs w1 = Some (Ok (), w')"
    "step_done req (recs w) (recs w1)" "accurate byKey' (?k # seen) (recs w1)" by blast
  have "all_done reqs (recs w1) (recs w')"
    by (rule Cons.IH [OF s(1) _ _ s(3)]) (use Cons.prems(2,3) new in auto)
  then show ?case using all_done_Cons s(2) new(2) by blast
qed

lemma upsert_loop_idle:
  assumes "\<forall>req \<in> set reqs. satisfied (recs w) req" and "distinct (map dnsRecordRequestUpsertKey reqs)"
    and "dnsRecordRequestUpsertKey ` set reqs \<inter> set seen = {}" and "accurate byKey seen (recs w)"
  shows "upsert_loop env client domain byKey seen reqs w = Some (Ok (), w)"
  using assms
proof (induction reqs arbitrary: byKey seen)
  case Nil
  then show ?case by (simp add: io_ok_def)
next
  case (Cons req reqs)
  let ?k = "dnsRecordRequestUpsertKey req"
  have new: "?k \<notin> set seen" using Cons.prems(3) by auto
  have "satisfied (recs w) req" using Cons.prems(1) by simp
  then obtain r rest where k: "of_key ?k (recs w) = r # rest" "dnsRecordMatchesRequest r req"
    by (auto simp: satisfied_def split: list.splits)
  then have b: "byKey ?k = r # rest" using Cons.prems(4) new by (simp add: accurate_def)
  have "step_done req (recs w) (recs w)" using k by (simp add: step_done_def satisfied_def)
  then have "upsert_loop env client domain (byKey(?k := rest)) (?k # seen) reqs w = Some (Ok (), w)"
    by (intro Cons.IH accurate_step(1) [OF Cons.prems(4)]) (use Cons.prems in auto)
  then show ?case using new b k by (simp add: Let_def)
qed

end

end
