(* ===== verification/DnsConverge.thy ===== *)
theory DnsConverge
  imports DnsZone
begin

text \<open>
  The DNS driver converges: the declared records of a configuration are free of conflicts, applying
  them makes the zone satisfy them all and a second time does nothing, and after an update
  \<^verbatim>\<open>DNSDriver.Diff\<close> finds nothing left to do.
\<close>

section \<open>Declared records\<close>

definition compatible :: "edit_request \<Rightarrow> edit_request \<Rightarrow> bool" where
  "compatible a b = (dnsRecordRequestIdentity a \<noteq> dnsRecordRequestIdentity b
     \<and> (dnsCanonicalRecordName (er_Name a) = dnsCanonicalRecordName (er_Name b) \<longrightarrow> er_Type a \<noteq> ''CNAME'' \<and> er_Type b \<noteq> ''CNAME''))"

definition no_nul :: "string \<Rightarrow> bool" where
  "no_nul s = (CHR 0x00 \<notin> set s)"

definition well_declared :: "edit_request list \<Rightarrow> bool" where
  "well_declared reqs = (sorted_wrt compatible reqs \<and> (\<forall>r \<in> set reqs. isSupportedDNSRecordType (er_Type r) \<and> no_nul (er_Name r)))"

lemma supported_upper: "isSupportedDNSRecordType ty \<Longrightarrow> to_upper ty = ty \<and> no_nul ty \<and> (equal_fold ty ''CNAME'' \<longleftrightarrow> ty = ''CNAME'')"
proof -
  assume "isSupportedDNSRecordType ty"
  then have "ty \<in> {''A'', ''AAAA'', ''CAA'', ''CNAME'', ''MX'', ''NS'', ''SRV'', ''TXT''}" by (simp only: isSupportedDNSRecordType_def)
  then show ?thesis by (elim insertE emptyE) (hypsubst, code_simp)+
qed

lemma label_chars_nul: "label_chars b label \<Longrightarrow> no_nul label"
proof -
  have "\<not> label_char (CHR 0x00)" "CHR 0x00 \<noteq> CHR ''_''" by code_simp+
  moreover have "list_all label_char xs \<Longrightarrow> \<not> label_char c \<Longrightarrow> c \<notin> set xs" for c xs by (auto simp: list_all_iff)
  ultimately show "label_chars b label \<Longrightarrow> no_nul label"
    by (cases label) (auto simp: label_chars_def no_nul_def)
qed

lemma labels_ok_nul: "labels_ok first a b ls \<Longrightarrow> \<forall>l \<in> set ls. no_nul l"
proof (induction first a b ls rule: labels_ok.induct)
  case (2 first a b l rest)
  have "no_nul ''*''" by code_simp
  then show ?case using 2 label_chars_nul by (auto split: if_splits)
qed simp

lemma split_on_nul: "\<forall>l \<in> set (split_on d s). no_nul l \<Longrightarrow> d \<noteq> CHR 0x00 \<Longrightarrow> no_nul s"
  by (induction s) (auto simp: no_nul_def split: if_splits list.splits)

lemma trim_suffix_dot: "s = trim_suffix s ''.'' \<or> s = trim_suffix s ''.'' @ ''.''"
proof -
  have "has_suffix s ''.'' \<Longrightarrow> s = take (length s - 1) s @ ''.''"
    by (auto simp: has_suffix_iff)
  then show ?thesis by (auto simp: trim_suffix_def)
qed

lemma trim_nul: "no_nul (trim_suffix n ''.'') \<longleftrightarrow> no_nul n"
proof -
  have "no_nul (t @ ''.'') \<longleftrightarrow> no_nul t" for t by (simp add: no_nul_def)
  then show ?thesis using trim_suffix_dot [of n] by metis
qed

lemma record_name_nul: "isValidDNSRecordName name \<Longrightarrow> no_nul name"
proof (cases "name = ''@''")
  case False
  assume "isValidDNSRecordName name"
  then have "labels_ok True True True (split_on (CHR ''.'') (trim_suffix name ''.''))"
    using False by (auto simp: isValidDNSRecordName_def isValidDNSName_def Let_def split: if_splits)
  then have "no_nul (trim_suffix name ''.'')"
    using labels_ok_nul split_on_nul [of "CHR ''.''" "trim_suffix name ''.''"] by simp
  then show ?thesis by (simp add: trim_nul)
qed (simp add: no_nul_def)

lemma res_bind_OkE:
  assumes "res_bind r f = Ok y"
  obtains x where "r = Ok x" "f x = Ok y"
  using assms by (auto simp: res_bind_Ok_iff)

lemma request_declared:
  assumes "dnsRecordEditRequestFromConfig i m = Ok req"
  shows "isSupportedDNSRecordType (er_Type req) \<and> no_nul (er_Name req)"
proof -
  obtain x where x: "isSupportedDNSRecordType (to_upper x)" and rest: "res_bind (dnsOptionalStringField i m ''name'' ''@'') (\<lambda>name.
     res_bind (dnsRequiredStringField i m ''data'') (\<lambda>dat.
     res_bind (dnsOptionalStringField i m ''tag'' []) (\<lambda>tag.
     res_bind (dnsOptionalIntField i m ''ttl'' 300 True) (\<lambda>ttl.
     res_bind (dnsOptionalIntField i m ''priority'' 0 False) (\<lambda>pr.
     res_bind (dnsOptionalIntField i m ''port'' 0 False) (\<lambda>po.
     res_bind (dnsOptionalIntField i m ''weight'' 0 False) (\<lambda>we.
     res_bind (dnsOptionalIntField i m ''flags'' 0 False) (\<lambda>fl.
     let req = \<lparr>er_Type = to_upper x, er_Name = name, er_Data = dat, er_Priority = fst pr, er_Port = fst po, er_TTL = fst ttl,
           er_Weight = fst we, er_Flags = fst fl, er_Tag = dnsCanonicalRecordTag (to_upper x) tag\<rparr>
     in res_bind (validateDNSRecordRequest i req (snd pr) (snd po) (snd we) (snd fl) (map_of m ''tag'' \<noteq> None)) (\<lambda>_. Ok req))))))))) = Ok req"
    using assms unfolding dnsRecordEditRequestFromConfig_def Let_def case_prod_beta
    by (elim res_bind_OkE) (simp split: if_splits)
  have "isSupportedDNSRecordType (er_Type req) \<and> (\<exists>a b c d e. validateDNSRecordRequest i req a b c d e = Ok ())"
    by (rule res_bind_OkE [OF rest], (erule res_bind_OkE)+) (use x in \<open>auto simp: Let_def res_bind_Ok_iff\<close>, (rule exI)+, assumption)
  then obtain a b c d e where v: "validateDNSRecordRequest i req a b c d e = Ok ()" and t: "isSupportedDNSRecordType (er_Type req)"
    by blast
  have "isValidDNSRecordName (er_Name req)"
    using v unfolding validateDNSRecordRequest_def Let_def
    by (elim res_bind_OkE) (simp add: check_def split: if_splits)
  then show ?thesis using t record_name_nul by simp
qed

lemma declared_loop_well:
  assumes "declared_loop i out ms = Ok reqs" and "well_declared out"
  shows "well_declared reqs"
  using assms
proof (induction i out ms rule: declared_loop.induct)
  case (2 i out m ms)
  obtain req where r: "dnsRecordEditRequestFromConfig i m = Ok req"
    using 2(3) by (auto simp: res_bind_Ok_iff)
  note rq = request_declared [OF r]
  let ?dup = "first_match (\<lambda>r. dnsRecordRequestIdentity r = dnsRecordRequestIdentity req) out"
  show ?case
  proof (cases ?dup)
    case (Some existing)
    then have "declared_loop (i + 1) out ms = Ok reqs" "dnsRecordRequestsEqual existing req"
      using 2(3) r by (auto split: if_splits)
    then show ?thesis by (intro 2(2) [OF Some]) (use 2(4) in auto)
  next
    case None
    then have nd: "\<forall>r \<in> set out. dnsRecordRequestIdentity r \<noteq> dnsRecordRequestIdentity req"
      by (simp add: first_match_None)
    have nc: "validateDNSRecordNameConflict req (filter (\<lambda>r. dnsCanonicalRecordName (er_Name r) = dnsCanonicalRecordName (er_Name req)) out) = Ok ()"
      and l: "declared_loop (i + 1) (out @ [req]) ms = Ok reqs"
      using 2(3) r None by (auto simp: res_bind_Ok_iff)
    have "\<forall>r \<in> set out. compatible r req"
      using nc nd by (auto simp: validateDNSRecordNameConflict_def compatible_def first_match_None split: option.splits)
    then have "well_declared (out @ [req])"
      using 2(4) rq by (auto simp: well_declared_def sorted_wrt_append)
    then show ?thesis by (intro 2(1) [OF None l])
  qed
qed simp

lemma declared_well: "declaredDNSRecords config = Ok reqs \<Longrightarrow> well_declared reqs"
  by (auto simp: declaredDNSRecords_def res_bind_Ok_iff well_declared_def split: option.splits dest!: declared_loop_well)

section \<open>Keys of declared records\<close>

lemma nul_split: "no_nul a \<Longrightarrow> no_nul b \<Longrightarrow> a @ CHR 0x00 # x = b @ CHR 0x00 # y \<Longrightarrow> a = b \<and> x = y"
  by (induction a arbitrary: b) (auto simp: no_nul_def Cons_eq_append_conv append_eq_Cons_conv)

lemma identity_shape: "\<exists>rest. dnsRecordIdentity ty name dat p po we f tag
    = to_upper ty @ CHR 0x00 # (dnsCanonicalRecordName name @ CHR 0x00 # (dnsCanonicalRecordData ty dat @ rest))"
  by (auto simp: dnsRecordIdentity_def Let_def)

lemma lower_nul: "no_nul s \<Longrightarrow> no_nul (to_lower s)"
proof -
  have "lower_char c \<noteq> CHR 0x00" if "c \<noteq> CHR 0x00" for c
  proof (cases "65 \<le> (of_char c :: nat) \<and> (of_char c :: nat) \<le> 90")
    case True
    then have "(of_char (lower_char c) :: nat) = of_char c + 32" by (simp add: lower_char_def Let_def)
    moreover have "(of_char (lower_char c) :: nat) = 0" if "lower_char c = CHR 0x00" by (simp add: that)
    ultimately show ?thesis by linarith
  next
    case False
    then have "lower_char c = c" by (auto simp: lower_char_def Let_def)
    then show ?thesis using that by simp
  qed
  then show "no_nul s \<Longrightarrow> no_nul (to_lower s)" unfolding no_nul_def to_lower_def set_map by (metis imageE)
qed

lemma canonical_name_nul: "no_nul n \<Longrightarrow> no_nul (dnsCanonicalRecordName n)"
proof -
  assume "no_nul n"
  then show ?thesis by (simp add: dnsCanonicalRecordName_def lower_nul trim_nul)
qed

lemma declared_keys_differ:
  assumes "compatible a b" and "isSupportedDNSRecordType (er_Type a)" and "isSupportedDNSRecordType (er_Type b)"
  shows "dnsRecordRequestUpsertKey a \<noteq> dnsRecordRequestUpsertKey b"
proof
  assume k: "dnsRecordRequestUpsertKey a = dnsRecordRequestUpsertKey b"
  note sa = supported_upper [OF assms(2)] and sb = supported_upper [OF assms(3)]
  have shape: "\<exists>x. dnsRecordRequestUpsertKey r = er_Type r @ CHR 0x00 # x" if "to_upper (er_Type r) = er_Type r" for r
    using identity_shape [of "er_Type r" "er_Name r" "er_Data r" "er_Priority r" "er_Port r" "er_Weight r" "er_Flags r" "er_Tag r"] that
    by (auto simp: dnsRecordRequestUpsertKey_def dnsRecordNameTypeKey_def dnsRecordRequestIdentity_def)
  have ty: "er_Type a = er_Type b"
    using shape [of a] shape [of b] sa sb k nul_split by metis
  show False
  proof (cases "er_Type a = ''CNAME''")
    case True
    then have "dnsCanonicalRecordName (er_Name a) = dnsCanonicalRecordName (er_Name b)"
      using k ty by (simp add: dnsRecordRequestUpsertKey_def dnsRecordNameTypeKey_def)
    then show False using assms(1) True by (simp add: compatible_def)
  next
    case False
    then show False using k ty assms(1) sa by (simp add: dnsRecordRequestUpsertKey_def compatible_def)
  qed
qed

lemma declared_distinct_keys: "well_declared reqs \<Longrightarrow> distinct (map dnsRecordRequestUpsertKey reqs)"
proof (induction reqs)
  case (Cons a reqs)
  then have "dnsRecordRequestUpsertKey a \<noteq> dnsRecordRequestUpsertKey b" if "b \<in> set reqs" for b
    using that by (intro declared_keys_differ) (auto simp: well_declared_def)
  then show ?case using Cons by (auto simp: well_declared_def)
qed simp

lemma compatible_sym: "compatible a b = compatible b a"
  by (auto simp: compatible_def)

lemma declared_compatible: "well_declared reqs \<Longrightarrow> a \<in> set reqs \<Longrightarrow> b \<in> set reqs \<Longrightarrow> a = b \<or> compatible a b"
proof (induction reqs)
  case (Cons c reqs)
  have "well_declared reqs" "\<forall>r \<in> set reqs. compatible c r" using Cons.prems(1) by (auto simp: well_declared_def)
  then show ?case using Cons.IH Cons.prems(2,3) compatible_sym by (metis set_ConsD)
qed simp

section \<open>Live conflicts\<close>

lemma live_conflict_None:
  "live_conflict existing req = None \<longleftrightarrow>
   (\<forall>r \<in> set existing. dnsCanonicalRecordName (dr_Name r) = dnsCanonicalRecordName (er_Name req)
      \<longrightarrow> (er_Type req = ''CNAME'' \<longleftrightarrow> equal_fold (dr_Type r) ''CNAME''))"
  by (auto simp: live_conflict_def first_match_None)

lemma live_conflicts_Ok:
  "validateDNSRecordLiveConflicts reqs existing = Ok () \<longleftrightarrow> (\<forall>req \<in> set reqs. live_conflict existing req = None)"
  by (induction reqs) (auto split: option.splits)

lemma match_type: "dnsRecordMatchesRequest r req \<Longrightarrow> equal_fold (dr_Type r) t = equal_fold (er_Type req) t"
  by (simp add: dnsRecordMatchesRequest_def equal_fold_def)

lemma still_no_conflicts:
  assumes "validateDNSRecordLiveConflicts reqs rs = Ok ()" and "well_declared reqs" and "all_done reqs rs rs'"
  shows "validateDNSRecordLiveConflicts reqs rs' = Ok ()"
  unfolding live_conflicts_Ok live_conflict_None
proof (intro ballI impI)
  fix req r
  assume req: "req \<in> set reqs" and r: "r \<in> set rs'" and n: "dnsCanonicalRecordName (dr_Name r) = dnsCanonicalRecordName (er_Name req)"
  have sup: "isSupportedDNSRecordType (er_Type q)" if "q \<in> set reqs" for q using assms(2) that by (auto simp: well_declared_def)
  consider "r \<in> set rs" | q where "q \<in> set reqs" "dnsRecordMatchesRequest r q"
    using assms(3) r by (auto simp: all_done_def)
  then show "(er_Type req = ''CNAME'') = equal_fold (dr_Type r) ''CNAME''"
  proof cases
    case 1
    then show ?thesis using assms(1) req n unfolding live_conflicts_Ok live_conflict_None by blast
  next
    case (2 q)
    have t: "equal_fold (dr_Type r) ''CNAME'' \<longleftrightarrow> er_Type q = ''CNAME''"
      using match_type [OF 2(2)] supported_upper [OF sup [OF 2(1)]] by simp
    have "dnsCanonicalRecordName (er_Name q) = dnsCanonicalRecordName (er_Name req)"
      using 2(2) n by (simp add: dnsRecordMatchesRequest_def)
    then have "q = req \<or> er_Type q \<noteq> ''CNAME'' \<and> er_Type req \<noteq> ''CNAME''"
      using declared_compatible [OF assms(2) 2(1) req] by (auto simp: compatible_def)
    then show ?thesis using t by auto
  qed
qed

context dns_zone
begin

lemma upsert_converges:
  assumes "upsertRecords env client domain reqs w = Some (Ok (), w')" and "well_declared reqs"
  shows "all_done reqs (recs w) (recs w') \<and> upsertRecords env client domain reqs w' = Some (Ok (), w')"
proof (cases "reqs = []")
  case True
  then show ?thesis using assms by (auto simp: upsertRecords_def io_ok_def all_done_def)
next
  case False
  note keys = declared_distinct_keys [OF assms(2)]
  have live: "validateDNSRecordLiveConflicts reqs (recs w) = Ok ()"
    and loop: "upsert_loop env client domain (dnsRecordsByUpsertKey (recs w)) [] reqs w = Some (Ok (), w')"
    using assms(1) False by (auto simp: upsertRecords_def io_bind_def list_recs io_res_def split: res.splits)
  have d: "all_done reqs (recs w) (recs w')"
    by (rule upsert_loop_all [OF loop keys]) (simp_all add: accurate_def byKey_of_key)
  have "upsert_loop env client domain (dnsRecordsByUpsertKey (recs w')) [] reqs w' = Some (Ok (), w')"
    by (rule upsert_loop_idle [OF _ keys]) (use d in \<open>simp_all add: all_done_def accurate_def byKey_of_key\<close>)
  then show ?thesis
    using d still_no_conflicts [OF live assms(2) d] False by (simp add: upsertRecords_def io_bind_def list_recs io_res_def)
qed

end

section \<open>A zone in memory\<close>

definition fresh_id :: "domain_record list \<Rightarrow> int" where
  "fresh_id rs = foldr (\<lambda>r m. max (dr_ID r) m) rs 0 + 1"

text \<open>The first record of each number counts.\<close>

fun zone_of :: "domain_record list \<Rightarrow> domain_record list" where
  "zone_of [] = []"
| "zone_of (r # rs) = r # filter (\<lambda>y. dr_ID y \<noteq> dr_ID r) (zone_of rs)"

definition mem_domains :: "(domain_record list) domains_client" where
  "mem_domains = \<lparr>
     Domains_Create = (\<lambda>n w. Some (Ok (Some \<lparr>dom_Name = n, dom_TTL = 1800, dom_ZoneFile = []\<rparr>), w)),
     Domains_Get = (\<lambda>n w. Some (Ok (Some \<lparr>dom_Name = n, dom_TTL = 1800, dom_ZoneFile = []\<rparr>), w)),
     Domains_Delete = (\<lambda>n w. Some (Ok (), [])),
     Domains_CreateRecord = (\<lambda>n req w. let r = record_of (fresh_id (zone_of w)) req in Some (Ok (Some r), zone_of w @ [r])),
     Domains_EditRecord = (\<lambda>n i req w. let r = record_of i req in Some (Ok (Some r), map (\<lambda>y. if dr_ID y = i then r else y) (zone_of w))),
     Domains_DeleteRecord = (\<lambda>n i w. Some (Ok (), filter (\<lambda>y. dr_ID y \<noteq> i) (zone_of w))),
     Domains_Records = (\<lambda>n. page_lister (\<lambda>w. [zone_of w]))\<rparr>"

definition calm :: "'w dns_env" where
  "calm = \<lparr>ctx_err = (\<lambda>_. None), sleep = (\<lambda>_ w. Some (Ok None, w))\<rparr>"

lemma zone_distinct: "distinct (map dr_ID (zone_of w))"
  by (induction w) (auto simp: distinct_map_filter)

lemma zone_of_distinct: "distinct (map dr_ID w) \<Longrightarrow> zone_of w = w"
proof (induction w)
  case (Cons r w)
  then have "filter (\<lambda>y. dr_ID y \<noteq> dr_ID r) w = w" by (intro filter_True) (metis distinct.simps(2) imageI list.set_map list.simps(9))
  then show ?case using Cons by simp
qed simp

lemma fresh_new: "fresh_id rs \<notin> dr_ID ` set rs"
proof -
  have "\<forall>r \<in> set rs. dr_ID r \<le> foldr (\<lambda>r m. max (dr_ID r) m) rs 0" by (induction rs) auto
  then show ?thesis by (fastforce simp: fresh_id_def)
qed

lemma record_of_ID [simp]: "dr_ID (record_of i req) = i"
  by (simp add: record_of_def)

interpretation mem_zone: dns_zone calm mem_domains domain zone_of for domain
proof
  fix w
  show "distinct (map dr_ID (zone_of w))" by (rule zone_distinct)
  show "\<exists>pages. paged_list (Domains_Records mem_domains domain) pages \<and> (\<forall>w. concat (pages w) = zone_of w)"
    using static_pages.paged_list_axioms [of "\<lambda>w. [zone_of w]"]
    by (intro exI [of _ "\<lambda>w. nonempty_pages [zone_of w]"]) (simp add: mem_domains_def nonempty_pages_def)
next
  fix req r w w'
  assume "Domains_CreateRecord mem_domains domain req w = Some (r, w')"
  then show "case r of Ok _ \<Rightarrow> \<exists>x. made_by req x \<and> zone_of w' = zone_of w @ [x] | _ \<Rightarrow> zone_of w' = zone_of w"
    using fresh_new [of "zone_of w"] zone_distinct [of w]
    by (auto simp: mem_domains_def Let_def zone_of_distinct intro!: exI [of _ "record_of (fresh_id (zone_of w)) req"])
next
  fix i req r w w'
  assume a: "Domains_EditRecord mem_domains domain i req w = Some (r, w')"
  have "map dr_ID (map (\<lambda>y. if dr_ID y = i then record_of i req else y) (zone_of w)) = map dr_ID (zone_of w)" by simp
  then have "zone_of w' = map (\<lambda>y. if dr_ID y = i then record_of i req else y) (zone_of w)"
    using a zone_distinct [of w] by (auto simp: mem_domains_def Let_def intro!: zone_of_distinct simp del: map_map)
  then show "case r of Ok u \<Rightarrow> \<exists>x. made_by req x \<and> dr_ID x = i \<and> zone_of w' = map (\<lambda>y. if dr_ID y = i then x else y) (zone_of w)
         \<and> (\<forall>y. u = Some y \<longrightarrow> made_by req y) | _ \<Rightarrow> zone_of w' = zone_of w"
    using a by (auto simp: mem_domains_def Let_def intro!: exI [of _ "record_of i req"])
next
  fix i and r :: "unit res" and w w'
  assume "Domains_DeleteRecord mem_domains domain i w = Some (r, w')"
  then show "zone_of w' = (case r of Ok _ \<Rightarrow> filter (\<lambda>y. dr_ID y \<noteq> i) (zone_of w) | _ \<Rightarrow> zone_of w)"
    using zone_distinct [of w] by (auto simp: mem_domains_def distinct_map_filter intro!: zone_of_distinct)
next
  fix w r w'
  assume "Domains_Get mem_domains domain w = Some (r, w')"
  then show "zone_of w' = zone_of w \<and> (\<forall>d. r = Ok (Some d) \<longrightarrow> dom_Name d = domain)"
    by (auto simp: mem_domains_def)
next
  fix n w r and w' :: "domain_record list"
  assume "sleep calm n w = Some (r, w')"
  then show "zone_of w' = zone_of w" by (simp add: calm_def)
qed

section \<open>Convergence\<close>

text \<open>
  C6: applying the declared records of a zone converges. On a zone that only this call writes to, for
  the records of any configuration that is accepted: when \<^verbatim>\<open>upsertRecords\<close> succeeds, every declared
  record is there and is the first of its key, every other record is as before, nothing else was
  added, and a second call succeeds without touching the zone.
\<close>

theorem dns_upsert_converges:
  assumes "dns_zone env client domain recs" and "declaredDNSRecords config = Ok reqs"
    and "upsertRecords env client domain reqs w = Some (Ok (), w')"
  shows "(\<forall>req \<in> set reqs. satisfied (recs w') req)
    \<and> (\<forall>k. k \<notin> dnsRecordRequestUpsertKey ` set reqs \<longrightarrow> of_key k (recs w') = of_key k (recs w))
    \<and> (\<forall>r \<in> set (recs w'). r \<in> set (recs w) \<or> (\<exists>req \<in> set reqs. dnsRecordMatchesRequest r req))
    \<and> upsertRecords env client domain reqs w' = Some (Ok (), w')"
  using dns_zone.upsert_converges [OF assms(1,3) declared_well [OF assms(2)]] by (auto simp: all_done_def)

definition ex_zone_config :: cfg where
  "ex_zone_config = [(''records'', GAnys (Slice
     [GMap [(''type'', GStr ''a''), (''name'', GStr ''www''), (''data'', GStr ''192.0.2.1'')],
      GMap [(''type'', GStr ''CNAME''), (''name'', GStr ''app''), (''data'', GStr ''Target.example.com.'')]]))]"

definition ex_zone :: "domain_record list" where
  "ex_zone = [\<lparr>dr_ID = 1, dr_Type = ''NS'', dr_Name = ''@'', dr_Data = ''ns1.digitalocean.com'', dr_Priority = 0, dr_Port = 0, dr_TTL = 1800,
       dr_Weight = 0, dr_Flags = 0, dr_Tag = []\<rparr>,
     \<lparr>dr_ID = 2, dr_Type = ''CNAME'', dr_Name = ''app'', dr_Data = ''old.example.com'', dr_Priority = 0, dr_Port = 0, dr_TTL = 300,
       dr_Weight = 0, dr_Flags = 0, dr_Tag = []\<rparr>]"

definition ex_requests :: "edit_request list" where
  "ex_requests = [\<lparr>er_Type = ''A'', er_Name = ''www'', er_Data = ''192.0.2.1'', er_Priority = 0, er_Port = 0, er_TTL = 300, er_Weight = 0,
       er_Flags = 0, er_Tag = []\<rparr>,
     \<lparr>er_Type = ''CNAME'', er_Name = ''app'', er_Data = ''Target.example.com.'', er_Priority = 0, er_Port = 0, er_TTL = 300, er_Weight = 0,
       er_Flags = 0, er_Tag = []\<rparr>]"

lemma ex_zone_run:
  "declaredDNSRecords ex_zone_config = Ok ex_requests"
  "upsertRecords calm mem_domains ''example.com'' ex_requests ex_zone
     = Some (Ok (), [ex_zone ! 0, record_of 2 (ex_requests ! 1), record_of 3 (ex_requests ! 0)])"
proof -
  show "declaredDNSRecords ex_zone_config = Ok ex_requests" by code_simp
  have z: "zone_of ex_zone = ex_zone" and v: "validateDNSRecordLiveConflicts ex_requests ex_zone = Ok ()" by code_simp+
  have l: "upsert_loop calm mem_domains ''example.com'' (dnsRecordsByUpsertKey ex_zone) [] ex_requests ex_zone
      = Some (Ok (), [ex_zone ! 0, record_of 2 (ex_requests ! 1), record_of 3 (ex_requests ! 0)])" by code_simp
  show "upsertRecords calm mem_domains ''example.com'' ex_requests ex_zone
     = Some (Ok (), [ex_zone ! 0, record_of 2 (ex_requests ! 1), record_of 3 (ex_requests ! 0)])"
    using v l by (simp add: upsertRecords_def io_bind_def mem_zone.list_recs z io_res_def) (simp add: ex_requests_def)
qed

theorem dns_upsert_converges_witness:
  "\<exists>w'. upsertRecords calm mem_domains ''example.com'' ex_requests ex_zone = Some (Ok (), w') \<and> length w' = 3
     \<and> upsertRecords calm mem_domains ''example.com'' ex_requests w' = Some (Ok (), w')"
  using dns_upsert_converges [OF mem_zone.dns_zone_axioms ex_zone_run] ex_zone_run(2) by auto

end
