(* ===== verification/DnsDiff.thy ===== *)
theory DnsDiff
  imports DnsConverge
begin

text \<open>
  After \<^verbatim>\<open>DNSDriver.Update\<close> has succeeded, \<^verbatim>\<open>DNSDriver.Diff\<close> finds the same configuration in the
  recorded output, which went through JSON, and nothing to do.
\<close>

section \<open>Recording a record\<close>

definition exact_int :: "int \<Rightarrow> bool" where
  "exact_int n = (0 \<le> n \<and> n \<le> 9007199254740992)"

definition recordable :: "domain_record \<Rightarrow> bool" where
  "recordable r = (isSupportedDNSRecordType (to_upper (dr_Type r)) \<longrightarrow>
     dr_Name r \<noteq> [] \<and> no_nul (dr_Name r) \<and> list_all exact_int [dr_TTL r, dr_Priority r, dr_Port r, dr_Weight r, dr_Flags r])"

definition recorded :: "domain_record \<Rightarrow> domain_record" where
  "recorded r = r\<lparr>dr_ID := 0, dr_Type := to_upper (dr_Type r),
     dr_Tag := dnsCanonicalRecordTag (to_upper (dr_Type r)) (dnsCanonicalRecordTag (dr_Type r) (dr_Tag r))\<rparr>"

lemma recorded_sel [simp]:
  "dr_Type (recorded r) = to_upper (dr_Type r)" "dr_Name (recorded r) = dr_Name r" "dr_Data (recorded r) = dr_Data r"
  "dr_TTL (recorded r) = dr_TTL r" "dr_Priority (recorded r) = dr_Priority r" "dr_Port (recorded r) = dr_Port r"
  "dr_Weight (recorded r) = dr_Weight r" "dr_Flags (recorded r) = dr_Flags r"
  "dr_Tag (recorded r) = dnsCanonicalRecordTag (to_upper (dr_Type r)) (dnsCanonicalRecordTag (dr_Type r) (dr_Tag r))"
  by (simp_all add: recorded_def)

lemma int_field:
  assumes "exact_int n" and "map_of m k = Some (GFloat (f64_of_int n))"
  shows "dnsOptionalIntField i m k 0 False = Ok (n, True)"
  using assms by (simp add: dnsOptionalIntField_def exact_int_def f64_to_int_of_int [of n] f64_integral_of_int [of n] min_int64_def)

lemma record_map_parsed:
  assumes "recordable r"
  shows "dnsDomainRecordFromOutputMap i (norm_map (record_map r))
    = Ok (if isSupportedDNSRecordType (to_upper (dr_Type r)) then Some (recorded r) else None)"
proof -
  let ?m = "norm_map (record_map r)"
  have s: "dnsOptionalStringField i ?m ''type'' [] = Ok (dr_Type r)" "dnsOptionalStringField i ?m ''data'' [] = Ok (dr_Data r)"
    "dnsOptionalStringField i ?m ''tag'' [] = Ok (dnsCanonicalRecordTag (dr_Type r) (dr_Tag r))"
    "dr_Name r \<noteq> [] \<Longrightarrow> dnsOptionalStringField i ?m ''name'' ''@'' = Ok (dr_Name r)"
    by (simp_all add: dnsOptionalStringField_def dnsOptionalStringFieldWithLabel_def map_of_norm_map record_map_def)
  have n: "exact_int (dr_TTL r) \<Longrightarrow> dnsOptionalIntField i ?m ''ttl'' 0 False = Ok (dr_TTL r, True)"
    "exact_int (dr_Priority r) \<Longrightarrow> dnsOptionalIntField i ?m ''priority'' 0 False = Ok (dr_Priority r, True)"
    "exact_int (dr_Port r) \<Longrightarrow> dnsOptionalIntField i ?m ''port'' 0 False = Ok (dr_Port r, True)"
    "exact_int (dr_Weight r) \<Longrightarrow> dnsOptionalIntField i ?m ''weight'' 0 False = Ok (dr_Weight r, True)"
    "exact_int (dr_Flags r) \<Longrightarrow> dnsOptionalIntField i ?m ''flags'' 0 False = Ok (dr_Flags r, True)"
    by (rule int_field, assumption, simp add: map_of_norm_map record_map_def)+
  show ?thesis
  proof (cases "isSupportedDNSRecordType (to_upper (dr_Type r))")
    case True
    then have q: "dr_Name r \<noteq> []" "exact_int (dr_TTL r)" "exact_int (dr_Priority r)" "exact_int (dr_Port r)" "exact_int (dr_Weight r)" "exact_int (dr_Flags r)"
      using assms by (simp_all add: recordable_def)
    show ?thesis
      using True by (simp add: dnsDomainRecordFromOutputMap_def s(1-3) s(4) [OF q(1)] n(1) [OF q(2)] n(2) [OF q(3)] n(3) [OF q(4)]
          n(4) [OF q(5)] n(5) [OF q(6)] Let_def) (simp add: recorded_def)
  next
    case False
    then show ?thesis by (simp add: dnsDomainRecordFromOutputMap_def s(1) Let_def)
  qed
qed

definition kept :: "domain_record list \<Rightarrow> domain_record list" where
  "kept rs = map recorded (filter (\<lambda>r. isSupportedDNSRecordType (to_upper (dr_Type r))) rs)"

lemma records_read_back:
  assumes "list_all recordable rs"
  shows "dnsRecordsFromOutput (after_json (dnsOutput d n rs)) = Ok (kept rs)"
proof -
  have p: "output_records i (map (\<lambda>r. norm_map (record_map r)) rs) = Ok (kept rs)" for i
    using assms by (induction rs arbitrary: i) (simp_all add: kept_def record_map_parsed)
  have o: "output_objects i (map (\<lambda>m. GMap (f m)) xs) = Ok (map f xs)" for i xs and f :: "domain_record \<Rightarrow> cfg"
    by (induction xs arbitrary: i) simp_all
  show ?thesis
  proof (cases "rs = []")
    case True
    then show ?thesis
      by (simp add: dnsRecordsFromOutput_def after_json_def map_of_norm_map dnsOutput_def Let_def kept_def)
  next
    case False
    then have "map_of (out_Outputs (after_json (dnsOutput d n rs))) ''records'' = Some (GAnys (Slice (map (\<lambda>r. GMap (norm_map (record_map r))) rs)))"
      by (simp add: after_json_def map_of_norm_map dnsOutput_def Let_def dnsRecordOutputs_def)
    then show ?thesis by (simp add: dnsRecordsFromOutput_def o [of 0 "\<lambda>r. norm_map (record_map r)"] p)
  qed
qed

section \<open>Finding the declared records again\<close>

lemma data_upper [simp]: "dnsCanonicalRecordData (to_upper ty) d = dnsCanonicalRecordData ty d"
  by (simp add: dnsCanonicalRecordData_def)

lemma tag_upper [simp]: "dnsCanonicalRecordTag (to_upper ty) (dnsCanonicalRecordTag ty tag) = dnsCanonicalRecordTag ty tag"
  by (simp add: dnsCanonicalRecordTag_def equal_fold_def)

lemma tag_idem [simp]: "dnsCanonicalRecordTag (to_upper ty) (dnsCanonicalRecordTag (to_upper ty) tag) = dnsCanonicalRecordTag (to_upper ty) tag"
  by (simp add: dnsCanonicalRecordTag_def)

lemma tag_idem' [simp]: "dnsCanonicalRecordTag ty (dnsCanonicalRecordTag ty tag) = dnsCanonicalRecordTag ty tag"
  by (simp add: dnsCanonicalRecordTag_def)

lemma recorded_matches [simp]: "dnsRecordMatchesRequest (recorded r) req = dnsRecordMatchesRequest r req"
  by (simp add: dnsRecordMatchesRequest_def equal_fold_def dnsRecordDataMatches_def)

lemma identity_upper: "dnsRecordIdentity (to_upper ty) n d p po we f (dnsCanonicalRecordTag ty tag) = dnsRecordIdentity ty n d p po we f tag"
  by (simp add: dnsRecordIdentity_def Let_def del: One_nat_def) (metis tag_upper)

lemma recorded_identity [simp]: "dnsDomainRecordIdentity (recorded r) = dnsDomainRecordIdentity r"
  by (simp add: dnsDomainRecordIdentity_def identity_upper)

lemma match_identity:
  assumes "dnsRecordMatchesRequest r req"
  shows "dnsDomainRecordIdentity r = dnsRecordRequestIdentity req"
proof -
  have ty: "to_upper (dr_Type r) = to_upper (er_Type req)" using assms by (simp add: dnsRecordMatchesRequest_def equal_fold_upper)
  have "dnsCanonicalRecordData (dr_Type r) (dr_Data r) = dnsCanonicalRecordData (er_Type req) (er_Data req)"
    using assms ty by (simp add: dnsRecordMatchesRequest_def dnsRecordDataMatches_def dnsCanonicalRecordData_def)
  then show ?thesis
    using assms ty by (simp add: dnsRecordMatchesRequest_def dnsDomainRecordIdentity_def dnsRecordRequestIdentity_def dnsRecordIdentity_def Let_def)
qed

lemma identity_key:
  assumes "dnsDomainRecordIdentity r = dnsRecordRequestIdentity req" and "recordable r"
    and r: "isSupportedDNSRecordType (to_upper (dr_Type r))" and q: "isSupportedDNSRecordType (er_Type req)" "no_nul (er_Name req)"
  shows "dnsDomainRecordUpsertKey r = dnsRecordRequestUpsertKey req"
proof -
  have nm: "no_nul (dr_Name r)" using assms(2) r by (simp add: recordable_def)
  note sr = supported_upper [OF r] and sq = supported_upper [OF q(1)]
  obtain x y where xy: "dnsDomainRecordIdentity r = to_upper (dr_Type r) @ CHR 0x00 # (dnsCanonicalRecordName (dr_Name r) @ CHR 0x00 # x)"
    "dnsRecordRequestIdentity req = to_upper (er_Type req) @ CHR 0x00 # (dnsCanonicalRecordName (er_Name req) @ CHR 0x00 # y)"
    unfolding dnsDomainRecordIdentity_def dnsRecordRequestIdentity_def using identity_shape by metis
  have "to_upper (dr_Type r) @ CHR 0x00 # (dnsCanonicalRecordName (dr_Name r) @ CHR 0x00 # x)
      = er_Type req @ CHR 0x00 # (dnsCanonicalRecordName (er_Name req) @ CHR 0x00 # y)"
    unfolding xy(1) [symmetric] assms(1) xy(2) using sq by simp
  from nul_split [OF _ _ this] have ty: "to_upper (dr_Type r) = er_Type req"
    and rest: "dnsCanonicalRecordName (dr_Name r) @ CHR 0x00 # x = dnsCanonicalRecordName (er_Name req) @ CHR 0x00 # y"
    using sr sq by simp_all
  have name: "dnsCanonicalRecordName (dr_Name r) = dnsCanonicalRecordName (er_Name req)"
    using nul_split [OF canonical_name_nul [OF nm] canonical_name_nul [OF q(2)] rest] by simp
  have "equal_fold (dr_Type r) ''CNAME'' = equal_fold (er_Type req) ''CNAME''"
    unfolding ty [symmetric] by (simp add: equal_fold_def)
  moreover have "to_upper ''CNAME'' = ''CNAME''" by code_simp
  ultimately show ?thesis
    using assms(1) name ty sq by (simp add: dnsDomainRecordUpsertKey_def dnsRecordRequestUpsertKey_def dnsRecordNameTypeKey_def)
qed

lemma satisfied_first:
  assumes "satisfied rs req" and "list_all recordable rs" and q: "isSupportedDNSRecordType (er_Type req)" "no_nul (er_Name req)"
  shows "\<exists>r rest. dnsRecordsByIdentity (kept rs) (dnsRecordRequestIdentity req) = r # rest \<and> dnsRecordMatchesRequest r req"
proof -
  obtain r c where k: "of_key (dnsRecordRequestUpsertKey req) rs = r # c" and m: "dnsRecordMatchesRequest r req"
    using assms(1) by (auto simp: satisfied_def split: list.splits)
  obtain before after where s: "rs = before @ r # after" "\<forall>x \<in> set before. dnsDomainRecordUpsertKey x \<noteq> dnsRecordRequestUpsertKey req"
    using k by (auto simp: of_key_def filter_eq_Cons_iff)
  have sup: "isSupportedDNSRecordType (to_upper (dr_Type r))"
    using m q supported_upper [OF q(1)] by (simp add: dnsRecordMatchesRequest_def equal_fold_upper)
  have "\<not> (isSupportedDNSRecordType (to_upper (dr_Type x)) \<and> dnsDomainRecordIdentity x = dnsRecordRequestIdentity req)" if "x \<in> set before" for x
  proof
    assume "isSupportedDNSRecordType (to_upper (dr_Type x)) \<and> dnsDomainRecordIdentity x = dnsRecordRequestIdentity req"
    then have "dnsDomainRecordUpsertKey x = dnsRecordRequestUpsertKey req"
      using identity_key [OF _ _ _ q] assms(2) s(1) that by (simp add: list_all_iff)
    then show False using s(2) that by blast
  qed
  then have "dnsRecordsByIdentity (kept before) (dnsRecordRequestIdentity req) = []"
    by (auto simp: dnsRecordsByIdentity_def kept_def filter_empty_conv)
  then show ?thesis
    using m sup match_identity [OF m] by (simp add: s(1) dnsRecordsByIdentity_def kept_def)
qed

lemma find_each_all:
  assumes "\<forall>req \<in> set reqs. \<exists>r rest. byKey (dnsRecordRequestIdentity req) = r # rest \<and> dnsRecordMatchesRequest r req"
    and "distinct (map dnsRecordRequestIdentity reqs)"
  shows "find_each byKey reqs"
  using assms
proof (induction reqs arbitrary: byKey)
  case (Cons req reqs)
  obtain r rest where r: "byKey (dnsRecordRequestIdentity req) = r # rest" "dnsRecordMatchesRequest r req" using Cons.prems(1) by auto
  have "find_each (byKey(dnsRecordRequestIdentity req := rest)) reqs"
    by (rule Cons.IH) (use Cons.prems in \<open>auto simp: image_iff\<close>)
  then show ?case using r by (simp add: Let_def)
qed simp

lemma declared_identities: "well_declared reqs \<Longrightarrow> distinct (map dnsRecordRequestIdentity reqs)"
  by (induction reqs) (auto simp: well_declared_def compatible_def)

section \<open>Absent records\<close>

definition unwanted :: "absent_record list \<Rightarrow> domain_record \<Rightarrow> bool" where
  "unwanted absents r = list_ex (\<lambda>absent. dnsAbsentRecordMatches absent r) absents"

context dns_zone
begin

lemma delete_loop_all:
  assumes "delete_loop env client domain absents rs w = Some (Ok (), w')"
  shows "recs w' = filter (\<lambda>y. \<not> (\<exists>r \<in> set rs. unwanted absents r \<and> dr_ID y = dr_ID r)) (recs w)"
  using assms
proof (induction rs arbitrary: w)
  case Nil
  then show ?case by (simp add: io_ok_def)
next
  case (Cons r rs)
  show ?case
  proof (cases "unwanted absents r")
    case False
    then have "delete_loop env client domain absents rs w = Some (Ok (), w')" using Cons.prems by (simp add: unwanted_def)
    then show ?thesis using Cons.IH False by (auto intro!: filter_cong)
  next
    case True
    then obtain w1 where "Domains_DeleteRecord client domain (dr_ID r) w = Some (Ok (), w1)"
      "delete_loop env client domain absents rs w1 = Some (Ok (), w')"
      using Cons.prems by (auto simp: unwanted_def Let_def elim!: io_bind_OkE io_wrap_OkE dest!: guard_Ok)
    then show ?thesis using Cons.IH True delete_law by (fastforce intro!: filter_cong)
  qed
qed

lemma deleteRecords_all:
  assumes "deleteRecords env client domain absents w = Some (Ok (), w')"
  shows "recs w' = filter (\<lambda>r. \<not> unwanted absents r) (recs w)"
proof (cases "absents = []")
  case True
  then show ?thesis using assms by (simp add: deleteRecords_def io_ok_def unwanted_def)
next
  case False
  then have "delete_loop env client domain absents (recs w) w = Some (Ok (), w')"
    using assms by (simp add: deleteRecords_def io_bind_def list_recs)
  moreover have "(\<exists>r \<in> set (recs w). unwanted absents r \<and> dr_ID y = dr_ID r) \<longleftrightarrow> unwanted absents y" if "y \<in> set (recs w)" for y
    using that ids_distinct [of w] by (metis distinct_map inj_onD)
  ultimately show ?thesis using delete_loop_all by (auto intro!: filter_cong)
qed

end

section \<open>Nothing left to do\<close>

lemma unwanted_declared:
  assumes "validateDNSAbsentRecordsDoNotConflict reqs absents = Ok ()" and "req \<in> set reqs" and "isSupportedDNSRecordType (er_Type req)"
    and "\<forall>a \<in> set absents. isSupportedDNSRecordType (ab_Type a)" and "dnsRecordMatchesRequest r req"
  shows "\<not> unwanted absents r"
proof
  assume "unwanted absents r"
  then obtain a where a: "a \<in> set absents" "dnsAbsentRecordMatches a r" by (auto simp: unwanted_def list_ex_iff)
  have "to_upper (ab_Type a) = to_upper (er_Type req)"
    using a(2) assms(5) by (simp add: dnsAbsentRecordMatches_def dnsRecordMatchesRequest_def equal_fold_upper)
  then have ty: "ab_Type a = er_Type req" using supported_upper assms(3,4) a(1) by metis
  have "dnsCanonicalRecordData (dr_Type r) d = dnsCanonicalRecordData (ab_Type a) d" for d
    using assms(5) ty by (simp add: dnsRecordMatchesRequest_def equal_fold_upper dnsCanonicalRecordData_def)
  then have "both_declared_and_absent absents req"
    using a assms(5) ty by (auto simp: both_declared_and_absent_def list_ex_iff dnsAbsentRecordMatches_def dnsRecordMatchesRequest_def dnsRecordDataMatches_def)
  then show False using assms(1,2) by (auto simp: validateDNSAbsentRecordsDoNotConflict_def first_match_None split: option.splits)
qed

lemma absent_types:
  "absent_loop i out ms = Ok absents \<Longrightarrow> \<forall>a \<in> set out. isSupportedDNSRecordType (ab_Type a) \<Longrightarrow> \<forall>a \<in> set absents. isSupportedDNSRecordType (ab_Type a)"
proof (induction ms arbitrary: i out)
  case (Cons m ms)
  obtain ty where ty: "isSupportedDNSRecordType (to_upper ty)" and
    rest: "res_bind (dnsOptionalStringFieldWithLabel i m ''name'' ''@'' ''absent_records'') (\<lambda>name.
     res_bind (dnsOptionalStringFieldWithLabel i m ''data'' [] ''absent_records'') (\<lambda>dat.
     let absent = \<lparr>ab_Type = to_upper ty, ab_Name = name, ab_Data = dat\<rparr> in
     res_bind (validateDNSAbsentRecord i absent) (\<lambda>_.
     if dnsAbsentRecordIdentity absent \<in> set (map dnsAbsentRecordIdentity out) then absent_loop (i + 1) out ms
     else absent_loop (i + 1) (out @ [absent]) ms))) = Ok absents"
    using Cons.prems(1) unfolding absent_loop.simps Let_def by (elim res_bind_OkE) (simp split: if_splits)
  from rest show ?case
    unfolding Let_def
  proof (elim res_bind_OkE)
    fix name dat u
    let ?a = "\<lparr>ab_Type = to_upper ty, ab_Name = name, ab_Data = dat\<rparr>"
    assume "(if dnsAbsentRecordIdentity ?a \<in> set (map dnsAbsentRecordIdentity out) then absent_loop (i + 1) out ms
       else absent_loop (i + 1) (out @ [?a]) ms) = Ok absents"
    then show ?thesis
      using Cons.IH [of "i + 1" out] Cons.IH [of "i + 1" "out @ [?a]"] Cons.prems(2) ty by (auto split: if_splits)
  qed
qed simp

lemma declared_absent_types: "declaredAbsentDNSRecords config = Ok absents \<Longrightarrow> \<forall>a \<in> set absents. isSupportedDNSRecordType (ab_Type a)"
  by (auto simp: declaredAbsentDNSRecords_def res_bind_Ok_iff split: option.splits dest: absent_types [where out = "[]"])

lemma io_bind_resE:
  assumes "io_bind (io_res r) f w = Some (Ok y, w')"
  obtains x where "r = Ok x" "f x w = Some (Ok y, w')"
  using assms by (auto simp: io_bind_res split: res.splits)

context dns_zone
begin

lemma update_outcome:
  assumes "dns_Update vd env client ref spec w = Some (Ok out, w')" and "dnsDomainFromConfig vd (spec_Config spec) (ref_ProviderID ref) = Ok domain"
  obtains reqs absents w1 w2 d where "declaredDNSRecords (spec_Config spec) = Ok reqs" "declaredAbsentDNSRecords (spec_Config spec) = Ok absents"
    "validateDNSAbsentRecordsDoNotConflict reqs absents = Ok ()" "recs w1 = filter (\<lambda>r. \<not> unwanted absents r) (recs w)"
    "upsertRecords env client domain reqs w1 = Some (Ok (), w2)" "recs w' = recs w2" "out = dnsOutput d (ref_Name ref) (recs w2)" "dom_Name d = domain"
proof -
  from assms(1) obtain reqs absents where a: "declaredDNSRecords (spec_Config spec) = Ok reqs" "declaredAbsentDNSRecords (spec_Config spec) = Ok absents"
    and b: "(if ref_ProviderID ref \<noteq> [] \<and> \<not> equal_fold domain (ref_ProviderID ref)
     then io_err (Errorf ''dns update %q: cannot change domain from %q to %q'' [FStr (ref_Name ref), FStr (ref_ProviderID ref), FStr domain])
     else
     io_bind (io_res (validateDNSAbsentRecordsDoNotConflict reqs absents)) (\<lambda>_.
     io_bind (deleteRecords env client domain absents) (\<lambda>_.
     io_bind (upsertRecords env client domain reqs) (\<lambda>_.
     dns_Read client \<lparr>ref_Name = ref_Name ref, ref_Type = [], ref_ProviderID = domain\<rparr>)))) w = Some (Ok out, w')"
    unfolding dns_Update_def assms(2) by (elim io_bind_resE) auto
  from b have "io_bind (io_res (validateDNSAbsentRecordsDoNotConflict reqs absents)) (\<lambda>_.
     io_bind (deleteRecords env client domain absents) (\<lambda>_.
     io_bind (upsertRecords env client domain reqs) (\<lambda>_.
     dns_Read client \<lparr>ref_Name = ref_Name ref, ref_Type = [], ref_ProviderID = domain\<rparr>))) w = Some (Ok out, w')"
    by (simp add: io_err_def split: if_splits)
  then obtain w1 w2 where c: "validateDNSAbsentRecordsDoNotConflict reqs absents = Ok ()" "deleteRecords env client domain absents w = Some (Ok (), w1)"
    "upsertRecords env client domain reqs w1 = Some (Ok (), w2)"
    and rd: "dns_Read client \<lparr>ref_Name = ref_Name ref, ref_Type = [], ref_ProviderID = domain\<rparr> w2 = Some (Ok out, w')"
    by (elim io_bind_resE io_bind_OkE) auto
  from rd obtain dm w3 where g: "Domains_Get client domain w2 = Some (Ok dm, w3)"
    and g2: "io_bind (io_res (validateDNSDomainResponse domain ''read domain'' dm)) (\<lambda>_.
      io_bind (listRecords client domain) (\<lambda>records.
      io_deref dm (\<lambda>d. io_ok (dnsOutput d (ref_Name ref) records)))) w3 = Some (Ok out, w')"
    unfolding dns_Read_def Let_def by (rule io_bind_OkE) (erule io_wrap_OkE, simp)
  from g2 have "io_bind (listRecords client domain) (\<lambda>records.
      io_deref dm (\<lambda>d. io_ok (dnsOutput d (ref_Name ref) records))) w3 = Some (Ok out, w')"
    by (rule io_bind_resE)
  then have "io_deref dm (\<lambda>d. io_ok (dnsOutput d (ref_Name ref) (recs w3))) w3 = Some (Ok out, w')"
    unfolding io_bind_SomeD [OF list_recs] .
  then have "\<exists>d. dm = Some d \<and> dnsOutput d (ref_Name ref) (recs w3) = out \<and> w3 = w'"
    by (cases dm) (simp_all only: io_deref_simps io_ok_def io_panic_def option.inject prod.inject res.inject res.distinct simp_thms ex_simps, blast)
  then obtain d where d: "dm = Some d" "dnsOutput d (ref_Name ref) (recs w3) = out" "w3 = w'" by (elim exE conjE)
  have r3: "recs w3 = recs w2" and nm: "dom_Name d = domain" using get_law [OF g] d(1) by simp_all
  show thesis
    by (rule that [OF a c(1) deleteRecords_all [OF c(2)] c(3)]) (use d(2) r3 nm in \<open>simp_all add: d(3) [symmetric]\<close>)
qed

end

text \<open>
  C9: after an update there is nothing left to do. On a zone nobody else writes to, once
  \<^verbatim>\<open>DNSDriver.Update\<close> has succeeded for a configuration (declared and absent records alike), and as
  long as the numbers in the zone's records are exact in JSON and their names not empty,
  \<^verbatim>\<open>DNSDriver.Diff\<close> of that configuration against the recorded output asks for no update and no
  replacement.
\<close>

theorem dns_update_then_diff:
  assumes zone: "dns_zone env client domain recs" and dm: "dnsDomainFromConfig vd (spec_Config spec) (ref_ProviderID ref) = Ok domain"
    and up: "dns_Update vd env client ref spec w = Some (Ok out, w')" and exact: "list_all recordable (recs w')"
  shows "dns_Diff vd client spec (Some (after_json out)) w' = Some (Ok \<lparr>NeedsUpdate = False, NeedsReplace = False, Changes = []\<rparr>, w')"
proof -
  obtain reqs absents w1 w2 d where u: "declaredDNSRecords (spec_Config spec) = Ok reqs" "declaredAbsentDNSRecords (spec_Config spec) = Ok absents"
    "validateDNSAbsentRecordsDoNotConflict reqs absents = Ok ()" "recs w1 = filter (\<lambda>r. \<not> unwanted absents r) (recs w)"
    "upsertRecords env client domain reqs w1 = Some (Ok (), w2)" "recs w' = recs w2" "out = dnsOutput d (ref_Name ref) (recs w2)" "dom_Name d = domain"
    by (rule dns_zone.update_outcome [OF zone up dm])
  note wd = declared_well [OF u(1)]
  have done1: "all_done reqs (recs w1) (recs w')"
    using dns_zone.upsert_converges [OF zone u(5) wd] u(6) by simp
  have sup: "isSupportedDNSRecordType (er_Type q) \<and> no_nul (er_Name q)" if "q \<in> set reqs" for q using wd that by (auto simp: well_declared_def)
  have none: "\<not> dnsAnyAbsentRecordPresent absents (recs w')"
  proof -
    have "\<not> unwanted absents r" if r: "r \<in> set (recs w')" for r
    proof -
      consider "r \<in> set (recs w1)" | q where "q \<in> set reqs" "dnsRecordMatchesRequest r q" using done1 r by (auto simp: all_done_def)
      then show ?thesis using u(4) unwanted_declared [OF u(3)] sup declared_absent_types [OF u(2)] by cases auto
    qed
    then show ?thesis by (auto simp: dnsAnyAbsentRecordPresent_def unwanted_def list_ex_iff)
  qed
  have found: "find_each (dnsRecordsByIdentity (kept (recs w'))) reqs"
    using done1 satisfied_first [OF _ exact] sup declared_identities [OF wd] by (intro find_each_all) (auto simp: all_done_def)
  obtain dd has where p: "dnsDomainFromConfigIfPresent vd (spec_Config spec) = Ok (dd, has)" "has \<Longrightarrow> dd = domain" "domain \<noteq> []"
    using dm by (auto simp: dnsDomainFromConfig_def res_bind_Ok_iff Let_def split: if_splits)
  have pid: "out_ProviderID (after_json out) = domain" using u(7,8) by (simp add: after_json_def dnsOutput_def Let_def)
  have readback: "dnsRecordsFromOutput (after_json out) = Ok (kept (recs w'))" using records_read_back [OF exact] u(6,7) by simp
  have dom2: "(if has then dd else domain) = domain" using p(2) by simp
  have same: "\<not> (has \<and> \<not> equal_fold dd domain)" using p(2) by auto
  have abs_nil: "absents = [] \<Longrightarrow> \<not> dnsAnyAbsentRecordPresent absents rs" for rs by (simp add: dnsAnyAbsentRecordPresent_def list_ex_iff)
  show ?thesis
    unfolding dns_Diff_def p(1) u(1,2,3) pid io_bind_res res.case case_prod_conv option.case if_not_P [OF same] readback dom2 Let_def
    using none found abs_nil p(3) dns_zone.list_recs [OF zone, of w']
    by (simp add: io_bind_def io_ok_def needs_def)
qed

definition ex_zone_spec :: resource_spec where
  "ex_zone_spec = \<lparr>spec_Name = ''site'', spec_Type = ''infra.dns'', spec_Config = ex_zone_config\<rparr>"

definition ex_zone_ref :: resource_ref where
  "ex_zone_ref = \<lparr>ref_Name = ''site'', ref_Type = ''infra.dns'', ref_ProviderID = ''example.com''\<rparr>"

definition ex_zone_after :: "domain_record list" where
  "ex_zone_after = [ex_zone ! 0, record_of 2 (ex_requests ! 1), record_of 3 (ex_requests ! 0)]"

lemma ex_update:
  "dns_Update (\<lambda>_. True) calm mem_domains ex_zone_ref ex_zone_spec ex_zone
    = Some (Ok (dnsOutput \<lparr>dom_Name = ''example.com'', dom_TTL = 1800, dom_ZoneFile = []\<rparr> ''site'' ex_zone_after), ex_zone_after)"
proof -
  have d: "dnsDomainFromConfig (\<lambda>_. True) ex_zone_config ''example.com'' = Ok ''example.com''" by code_simp
  have a: "declaredAbsentDNSRecords ex_zone_config = Ok []" by code_simp
  have z: "zone_of ex_zone_after = ex_zone_after" by code_simp
  have l: "listRecords mem_domains ''example.com'' ex_zone_after = Some (Ok ex_zone_after, ex_zone_after)"
    using mem_zone.list_recs [of "''example.com''" ex_zone_after] by (simp add: z)
  have r: "dns_Read mem_domains \<lparr>ref_Name = ''site'', ref_Type = [], ref_ProviderID = ''example.com''\<rparr> ex_zone_after
    = Some (Ok (dnsOutput \<lparr>dom_Name = ''example.com'', dom_TTL = 1800, dom_ZoneFile = []\<rparr> ''site'' ex_zone_after), ex_zone_after)"
    unfolding dns_Read_def Let_def
    by (simp add: io_bind_def io_wrap_def io_handle_def mem_domains_def [THEN arg_cong [where f = Domains_Get]] validateDNSDomainResponse_def
        io_res_def io_ok_def l)
  have cfg: "spec_Config ex_zone_spec = ex_zone_config" and rf: "ref_ProviderID ex_zone_ref = ''example.com''" "ref_Name ex_zone_ref = ''site''"
    by (simp_all add: ex_zone_spec_def ex_zone_ref_def)
  have no: "\<not> (''example.com'' \<noteq> [] \<and> \<not> equal_fold ''example.com'' ''example.com'')" by simp
  have v: "validateDNSAbsentRecordsDoNotConflict ex_requests [] = Ok ()" by code_simp
  have del: "deleteRecords calm mem_domains ''example.com'' [] ex_zone = Some (Ok (), ex_zone)" by (simp add: deleteRecords_def io_ok_def)
  show ?thesis
    unfolding dns_Update_def cfg rf io_bind_res d a ex_zone_run(1) v res.case if_not_P [OF no] io_bind_SomeD [where m = "deleteRecords calm mem_domains ''example.com'' []", OF del]
      io_bind_SomeD [where m = "upsertRecords calm mem_domains ''example.com'' ex_requests", OF ex_zone_run(2)] ex_zone_after_def [symmetric] r ..
qed

theorem dns_update_then_diff_witness:
  "\<exists>out. dns_Update (\<lambda>_. True) calm mem_domains ex_zone_ref ex_zone_spec ex_zone = Some (Ok out, ex_zone_after)
     \<and> dns_Diff (\<lambda>_. True) mem_domains ex_zone_spec (Some (after_json out)) ex_zone_after
       = Some (Ok \<lparr>NeedsUpdate = False, NeedsReplace = False, Changes = []\<rparr>, ex_zone_after)"
proof -
  have d: "dnsDomainFromConfig (\<lambda>_. True) (spec_Config ex_zone_spec) (ref_ProviderID ex_zone_ref) = Ok ''example.com''" by code_simp
  have r: "list_all recordable (zone_of ex_zone_after)" by code_simp
  show ?thesis using dns_update_then_diff [OF mem_zone.dns_zone_axioms d ex_update r] ex_update by blast
qed

end
