(* ===== verification/AppDomain.thy ===== *)
theory AppDomain
  imports AppSpecBuild Errors
begin

text \<open>
  The driver of a single domain of an app (\<^verbatim>\<open>internal/drivers/app_domain.go\<close>): it edits the entry
  of one domain in the spec of an app and leaves the rest of the spec as it is. The domain
  functions the readiness checks share are here as well.
\<close>

section \<open>Domains of an app\<close>

definition parseAppDomainProviderID :: "string \<Rightarrow> (string \<times> string) res" where
  "parseAppDomainProviderID providerID = (case cut_at (CHR ''/'') providerID of
     None \<Rightarrow> Err (Errorf ''provider_id must be <app-id>/<domain>'' [])
   | Some (appID, domain) \<Rightarrow>
     if trim_space appID = [] \<or> trim_space domain = [] then Err (Errorf ''provider_id must be <app-id>/<domain>'' [])
     else Ok (appID, domain))"

definition requiredString :: "cfg \<Rightarrow> string \<Rightarrow> string res" where
  "requiredString config key =
     (let value = trim_space (str_or_empty (map_of config key)) in
      if value = [] then Err (Errorf ''config requires %s'' [FStr key]) else Ok value)"

definition appDomainSpecFromConfig :: "string \<Rightarrow> cfg \<Rightarrow> app_domain res" where
  "appDomainSpecFromConfig domain config =
     res_bind (validateAppDomainTypeConfig config) (\<lambda>_.
     Ok \<lparr>ad_Domain = domain, ad_Type = desiredDomainType config, ad_Zone = str_or_empty (map_of config ''zone''),
         ad_Certificate = str_or_empty (map_of config ''certificate''),
         ad_MinimumTLSVersion = str_or_empty (map_of config ''minimum_tls_version''), ad_Wildcard = bool_or config ''wildcard''\<rparr>)"

definition same_domain :: "string \<Rightarrow> app_domain option \<Rightarrow> bool" where
  "same_domain domain entry = (case entry of None \<Rightarrow> False | Some d \<Rightarrow> equal_fold (ad_Domain d) domain)"

definition mergeAppDomain :: "app_domain option list \<Rightarrow> app_domain \<Rightarrow> app_domain option list" where
  "mergeAppDomain existing desired =
     (let out = map (\<lambda>d. if same_domain (ad_Domain desired) d then Some desired else d) existing
      in if list_ex (same_domain (ad_Domain desired)) existing then out else out @ [Some desired])"

definition findAppDomain :: "app \<Rightarrow> string \<Rightarrow> app_domain option" where
  "findAppDomain a domain = (case app_Spec a of
     None \<Rightarrow> None
   | Some spec \<Rightarrow> (case first_match (same_domain domain) (as_Domains spec) of Some d \<Rightarrow> d | None \<Rightarrow> None))"

definition live_domain_of :: "string \<Rightarrow> live_domain option \<Rightarrow> bool" where
  "live_domain_of domain entry = (case entry of None \<Rightarrow> False | Some l \<Rightarrow> same_domain domain (lv_Spec l))"

definition findLiveAppDomain :: "app \<Rightarrow> string \<Rightarrow> live_domain option" where
  "findLiveAppDomain a domain = (case first_match (live_domain_of domain) (app_Domains a) of Some l \<Rightarrow> l | None \<Rightarrow> None)"

section \<open>The progress of a domain\<close>

definition reason_text :: "step_reason option \<Rightarrow> string" where
  "reason_text reason = (case reason of
     None \<Rightarrow> []
   | Some r \<Rightarrow>
     let code = trim_space (sr_Code r)
     in if sr_Message r = [] then code else (if code = [] then [] else code @ '': '') @ trim_space (sr_Message r))"

definition step_text :: "string \<Rightarrow> string \<Rightarrow> step_reason option \<Rightarrow> string" where
  "step_text name status reason =
     (let current = (if trim_space name = [] then ''step'' else trim_space name);
          current = (if status = [] then current else current @ '': '' @ status)
      in if reason_text reason = [] then current else current @ '' '' @ reason_text reason)"

fun collectDomainProgressStep :: "domain_step option \<Rightarrow> string list" where
  "collectDomainProgressStep None = []"
| "collectDomainProgressStep (Some (DomainStep name status reason steps)) =
     step_text name status reason # concat (map collectDomainProgressStep steps)"

definition appDomainProgressSummary :: "domain_step option list option \<Rightarrow> string" where
  "appDomainProgressSummary progress = (case progress of
     None \<Rightarrow> [] | Some steps \<Rightarrow> str_join ''; '' (concat (map collectDomainProgressStep steps)))"

definition liveDomainHealthMessage :: "live_domain \<Rightarrow> string" where
  "liveDomainHealthMessage live =
     (let progress = appDomainProgressSummary (lv_Progress live)
      in ''domain phase '' @ lv_Phase live @ (if progress = [] then [] else '': '' @ progress))"

definition appDomainStatus :: "string \<Rightarrow> string" where
  "appDomainStatus phase =
     (if phase = ''ACTIVE'' then ''active'' else if phase = ''PENDING'' then ''pending''
      else if phase = ''CONFIGURING'' then ''configuring'' else if phase = ''ERROR'' then ''error''
      else if phase = ''UNKNOWN'' \<or> phase = [] then ''unknown'' else to_lower phase)"

section \<open>Outputs\<close>

text \<open>\<open>lv_CertificateExpiresAt\<close> is the time in RFC 3339, or nothing for the zero time.\<close>

definition addLiveDomainOutputs :: "live_domain \<Rightarrow> cfg" where
  "addLiveDomainOutputs live =
     [(''phase'', GStr (lv_Phase live))]
     @ (if lv_ID live = [] then [] else [(''domain_id'', GStr (lv_ID live))])
     @ (case lv_CertificateExpiresAt live of None \<Rightarrow> [] | Some t \<Rightarrow> [(''certificate_expires_at'', GStr t)])
     @ (case lv_Validation live of
          None \<Rightarrow> [] | Some (n, v) \<Rightarrow> [(''validation_txt_name'', GStr n), (''validation_txt_value'', GStr v)])
     @ (let validations = List.map_filter (map_option (\<lambda>(n, v). GMap [(''txt_name'', GStr n), (''txt_value'', GStr v)])) (lv_Validations live)
        in if validations = [] then [] else [(''validations'', GAnys (Slice validations))])
     @ (let progress = appDomainProgressSummary (lv_Progress live) in if progress = [] then [] else [(''progress'', GStr progress)])"

definition appDomainOutput :: "string \<Rightarrow> app \<Rightarrow> app_domain \<Rightarrow> live_domain option \<Rightarrow> resource_output" where
  "appDomainOutput name a domain live =
     \<lparr>out_Name = name, out_Type = ''infra.app_domain'', out_ProviderID = app_ID a @ ''/'' @ ad_Domain domain,
      out_Outputs =
        [(''app_id'', GStr (app_ID a)), (''app'', GStr (case app_Spec a of Some s \<Rightarrow> as_Name s | None \<Rightarrow> [])),
         (''domain'', GStr (ad_Domain domain)), (''type'', GStr (ad_Type domain)), (''zone'', GStr (ad_Zone domain)),
         (''certificate'', GStr (ad_Certificate domain)), (''minimum_tls_version'', GStr (ad_MinimumTLSVersion domain)),
         (''wildcard'', GBool (ad_Wildcard domain))]
        @ (case live of None \<Rightarrow> [] | Some l \<Rightarrow> addLiveDomainOutputs l),
      out_Sensitive = [], out_Status = (case live of None \<Rightarrow> ''configured'' | Some l \<Rightarrow> appDomainStatus (lv_Phase l))\<rparr>"

section \<open>The driver\<close>

definition domain_getApp :: "'w app_client \<Rightarrow> string \<Rightarrow> ('w, app) io" where
  "domain_getApp client appID =
     io_bind (io_wrap WrapGodoError (Apps_Get client appID)) (\<lambda>r. case r of
       Some a \<Rightarrow> if app_ID a = [] then io_err (Wrapf ''app %q: %w'' [FStr appID] (Sentinel ErrResourceNotFound)) else io_ok a
     | None \<Rightarrow> io_err (Wrapf ''app %q: %w'' [FStr appID] (Sentinel ErrResourceNotFound)))"

definition named_app :: "string \<Rightarrow> app option \<Rightarrow> bool" where
  "named_app name a_opt = (case a_opt of
     None \<Rightarrow> False | Some a \<Rightarrow> (case app_Spec a of None \<Rightarrow> False | Some spec \<Rightarrow> as_Name spec = name))"

definition findAppObjectByName :: "'w app_client \<Rightarrow> string \<Rightarrow> ('w, app) io" where
  "findAppObjectByName client name =
     io_bind (io_wrap (\<lambda>e. Wrapf ''app platform list: %w'' [] (WrapGodoError e)) (find_page (Apps_List client) (named_app name) 1)) (\<lambda>r.
     case r of
       Some (Some a) \<Rightarrow> io_ok a
     | _ \<Rightarrow> io_err (Wrapf ''app %q: %w'' [FStr name] (Sentinel ErrResourceNotFound)))"

definition resolveApp :: "'w app_client \<Rightarrow> resource_ref \<Rightarrow> resource_spec \<Rightarrow> ('w, app) io" where
  "resolveApp client ref spec = (case parseAppDomainProviderID (ref_ProviderID ref) of
     Ok (appID, _) \<Rightarrow> domain_getApp client appID
   | _ \<Rightarrow>
     let appID = str_or_empty (map_of (spec_Config spec) ''app_id''); appName = str_or_empty (map_of (spec_Config spec) ''app'')
     in if appID \<noteq> [] then domain_getApp client appID
        else if appName = [] then io_err (Errorf ''config requires app or app_id'' [])
        else findAppObjectByName client appName)"

text \<open>When the API answers no app, the driver goes on with the app it has edited.\<close>

definition domain_upsert :: "'w app_client \<Rightarrow> resource_ref \<Rightarrow> resource_spec \<Rightarrow> ('w, resource_output) io" where
  "domain_upsert client ref spec =
     (let wrap = Wrapf ''app domain upsert %q: %w'' [FStr (spec_Name spec)] in
      io_bind (io_res (res_wrap wrap (requiredString (spec_Config spec) ''domain''))) (\<lambda>domain.
      io_bind (io_wrap wrap (resolveApp client ref spec)) (\<lambda>a.
      case app_Spec a of
        None \<Rightarrow> io_err (Errorf ''app domain upsert %q: app %q has nil spec'' [FStr (spec_Name spec), FStr (app_ID a)])
      | Some app_spec \<Rightarrow>
        io_bind (io_res (res_wrap wrap (appDomainSpecFromConfig domain (spec_Config spec)))) (\<lambda>desired.
        let spec' = app_spec\<lparr>as_Domains := mergeAppDomain (as_Domains app_spec) desired\<rparr> in
        io_bind (io_wrap (\<lambda>e. wrap (WrapGodoError e)) (Apps_Update client (app_ID a) spec')) (\<lambda>r.
        let updated = (case r of Some u \<Rightarrow> u | None \<Rightarrow> a\<lparr>app_Spec := Some spec'\<rparr>);
            found = (case findAppDomain updated domain of Some d \<Rightarrow> d | None \<Rightarrow> desired)
        in io_ok (appDomainOutput (spec_Name spec) updated found (findLiveAppDomain updated domain)))))))"

definition domain_Create :: "'w app_client \<Rightarrow> resource_spec \<Rightarrow> ('w, resource_output) io" where
  "domain_Create client spec = domain_upsert client \<lparr>ref_Name = spec_Name spec, ref_Type = spec_Type spec, ref_ProviderID = []\<rparr> spec"

definition domain_Update :: "'w app_client \<Rightarrow> resource_ref \<Rightarrow> resource_spec \<Rightarrow> ('w, resource_output) io" where
  "domain_Update client ref spec = domain_upsert client ref spec"

definition readAppDomain :: "'w app_client \<Rightarrow> resource_ref \<Rightarrow> ('w, app \<times> app_domain \<times> live_domain option) io" where
  "readAppDomain client ref =
     io_bind (io_res (parseAppDomainProviderID (ref_ProviderID ref))) (\<lambda>(appID, domain).
     io_bind (domain_getApp client appID) (\<lambda>a.
     let live = findLiveAppDomain a domain;
         found = (case findAppDomain a domain of Some d \<Rightarrow> Some d | None \<Rightarrow> (case live of Some l \<Rightarrow> lv_Spec l | None \<Rightarrow> None))
     in case found of
          None \<Rightarrow> io_err (Wrapf ''app domain %q on app %q: %w'' [FStr domain, FStr appID] (Sentinel ErrResourceNotFound))
        | Some d \<Rightarrow> io_ok (a, d, live)))"

definition domain_Read :: "'w app_client \<Rightarrow> resource_ref \<Rightarrow> ('w, resource_output) io" where
  "domain_Read client ref =
     io_bind (io_wrap (Wrapf ''app domain read %q: %w'' [FStr (ref_Name ref)]) (readAppDomain client ref)) (\<lambda>(a, d, live).
     io_ok (appDomainOutput (ref_Name ref) a d live))"

definition domain_Delete :: "'w app_client \<Rightarrow> resource_ref \<Rightarrow> ('w, unit) io" where
  "domain_Delete client ref =
     (let wrap = Wrapf ''app domain delete %q: %w'' [FStr (ref_Name ref)] in
      io_bind (io_res (res_wrap wrap (parseAppDomainProviderID (ref_ProviderID ref)))) (\<lambda>(appID, domain).
      io_bind (io_wrap wrap (domain_getApp client appID)) (\<lambda>a.
      case app_Spec a of
        None \<Rightarrow> io_err (Errorf ''app domain delete %q: app %q has nil spec'' [FStr (ref_Name ref), FStr appID])
      | Some spec \<Rightarrow>
        let domains = filter (\<lambda>d. \<not> same_domain domain d) (as_Domains spec) in
        if length domains = length (as_Domains spec) then io_ok ()
        else io_bind (io_wrap (\<lambda>e. wrap (WrapGodoError e)) (Apps_Update client (app_ID a) (spec\<lparr>as_Domains := domains\<rparr>))) (\<lambda>_. io_ok ()))))"

definition optional_field_step :: "bool \<Rightarrow> cfg \<Rightarrow> cfg \<Rightarrow> string \<Rightarrow> diff_state \<Rightarrow> diff_state" where
  "optional_field_step force config outs key s =
     (let want = str_or_empty (map_of config key); cur = str_or_empty (map_of outs key)
      in diff_step (want \<noteq> [] \<and> cur \<noteq> want) ((if force then change_new else change) key (GStr cur) (GStr want)) s)"

definition domain_diff_state :: "cfg \<Rightarrow> cfg \<Rightarrow> string \<Rightarrow> diff_state" where
  "domain_diff_state config outs domain =
     (let curDomain = str_or_empty (map_of outs ''domain''); curType = str_or_empty (map_of outs ''type'');
          desiredType = desiredDomainType config; curWildcard = bool_or outs ''wildcard'';
          s1 = diff_step (\<not> equal_fold curDomain domain) (change_new ''domain'' (GStr curDomain) (GStr domain)) ([], False);
          s2 = optional_field_step True config outs ''app'' (optional_field_step True config outs ''app_id'' s1);
          s3 = diff_step (desiredType \<noteq> [] \<and> to_upper curType \<noteq> desiredType) (change ''type'' (GStr curType) (GStr desiredType)) s2;
          s4 = fold (optional_field_step False config outs) [''zone'', ''certificate'', ''minimum_tls_version''] s3
      in case as_bool (map_of config ''wildcard'') of
           None \<Rightarrow> s4
         | Some want \<Rightarrow> diff_step (curWildcard \<noteq> want) (change ''wildcard'' (GBool curWildcard) (GBool want)) s4)"

definition domain_Diff :: "resource_spec \<Rightarrow> resource_output option \<Rightarrow> diff_result res" where
  "domain_Diff desired current =
     (let wrap = Wrapf ''app domain diff %q: %w'' [FStr (spec_Name desired)] in
      res_bind (res_wrap wrap (requiredString (spec_Config desired) ''domain'')) (\<lambda>domain.
      case current of
        None \<Rightarrow> Ok diff_absent
      | Some cur \<Rightarrow>
        res_bind (res_wrap wrap (validateAppDomainTypeConfig (spec_Config desired))) (\<lambda>_.
        let (changes, _) = domain_diff_state (spec_Config desired) (out_Outputs cur) domain
        in Ok \<lparr>NeedsUpdate = (changes \<noteq> []), NeedsReplace = hasForceNewChange changes, Changes = changes\<rparr>)))"

definition domain_HealthCheck :: "'w app_client \<Rightarrow> resource_ref \<Rightarrow> ('w, health_result) io" where
  "domain_HealthCheck client ref =
     io_handle (readAppDomain client ref)
       (\<lambda>(_, d, live). case live of
          None \<Rightarrow> io_ok \<lparr>Healthy = False,
            Message = Format ''domain %s configured in app spec but live domain status is not reported'' [FStr (ad_Domain d)]\<rparr>
        | Some l \<Rightarrow> io_ok \<lparr>Healthy = (lv_Phase l = ''ACTIVE''), Message = Text (liveDomainHealthMessage l)\<rparr>)
       (\<lambda>e. io_ok \<lparr>Healthy = False, Message = ErrorText e\<rparr>)"

definition domain_Scale :: "resource_ref \<Rightarrow> int \<Rightarrow> ('w, resource_output) io" where
  "domain_Scale ref replicas = io_err (Errorf ''app domain scale: unsupported'' [])"

end
