(* ===== verification/AppStore.thy ===== *)
theory AppStore
  imports AppTypes
begin

text \<open>
  The apps behind the client of the apps service, when only the plugin writes to them: what the
  drivers rely on, and a store in memory that keeps the promises.
\<close>

definition app_id :: "string \<Rightarrow> bool" where
  "app_id i = (trim_space i \<noteq> [] \<and> CHR ''/'' \<notin> set i)"

text \<open>
  Reading an app changes nothing and answers the app, if there is one; an update that succeeds
  stores the given spec under the id and answers the app or nothing; other updates change nothing.
  Only apps of the store are listed.
\<close>

locale app_store =
  fixes client :: "'w app_client" and apps :: "'w \<Rightarrow> string \<Rightarrow> app option"
  assumes stored_id: "apps w i = Some a \<Longrightarrow> app_ID a = i \<and> app_id i"
    and get_law: "Apps_Get client i w = Some (got, w') \<Longrightarrow> apps w' = apps w \<and> (\<forall>x. got = Ok x \<longrightarrow> x = apps w i)"
    and update_law: "Apps_Update client i new_spec w = Some (r, w') \<Longrightarrow>
      (case r of Ok x \<Rightarrow> \<exists>a. apps w i \<noteq> None \<and> apps w' = (apps w)(i \<mapsto> a) \<and> app_ID a = i \<and> app_Spec a = Some new_spec \<and> (x = None \<or> x = Some a)
       | _ \<Rightarrow> apps w' = apps w)"
    and list_law: "\<exists>pages. paged_list (Apps_List client) pages
      \<and> (\<forall>w. \<forall>x \<in> set (concat (pages w)). \<exists>a. x = Some a \<and> apps w (app_ID a) = Some a)"
begin

lemma update_OkE:
  assumes "Apps_Update client i new_spec w = Some (Ok x, w')"
  obtains a where "apps w' = (apps w)(i \<mapsto> a)" "app_ID a = i" "app_Spec a = Some new_spec" "x = None \<or> x = Some a"
  using update_law [OF assms] by auto

lemma find_listed:
  assumes "find_page (Apps_List client) p 1 w = Some (Ok (Some (Some a)), w')"
  shows "w' = w" "p (Some a)" "apps w (app_ID a) = Some a"
proof -
  obtain pages where p: "paged_list (Apps_List client) pages"
    and m: "\<forall>x \<in> set (concat (pages w)). \<exists>a. x = Some a \<and> apps w (app_ID a) = Some a" using list_law by blast
  have e: "(Ok (first_match p (concat (pages w))), w) = (Ok (Some (Some a)), w')"
    using assms unfolding paged_list.find_page_all [OF p] by (rule option.inject [THEN iffD1])
  then have f: "first_match p (concat (pages w)) = Some (Some a)" and w: "w' = w" by auto
  show "w' = w" "p (Some a)" "apps w (app_ID a) = Some a"
    using w m first_match_Some [OF f] by force+
qed

end

section \<open>Apps in memory\<close>

text \<open>The first app of each id counts, and only under a proper id.\<close>

fun apps_of :: "app list \<Rightarrow> app list" where
  "apps_of [] = []"
| "apps_of (a # as) = (if app_id (app_ID a) then a # filter (\<lambda>b. app_ID b \<noteq> app_ID a) (apps_of as) else apps_of as)"

definition app_of :: "app list \<Rightarrow> string \<Rightarrow> app option" where
  "app_of w i = first_match (\<lambda>a. app_ID a = i) (apps_of w)"

definition fresh_app :: "string \<Rightarrow> app_spec \<Rightarrow> app" where
  "fresh_app i spec = \<lparr>app_ID = i, app_Spec = Some spec, app_LiveURL = [], app_DefaultIngress = [], app_Active = None,
     app_InProgress = None, app_Pending = None, app_Domains = []\<rparr>"

text \<open>An id longer than any in use is new.\<close>

definition new_id :: "app list \<Rightarrow> string" where
  "new_id w = replicate (Suc (sum_list (map (\<lambda>a. length (app_ID a)) w))) (CHR ''a'')"

definition mem_apps :: "(app list) app_client" where
  "mem_apps = \<lparr>
     Apps_Create = (\<lambda>spec w. let a = fresh_app (new_id w) spec in Some (Ok (Some a), w @ [a])),
     Apps_Get = (\<lambda>i w. Some (Ok (app_of w i), w)),
     Apps_List = page_lister (\<lambda>w. [map Some (apps_of w)]),
     Apps_Update = (\<lambda>i spec w. case app_of w i of
        None \<Rightarrow> Some (Err (GodoError (Some 404) ''not found''), w)
      | Some a \<Rightarrow> Some (Ok (Some (a\<lparr>app_Spec := Some spec\<rparr>)), map (\<lambda>b. if app_ID b = i then b\<lparr>app_Spec := Some spec\<rparr> else b) w)),
     Apps_CreateDeployment = (\<lambda>i w. Some (Err (Opaque ''no deployments''), w)),
     Apps_ListDeployments = (\<lambda>i n w. Some (Ok [], w)),
     Apps_Delete = (\<lambda>i w. Some (Ok (), filter (\<lambda>a. app_ID a \<noteq> i) w)),
     Apps_GetLogs = (\<lambda>i d c ty n w. Some (Ok None, w))\<rparr>"

lemma apps_of_ids: "a \<in> set (apps_of w) \<Longrightarrow> app_id (app_ID a)"
  by (induction w) (auto split: if_splits)

lemma first_match_key: "distinct (map f xs) \<Longrightarrow> x \<in> set xs \<Longrightarrow> first_match (\<lambda>y. f y = f x) xs = Some x"
  by (induction xs) (auto simp: image_iff)

lemma apps_of_distinct: "distinct (map app_ID (apps_of w))"
  by (induction w) (auto simp: distinct_map_filter)

lemma app_of_SomeD: "app_of w i = Some a \<Longrightarrow> a \<in> set (apps_of w) \<and> app_ID a = i"
  unfolding app_of_def by (drule first_match_Some) simp

lemma app_of_mem: "a \<in> set (apps_of w) \<Longrightarrow> app_of w (app_ID a) = Some a"
  unfolding app_of_def by (rule first_match_key [OF apps_of_distinct])

lemma apps_of_map: "(\<And>a. app_ID (f a) = app_ID a) \<Longrightarrow> apps_of (map f w) = map f (apps_of w)"
  by (induction w) (auto simp: filter_map o_def)

lemma app_of_update:
  assumes "app_of w i = Some a"
  shows "app_of (map (\<lambda>b. if app_ID b = i then b\<lparr>app_Spec := s\<rparr> else b) w) = (app_of w)(i \<mapsto> a\<lparr>app_Spec := s\<rparr>)"
proof
  fix j
  let ?f = "\<lambda>b. if app_ID b = i then b\<lparr>app_Spec := s\<rparr> else b"
  have m: "apps_of (map ?f w) = map ?f (apps_of w)" by (rule apps_of_map) simp
  have f: "first_match (\<lambda>b. app_ID b = j) (map ?f xs) = map_option ?f (first_match (\<lambda>b. app_ID b = j) xs)" for xs
    by (induction xs) auto
  have i: "app_ID a = i" using app_of_SomeD [OF assms] by simp
  show "app_of (map ?f w) j = ((app_of w)(i \<mapsto> a\<lparr>app_Spec := s\<rparr>)) j"
  proof (cases "j = i")
    case True
    then show ?thesis using assms i unfolding app_of_def m f by simp
  next
    case False
    have "map_option ?f (app_of w j) = app_of w j"
    proof (cases "app_of w j")
      case (Some b)
      then have "app_ID b = j" using app_of_SomeD by simp
      then have "app_ID b \<noteq> i" using False by blast
      then show ?thesis by (simp only: Some option.map if_False)
    qed (simp only: option.map)
    then show ?thesis using False unfolding app_of_def m f by simp
  qed
qed

interpretation mem_store: app_store mem_apps app_of
proof
  fix w i a
  assume "app_of w i = Some a"
  then have "a \<in> set (apps_of w) \<and> app_ID a = i" by (rule app_of_SomeD)
  then show "app_ID a = i \<and> app_id i" using apps_of_ids by blast
next
  fix i w w' and got :: "app option res"
  assume "Apps_Get mem_apps i w = Some (got, w')"
  then show "app_of w' = app_of w \<and> (\<forall>x. got = Ok x \<longrightarrow> x = app_of w i)" by (auto simp: mem_apps_def)
next
  fix i new_spec w w' and r :: "app option res"
  assume u: "Apps_Update mem_apps i new_spec w = Some (r, w')"
  show "case r of Ok x \<Rightarrow> \<exists>a. app_of w i \<noteq> None \<and> app_of w' = (app_of w)(i \<mapsto> a) \<and> app_ID a = i \<and> app_Spec a = Some new_spec \<and> (x = None \<or> x = Some a)
       | _ \<Rightarrow> app_of w' = app_of w"
  proof (cases "app_of w i")
    case None
    then show ?thesis using u by (auto simp: mem_apps_def)
  next
    case (Some a)
    then have "app_ID a = i" using app_of_SomeD by simp
    then show ?thesis using u Some app_of_update [OF Some] by (auto simp: mem_apps_def intro!: exI [of _ "a\<lparr>app_Spec := Some new_spec\<rparr>"])
  qed
next
  show "\<exists>pages. paged_list (Apps_List mem_apps) pages
      \<and> (\<forall>w. \<forall>x \<in> set (concat (pages w)). \<exists>a. x = Some a \<and> app_of w (app_ID a) = Some a)"
  proof (intro exI conjI allI ballI)
    show "paged_list (Apps_List mem_apps) (\<lambda>w. nonempty_pages [map Some (apps_of w)])"
      using static_pages.paged_list_axioms [of "\<lambda>w. [map Some (apps_of w)]"] by (simp add: mem_apps_def)
    fix w x
    assume "x \<in> set (concat (nonempty_pages [map Some (apps_of w)]))"
    then obtain a where a: "x = Some a" "a \<in> set (apps_of w)" by (auto simp: nonempty_pages_def)
    show "x = Some (the x)" "app_of w (app_ID (the x)) = Some (the x)"
      unfolding a(1) option.sel by (rule refl, rule app_of_mem [OF a(2)])
  qed
qed

end
