(* ===== verification/AppDomainEdit.thy ===== *)
theory AppDomainEdit
  imports AppDomain AppStore Json
begin

text \<open>
  What the domain driver does to an app: the entry of one domain changes and nothing else; what
  Create wrote is read back, has no drift, and Delete removes exactly it.
\<close>

section \<open>The list of domains\<close>








section \<open>What Create does\<close>


section \<open>The recorded output has no drift\<close>



section \<open>The property\<close>






end
