(* ===== verification/NetURL.thy ===== *)
theory NetURL
  imports Prelude
begin

text \<open>
  The part of package \<^verbatim>\<open>net/url\<close> the drivers use: splitting a URL into scheme, host, path and query
  with the checks \<^verbatim>\<open>url.Parse\<close> makes, escaping, and the request URI. A zone of an IPv6 address in
  brackets is not modelled. The path is kept as it was written; \<open>decoded_path\<close> is \<^verbatim>\<open>URL.Path\<close>.
\<close>

record url =
  url_Scheme :: string
  url_Opaque :: string
  url_Host :: string
  url_RawPath :: string
  url_RawQuery :: string
  url_ForceQuery :: bool

definition alpha :: "char \<Rightarrow> bool" where
  "alpha c = (let n = (of_char c :: nat) in (97 \<le> n \<and> n \<le> 122) \<or> (65 \<le> n \<and> n \<le> 90))"

definition digit :: "char \<Rightarrow> bool" where
  "digit c = (let n = (of_char c :: nat) in 48 \<le> n \<and> n \<le> 57)"

definition hex_val :: "char \<Rightarrow> nat option" where
  "hex_val c = (let n = (of_char c :: nat) in
     if 48 \<le> n \<and> n \<le> 57 then Some (n - 48) else if 97 \<le> n \<and> n \<le> 102 then Some (n - 87)
     else if 65 \<le> n \<and> n \<le> 70 then Some (n - 55) else None)"

definition hex_digit :: "nat \<Rightarrow> char" where
  "hex_digit n = char_of (if n < 10 then 48 + n else 55 + n)"

definition host_escapes :: "char \<Rightarrow> bool" where
  "host_escapes c = (\<not> (alpha c \<or> digit c \<or> c \<in> set ''-_.~!$&()*+,;=:[]<>'' \<or> c = CHR 0x27 \<or> c = CHR 0x22))"

definition path_escapes :: "char \<Rightarrow> bool" where
  "path_escapes c = (\<not> (alpha c \<or> digit c \<or> c \<in> set ''-_.~$&+,/:;=@''))"

fun unescape :: "bool \<Rightarrow> string \<Rightarrow> string option" where
  "unescape host [] = Some []"
| "unescape host (c # s) =
     (if c = CHR ''%'' then
        (case s of
           a # b # r \<Rightarrow> (case (hex_val a, hex_val b) of
             (Some x, Some y) \<Rightarrow>
               if host \<and> x < 8 \<and> \<not> (x = 2 \<and> y = 5) then None
               else map_option ((#) (char_of (16 * x + y))) (unescape host r)
           | _ \<Rightarrow> None)
         | _ \<Rightarrow> None)
      else if host \<and> (of_char c :: nat) < 128 \<and> host_escapes c then None
      else map_option ((#) c) (unescape host s))"

definition escape :: "(char \<Rightarrow> bool) \<Rightarrow> string \<Rightarrow> string" where
  "escape escapes s = concat (map (\<lambda>c. if escapes c
     then [CHR ''%'', hex_digit ((of_char c :: nat) div 16), hex_digit ((of_char c :: nat) mod 16)] else [c]) s)"

definition valid_optional_port :: "string \<Rightarrow> bool" where
  "valid_optional_port p = (case p of [] \<Rightarrow> True | c # ds \<Rightarrow> c = CHR '':'' \<and> list_all digit ds)"

text \<open>What follows the last occurrence of a byte, and what stands before it.\<close>

definition cut_last :: "char \<Rightarrow> string \<Rightarrow> (string \<times> string) option" where
  "cut_last c s = map_option (\<lambda>(a, b). (rev b, rev a)) (cut_at c (rev s))"

definition parse_host :: "string \<Rightarrow> string option" where
  "parse_host host =
     (if has_prefix host ''['' then
        (case cut_last (CHR '']'') host of
           None \<Rightarrow> None
         | Some (_, colonPort) \<Rightarrow> if valid_optional_port colonPort then unescape True host else None)
      else case cut_last (CHR '':'') host of
        Some (_, p) \<Rightarrow> if valid_optional_port (CHR '':'' # p) then unescape True host else None
      | None \<Rightarrow> unescape True host)"

definition valid_userinfo :: "string \<Rightarrow> bool" where
  "valid_userinfo s = (list_all (\<lambda>c. alpha c \<or> digit c \<or> c \<in> set ''-._:~!$&()*+,;=%@'' \<or> c = CHR 0x27) s
     \<and> unescape False s \<noteq> None)"

definition parse_authority :: "string \<Rightarrow> string option" where
  "parse_authority authority = (case cut_last (CHR ''@'') authority of
     None \<Rightarrow> parse_host authority
   | Some (userinfo, host) \<Rightarrow> (case parse_host host of
       None \<Rightarrow> None | Some h \<Rightarrow> if valid_userinfo userinfo then Some h else None))"

text \<open>\<open>get_scheme\<close>: the scheme and the rest; no scheme is the empty one; \<^verbatim>\<open>:\<close> cannot come first.\<close>

fun scheme_from :: "string \<Rightarrow> string \<Rightarrow> (string \<times> string) option" where
  "scheme_from acc [] = None"
| "scheme_from acc (c # s) =
     (if alpha c then scheme_from (acc @ [c]) s
      else if digit c \<or> c \<in> set ''+-.'' then (if acc = [] then None else scheme_from (acc @ [c]) s)
      else if c = CHR '':'' then Some (acc, s)
      else None)"

definition get_scheme :: "string \<Rightarrow> (string \<times> string) option" where
  "get_scheme raw = (case scheme_from [] raw of
     None \<Rightarrow> Some ([], raw)
   | Some (sch, rest) \<Rightarrow> if sch = [] then None else Some (to_lower sch, rest))"

definition cut_query :: "string \<Rightarrow> string \<times> string \<times> bool" where
  "cut_query rest = (case cut_at (CHR ''?'') rest of
     None \<Rightarrow> (rest, [], False) | Some (p, q) \<Rightarrow> (p, q, q = []))"

definition parse_raw :: "bool \<Rightarrow> string \<Rightarrow> url option" where
  "parse_raw viaRequest raw =
     (if list_ex (\<lambda>c. (of_char c :: nat) < 32 \<or> (of_char c :: nat) = 127) raw then None
      else if raw = [] \<and> viaRequest then None
      else if raw = ''*'' then Some \<lparr>url_Scheme = [], url_Opaque = [], url_Host = [], url_RawPath = ''*'', url_RawQuery = [], url_ForceQuery = False\<rparr>
      else case get_scheme raw of
        None \<Rightarrow> None
      | Some (sch, rest0) \<Rightarrow>
        let (rest, query, force) = cut_query rest0;
            u = \<lparr>url_Scheme = sch, url_Opaque = [], url_Host = [], url_RawPath = rest, url_RawQuery = query, url_ForceQuery = force\<rparr>
        in if \<not> has_prefix rest ''/'' \<and> sch \<noteq> [] then Some (u\<lparr>url_Opaque := rest, url_RawPath := []\<rparr>)
           else if \<not> has_prefix rest ''/'' \<and> viaRequest then None
           else if \<not> has_prefix rest ''/'' \<and> List.member (hd (split_on (CHR ''/'') rest)) (CHR '':'') then None
           else if (sch \<noteq> [] \<or> (\<not> viaRequest \<and> \<not> has_prefix rest ''///'')) \<and> has_prefix rest ''//'' then
             (let (authority, path) = (case cut_at (CHR ''/'') (drop 2 rest) of None \<Rightarrow> (drop 2 rest, []) | Some (a, p) \<Rightarrow> (a, CHR ''/'' # p))
              in case parse_authority authority of
                None \<Rightarrow> None
              | Some host \<Rightarrow> if unescape False path = None then None else Some (u\<lparr>url_Host := host, url_RawPath := path\<rparr>))
           else if unescape False rest = None then None else Some u)"

definition url_Parse :: "string \<Rightarrow> url option" where
  "url_Parse raw = (case cut_at (CHR ''#'') raw of
     None \<Rightarrow> parse_raw False raw
   | Some (u, frag) \<Rightarrow> if unescape False frag = None then None else parse_raw False u)"

definition url_ParseRequestURI :: "string \<Rightarrow> url option" where
  "url_ParseRequestURI raw = parse_raw True raw"

definition decoded_path :: "url \<Rightarrow> string" where
  "decoded_path u = (case unescape False (url_RawPath u) of Some p \<Rightarrow> p | None \<Rightarrow> [])"

definition valid_encoded :: "string \<Rightarrow> bool" where
  "valid_encoded s = list_all (\<lambda>c. c \<in> set ''!$&()*+,;=:@[]%'' \<or> c = CHR 0x27 \<or> \<not> path_escapes c) s"

definition escaped_path :: "url \<Rightarrow> string" where
  "escaped_path u = (if url_RawPath u = ''*'' \<or> valid_encoded (url_RawPath u) then url_RawPath u
     else escape path_escapes (decoded_path u))"

definition request_uri :: "url \<Rightarrow> string" where
  "request_uri u =
     (let base = (if url_Opaque u = [] then (if escaped_path u = [] then ''/'' else escaped_path u)
                  else if has_prefix (url_Opaque u) ''//'' then url_Scheme u @ '':'' @ url_Opaque u else url_Opaque u)
      in if url_ForceQuery u \<or> url_RawQuery u \<noteq> [] then base @ ''?'' @ url_RawQuery u else base)"

end
