(* ===== verification/AppReadiness.thy ===== *)
theory AppReadiness
  imports AppDomain NetURL
begin

text \<open>
  Whether the custom domains of an app can be reached
  (\<^verbatim>\<open>internal/drivers/app_platform_readiness.go\<close>). A probe asks for one path of one domain; the
  default probe does it over HTTPS, through a client given as a parameter that answers the code and
  the text of the status.
\<close>

type_synonym 'w domain_probe = "string \<Rightarrow> string \<Rightarrow> ('w, unit) io"

text \<open>The first entry of each domain, without those of the provider.\<close>

fun custom_domains :: "string list \<Rightarrow> app_domain option list \<Rightarrow> app_domain list" where
  "custom_domains seen [] = []"
| "custom_domains seen (None # ds) = custom_domains seen ds"
| "custom_domains seen (Some spec # ds) =
     (let domain = to_lower (trim_space (ad_Domain spec)) in
      if trim_space (ad_Domain spec) = [] \<or> ad_Type spec = ''DEFAULT'' \<or> domain \<in> set seen then custom_domains seen ds
      else spec # custom_domains (domain # seen) ds)"

definition appPlatformCustomDomains :: "app \<Rightarrow> app_domain list" where
  "appPlatformCustomDomains a = (case app_Spec a of None \<Rightarrow> [] | Some spec \<Rightarrow> custom_domains [] (as_Domains spec))"

definition normalizeReadinessPath :: "string \<Rightarrow> string" where
  "normalizeReadinessPath path =
     (let path = trim_space path in
      if path = [] then []
      else let path = (if has_prefix path ''http://'' \<or> has_prefix path ''https://''
                       then (case url_Parse path of Some parsed \<Rightarrow> request_uri parsed | None \<Rightarrow> path) else path)
        in if has_prefix path ''/'' then path else ''/'' @ path)"

fun service_path :: "app_service option list \<Rightarrow> string" where
  "service_path [] = ''/''"
| "service_path (svc # svcs) = (case svc of
     None \<Rightarrow> service_path svcs
   | Some s \<Rightarrow> (case svc_HealthCheck s of
       None \<Rightarrow> service_path svcs
     | Some hc \<Rightarrow> let path = normalizeReadinessPath (hc_HTTPPath hc) in if path \<noteq> [] then path else service_path svcs))"

definition appPlatformReadinessPath :: "app option \<Rightarrow> string \<Rightarrow> string" where
  "appPlatformReadinessPath app_opt override =
     (let path = normalizeReadinessPath override in
      if path \<noteq> [] then path
      else case app_opt of
        None \<Rightarrow> ''/''
      | Some a \<Rightarrow> (case app_Spec a of None \<Rightarrow> ''/'' | Some spec \<Rightarrow> service_path (as_Services spec)))"

definition appPlatformDomainReadinessURL :: "string \<Rightarrow> string \<Rightarrow> string" where
  "appPlatformDomainReadinessURL domain path =
     (let (p, q) = (case url_ParseRequestURI (appPlatformReadinessPath None path) of
            Some parsed \<Rightarrow> (decoded_path parsed, url_RawQuery parsed)
          | None \<Rightarrow> (''/'', []));
          host = trim_space domain;
          ep = (if p = ''*'' then p else escape path_escapes p)
      in ''https://'' @ escape host_escapes host @ (if ep \<noteq> [] \<and> \<not> has_prefix ep ''/'' \<and> host \<noteq> [] then ''/'' else []) @ ep
         @ (if q = [] then [] else ''?'' @ q))"

definition defaultAppPlatformDomainProbe :: "(string \<Rightarrow> ('w, int \<times> string) io) \<Rightarrow> 'w domain_probe" where
  "defaultAppPlatformDomainProbe http_get domain path =
     (let u = appPlatformDomainReadinessURL domain path in
      io_bind (http_get u) (\<lambda>(code, status).
      if code < 200 \<or> code \<ge> 400 then io_err (Errorf ''GET %s returned %s'' [FStr u, FStr status]) else io_ok ()))"

fun domains_live :: "string \<Rightarrow> app \<Rightarrow> app_domain list \<Rightarrow> unit res" where
  "domains_live appName a [] = Ok ()"
| "domains_live appName a (spec # specs) = (case findLiveAppDomain a (ad_Domain spec) of
     None \<Rightarrow> Err (Errorf ''app %q custom domain %q waiting for live domain status'' [FStr appName, FStr (ad_Domain spec)])
   | Some live \<Rightarrow>
     if lv_Phase live \<noteq> ''ACTIVE''
     then Err (Errorf ''app %q custom domain %q %s'' [FStr appName, FStr (ad_Domain spec), FStr (liveDomainHealthMessage live)])
     else domains_live appName a specs)"

fun domains_probed :: "'w domain_probe \<Rightarrow> string \<Rightarrow> string \<Rightarrow> app_domain list \<Rightarrow> ('w, unit) io" where
  "domains_probed probe appName path [] = io_ok ()"
| "domains_probed probe appName path (spec # specs) =
     (if ad_Wildcard spec then domains_probed probe appName path specs
      else io_bind (io_wrap (Wrapf ''app %q custom domain %q HTTPS readiness %s: %w'' [FStr appName, FStr (ad_Domain spec), FStr path])
                      (probe (ad_Domain spec) path)) (\<lambda>_.
           domains_probed probe appName path specs))"

definition appPlatformCustomDomainReadinessError :: "string \<Rightarrow> app \<Rightarrow> 'w domain_probe \<Rightarrow> string \<Rightarrow> ('w, unit) io" where
  "appPlatformCustomDomainReadinessError appName a probe pathOverride =
     (let domains = appPlatformCustomDomains a in
      if domains = [] then io_ok ()
      else io_bind (io_res (domains_live appName a domains)) (\<lambda>_.
           domains_probed probe appName (appPlatformReadinessPath (Some a) pathOverride) domains))"

fun probe_each :: "'w domain_probe \<Rightarrow> string \<Rightarrow> app_domain list \<Rightarrow> nat \<times> nat \<Rightarrow> ('w, nat \<times> nat) io" where
  "probe_each probe path [] n = io_ok n"
| "probe_each probe path (spec # specs) n =
     (if ad_Wildcard spec then probe_each probe path specs n
      else io_handle (probe (ad_Domain spec) path)
             (\<lambda>_. probe_each probe path specs (Suc (fst n), Suc (snd n)))
             (\<lambda>_. probe_each probe path specs (fst n, Suc (snd n))))"

definition appPlatformProbeCustomDomains :: "app \<Rightarrow> 'w domain_probe \<Rightarrow> string \<Rightarrow> ('w, nat \<times> nat) io" where
  "appPlatformProbeCustomDomains a probe pathOverride =
     (let domains = appPlatformCustomDomains a in
      if domains = [] then io_ok (0, 0)
      else probe_each probe (appPlatformReadinessPath (Some a) pathOverride) domains (0, 0))"

section \<open>What readiness means\<close>

lemma custom_domains_complete:
  "Some d \<in> set ds \<Longrightarrow> trim_space (ad_Domain d) \<noteq> [] \<Longrightarrow> ad_Type d \<noteq> ''DEFAULT'' \<Longrightarrow>
   to_lower (trim_space (ad_Domain d)) \<in> set seen \<or>
   (\<exists>e \<in> set (custom_domains seen ds). to_lower (trim_space (ad_Domain e)) = to_lower (trim_space (ad_Domain d)))"
proof (induction seen ds rule: custom_domains.induct)
  case (3 seen spec ds)
  show ?case
  proof (cases "Some d = Some spec")
    case True
    then show ?thesis using 3(4,5) by (auto simp: Let_def)
  next
    case False
    then have "Some d \<in> set ds" using 3(3) by simp
    then show ?thesis
      using 3(1)[OF refl _ _ 3(4,5)] 3(2)[OF refl _ _ 3(4,5)] by (auto simp: Let_def)
  qed
qed auto

lemma custom_domains_from: "d \<in> set (custom_domains seen ds) \<Longrightarrow> Some d \<in> set ds \<and> trim_space (ad_Domain d) \<noteq> [] \<and> ad_Type d \<noteq> ''DEFAULT''"
  by (induction seen ds rule: custom_domains.induct) (auto simp: Let_def split: if_splits)

lemma domains_live_Ok: "domains_live n a ds = Ok () \<longleftrightarrow>
   (\<forall>d \<in> set ds. \<exists>l. findLiveAppDomain a (ad_Domain d) = Some l \<and> lv_Phase l = ''ACTIVE'')"
  by (induction ds) (auto split: option.splits)

lemma domains_probed_Ok:
  assumes "domains_probed probe n path ds w = Some (Ok (), w')"
  shows "\<forall>d \<in> set ds. \<not> ad_Wildcard d \<longrightarrow> (\<exists>v v'. probe (ad_Domain d) path v = Some (Ok (), v'))"
  using assms
proof (induction ds arbitrary: w)
  case (Cons d ds)
  show ?case
  proof (cases "ad_Wildcard d")
    case True
    then show ?thesis using Cons by simp
  next
    case False
    then obtain u w1 where "probe (ad_Domain d) path w = Some (Ok u, w1)" "domains_probed probe n path ds w1 = Some (Ok (), w')"
      using Cons.prems by (auto elim!: io_bind_OkE io_wrap_OkE)
    then show ?thesis using Cons.IH by fastforce
  qed
qed simp

end
