(* ===== verification/AppImages.thy ===== *)
theory AppImages
  imports ImageRef
begin

text \<open>
  The check that an image of the registry exists before it is deployed
  (\<^verbatim>\<open>internal/drivers/app_platform_image_presence.go\<close>). It only ever refuses an image the whole list
  of tags was read for; whatever goes wrong counts as present.
\<close>

text \<open>At most ten pages of tags are read.\<close>

function tag_listed :: "'w registry_client \<Rightarrow> string \<Rightarrow> string \<Rightarrow> string \<Rightarrow> nat \<Rightarrow> ('w, bool) io" where
  "tag_listed client reg repo tag page =
     io_handle (Registry_Tags client reg repo page)
       (\<lambda>(tags, resp).
          if Some tag \<in> set tags then io_ok True
          else if last_page resp then io_ok False
          else if Suc page > 10 then io_ok True
          else tag_listed client reg repo tag (Suc page))
       (\<lambda>_. io_ok True)"
  by pat_completeness auto
termination by (relation "measure (\<lambda>(_, _, _, _, page). 11 - page)") auto

declare tag_listed.simps [simp del]

definition verifyImageSpecPresentInDOCR :: "'w registry_client \<Rightarrow> image_source \<Rightarrow> string \<Rightarrow> ('w, unit) io" where
  "verifyImageSpecPresentInDOCR client spec imageRef =
     (if img_RegistryType spec \<noteq> ''DOCR'' then io_ok ()
      else io_handle (Registry_Get client)
        (\<lambda>reg. case reg of
           None \<Rightarrow> io_ok ()
         | Some name \<Rightarrow>
           if name = [] then io_ok ()
           else io_bind (tag_listed client name (img_Repository spec) (img_Tag spec) 1) (\<lambda>found.
             if found then io_ok ()
             else io_err (Wrapf ''image %q not found in DOCR repo %q: %w''
                    [FStr (if imageRef = [] then img_Repository spec @ '':'' @ img_Tag spec else imageRef), FStr (img_Repository spec)]
                    (Sentinel ErrImageNotInRegistry))))
        (\<lambda>_. io_ok ()))"

definition verifyImagePresentInDOCR :: "'w registry_client \<Rightarrow> string \<Rightarrow> ('w, unit) io" where
  "verifyImagePresentInDOCR client imageRef = (case ParseImageRef imageRef of
     Ok spec \<Rightarrow> verifyImageSpecPresentInDOCR client spec imageRef
   | Err _ \<Rightarrow> io_ok ()
   | Panic p \<Rightarrow> io_panic p)"

definition verifyImageConfigPresentInDOCR :: "'w registry_client \<Rightarrow> cfg \<Rightarrow> ('w, unit) io" where
  "verifyImageConfigPresentInDOCR client config = (case imageSpecFromConfig config of
     Ok spec \<Rightarrow> verifyImageSpecPresentInDOCR client spec []
   | Err _ \<Rightarrow> io_ok ()
   | Panic p \<Rightarrow> io_panic p)"

section \<open>The check over a paginated registry\<close>

lemma tag_listed_from:
  assumes p: "paged_list (Registry_Tags client reg repo) pages"
  shows "i < length (pages w) \<Longrightarrow> i < 10 \<Longrightarrow>
    tag_listed client reg repo tag (Suc i) w = Some (Ok (Some tag \<in> set (concat (drop i (pages w))) \<or> 10 < length (pages w)), w)"
proof (induction "length (pages w) - i" arbitrary: i)
  case 0
  then show ?case by simp
next
  case (Suc n)
  obtain l where l: "Registry_Tags client reg repo (Suc i) w = Some (Ok (pages w ! i, l), w)" "last_page l = (Suc i = length (pages w))"
    using paged_list.list_page [OF p Suc.prems(1)] by blast
  have d: "drop i (pages w) = pages w ! i # drop (Suc i) (pages w)" using Suc.prems by (simp add: Cons_nth_drop_Suc)
  note step = tag_listed.simps [of client reg repo tag "Suc i"] io_handle_def l
  consider "Some tag \<in> set (pages w ! i)" | "Some tag \<notin> set (pages w ! i)" "Suc i = length (pages w)"
    | "Some tag \<notin> set (pages w ! i)" "Suc i < length (pages w)" "10 \<le> Suc i"
    | "Some tag \<notin> set (pages w ! i)" "Suc i < length (pages w)" "Suc i < 10"
    using Suc.prems by linarith
  then show ?case
  proof cases
    case 2
    then have "last_page l" using l(2) by simp
    then show ?thesis using 2(1) d Suc.prems(2) by (simp add: step(1,2) l(1) io_ok_def 2(2) [symmetric])
  next
    case 4
    then have "tag_listed client reg repo tag (Suc (Suc i)) w
        = Some (Ok (Some tag \<in> set (concat (drop (Suc i) (pages w))) \<or> 10 < length (pages w)), w)"
      using Suc.hyps by (intro Suc.hyps(1)) auto
    then show ?thesis using 4 d by (simp add: step)
  qed (use d in \<open>simp_all add: step io_ok_def\<close>)
qed

text \<open>
  C36: the image check refuses exactly the images that are missing. For an image of the registry, over
  a registry that lists its tags page by page, the check fails with \<^verbatim>\<open>ErrImageNotInRegistry\<close> exactly
  when the tag is on none of the pages and there are at most ten of them; it reads at most ten pages,
  changes nothing, and when the registry cannot be asked, or is not named, every image passes.
\<close>

theorem image_check_exact:
  assumes "img_RegistryType spec = ''DOCR''" and "Registry_Get client w = Some (got, w1)" and "\<forall>p. got \<noteq> Panic p"
    and "\<forall>reg. paged_list (Registry_Tags client reg (img_Repository spec)) (pages reg)"
  shows "verifyImageSpecPresentInDOCR client spec imageRef w =
    (case got of
       Ok (Some reg) \<Rightarrow>
         if reg = [] \<or> Some (img_Tag spec) \<in> set (concat (pages reg w1)) \<or> 10 < length (pages reg w1) then Some (Ok (), w1)
         else Some (Err (Wrapf ''image %q not found in DOCR repo %q: %w''
                [FStr (if imageRef = [] then img_Repository spec @ '':'' @ img_Tag spec else imageRef), FStr (img_Repository spec)]
                (Sentinel ErrImageNotInRegistry)), w1)
     | _ \<Rightarrow> Some (Ok (), w1))"
proof -
  have t: "tag_listed client reg (img_Repository spec) tag 1 w1
      = Some (Ok (Some tag \<in> set (concat (pages reg w1)) \<or> 10 < length (pages reg w1)), w1)" for reg tag
    using tag_listed_from [of client reg "img_Repository spec" "pages reg" 0 w1 tag] paged_list.pages_nonempty assms(4) by fastforce
  show ?thesis
    using assms(1,2,3) t by (auto simp: verifyImageSpecPresentInDOCR_def io_simps split: res.splits option.splits)
qed

definition ex_registry :: "'w registry_client" where
  "ex_registry = \<lparr>Registry_Get = (\<lambda>w. Some (Ok (Some ''acme''), w)),
     Registry_Tags = (\<lambda>reg repo. page_lister (\<lambda>w. [[Some ''v1''], [None, Some ''v2'']]))\<rparr>"

theorem image_check_exact_witness:
  "verifyImagePresentInDOCR ex_registry ''registry.digitalocean.com/acme/api:v2'' () = Some (Ok (), ())
   \<and> (\<exists>e. verifyImagePresentInDOCR ex_registry ''registry.digitalocean.com/acme/api:v3'' () = Some (Err e, ()) \<and> errors_is e ErrImageNotInRegistry)"
proof -
  let ?tags = "\<lambda>_ :: string. \<lambda>_ :: unit. [[Some ''v1''], [None, Some ''v2'']]"
  have r: "\<forall>reg. paged_list (Registry_Tags ex_registry reg repo) (?tags reg)" for repo
    using static_pages.paged_list_axioms [of "\<lambda>_ :: unit. [[Some ''v1''], [None, Some ''v2'']]"]
    by (simp add: ex_registry_def nonempty_pages_def)
  have g: "Registry_Get ex_registry () = Some (Ok (Some ''acme''), ())" by (simp add: ex_registry_def)
  have p: "ParseImageRef ''registry.digitalocean.com/acme/api:v2'' = Ok (image_ref ''DOCR'' [] ''api'' ''v2'')"
    "ParseImageRef ''registry.digitalocean.com/acme/api:v3'' = Ok (image_ref ''DOCR'' [] ''api'' ''v3'')" by code_simp+
  have d: "img_RegistryType (image_ref ''DOCR'' [] ''api'' t) = ''DOCR''" for t by (simp add: image_ref_def)
  show ?thesis
    unfolding verifyImagePresentInDOCR_def p res.case
    using image_check_exact [OF d g _ r] by (simp add: image_ref_def)
qed

end
