(* ===== verification/AppDeployments.thy ===== *)
theory AppDeployments
  imports AppTypes
begin

text \<open>
  Deployments of an app: which one belongs to an update, and what its phase means
  (\<^verbatim>\<open>internal/drivers/deploy.go\<close>, \<^verbatim>\<open>internal/drivers/app_platform.go\<close>).
\<close>

definition deploymentID :: "deployment option \<Rightarrow> string" where
  "deploymentID dep = (case dep of None \<Rightarrow> [] | Some d \<Rightarrow> dep_ID d)"

definition isNewerDeployment :: "deployment option \<Rightarrow> string \<Rightarrow> bool" where
  "isNewerDeployment dep previousActiveID = (case dep of
     None \<Rightarrow> False
   | Some d \<Rightarrow> dep_ID d \<noteq> [] \<and> (dep_ID d \<noteq> previousActiveID \<or> dep_PreviousDeploymentID d = previousActiveID))"

definition selectUpdateDeployment :: "app option \<Rightarrow> string \<Rightarrow> deployment option" where
  "selectUpdateDeployment a_opt previousActiveID = (case a_opt of
     None \<Rightarrow> None
   | Some a \<Rightarrow> (case first_match (\<lambda>dep. isNewerDeployment dep previousActiveID) [app_InProgress a, app_Pending a, app_Active a] of
       None \<Rightarrow> None | Some dep \<Rightarrow> dep))"

definition isHistoricalUpdateDeployment :: "deployment option \<Rightarrow> string \<Rightarrow> bool" where
  "isHistoricalUpdateDeployment dep previousActiveID = (case dep of
     None \<Rightarrow> False
   | Some d \<Rightarrow> dep_ID d \<noteq> [] \<and> (previousActiveID = [] \<or> dep_PreviousDeploymentID d = previousActiveID))"

definition in_progress_phases :: "string list" where
  "in_progress_phases = [''PENDING_BUILD'', ''BUILDING'', ''PENDING_DEPLOY'', ''DEPLOYING'']"

definition isTerminalErrorPhase :: "string \<Rightarrow> bool" where
  "isTerminalErrorPhase phase = (phase \<in> {''ERROR'', ''CANCELED'', ''SUPERSEDED''})"

definition isInProgressPhase :: "string \<Rightarrow> bool" where
  "isInProgressPhase p = (p = ''PENDING_DEPLOY'' \<or> p = ''DEPLOYING'')"

definition deploymentProgressString :: "deployment \<Rightarrow> string" where
  "deploymentProgressString d = (case dep_Progress d of
     None \<Rightarrow> []
   | Some p \<Rightarrow>
     let age = (case dep_UpdatedAgo d of None \<Rightarrow> [] | Some secs \<Rightarrow> ''; updated '' @ show_int (max secs 0) @ ''s ago'')
     in '' ['' @ show_int (dp_SuccessSteps p + dp_ErrorSteps p) @ ''/'' @ show_int (dp_TotalSteps p) @ '' steps'' @ age @ '']'')"

definition deploymentHealthError :: "string \<Rightarrow> deployment \<Rightarrow> go_error option" where
  "deploymentHealthError appName d =
     (let phase = dep_Phase d in
      if phase = ''ACTIVE'' then None
      else if phase \<in> set in_progress_phases
      then Some (Errorf ''app deploy: %q deployment in progress: %s (%s)%s''
             [FStr appName, FStr phase, FStr (dep_ID d), FStr (deploymentProgressString d)])
      else if isTerminalErrorPhase phase
      then Some (Errorf ''app deploy: %q deployment failed: %s (%s): %s''
             [FStr appName, FStr phase, FStr (dep_ID d), FStr (if dep_Cause d = [] then phase else dep_Cause d)])
      else Some (Errorf ''app deploy: %q deployment phase unknown: %s (%s)'' [FStr appName, FStr phase, FStr (dep_ID d)]))"

text \<open>
  The deployment an update waits for, among those in the slots of the app and those in the history:
  \<open>target\<close> is the one already known, or empty. A deployment that follows the target takes its place.
\<close>

definition slot_target :: "app option \<Rightarrow> string \<Rightarrow> string \<Rightarrow> deployment option" where
  "slot_target a previousActiveID target = (case selectUpdateDeployment a previousActiveID of
     None \<Rightarrow> None
   | Some d \<Rightarrow> if target = [] \<or> dep_ID d = target \<or> dep_PreviousDeploymentID d = target then Some d else None)"

definition history_target :: "deployment option list \<Rightarrow> string \<Rightarrow> string \<Rightarrow> deployment option" where
  "history_target deployments previousActiveID target =
     (case first_match (\<lambda>dep. dep \<noteq> None \<and> (if target \<noteq> [] then deploymentID dep = target
                             else isHistoricalUpdateDeployment dep previousActiveID)) deployments of
        None \<Rightarrow> None | Some dep \<Rightarrow> dep)"

lemma selectUpdateDeployment_Some:
  assumes "selectUpdateDeployment (Some a) prev = Some d"
  shows "dep_ID d \<noteq> [] \<and> (dep_ID d \<noteq> prev \<or> dep_PreviousDeploymentID d = prev)
    \<and> (app_InProgress a = Some d \<or> app_Pending a = Some d \<or> app_Active a = Some d)"
  using assms by (auto simp: selectUpdateDeployment_def isNewerDeployment_def split: option.splits if_splits)

lemma slot_target_Some:
  assumes "slot_target a prev target = Some d"
  shows "dep_ID d \<noteq> [] \<and> (dep_ID d \<noteq> prev \<or> dep_PreviousDeploymentID d = prev)"
proof -
  have "selectUpdateDeployment a prev = Some d"
    using assms by (auto simp: slot_target_def split: option.splits if_splits)
  then show ?thesis using selectUpdateDeployment_Some by (cases a) (auto simp: selectUpdateDeployment_def)
qed

lemma history_target_Some:
  assumes "history_target ds prev target = Some d"
  shows "Some d \<in> set ds \<and> (if target \<noteq> [] then dep_ID d = target else dep_ID d \<noteq> [] \<and> (prev = [] \<or> dep_PreviousDeploymentID d = prev))"
proof -
  let ?p = "\<lambda>dep. dep \<noteq> None \<and> (if target \<noteq> [] then deploymentID dep = target else isHistoricalUpdateDeployment dep prev)"
  have "first_match ?p ds = Some (Some d)"
    using assms unfolding history_target_def by (cases "first_match ?p ds") (simp_all only: option.case option.distinct)
  then have "Some d \<in> set ds \<and> ?p (Some d)" by (rule first_match_Some)
  then show ?thesis by (auto simp: deploymentID_def isHistoricalUpdateDeployment_def split: if_splits)
qed

lemma deploymentHealthError_None: "deploymentHealthError n d = None \<longleftrightarrow> dep_Phase d = ''ACTIVE''"
  by (simp add: deploymentHealthError_def Let_def)

end
