(* ===== verification/Stateful.thy ===== *)
theory Stateful
  imports Prelude
begin

text \<open>
  A driver that keeps state of its own beside the world its clients act on: its operations act on
  the pair of both. A call of a client leaves the driver's state alone.
\<close>

definition on_api :: "('w, 'a) io \<Rightarrow> ('w \<times> 's, 'a) io" where
  "on_api m = (\<lambda>(w, s). case m w of None \<Rightarrow> None | Some (r, w') \<Rightarrow> Some (r, (w', s)))"

definition get_state :: "('w \<times> 's, 's) io" where
  "get_state = (\<lambda>(w, s). Some (Ok s, (w, s)))"

definition set_state :: "'s \<Rightarrow> ('w \<times> 's, unit) io" where
  "set_state s' = (\<lambda>(w, s). Some (Ok (), (w, s')))"

text \<open>An operation on a part of the driver's state, which \<open>part\<close> reads and \<open>put\<close> writes back.\<close>

definition on_part :: "('s \<Rightarrow> 't) \<Rightarrow> ('t \<Rightarrow> 's \<Rightarrow> 's) \<Rightarrow> ('w \<times> 't, 'a) io \<Rightarrow> ('w \<times> 's, 'a) io" where
  "on_part part put m = (\<lambda>(w, s). case m (w, part s) of None \<Rightarrow> None | Some (r, (w', t)) \<Rightarrow> Some (r, (w', put t s)))"

lemma on_api_OkE:
  assumes "on_api m (w, s) = Some (Ok x, (w', s'))"
  obtains "m w = Some (Ok x, w')" "s' = s"
  using assms by (auto simp: on_api_def split: option.splits)

lemma on_api_Some: "m w = Some (r, w') \<Longrightarrow> on_api m (w, s) = Some (r, (w', s))"
  by (simp add: on_api_def)

lemma on_api_bind: "on_api (io_bind m f) = io_bind (on_api m) (\<lambda>x. on_api (f x))"
  by (auto simp: on_api_def io_bind_def fun_eq_iff split: option.splits prod.splits res.splits)

lemma get_state_bind [simp]: "io_bind get_state f (w, s) = f s (w, s)"
  by (simp add: get_state_def io_bind_def)

lemma set_state_bind [simp]: "io_bind (set_state s') f (w, s) = f () (w, s')"
  by (simp add: set_state_def io_bind_def)

section \<open>Keeping an invariant\<close>

text \<open>
  \<open>keeps I m Q\<close>: whatever \<open>m\<close> returns, the driver's state satisfies \<open>I\<close> afterwards if it did before, and
  the value satisfies \<open>Q\<close>.
\<close>

definition keeps :: "('s \<Rightarrow> bool) \<Rightarrow> ('w \<times> 's, 'a) io \<Rightarrow> ('a \<Rightarrow> bool) \<Rightarrow> bool" where
  "keeps I m Q = (\<forall>w s r w' s'. I s \<longrightarrow> m (w, s) = Some (r, (w', s')) \<longrightarrow> I s' \<and> (\<forall>x. r = Ok x \<longrightarrow> Q x))"

lemma keepsD: "keeps I m Q \<Longrightarrow> I s \<Longrightarrow> m (w, s) = Some (r, (w', s')) \<Longrightarrow> I s'"
  unfolding keeps_def by blast

lemma keeps_bind:
  assumes m: "keeps I m Q" and f: "\<And>x. Q x \<Longrightarrow> keeps I (f x) R"
  shows "keeps I (io_bind m f) R"
  unfolding keeps_def
proof (intro allI impI)
  fix w s r w' s'
  assume i: "I s" and run: "io_bind m f (w, s) = Some (r, (w', s'))"
  obtain r1 w1 s1 where m1: "m (w, s) = Some (r1, (w1, s1))" using run by (auto simp: io_bind_def split: option.splits)
  have i1: "I s1" "\<And>x. r1 = Ok x \<Longrightarrow> Q x" using m i m1 unfolding keeps_def by blast+
  show "I s' \<and> (\<forall>x. r = Ok x \<longrightarrow> R x)"
  proof (cases r1)
    case (Ok x)
    then have "f x (w1, s1) = Some (r, (w', s'))" using run m1 by (simp add: io_bind_def)
    then show ?thesis using f [OF i1(2) [OF Ok]] i1(1) unfolding keeps_def by blast
  qed (use run m1 i1 in \<open>auto simp: io_bind_def\<close>)
qed

lemma keeps_api: "(\<And>w x w'. m w = Some (Ok x, w') \<Longrightarrow> Q x) \<Longrightarrow> keeps I (on_api m) Q"
  by (auto simp: keeps_def on_api_def split: option.splits)

lemma keeps_simps:
  "Q x \<Longrightarrow> keeps I (io_ok x) Q" "keeps I (io_err e) Q" "keeps I (io_panic p) Q"
  "(\<And>x. r = Ok x \<Longrightarrow> Q x) \<Longrightarrow> keeps I (io_res r) Q" "keeps I get_state I"
  "I s' \<Longrightarrow> keeps I (set_state s') (\<lambda>_. True)"
  by (auto simp: keeps_def io_ok_def io_err_def io_panic_def io_res_def get_state_def set_state_def)

lemma keeps_deref: "(\<And>x. p = Some x \<Longrightarrow> keeps I (f x) Q) \<Longrightarrow> keeps I (io_deref p f) Q"
  by (cases p) (auto simp: keeps_simps)

lemma keeps_option:
  "(p = None \<Longrightarrow> keeps I m Q) \<Longrightarrow> (\<And>x. p = Some x \<Longrightarrow> keeps I (f x) Q) \<Longrightarrow> keeps I (case p of None \<Rightarrow> m | Some x \<Rightarrow> f x) Q"
  by (cases p) auto

lemma keeps_any: "keeps I m Q \<Longrightarrow> (\<And>x. Q x \<Longrightarrow> R x) \<Longrightarrow> keeps I m R"
  unfolding keeps_def by blast

section \<open>Weakest preconditions\<close>

text \<open>
  Whatever an operation returns from a state satisfies \<open>Q\<close>, or \<open>E\<close> when it fails. The equations pull
  the postconditions back through an operation, down to the calls it makes.
\<close>

definition wp :: "('x, 'a) io \<Rightarrow> ('a \<Rightarrow> 'x \<Rightarrow> bool) \<Rightarrow> ('x \<Rightarrow> bool) \<Rightarrow> 'x \<Rightarrow> bool" where
  "wp m Q E x = (case m x of None \<Rightarrow> True | Some (Ok v, x') \<Rightarrow> Q v x' | Some (_, x') \<Rightarrow> E x')"

lemma wp_bind: "wp (io_bind m f) Q E x = wp m (\<lambda>v. wp (f v) Q E) E x"
  by (auto simp: wp_def io_bind_def split: option.splits prod.splits res.splits)

lemma wp_wrap: "wp (io_wrap g m) Q E x = wp m Q E x"
  by (auto simp: wp_def io_simps split: option.splits prod.splits res.splits)

lemma wp_basic:
  "wp (io_ok v) Q E x = Q v x" "wp (io_err e) Q E x = E x" "wp (io_panic p) Q E x = E x"
  "wp (io_res r) Q E x = (case r of Ok v \<Rightarrow> Q v x | _ \<Rightarrow> E x)"
  by (simp_all add: wp_def io_ok_def io_err_def io_panic_def io_res_def split: res.splits)

lemma wp_deref: "wp (io_deref p f) Q E x = (case p of None \<Rightarrow> E x | Some v \<Rightarrow> wp (f v) Q E x)"
  by (cases p) (simp_all add: wp_basic)

lemma wp_get_state: "wp get_state Q E (w, s) = Q s (w, s)"
  by (simp add: wp_def get_state_def)

lemma wp_set_state: "wp (set_state s') Q E (w, s) = Q () (w, s')"
  by (simp add: wp_def set_state_def)

lemma wp_api: "wp (on_api m) Q E (w, s) = wp m (\<lambda>v w'. Q v (w', s)) (\<lambda>w'. E (w', s)) w"
  by (auto simp: wp_def on_api_def split: option.splits prod.splits res.splits)

lemma wp_part: "wp (on_part part put m) Q E (w, s) = wp m (\<lambda>v (w', t). Q v (w', put t s)) (\<lambda>(w', t). E (w', put t s)) (w, part s)"
  by (auto simp: wp_def on_part_def split: option.splits prod.splits res.splits)

lemmas wp_simps = wp_bind wp_wrap wp_basic wp_deref wp_get_state wp_set_state wp_api wp_part

lemma wp_mono:
  assumes "wp m Q E x" and "\<And>v x'. Q v x' \<Longrightarrow> Q' v x'" and "\<And>x'. E x' \<Longrightarrow> E' x'"
  shows "wp m Q' E' x"
  using assms by (auto simp: wp_def split: option.splits prod.splits res.splits)

lemma wpI: "(\<And>r x'. m x = Some (r, x') \<Longrightarrow> case r of Ok v \<Rightarrow> Q v x' | _ \<Rightarrow> E x') \<Longrightarrow> wp m Q E x"
  by (auto simp: wp_def split: option.splits prod.splits res.splits)

lemma wpD: "wp m (\<lambda>_. Q) Q x \<Longrightarrow> m x = Some (r, x') \<Longrightarrow> Q x'"
  by (auto simp: wp_def split: res.splits)

section \<open>Operations that leave a part of the world alone\<close>

definition quiet :: "('w \<Rightarrow> 'v) \<Rightarrow> ('w, 'a) io \<Rightarrow> bool" where
  "quiet view m = (\<forall>w r w'. m w = Some (r, w') \<longrightarrow> view w' = view w)"

lemma quiet_bind: "quiet view m \<Longrightarrow> (\<And>x. quiet view (f x)) \<Longrightarrow> quiet view (io_bind m f)"
  unfolding quiet_def io_bind_def by (fastforce split: option.splits prod.splits res.splits)

lemma quiet_handle: "quiet view m \<Longrightarrow> (\<And>x. quiet view (f x)) \<Longrightarrow> (\<And>e. quiet view (g e)) \<Longrightarrow> quiet view (io_handle m f g)"
  unfolding quiet_def io_handle_def by (fastforce split: option.splits prod.splits res.splits)

lemma quiet_basic [simp]:
  "quiet view (io_ok v)" "quiet view (io_err e)" "quiet view (io_panic p)" "quiet view (io_res r)"
  by (simp_all add: quiet_def io_ok_def io_err_def io_panic_def io_res_def)

lemma quiet_wrap: "quiet view m \<Longrightarrow> quiet view (io_wrap g m)"
  by (simp add: io_wrap_def quiet_handle)

lemma quiet_wp: "quiet view m \<Longrightarrow> (\<And>v w'. view w' = view w \<Longrightarrow> Q v w' \<and> E w') \<Longrightarrow> wp m Q E w"
  unfolding quiet_def wp_def by (force split: option.splits prod.splits res.splits)

end
