(* ===== verification/AppPlatform.thy ===== *)
theory AppPlatform
  imports AppOutput AppReadiness AppImages AppDeployments Dns Stateful Heal
begin

text \<open>
  The driver of apps (\<^verbatim>\<open>internal/drivers/app_platform.go\<close>): Create, Read, Update, Delete, Diff,
  HealthCheck and Scale, the CNAME records it keeps for the custom domains, and the deployments it
  waits for after an update. The driver remembers, for every app it has updated, the deployment to
  wait for; its operations act on the world and that memory. The text of a float and SHA-256 are
  parameters.
\<close>

record 'w app_driver =
  ap_client :: "'w app_client"
  ap_regClient :: "'w registry_client option"
  ap_dnsClient :: "'w domains_client option"
  ap_region :: string
  ap_probe :: "'w domain_probe"

section \<open>CNAME records of the custom domains\<close>

definition appDefaultIngressCNAME :: "string \<Rightarrow> string" where
  "appDefaultIngressCNAME defaultIngress =
     (let s = trim_space defaultIngress in
      if s = [] then []
      else let h = (case url_Parse s of Some u \<Rightarrow> if url_Host u \<noteq> [] then url_Host u else s | None \<Rightarrow> s);
               h = trim_suffix (trim_suffix h ''/'') ''.''
        in if h = [] then [] else to_lower h @ ''.'')"

definition appDomainDNSRecordName :: "string \<Rightarrow> string \<Rightarrow> string option" where
  "appDomainDNSRecordName domain zone =
     (let domain = trim_suffix (to_lower (trim_space domain)) ''.''; zone = trim_suffix (to_lower (trim_space zone)) ''.'' in
      if domain = [] \<or> zone = [] \<or> domain = zone then None
      else if \<not> has_suffix domain (CHR ''.'' # zone) then None
      else let name = trim_suffix domain (CHR ''.'' # zone) in if name = [] then None else Some name)"

definition dnsRecordDataEqual :: "string \<Rightarrow> string \<Rightarrow> bool" where
  "dnsRecordDataEqual a b = equal_fold (trim_suffix (trim_space a) ''.'') (trim_suffix (trim_space b) ''.'')"

definition listAppDomainRecords :: "'w domains_client \<Rightarrow> string \<Rightarrow> ('w, domain_record list) io" where
  "listAppDomainRecords client domain =
     io_wrap (\<lambda>e. Wrapf ''dns list records %q: %w'' [FStr domain] (WrapGodoError e)) (collect_pages (Domains_Records client domain) 1 [])"

definition cname_request :: "string \<Rightarrow> string \<Rightarrow> edit_request" where
  "cname_request name target = \<lparr>er_Type = ''CNAME'', er_Name = name, er_Data = target, er_Priority = 0, er_Port = 0, er_TTL = 1800,
     er_Weight = 0, er_Flags = 0, er_Tag = []\<rparr>"

definition cname_of :: "string \<Rightarrow> domain_record \<Rightarrow> bool" where
  "cname_of name r = (equal_fold (dr_Type r) ''CNAME'' \<and> dr_Name r = name)"

fun cname_loop :: "'w domains_client \<Rightarrow> string \<Rightarrow> string \<Rightarrow> string \<Rightarrow> bool \<Rightarrow> bool \<Rightarrow> bool \<Rightarrow> domain_record list \<Rightarrow> ('w, unit) io" where
  "cname_loop client zone name target first hasTarget keptTarget [] = io_ok ()"
| "cname_loop client zone name target first hasTarget keptTarget (r # rs) =
     (if dnsRecordDataEqual (dr_Data r) target \<and> keptTarget then cname_loop client zone name target False hasTarget False rs
      else if \<not> hasTarget \<and> first then
        io_bind (io_wrap (\<lambda>e. Wrapf ''dns update app domain CNAME %q/%s: %w'' [FStr zone, FStr name] (WrapGodoError e))
                   (Domains_EditRecord client zone (dr_ID r) (cname_request name target))) (\<lambda>_.
        cname_loop client zone name target False True keptTarget rs)
      else
        io_bind (io_wrap (\<lambda>e. Wrapf ''dns delete stale app domain CNAME %q/%s id %d: %w'' [FStr zone, FStr name, FInt (dr_ID r)] (WrapGodoError e))
                   (Domains_DeleteRecord client zone (dr_ID r))) (\<lambda>_.
        cname_loop client zone name target False hasTarget keptTarget rs))"

definition reconcileAppDomainCNAME :: "'w domains_client \<Rightarrow> string \<Rightarrow> string \<Rightarrow> string \<Rightarrow> ('w, unit) io" where
  "reconcileAppDomainCNAME client zone name target =
     io_bind (listAppDomainRecords client zone) (\<lambda>records.
     let matching = filter (cname_of name) records in
     if matching = [] then
       io_bind (io_wrap (\<lambda>e. Wrapf ''dns create app domain CNAME %q/%s: %w'' [FStr zone, FStr name] (WrapGodoError e))
                  (Domains_CreateRecord client zone (cname_request name target))) (\<lambda>_. io_ok ())
     else
       let hasTarget = list_ex (\<lambda>r. dnsRecordDataEqual (dr_Data r) target) matching
       in cname_loop client zone name target True hasTarget hasTarget matching)"

fun cnames_loop :: "'w domains_client \<Rightarrow> string \<Rightarrow> app_domain option list \<Rightarrow> ('w, unit) io" where
  "cnames_loop client target [] = io_ok ()"
| "cnames_loop client target (d # ds) = (case d of
     None \<Rightarrow> cnames_loop client target ds
   | Some domain \<Rightarrow>
     if trim_space (ad_Zone domain) = [] then cnames_loop client target ds
     else case appDomainDNSRecordName (ad_Domain domain) (ad_Zone domain) of
       None \<Rightarrow> cnames_loop client target ds
     | Some name \<Rightarrow>
       io_bind (io_wrap (Wrapf ''app platform reconcile DNS %q: %w'' [FStr (ad_Domain domain)])
                  (reconcileAppDomainCNAME client (ad_Zone domain) name target)) (\<lambda>_.
       cnames_loop client target ds))"

definition reconcileAppDomainCNAMEs :: "'w app_driver \<Rightarrow> app \<Rightarrow> app_domain option list \<Rightarrow> ('w, unit) io" where
  "reconcileAppDomainCNAMEs d a domains = (case ap_dnsClient d of
     None \<Rightarrow> io_ok ()
   | Some dns \<Rightarrow>
     let target = appDefaultIngressCNAME (app_DefaultIngress a)
     in if domains = [] \<or> target = [] then io_ok () else cnames_loop dns target domains)"

definition appDomains :: "app \<Rightarrow> app_domain option list" where
  "appDomains a = (case app_Spec a of None \<Rightarrow> [] | Some spec \<Rightarrow> as_Domains spec)"

section \<open>Looking an app up\<close>

definition findAppByName :: "(string \<Rightarrow> string) \<Rightarrow> 'w app_driver \<Rightarrow> string \<Rightarrow> ('w, resource_output) io" where
  "findAppByName sha d name =
     io_bind (io_wrap (\<lambda>e. Wrapf ''app platform list: %w'' [] (WrapGodoError e))
               (find_page (Apps_List (ap_client d)) (\<lambda>a. a = None \<or> named_app name a) 1)) (\<lambda>r.
     case r of
       Some a_opt \<Rightarrow> io_deref a_opt (\<lambda>a. io_res (appOutput sha a))
     | None \<Rightarrow> io_err (Wrapf ''app %q: %w'' [FStr name] (Sentinel ErrResourceNotFound)))"

definition app_resolveProviderID :: "(string \<Rightarrow> string) \<Rightarrow> 'w app_driver \<Rightarrow> resource_ref \<Rightarrow> ('w, string) io" where
  "app_resolveProviderID sha d ref = heal ''app platform state-heal for %q: %w'' (findAppByName sha d) ref"

section \<open>Create, Read, Delete, Scale, Diff\<close>

definition config_region :: "cfg \<Rightarrow> string" where
  "config_region config = str_or_empty (map_of config ''region'')"

text \<open>What Create and Update check before they talk to the apps service.\<close>

definition app_preflight :: "string \<Rightarrow> 'w app_driver \<Rightarrow> resource_spec \<Rightarrow> ('w, unit) io" where
  "app_preflight fmt d spec =
     (let region = config_region (spec_Config spec) in
      io_bind (io_res (if region \<noteq> [] then res_wrap (Wrapf fmt [FStr (spec_Name spec)]) (validateAppPlatformRegion region) else Ok ())) (\<lambda>_.
      case ap_regClient d of
        None \<Rightarrow> io_ok ()
      | Some reg \<Rightarrow> verifyImageConfigPresentInDOCR reg (spec_Config spec)))"

definition app_spec_of :: "(f64 \<Rightarrow> string) \<Rightarrow> 'w app_driver \<Rightarrow> resource_spec \<Rightarrow> app_spec res" where
  "app_spec_of fl d spec =
     (let region = config_region (spec_Config spec)
      in res_wrap (Wrapf ''app platform build spec: %w'' [])
           (buildAppSpec fl (spec_Name spec) (spec_Config spec) (if region = [] then ap_region d else region)))"

definition app_Create :: "(f64 \<Rightarrow> string) \<Rightarrow> (string \<Rightarrow> string) \<Rightarrow> 'w app_driver \<Rightarrow> resource_spec \<Rightarrow> ('w, resource_output) io" where
  "app_Create fl sha d spec =
     io_bind (app_preflight ''app platform create %q: %w'' d spec) (\<lambda>_.
     io_bind (io_res (app_spec_of fl d spec)) (\<lambda>appSpec.
     io_bind (io_wrap (\<lambda>e. Wrapf ''app platform create %q: %w'' [FStr (spec_Name spec)] (WrapGodoError e)) (Apps_Create (ap_client d) appSpec)) (\<lambda>r.
     case r of
       None \<Rightarrow> io_err (Errorf ''app platform create %q: API returned app with empty ID'' [FStr (spec_Name spec)])
     | Some a \<Rightarrow>
       if app_ID a = [] then io_err (Errorf ''app platform create %q: API returned app with empty ID'' [FStr (spec_Name spec)])
       else io_bind (reconcileAppDomainCNAMEs d a (as_Domains appSpec)) (\<lambda>_. io_res (appOutput sha a)))))"

definition app_Read :: "(string \<Rightarrow> string) \<Rightarrow> 'w app_driver \<Rightarrow> resource_ref \<Rightarrow> ('w, resource_output) io" where
  "app_Read sha d ref =
     (if ref_ProviderID ref = [] then findAppByName sha d (ref_Name ref)
      else io_bind (io_wrap (\<lambda>e. Wrapf ''app platform read %q: %w'' [FStr (ref_Name ref)] (WrapGodoError e))
                      (Apps_Get (ap_client d) (ref_ProviderID ref))) (\<lambda>r.
           io_deref r (\<lambda>a. io_res (appOutput sha a))))"

definition app_Delete :: "(string \<Rightarrow> string) \<Rightarrow> 'w app_driver \<Rightarrow> resource_ref \<Rightarrow> ('w, unit) io" where
  "app_Delete sha d ref =
     io_bind (app_resolveProviderID sha d ref) (\<lambda>providerID.
     io_wrap (\<lambda>e. Wrapf ''app platform delete %q: %w'' [FStr (ref_Name ref)] (WrapGodoError e)) (Apps_Delete (ap_client d) providerID))"

definition scale_service :: "int \<Rightarrow> app_service option \<Rightarrow> app_service option" where
  "scale_service replicas svc = map_option (\<lambda>s. s\<lparr>svc_InstanceCount := replicas\<rparr>) svc"

definition app_Scale :: "(string \<Rightarrow> string) \<Rightarrow> 'w app_driver \<Rightarrow> resource_ref \<Rightarrow> int \<Rightarrow> ('w, resource_output) io" where
  "app_Scale sha d ref replicas =
     io_bind (app_resolveProviderID sha d ref) (\<lambda>providerID.
     io_bind (io_wrap (\<lambda>e. Wrapf ''app platform scale read %q: %w'' [FStr (ref_Name ref)] (WrapGodoError e)) (Apps_Get (ap_client d) providerID)) (\<lambda>r.
     io_deref r (\<lambda>a. io_deref (app_Spec a) (\<lambda>spec.
       if None \<in> set (as_Services spec) then io_panic ''nil pointer dereference''
       else io_bind (io_wrap (\<lambda>e. Wrapf ''app platform scale update %q: %w'' [FStr (ref_Name ref)] (WrapGodoError e))
              (Apps_Update (ap_client d) providerID (spec\<lparr>as_Services := map (scale_service replicas) (as_Services spec)\<rparr>))) (\<lambda>u.
            io_deref u (\<lambda>updated. io_res (appOutput sha updated)))))))"

definition app_Diff :: "(f64 \<Rightarrow> string) \<Rightarrow> (string \<Rightarrow> string) \<Rightarrow> 'w app_driver \<Rightarrow> resource_spec \<Rightarrow> resource_output option \<Rightarrow> ('w, diff_result) io" where
  "app_Diff fl sha d desired current =
     io_bind (app_preflight ''app platform diff %q: %w'' d desired) (\<lambda>_.
     io_ok (app_compare fl sha (spec_Config desired) current))"

section \<open>The deployment an update waits for\<close>

record wait_state =
  ws_targetDeploymentID :: string
  ws_previousActiveDeploymentID :: string

type_synonym waiting = "string \<Rightarrow> wait_state option"

definition setUpdateDeploymentState :: "waiting \<Rightarrow> string \<Rightarrow> wait_state \<Rightarrow> waiting" where
  "setUpdateDeploymentState s providerID st = s(providerID \<mapsto> st)"

definition hasUpdateDeploymentState :: "waiting \<Rightarrow> string \<Rightarrow> bool" where
  "hasUpdateDeploymentState s providerID = (s providerID \<noteq> None)"

definition clearUpdateDeploymentState :: "waiting \<Rightarrow> string \<Rightarrow> waiting" where
  "clearUpdateDeploymentState s providerID = s(providerID := None)"

definition appHasNoDeploymentSlots :: "app \<Rightarrow> bool" where
  "appHasNoDeploymentSlots a = (app_Active a = None \<and> app_InProgress a = None \<and> app_Pending a = None)"

text \<open>
  The target becomes known when a deployment is found for it; the previously active one is returned
  as well. The state is read again after the list of deployments has come back.
\<close>

definition app_currentTargetDeployment :: "'w app_driver \<Rightarrow> string \<Rightarrow> app option \<Rightarrow> ('w \<times> waiting, deployment option \<times> string) io" where
  "app_currentTargetDeployment d providerID a =
     io_bind get_state (\<lambda>s. case s providerID of
       None \<Rightarrow> io_ok (None, [])
     | Some st \<Rightarrow>
       let prev = ws_previousActiveDeploymentID st; target = ws_targetDeploymentID st in
       (case slot_target a prev target of
          Some dep \<Rightarrow> io_bind (set_state (s(providerID \<mapsto> st\<lparr>ws_targetDeploymentID := dep_ID dep\<rparr>))) (\<lambda>_. io_ok (Some dep, prev))
        | None \<Rightarrow>
          io_bind (on_api (io_wrap (\<lambda>e. Wrapf ''app platform health check %q: list deployments: %w'' [FStr providerID] (WrapGodoError e))
                     (Apps_ListDeployments (ap_client d) providerID 20))) (\<lambda>deployments.
          case history_target deployments prev target of
            None \<Rightarrow> io_ok (None, prev)
          | Some dep \<Rightarrow>
            if target \<noteq> [] then io_ok (Some dep, prev)
            else io_bind get_state (\<lambda>s'. case s' providerID of
                   None \<Rightarrow> io_ok (Some dep, prev)
                 | Some st' \<Rightarrow>
                   if ws_targetDeploymentID st' = []
                   then io_bind (set_state (s'(providerID \<mapsto> st'\<lparr>ws_targetDeploymentID := dep_ID dep\<rparr>))) (\<lambda>_. io_ok (Some dep, prev))
                   else io_ok (Some dep, prev)))))"

definition app_Update ::
  "(f64 \<Rightarrow> string) \<Rightarrow> (string \<Rightarrow> string) \<Rightarrow> 'w app_driver \<Rightarrow> resource_ref \<Rightarrow> resource_spec \<Rightarrow> ('w \<times> waiting, resource_output) io" where
  "app_Update fl sha d ref spec =
     io_bind (on_api (app_preflight ''app platform update %q: %w'' d spec)) (\<lambda>_.
     io_bind (on_api (app_resolveProviderID sha d ref)) (\<lambda>providerID.
     io_bind (io_res (app_spec_of fl d spec)) (\<lambda>appSpec.
     io_bind (on_api (io_wrap (\<lambda>e. Wrapf ''app platform update %q: read current app: %w'' [FStr (ref_Name ref)] (WrapGodoError e))
                (Apps_Get (ap_client d) providerID))) (\<lambda>c.
     io_deref c (\<lambda>current.
     let previous = deploymentID (app_Active current) in
     io_bind (on_api (io_wrap (\<lambda>e. Wrapf ''app platform update %q: %w'' [FStr (ref_Name ref)] (WrapGodoError e))
                (Apps_Update (ap_client d) providerID appSpec))) (\<lambda>u.
     case u of
       None \<Rightarrow> io_err (Errorf ''app platform update %q: API returned nil app'' [FStr (ref_Name ref)])
     | Some a0 \<Rightarrow>
       let target0 = selectUpdateDeployment (Some a0) previous in
       io_bind (if target0 = None \<and> previous = [] \<and> appHasNoDeploymentSlots a0
                then io_bind (on_api (io_wrap (\<lambda>e. Wrapf ''app platform update %q: create deployment for undeployed app: %w'' [FStr (ref_Name ref)] (WrapGodoError e))
                       (Apps_CreateDeployment (ap_client d) providerID))) (\<lambda>dep. io_ok (dep, a0\<lparr>app_InProgress := dep\<rparr>))
                else io_ok (target0, a0)) (\<lambda>(target, a).
       io_bind get_state (\<lambda>s.
       io_bind (set_state (setUpdateDeploymentState s providerID
                  \<lparr>ws_targetDeploymentID = deploymentID target, ws_previousActiveDeploymentID = previous\<rparr>)) (\<lambda>_.
       io_bind (on_api (reconcileAppDomainCNAMEs d a (as_Domains appSpec))) (\<lambda>_.
       io_res (appOutput sha a)))))))))))"

section \<open>Health\<close>

definition shortDepID :: "string \<Rightarrow> string" where
  "shortDepID i = (if length i > 8 then take 8 i else i)"

definition unhealthy :: "message \<Rightarrow> health_result" where
  "unhealthy m = \<lparr>Healthy = False, Message = m\<rparr>"

definition healthy :: health_result where
  "healthy = \<lparr>Healthy = True, Message = Text []\<rparr>"

definition slot_health :: "string \<Rightarrow> deployment \<Rightarrow> health_result" where
  "slot_health suffix dep =
     (let phase = dep_Phase dep in
      if phase \<in> set in_progress_phases then unhealthy (Format (''deployment in progress'' @ suffix @ '': %s'') [FStr phase])
      else if isTerminalErrorPhase phase then unhealthy (Format (''deployment failed'' @ suffix @ '': %s'') [FStr phase])
      else unhealthy (Format (''unknown phase'' @ suffix @ '': %s'') [FStr phase]))"

definition appHealthResult :: "(string \<Rightarrow> ('w, deployment option list) io) option \<Rightarrow> app \<Rightarrow> ('w, health_result) io" where
  "appHealthResult listFn a = (case app_Active a of
     Some dep \<Rightarrow> io_ok (if dep_Phase dep = ''ACTIVE'' then healthy else slot_health '' (active slot)'' dep)
   | None \<Rightarrow> (case app_InProgress a of
       Some dep \<Rightarrow> io_ok (slot_health [] dep)
     | None \<Rightarrow>
       if app_Pending a \<noteq> None then io_ok (unhealthy (Text ''deployment queued''))
       else (case listFn of
         None \<Rightarrow> io_ok (unhealthy (Text ''no deployment found''))
       | Some list_deployments \<Rightarrow> io_handle (list_deployments (app_ID a))
         (\<lambda>hist. case hist of
            [] \<Rightarrow> io_ok (unhealthy (Text ''no deployment found''))
          | latest # _ \<Rightarrow> io_deref latest (\<lambda>l.
              io_ok (unhealthy (Format ''latest deployment %s: %s'' [FStr (shortDepID (dep_ID l)), FStr (dep_Phase l)]))))
         (\<lambda>_. io_ok (unhealthy (Text ''no deployment found''))))))"

text \<open>
  The records are reconciled and the domains probed before an app counts as healthy. When the API
  answers no app at all, a driver that waits for a deployment goes on with the history.
\<close>

definition domains_ready :: "'w app_driver \<Rightarrow> string \<Rightarrow> app option \<Rightarrow> ('w, unit) io" where
  "domains_ready d appName a_opt = (case a_opt of
     None \<Rightarrow> io_ok ()
   | Some a \<Rightarrow>
     io_bind (reconcileAppDomainCNAMEs d a (appDomains a)) (\<lambda>_.
     appPlatformCustomDomainReadinessError appName a (ap_probe d) []))"

definition failing :: "('w, health_result) io \<Rightarrow> ('w, health_result) io" where
  "failing m = io_handle m io_ok (\<lambda>e. io_ok (unhealthy (ErrorText e)))"

definition app_HealthCheck :: "(string \<Rightarrow> string) \<Rightarrow> 'w app_driver \<Rightarrow> resource_ref \<Rightarrow> ('w \<times> waiting, health_result) io" where
  "app_HealthCheck sha d ref = failing
     (io_bind (on_api (app_resolveProviderID sha d ref)) (\<lambda>providerID.
      io_bind (on_api (Apps_Get (ap_client d) providerID)) (\<lambda>r.
      io_bind get_state (\<lambda>s.
      if hasUpdateDeploymentState s providerID then
        io_bind (app_currentTargetDeployment d providerID r) (\<lambda>(dep_opt, previous).
        case dep_opt of
          None \<Rightarrow> io_ok (unhealthy (Format ''waiting for deployment after update: previous active %s'' [FStr previous]))
        | Some dep \<Rightarrow> (case deploymentHealthError (ref_Name ref) dep of
            Some err \<Rightarrow> io_ok (unhealthy (ErrorText err))
          | None \<Rightarrow>
            io_bind (on_api (domains_ready d (ref_Name ref) r)) (\<lambda>_.
            io_bind get_state (\<lambda>s'.
            io_bind (set_state (clearUpdateDeploymentState s' providerID)) (\<lambda>_.
            io_ok healthy)))))
      else
        io_deref r (\<lambda>a.
        io_bind (on_api (appHealthResult (Some (\<lambda>i. Apps_ListDeployments (ap_client d) i 1)) a)) (\<lambda>result.
        if Healthy result then io_bind (on_api (domains_ready d (ref_Name ref) r)) (\<lambda>_. io_ok result)
        else io_ok result))))))"

end
