(* ===== verification/AppHealth.thy ===== *)
theory AppHealth
  imports AppPlatform
begin

text \<open>
  An app that was updated is not healthy because of the deployment that was active before: the
  driver waits until a deployment of the update is active and the domains answer.
\<close>

section \<open>What the API answers\<close>







section \<open>The invariant\<close>








section \<open>Sessions\<close>






text \<open>
  A session: updates and health checks of any apps, in any order, whatever they return. Between them
  the world changes in any way.
\<close>

inductive app_session ::
  "(f64 \<Rightarrow> string) \<Rightarrow> (string \<Rightarrow> string) \<Rightarrow> 'w app_driver \<Rightarrow> 'w \<times> waiting \<Rightarrow> 'w \<times> waiting \<Rightarrow> bool"
  for fl :: "f64 \<Rightarrow> string" and sha :: "string \<Rightarrow> string" and d :: "'w app_driver" where
  session_start: "app_session fl sha d x x"
| session_update: "app_session fl sha d x y \<Longrightarrow> app_Update fl sha d ref spec y = Some (r, z) \<Longrightarrow> app_session fl sha d x z"
| session_check: "app_session fl sha d x y \<Longrightarrow> app_HealthCheck sha d ref y = Some (r, z) \<Longrightarrow> app_session fl sha d x z"
| session_world: "app_session fl sha d x (w, s) \<Longrightarrow> app_session fl sha d x (w', s)"





text \<open>An app that is rolled over from \<open>dep-1\<close> to \<open>dep-2\<close> as soon as it is updated.\<close>

definition ex_dep :: "string \<Rightarrow> string \<Rightarrow> string \<Rightarrow> deployment" where
  "ex_dep i prev phase = \<lparr>dep_ID = i, dep_Phase = phase, dep_Cause = [], dep_PreviousDeploymentID = prev, dep_CreatedAt = [], dep_UpdatedAgo = None,
     dep_Progress = None, dep_Spec = None, dep_Services = [], dep_StaticSites = [], dep_Workers = [], dep_Jobs = [], dep_Functions = []\<rparr>"

definition ex_live_app :: "deployment option \<Rightarrow> deployment option \<Rightarrow> app_spec option \<Rightarrow> app" where
  "ex_live_app active in_progress spec = \<lparr>app_ID = ''a-1'', app_Spec = spec, app_LiveURL = [], app_DefaultIngress = [], app_Active = active,
     app_InProgress = in_progress, app_Pending = None, app_Domains = []\<rparr>"

definition ex_rollout :: "bool app_client" where
  "ex_rollout = \<lparr>Apps_Create = (\<lambda>s w. Some (Ok None, w)),
     Apps_Get = (\<lambda>i w. Some (Ok (Some (ex_live_app (Some (if w then ex_dep ''dep-2'' ''dep-1'' ''ACTIVE'' else ex_dep ''dep-1'' [] ''ACTIVE'')) None None)), w)),
     Apps_List = (\<lambda>p w. Some (Ok ([], None), w)),
     Apps_Update = (\<lambda>i s w. Some (Ok (Some (ex_live_app (Some (ex_dep ''dep-1'' [] ''ACTIVE'')) (Some (ex_dep ''dep-2'' ''dep-1'' ''BUILDING'')) (Some s))), True)),
     Apps_CreateDeployment = (\<lambda>i w. Some (Ok None, w)), Apps_ListDeployments = (\<lambda>i n w. Some (Ok [], w)),
     Apps_Delete = (\<lambda>i w. Some (Ok (), w)), Apps_GetLogs = (\<lambda>i d c ty n w. Some (Ok None, w))\<rparr>"

definition ex_driver :: "bool app_driver" where
  "ex_driver = \<lparr>ap_client = ex_rollout, ap_regClient = None, ap_dnsClient = None, ap_region = ''nyc'', ap_probe = (\<lambda>_ _. io_ok ())\<rparr>"

definition ex_app_ref :: resource_ref where
  "ex_app_ref = \<lparr>ref_Name = ''web'', ref_Type = ''infra.container_service'', ref_ProviderID = ''01234567-89ab-cdef-0123-456789abcdef''\<rparr>"


definition ex_waiting :: waiting where
  "ex_waiting = (\<lambda>_. None)(ref_ProviderID ex_app_ref \<mapsto> \<lparr>ws_targetDeploymentID = ''dep-2'', ws_previousActiveDeploymentID = ''dep-1''\<rparr>)"


text \<open>
  C17: waiting comes to an end. When the deployment of the update is the active one, it has phase
  ACTIVE, nothing else is in progress or pending, it is the remembered target or follows it or no
  target is remembered, and the domains are ready, the next health check is healthy, in one pass,
  without asking for the history, and the driver stops waiting for the app.
\<close>

theorem update_health_settles:
  assumes "isUUIDLike (ref_ProviderID ref)" and "s (ref_ProviderID ref) = Some st"
    and "Apps_Get (ap_client d) (ref_ProviderID ref) w = Some (Ok (Some a), w1)"
    and "app_InProgress a = None" and "app_Pending a = None" and "app_Active a = Some dep" and "dep_Phase dep = ''ACTIVE''"
    and "dep_ID dep \<noteq> []" and "dep_ID dep \<noteq> ws_previousActiveDeploymentID st"
    and "ws_targetDeploymentID st \<in> {[], dep_ID dep, dep_PreviousDeploymentID dep}"
    and "domains_ready d (ref_Name ref) (Some a) w1 = Some (Ok (), w2)"
  shows "app_HealthCheck sha d ref (w, s) = Some (Ok healthy, (w2, s(ref_ProviderID ref := None)))"
proof -
  have heal: "app_resolveProviderID sha d ref = io_ok (ref_ProviderID ref)" by (simp add: app_resolveProviderID_def heal_uuid [OF assms(1)])
  have slot: "slot_target (Some a) (ws_previousActiveDeploymentID st) (ws_targetDeploymentID st) = Some dep"
    using assms(4-10) by (auto simp: slot_target_def selectUpdateDeployment_def isNewerDeployment_def)
  have act: "deploymentHealthError (ref_Name ref) dep = None" using assms(7) by (simp add: deploymentHealthError_None)
  show ?thesis
    using assms(2,3,11) slot act
    by (simp add: app_HealthCheck_def failing_def io_bind_def on_api_def heal io_handle_def io_ok_def get_state_def set_state_def
        hasUpdateDeploymentState_def app_currentTargetDeployment_def Let_def clearUpdateDeploymentState_def)
qed

theorem update_health_settles_witness:
  "app_HealthCheck (\<lambda>t. t) ex_driver ex_app_ref (True, ex_waiting) = Some (Ok healthy, (True, \<lambda>_. None))"
proof -
  let ?dep = "ex_dep ''dep-2'' ''dep-1'' ''ACTIVE''"
  have "app_HealthCheck (\<lambda>t. t) ex_driver ex_app_ref (True, ex_waiting) = Some (Ok healthy, (True, ex_waiting(ref_ProviderID ex_app_ref := None)))"
  proof (rule update_health_settles [where dep = ?dep and a = "ex_live_app (Some ?dep) None None"])
    show "isUUIDLike (ref_ProviderID ex_app_ref)" by code_simp
    show "ex_waiting (ref_ProviderID ex_app_ref) = Some \<lparr>ws_targetDeploymentID = ''dep-2'', ws_previousActiveDeploymentID = ''dep-1''\<rparr>"
      by (simp add: ex_waiting_def)
    show "Apps_Get (ap_client ex_driver) (ref_ProviderID ex_app_ref) True = Some (Ok (Some (ex_live_app (Some ?dep) None None)), True)"
      by (simp add: ex_driver_def ex_rollout_def)
    show "domains_ready ex_driver (ref_Name ex_app_ref) (Some (ex_live_app (Some ?dep) None None)) True = Some (Ok (), True)"
      by (simp add: domains_ready_def reconcileAppDomainCNAMEs_def ex_driver_def io_ok_def io_bind_def ex_live_app_def
          appPlatformCustomDomainReadinessError_def appPlatformCustomDomains_def)
  qed (simp_all add: ex_live_app_def ex_dep_def)
  then show ?thesis by (simp add: ex_waiting_def)
qed

end
