(* ===== verification/AppCname.thy ===== *)
theory AppCname
  imports AppPlatform DnsConverge AppDrift AppStore
begin

text \<open>
  What Create, Update and HealthCheck of an app achieve: the CNAME record of a custom domain, and an
  app that has no drift.
\<close>

section \<open>One CNAME per domain\<close>

text \<open>A zone that stores the names of records as they are given.\<close>

locale exact_zone = dns_zone +
  assumes create_name: "Domains_CreateRecord client domain req w = Some (Ok v, w') \<Longrightarrow> recs w' = recs w @ [x] \<Longrightarrow> dr_Name x = er_Name req"
    and edit_name: "Domains_EditRecord client domain i req w = Some (Ok v, w') \<Longrightarrow> y \<in> set (recs w') \<Longrightarrow> dr_ID y = i \<Longrightarrow> dr_Name y = er_Name req"
begin

lemma cname_made:
  "made_by (cname_request name target) x \<Longrightarrow> dr_Name x = name \<Longrightarrow> cname_of name x \<and> dnsCanonicalRecordData ''CNAME'' (dr_Data x) = dnsCanonicalRecordData ''CNAME'' target"
  by (auto simp: made_by_def cname_of_def cname_request_def dnsRecordMatchesRequest_def dnsRecordDataMatches_def dnsCanonicalRecordData_def
      equal_fold_upper)

text \<open>
  The loop over the matching records of a zone. \<open>kept\<close> are those already looked at and not deleted.
\<close>

lemma list_app_recs: "listAppDomainRecords client domain w = Some (Ok (recs w), w)"
proof -
  obtain pages where p: "paged_list (Domains_Records client domain) pages" "concat (pages w) = recs w"
    using records_listed by blast
  then show ?thesis
    using paged_list.collect_pages_all [OF p(1), of w] by (simp add: listAppDomainRecords_def io_simps)
qed

lemma delete_rest:
  assumes "cname_loop client domain name target False hasTarget False rs w = Some (Ok (), w')" and "hasTarget"
  shows "recs w' = filter (\<lambda>y. dr_ID y \<notin> dr_ID ` set rs) (recs w)"
  using assms(1)
proof (induction rs arbitrary: w)
  case Nil
  then show ?case by (simp add: io_ok_def)
next
  case (Cons r rs)
  obtain u w1 where d: "Domains_DeleteRecord client domain (dr_ID r) w = Some (Ok u, w1)"
    and k: "cname_loop client domain name target False hasTarget False rs w1 = Some (Ok (), w')"
    using Cons.prems assms(2) by (auto elim!: io_bind_OkE io_wrap_OkE)
  have "recs w1 = filter (\<lambda>y. dr_ID y \<noteq> dr_ID r) (recs w)" using delete_law [OF d] by simp
  then show ?case using Cons.IH [OF k] by (auto intro!: filter_cong)
qed

lemma keep_first_target:
  assumes "cname_loop client domain name target b True True rs w = Some (Ok (), w')"
    and "\<exists>r \<in> set rs. dnsRecordDataEqual (dr_Data r) target" and "distinct (map dr_ID rs)"
  shows "\<exists>k \<in> set rs. dnsRecordDataEqual (dr_Data k) target
    \<and> recs w' = filter (\<lambda>y. dr_ID y \<notin> dr_ID ` set rs \<or> dr_ID y = dr_ID k) (recs w)"
  using assms
proof (induction rs arbitrary: w b)
  case (Cons r rs)
  show ?case
  proof (cases "dnsRecordDataEqual (dr_Data r) target")
    case True
    then have "recs w' = filter (\<lambda>y. dr_ID y \<notin> dr_ID ` set rs) (recs w)" using Cons.prems(1) by (intro delete_rest [of name target True]) simp_all
    also have "\<dots> = filter (\<lambda>y. dr_ID y \<notin> dr_ID ` set (r # rs) \<or> dr_ID y = dr_ID r) (recs w)"
      using Cons.prems(3) by (auto intro!: filter_cong)
    finally show ?thesis using True by auto
  next
    case False
    obtain u w1 where d: "Domains_DeleteRecord client domain (dr_ID r) w = Some (Ok u, w1)"
      and k: "cname_loop client domain name target False True True rs w1 = Some (Ok (), w')"
      using Cons.prems(1) False by (auto elim!: io_bind_OkE io_wrap_OkE)
    have w1: "recs w1 = filter (\<lambda>y. dr_ID y \<noteq> dr_ID r) (recs w)" using delete_law [OF d] by simp
    obtain t where t: "t \<in> set rs" "dnsRecordDataEqual (dr_Data t) target"
      "recs w' = filter (\<lambda>y. dr_ID y \<notin> dr_ID ` set rs \<or> dr_ID y = dr_ID t) (recs w1)"
      using Cons.IH [OF k] Cons.prems(2,3) False by auto
    have "dr_ID t \<noteq> dr_ID r" using t(1) Cons.prems(3) by (metis distinct.simps(2) imageI list.set_map list.simps(9))
    then have "recs w' = filter (\<lambda>y. dr_ID y \<notin> dr_ID ` set (r # rs) \<or> dr_ID y = dr_ID t) (recs w)"
      unfolding t(3) w1 by (auto intro!: filter_cong)
    then show ?thesis using t(1,2) by auto
  qed
qed simp

end

subsection \<open>What is left of a list\<close>

lemma filter_same: "distinct xs \<Longrightarrow> k \<in> set xs \<Longrightarrow> filter (\<lambda>y. y = k) xs = [k]"
  by (induction xs) (auto simp: filter_empty_conv)

lemma same_record: "distinct (map dr_ID rs) \<Longrightarrow> a \<in> set rs \<Longrightarrow> b \<in> set rs \<Longrightarrow> dr_ID a = dr_ID b \<Longrightarrow> a = b"
  by (induction rs) (auto simp: image_iff)

lemma kept_one:
  assumes "distinct (map dr_ID rs)" and "k \<in> set rs" and "P k"
    and "rs' = filter (\<lambda>y. dr_ID y \<notin> dr_ID ` set (filter P rs) \<or> dr_ID y = dr_ID k) rs"
  shows "filter P rs' = [k] \<and> filter (\<lambda>y. \<not> P y) rs' = filter (\<lambda>y. \<not> P y) rs"
proof -
  note same = same_record [OF assms(1)]
  have "filter P rs' = filter (\<lambda>y. y = k) rs" unfolding assms(4) filter_filter using same assms(2,3) by (intro filter_cong) auto
  moreover have "filter (\<lambda>y. \<not> P y) rs' = filter (\<lambda>y. \<not> P y) rs" unfolding assms(4) filter_filter using same by (intro filter_cong) auto
  ultimately show ?thesis using filter_same [OF _ assms(2)] assms(1) by (simp add: distinct_map)
qed

lemma edited_one:
  assumes "distinct (map dr_ID rs)" and "filter P rs = r # ms" and "P x" and "dr_ID x = dr_ID r"
    and "rs' = filter (\<lambda>y. dr_ID y \<notin> dr_ID ` set ms) (map (\<lambda>y. if dr_ID y = dr_ID r then x else y) rs)"
  shows "filter P rs' = [x] \<and> filter (\<lambda>y. \<not> P y) rs' = filter (\<lambda>y. \<not> P y) rs"
proof -
  let ?h = "\<lambda>y. if dr_ID y = dr_ID r then x else y"
  note same = same_record [OF assms(1)]
  have r: "r \<in> set rs" "P r" and ms: "\<And>m. m \<in> set ms \<longleftrightarrow> m \<in> set rs \<and> P m \<and> m \<noteq> r"
  proof -
    have "set (r # ms) = {y \<in> set rs. P y}" using arg_cong [OF assms(2), of set] by simp
    moreover have "distinct (r # ms)" using assms(1,2) by (metis distinct_filter distinct_map)
    ultimately show "r \<in> set rs" "P r" "\<And>m. m \<in> set ms \<longleftrightarrow> m \<in> set rs \<and> P m \<and> m \<noteq> r" by (auto simp: set_eq_iff)
  qed
  have rms: "dr_ID r \<notin> dr_ID ` set ms" using same r(1) ms by auto
  have a: "filter P rs' = map ?h (filter (\<lambda>y. y = r) rs)"
    unfolding assms(5) filter_filter filter_map o_def using same r ms rms assms(3,4) by (intro arg_cong [where f = "map ?h"] filter_cong) auto
  have b: "filter (\<lambda>y. \<not> P y) rs' = map ?h (filter (\<lambda>y. \<not> P y) rs)"
    unfolding assms(5) filter_filter filter_map o_def using same r ms rms assms(3,4) by (intro arg_cong [where f = "map ?h"] filter_cong) auto
  have c: "map ?h (filter (\<lambda>y. \<not> P y) rs) = filter (\<lambda>y. \<not> P y) rs" using same r by (intro map_idI) auto
  have d: "filter (\<lambda>y. y = r) rs = [r]" using filter_same [OF _ r(1)] assms(1) by (simp add: distinct_map)
  show ?thesis unfolding a b c d by simp
qed

context exact_zone
begin

lemma one_cname:
  assumes run: "reconcileAppDomainCNAME client domain name target w = Some (Ok (), w')"
  shows "\<exists>x. filter (cname_of name) (recs w') = [x]
    \<and> (dnsRecordDataEqual (dr_Data x) target \<or> dnsRecordDataMatches ''CNAME'' (dr_Data x) target)
    \<and> filter (\<lambda>y. \<not> cname_of name y) (recs w') = filter (\<lambda>y. \<not> cname_of name y) (recs w)"
proof -
  let ?m = "filter (cname_of name) (recs w)"
  have made: "cname_of name x \<and> dnsRecordDataMatches ''CNAME'' (dr_Data x) target"
    if "made_by (cname_request name target) x" "dr_Name x = name" for x
    using cname_made [OF that] by (simp add: dnsRecordDataMatches_def)
  have k: "(if ?m = [] then
       io_bind (io_wrap (\<lambda>e. Wrapf ''dns create app domain CNAME %q/%s: %w'' [FStr domain, FStr name] (WrapGodoError e))
                  (Domains_CreateRecord client domain (cname_request name target))) (\<lambda>_. io_ok ())
     else cname_loop client domain name target True (list_ex (\<lambda>r. dnsRecordDataEqual (dr_Data r) target) ?m)
            (list_ex (\<lambda>r. dnsRecordDataEqual (dr_Data r) target) ?m) ?m) w = Some (Ok (), w')"
    using run unfolding reconcileAppDomainCNAME_def io_bind_SomeD [where m = "listAppDomainRecords client domain", OF list_app_recs] Let_def .
  consider (create) "?m = []" | (has) "?m \<noteq> []" "list_ex (\<lambda>r. dnsRecordDataEqual (dr_Data r) target) ?m"
    | (edit) r ms where "?m = r # ms" "\<not> list_ex (\<lambda>r. dnsRecordDataEqual (dr_Data r) target) ?m"
    by (cases ?m) auto
  then show ?thesis
  proof cases
    case create
    obtain v where c: "Domains_CreateRecord client domain (cname_request name target) w = Some (Ok v, w')"
      using k create by (auto simp: io_ok_def elim!: io_bind_OkE io_wrap_OkE)
    obtain x where x: "made_by (cname_request name target) x" "recs w' = recs w @ [x]" using create_law [OF c] by auto
    have "dr_Name x = name" using create_name [OF c x(2)] by (simp add: cname_request_def)
    then show ?thesis using made [OF x(1)] create x(2) by (intro exI [of _ x]) simp
  next
    case has
    have "\<exists>r \<in> set ?m. dnsRecordDataEqual (dr_Data r) target" using has(2) by (simp add: list_ex_iff)
    moreover have "distinct (map dr_ID ?m)" using ids_distinct by (rule distinct_map_filter)
    moreover have "cname_loop client domain name target True True True ?m w = Some (Ok (), w')" using k has by simp
    ultimately obtain t where t: "t \<in> set ?m" "dnsRecordDataEqual (dr_Data t) target"
      "recs w' = filter (\<lambda>y. dr_ID y \<notin> dr_ID ` set ?m \<or> dr_ID y = dr_ID t) (recs w)"
      using keep_first_target by blast
    then show ?thesis using kept_one [OF ids_distinct _ _ t(3)] by auto
  next
    case edit
    then have no: "\<not> dnsRecordDataEqual (dr_Data r) target" by simp
    obtain v w1 where e: "Domains_EditRecord client domain (dr_ID r) (cname_request name target) w = Some (Ok v, w1)"
      and rest: "cname_loop client domain name target False True False ms w1 = Some (Ok (), w')"
      using k edit no by (auto elim!: io_bind_OkE io_wrap_OkE)
    obtain x where x: "made_by (cname_request name target) x" "dr_ID x = dr_ID r"
      "recs w1 = map (\<lambda>y. if dr_ID y = dr_ID r then x else y) (recs w)" using edit_law [OF e] by auto
    have "r \<in> set ?m" unfolding edit(1) by simp
    then have rin: "r \<in> set (recs w)" by simp
    have "x \<in> set (recs w1)" unfolding x(3) using rin by force
    then have n: "dr_Name x = name" using edit_name [OF e _ x(2)] by (simp add: cname_request_def)
    have "recs w' = filter (\<lambda>y. dr_ID y \<notin> dr_ID ` set ms) (recs w1)" by (rule delete_rest [OF rest]) simp
    then show ?thesis
      using edited_one [OF ids_distinct edit(1) conjunct1 [OF made [OF x(1) n]] x(2)] made [OF x(1) n] x(3) by (intro exI [of _ x]) simp
  qed
qed

end

interpretation mem_exact: exact_zone calm mem_domains domain zone_of for domain
proof
  fix req v w w' x
  assume c: "Domains_CreateRecord mem_domains domain req w = Some (Ok v, w')" and a: "zone_of w' = zone_of w @ [x]"
  have "zone_of w' = zone_of w @ [record_of (fresh_id (zone_of w)) req]"
    using c zone_of_distinct [of "zone_of w @ [record_of (fresh_id (zone_of w)) req]"] fresh_new [of "zone_of w"] zone_distinct [of w]
    by (auto simp: mem_domains_def Let_def)
  then show "dr_Name x = er_Name req" using a by (simp add: record_of_def)
next
  fix i req v w w' y
  assume e: "Domains_EditRecord mem_domains domain i req w = Some (Ok v, w')" and y: "y \<in> set (zone_of w')" "dr_ID y = i"
  have m: "map dr_ID (map (\<lambda>y. if dr_ID y = i then record_of i req else y) (zone_of w)) = map dr_ID (zone_of w)" by simp
  have "zone_of w' = map (\<lambda>y. if dr_ID y = i then record_of i req else y) (zone_of w)"
    using e zone_distinct [of w] m by (auto simp: mem_domains_def Let_def intro!: zone_of_distinct simp del: map_map)
  then have "y = record_of i req" using y by (auto split: if_splits)
  then show "dr_Name y = er_Name req" by (simp add: record_of_def)
qed

text \<open>
  C31: the CNAME of a custom domain. On a zone only this call writes to, whenever reconciling the
  record of a domain succeeds, the zone holds exactly one CNAME record of that name, its data is the
  ingress of the app, and every other record of the zone is as it was, in the same order: missing
  records are created, stale ones edited or deleted, duplicates removed.
\<close>

theorem app_cname_unique:
  assumes "exact_zone env client zone recs" and "reconcileAppDomainCNAME client zone name target w = Some (Ok (), w')"
  shows "\<exists>x. filter (cname_of name) (recs w') = [x]
    \<and> (dnsRecordDataEqual (dr_Data x) target \<or> dnsRecordDataMatches ''CNAME'' (dr_Data x) target)
    \<and> filter (\<lambda>y. \<not> cname_of name y) (recs w') = filter (\<lambda>y. \<not> cname_of name y) (recs w)"
  by (rule exact_zone.one_cname [OF assms])

definition ex_stale_zone :: "domain_record list" where
  "ex_stale_zone = (let r = (\<lambda>i ty n dat. (record_of i (cname_request n dat))\<lparr>dr_Type := ty\<rparr>) in
     [r 1 ''CNAME'' ''www'' ''old.example.net'', r 2 ''A'' ''www2'' ''192.0.2.1'', r 3 ''CNAME'' ''www'' ''app.ondigitalocean.app''])"

theorem app_cname_unique_witness:
  "\<exists>w'. reconcileAppDomainCNAME mem_domains ''example.com'' ''www'' ''app.ondigitalocean.app.'' ex_stale_zone = Some (Ok (), w')
     \<and> length w' = 2 \<and> length (filter (cname_of ''www'') (zone_of w')) = 1"
proof -
  let ?m = "filter (cname_of ''www'') (zone_of ex_stale_zone)"
  have l: "cname_loop mem_domains ''example.com'' ''www'' ''app.ondigitalocean.app.'' True True True ?m ex_stale_zone
      = Some (Ok (), tl ex_stale_zone)" by code_simp
  have m: "?m \<noteq> []" "list_ex (\<lambda>r. dnsRecordDataEqual (dr_Data r) ''app.ondigitalocean.app.'') ?m" by code_simp+
  have run: "reconcileAppDomainCNAME mem_domains ''example.com'' ''www'' ''app.ondigitalocean.app.'' ex_stale_zone = Some (Ok (), tl ex_stale_zone)"
    unfolding reconcileAppDomainCNAME_def io_bind_SomeD [where m = "listAppDomainRecords mem_domains ''example.com''", OF mem_exact.list_app_recs] Let_def
    using l m(2) by (simp only: if_not_P [OF m(1)])
  have "length (tl ex_stale_zone) = 2" by code_simp
  then show ?thesis using run app_cname_unique [OF mem_exact.exact_zone_axioms run] by fastforce
qed

section \<open>An app has no drift after Create\<close>

lemma appOutput_inputs: "appOutput sha a = Ok out \<Longrightarrow> \<exists>spec. app_Spec a = Some spec"
  by (auto simp: appOutput_def split: option.splits)





end
