(* ===== verification/Troubleshoot.thy ===== *)
theory Troubleshoot
  imports AppPlatform
begin

text \<open>
  \<^verbatim>\<open>AppPlatformDriver.Troubleshoot\<close> (\<^verbatim>\<open>internal/drivers/app_platform.go\<close>): the recent deployments of
  an app, why each of them failed, and the end of its logs. The logs are fetched from presigned
  URLs; the HTTP GET of one, with the cap on the body that is read, is the parameter \<open>log_get\<close>, which
  answers the status and what reading the body gives. What the driver writes to standard error is
  kept beside the world.
\<close>

section \<open>Which deployments\<close>

definition add_deployment :: "deployment option \<Rightarrow> deployment list \<Rightarrow> deployment list" where
  "add_deployment dep_opt result = (case dep_opt of
     None \<Rightarrow> result
   | Some dep \<Rightarrow> if dep_ID dep = [] \<or> dep_ID dep \<in> dep_ID ` set result then result else result @ [dep])"

fun add_history :: "deployment option list \<Rightarrow> deployment list \<Rightarrow> deployment list" where
  "add_history [] result = result"
| "add_history (dep # deps) result = (if length result \<ge> 3 then result else add_history deps (add_deployment dep result))"

definition pickTroubleshootDeployments :: "app \<Rightarrow> deployment option list \<Rightarrow> deployment list" where
  "pickTroubleshootDeployments a historical =
     add_history historical
       (add_deployment (app_Active a) (add_deployment (app_Pending a) (add_deployment (app_InProgress a) [])))"

section \<open>Why a deployment failed\<close>

abbreviation newline :: char where "newline \<equiv> CHR 0x0A"

definition trim_newlines :: "string \<Rightarrow> string" where
  "trim_newlines s = rev (dropWhile (\<lambda>c. c = newline) (rev s))"

definition cause_patterns :: "string list" where
  "cause_patterns = [''Error:'', ''error:'', ''exit status'', ''exit code'', ''failed to'', ''panic:'', ''fatal:'', ''FATAL'']"

definition extractCause :: "string \<Rightarrow> string" where
  "extractCause tail =
     (case first_match (\<lambda>line. list_ex (str_contains line) cause_patterns) (split_on newline tail) of
        Some line \<Rightarrow> trim_space line
      | None \<Rightarrow> (case first_match (\<lambda>line. trim_space line \<noteq> []) (rev (split_on newline (trim_newlines tail))) of
          Some line \<Rightarrow> trim_space line
        | None \<Rightarrow> []))"

text \<open>
  The high-level steps, in which an error without a message of its own is given that of the
  deployment, and the leaf steps. A nil step panics.
\<close>

fun summary_cause :: "string \<Rightarrow> deploy_step option list \<Rightarrow> (string \<times> string) option res" where
  "summary_cause cause [] = Ok None"
| "summary_cause cause (None # steps) = Panic ''nil pointer dereference''"
| "summary_cause cause (Some st # steps) =
     (let msg = (case dst_Reason st of None \<Rightarrow> [] | Some m \<Rightarrow> m); msg = (if msg = [] then cause else msg)
      in if dst_Status st = ''ERROR'' \<and> msg \<noteq> [] then Ok (Some (extractCause msg, dst_Name st)) else summary_cause cause steps)"

fun leaf_cause :: "string \<Rightarrow> deploy_step option list \<Rightarrow> (string \<times> string) option res" where
  "leaf_cause phase [] = Ok None"
| "leaf_cause phase (None # steps) = Panic ''nil pointer dereference''"
| "leaf_cause phase (Some st # steps) =
     (if dst_Status st = ''ERROR'' \<and> dst_Reason st \<noteq> None \<and> dst_Reason st \<noteq> Some []
      then Ok (Some (extractCause (the (dst_Reason st)), phase)) else leaf_cause phase steps)"

definition deploymentCauseAndPhase :: "deployment \<Rightarrow> (string \<times> string) res" where
  "deploymentCauseAndPhase dep =
     res_bind (case dep_Progress dep of None \<Rightarrow> Ok None | Some p \<Rightarrow> summary_cause (dep_Cause dep) (dp_SummarySteps p)) (\<lambda>r.
     case r of Some x \<Rightarrow> Ok x | None \<Rightarrow>
     res_bind (case dep_Progress dep of None \<Rightarrow> Ok None | Some p \<Rightarrow> leaf_cause (dep_Phase dep) (dp_Steps p)) (\<lambda>r.
     case r of Some x \<Rightarrow> Ok x | None \<Rightarrow>
     if dep_Cause dep \<noteq> [] then Ok (dep_Cause dep, dep_Phase dep)
     else if dep_Phase dep = ''ERROR'' \<or> dep_Phase dep = ''CANCELED'' then Ok (dep_Phase dep, dep_Phase dep)
     else Ok ([], [])))"

text \<open>The detail is the sequence of texts that are appended to it.\<close>

record diagnostic =
  dg_ID :: string
  dg_Phase :: string
  dg_Cause :: string
  dg_At :: string
  dg_Detail :: "message list"

definition buildDiagnosticFor :: "deployment \<Rightarrow> diagnostic option res" where
  "buildDiagnosticFor dep = res_bind (deploymentCauseAndPhase dep) (\<lambda>(cause, phase).
     Ok (if cause = [] then None
         else Some \<lparr>dg_ID = dep_ID dep, dg_Phase = phase, dg_Cause = cause, dg_At = dep_CreatedAt dep, dg_Detail = []\<rparr>))"

section \<open>The logs of a deployment\<close>

fun build_failed :: "deploy_step option list \<Rightarrow> bool res" where
  "build_failed [] = Ok False"
| "build_failed (None # steps) = Panic ''nil pointer dereference''"
| "build_failed (Some st # steps) =
     (if dst_Status st = ''ERROR'' \<and> equal_fold (dst_Name st) ''build'' then Ok True else build_failed steps)"

definition chooseLogType :: "deployment \<Rightarrow> string res" where
  "chooseLogType dep = (case dep_Progress dep of
     None \<Rightarrow> Ok ''DEPLOY''
   | Some p \<Rightarrow> res_bind (build_failed (dp_SummarySteps p)) (\<lambda>b. Ok (if b then ''BUILD'' else ''DEPLOY'')))"

definition names_in :: "string option list \<Rightarrow> string list" where
  "names_in = List.map_filter (\<lambda>n. case n of None \<Rightarrow> None | Some s \<Rightarrow> if s = [] then None else Some s)"

definition deploymentComponents :: "deployment \<Rightarrow> string list" where
  "deploymentComponents dep =
     (let names = concat (map names_in [dep_Services dep, dep_StaticSites dep, dep_Workers dep, dep_Jobs dep, dep_Functions dep])
      in if names \<noteq> [] then names
         else (case dep_Spec dep of
           None \<Rightarrow> [[]]
         | Some spec \<Rightarrow>
           let names = concat (map names_in
                 [map (map_option svc_Name) (as_Services spec), map (map_option ss_Name) (as_StaticSites spec),
                  map (map_option job_Name) (as_Jobs spec), map (map_option wk_Name) (as_Workers spec), as_Functions spec])
           in if names \<noteq> [] then names else [[]]))"

definition tailString :: "string \<Rightarrow> nat \<Rightarrow> string" where
  "tailString s n =
     (let ls = split_on newline (trim_newlines s)
      in if length ls \<le> n then s else str_join [newline] (drop (length ls - n) ls))"

type_synonym 'w log_get = "string \<Rightarrow> nat \<Rightarrow> ('w, int \<times> string res) io"

definition fetchLogTail :: "'w log_get \<Rightarrow> string list \<Rightarrow> nat \<Rightarrow> ('w, string) io" where
  "fetchLogTail log_get urls tailLines = (case urls of
     [] \<Rightarrow> io_ok []
   | u # _ \<Rightarrow> io_bind (log_get u (10 * 1024 * 1024)) (\<lambda>(status, body).
       if status \<noteq> 200 then io_err (Errorf ''log fetch HTTP %d'' [FInt status])
       else io_bind (io_res body) (\<lambda>b. io_ok (tailString b tailLines))))"

text \<open>The error whose text \<^verbatim>\<open>redactURLError\<close> returns, for an error that is not nil.\<close>

definition redactURLError :: "go_error \<Rightarrow> go_error" where
  "redactURLError err = (case errors_as_url err of
     Some (op, u, e) \<Rightarrow> Errorf ''%s <redacted-url>: %v'' [FStr op, FErr e]
   | None \<Rightarrow> err)"

definition troubleshootLogTailLines :: nat where
  "troubleshootLogTailLines = 200"

definition print_stderr :: "message \<Rightarrow> ('w \<times> message list, unit) io" where
  "print_stderr m = io_bind get_state (\<lambda>ms. set_state (ms @ [m]))"

text \<open>A block of the detail is framed by two rules; the dash is that of the source.\<close>

definition log_block :: "string \<Rightarrow> farg list \<Rightarrow> message" where
  "log_block body args =
     Format ([newline, newline] @ ''---'' @ [newline] @ ''%s '' @ [CHR 0xE2, CHR 0x80, CHR 0x94] @ '' component %q'' @ body @ [newline] @ ''---'') args"

fun attach_logs :: "'w app_client \<Rightarrow> 'w log_get \<Rightarrow> string \<Rightarrow> string \<Rightarrow> string \<Rightarrow> string list \<Rightarrow> message list \<Rightarrow> ('w \<times> message list, message list) io" where
  "attach_logs client log_get appID depID logType [] detail = io_ok detail"
| "attach_logs client log_get appID depID logType (cmp # comps) detail =
     (let header = FStr (if logType = ''BUILD'' then ''Build logs'' else ''Deploy logs'');
          label = FStr (if cmp = [] then ''<all>'' else cmp);
          next = (\<lambda>block. attach_logs client log_get appID depID logType comps (detail @ [block]))
      in io_handle (on_api (Apps_GetLogs client appID depID cmp logType (int troubleshootLogTailLines)))
        (\<lambda>logs. case logs of
           None \<Rightarrow> next (log_block '': no historic logs returned by DO API'' [header, label])
         | Some urls \<Rightarrow>
           if urls = [] then next (log_block '': no historic logs returned by DO API'' [header, label])
           else io_handle (on_api (fetchLogTail log_get urls troubleshootLogTailLines))
             (\<lambda>tail. if tail = [] then next (log_block '': log fetch returned empty body'' [header, label])
                else next (log_block ('' (last %d lines):'' @ [newline] @ ''%s'') [header, label, FInt (int troubleshootLogTailLines), FStr tail]))
             (\<lambda>e. io_bind (print_stderr (Format (''troubleshoot: log HTTP fetch app=%s dep=%s component=%q: %s (presigned URL not logged)'' @ [newline])
                            [FStr appID, FStr depID, FStr cmp, FErr (redactURLError e)])) (\<lambda>_.
                next (log_block '': log fetch failed (%s)'' [header, label, FErr (redactURLError e)]))))
        (\<lambda>e. io_bind (print_stderr (Format (''troubleshoot: GetLogs app=%s dep=%s component=%q: %v'' @ [newline])
                       [FStr appID, FStr depID, FStr cmp, FErr e])) (\<lambda>_.
             next (log_block '': log fetch unavailable (GetLogs API error: %v)'' [header, label, FErr e]))))"

definition attachDeployLogs :: "'w app_client \<Rightarrow> 'w log_get \<Rightarrow> string \<Rightarrow> deployment \<Rightarrow> diagnostic \<Rightarrow> ('w \<times> message list, diagnostic) io" where
  "attachDeployLogs client log_get appID dep diag =
     io_bind (io_res (chooseLogType dep)) (\<lambda>logType.
     io_bind (attach_logs client log_get appID (dep_ID dep) logType (deploymentComponents dep) (dg_Detail diag)) (\<lambda>detail.
     io_ok (diag\<lparr>dg_Detail := detail\<rparr>)))"

section \<open>Troubleshoot\<close>

fun diagnose :: "'w app_client \<Rightarrow> 'w log_get \<Rightarrow> string \<Rightarrow> deployment list \<Rightarrow> ('w \<times> message list, diagnostic list) io" where
  "diagnose client log_get appID [] = io_ok []"
| "diagnose client log_get appID (dep # deps) =
     io_bind (io_res (buildDiagnosticFor dep)) (\<lambda>diag_opt. case diag_opt of
       None \<Rightarrow> diagnose client log_get appID deps
     | Some diag \<Rightarrow>
       io_bind (if isTerminalErrorPhase (dep_Phase dep) then attachDeployLogs client log_get appID dep diag else io_ok diag) (\<lambda>diag.
       io_bind (diagnose client log_get appID deps) (\<lambda>diags. io_ok (diag # diags))))"

definition app_Troubleshoot :: "'w app_driver \<Rightarrow> 'w log_get \<Rightarrow> resource_ref \<Rightarrow> ('w \<times> message list, diagnostic list) io" where
  "app_Troubleshoot d log_get ref =
     (if ref_ProviderID ref = [] then io_ok []
      else io_bind (on_api (io_wrap (\<lambda>e. Wrapf ''troubleshoot: get app %q: %w'' [FStr (ref_Name ref)] (WrapGodoError e))
                     (Apps_Get (ap_client d) (ref_ProviderID ref)))) (\<lambda>r. case r of
        None \<Rightarrow> io_ok []
      | Some a \<Rightarrow>
        io_handle (on_api (Apps_ListDeployments (ap_client d) (ref_ProviderID ref) 5))
          (\<lambda>hist. diagnose (ap_client d) log_get (ref_ProviderID ref) (pickTroubleshootDeployments a hist))
          (\<lambda>_. diagnose (ap_client d) log_get (ref_ProviderID ref) (pickTroubleshootDeployments a []))))"

end
