(* ===== verification/TroubleshootReport.thy ===== *)
theory TroubleshootReport
  imports Troubleshoot
begin

text \<open>
  What \<^verbatim>\<open>Troubleshoot\<close> answers: the deployments it reports on, and that neither its answer nor what it
  prints depends on the presigned URLs of the logs.
\<close>

section \<open>The URLs do not matter\<close>

text \<open>The same errors and the same API, with other URLs.\<close>

fun rename_url :: "(string \<Rightarrow> string) \<Rightarrow> go_error \<Rightarrow> go_error" where
  "rename_url f (UrlError op u e) = UrlError op (f u) e"
| "rename_url f (Wrapf s a e) = Wrapf s a (rename_url f e)"
| "rename_url f (Wraps s a e1 e2) = Wraps s a (rename_url f e1) (rename_url f e2)"
| "rename_url f e = e"

definition other_urls :: "(string \<Rightarrow> string) \<Rightarrow> 'w app_client \<Rightarrow> 'w app_client" where
  "other_urls f client = client\<lparr>Apps_GetLogs := (\<lambda>i dep c ty n w.
     map_option (map_prod (map_res (map_option (map f))) id) (Apps_GetLogs client i dep c ty n w))\<rparr>"

fun rename_body :: "(string \<Rightarrow> string) \<Rightarrow> int \<times> string res \<Rightarrow> int \<times> string res" where
  "rename_body f (status, Err e) = (status, Err (rename_url f e))"
| "rename_body f (status, r) = (status, r)"

definition same_logs :: "(string \<Rightarrow> string) \<Rightarrow> 'w log_get \<Rightarrow> 'w log_get \<Rightarrow> bool" where
  "same_logs f log_get log_get' = (\<forall>u n. log_get' (f u) n = io_wrap (rename_url f) (io_bind (log_get u n) (\<lambda>r. io_ok (rename_body f r))))"

lemma errors_as_url_rename: "errors_as_url (rename_url f e) = map_option (\<lambda>(op, u, e). (op, f u, e)) (errors_as_url e)"
  by (induction e rule: errors_as_url.induct) (auto split: option.splits)

lemma rename_url_none: "errors_as_url e = None \<Longrightarrow> rename_url f e = e"
  by (induction e rule: errors_as_url.induct) (auto split: option.splits)

lemma redact_rename [simp]: "redactURLError (rename_url f e) = redactURLError e"
  by (cases "errors_as_url e") (auto simp: redactURLError_def errors_as_url_rename rename_url_none)

lemma fetch_rename:
  assumes "same_logs f log_get log_get'"
  shows "fetchLogTail log_get' (map f urls) n = io_wrap (rename_url f) (fetchLogTail log_get urls n)"
proof (cases urls)
  case (Cons u us)
  have "(\<lambda>(status, body). if status \<noteq> 200 then io_err (Errorf ''log fetch HTTP %d'' [FInt status])
         else io_bind (io_res body) (\<lambda>b. io_ok (tailString b n))) (rename_body f r)
      = io_wrap (rename_url f) ((\<lambda>(status, body). if status \<noteq> 200 then io_err (Errorf ''log fetch HTTP %d'' [FInt status])
         else io_bind (io_res body) (\<lambda>b. io_ok (tailString b n))) r)" for r :: "int \<times> string res"
    by (cases "(f, r)" rule: rename_body.cases) (auto simp: io_simps fun_eq_iff)
  then show ?thesis using assms
    by (auto simp: fetchLogTail_def Cons same_logs_def io_simps fun_eq_iff split: option.splits prod.splits res.splits)
qed (simp add: fetchLogTail_def io_simps fun_eq_iff)

lemma handle_wrap: "io_handle (on_api (io_wrap r m)) ok bad = io_handle (on_api m) ok (\<lambda>e. bad (r e))"
  by (auto simp: io_simps on_api_def fun_eq_iff split: option.splits prod.splits res.splits)

lemma handle_logs:
  "io_handle (on_api (Apps_GetLogs (other_urls f client) i dep c ty n)) ok bad
     = io_handle (on_api (Apps_GetLogs client i dep c ty n)) (\<lambda>logs. ok (map_option (map f) logs)) bad"
  by (auto simp: other_urls_def io_simps on_api_def fun_eq_iff split: option.splits prod.splits res.splits)

lemma attach_rename:
  assumes "same_logs f log_get log_get'"
  shows "attach_logs (other_urls f client) log_get' i dep ty comps detail = attach_logs client log_get i dep ty comps detail"
proof (induction comps arbitrary: detail)
  case (Cons c comps)
  show ?case
    by (simp only: attach_logs.simps Let_def handle_logs case_map_option comp_def map_is_Nil_conv fetch_rename [OF assms] handle_wrap redact_rename Cons.IH)
qed simp

lemma diagnose_rename:
  assumes "same_logs f log_get log_get'"
  shows "diagnose (other_urls f client) log_get' i deps = diagnose client log_get i deps"
proof (induction deps)
  case (Cons dep deps)
  have "attachDeployLogs (other_urls f client) log_get' i dep diag = attachDeployLogs client log_get i dep diag" for diag
    by (simp only: attachDeployLogs_def attach_rename [OF assms])
  then show ?case by (simp only: diagnose.simps Cons.IH)
qed simp

text \<open>
  C21: the presigned URLs of the logs, which carry credentials, reach neither the diagnostics nor
  standard error. When the API answers the same deployments but other URLs for the logs, and what is
  found behind them is the same, errors naming the other URL included, then \<^verbatim>\<open>Troubleshoot\<close> returns the
  same diagnostics, prints the same lines and leaves the same world, whatever the URLs are.
\<close>

theorem troubleshoot_hides_urls:
  assumes "same_logs f log_get log_get'"
  shows "app_Troubleshoot (d\<lparr>ap_client := other_urls f (ap_client d)\<rparr>) log_get' ref = app_Troubleshoot d log_get ref"
proof -
  have c: "Apps_Get (other_urls f client) = Apps_Get client" "Apps_ListDeployments (other_urls f client) = Apps_ListDeployments client" for client :: "'a app_client"
    by (simp_all add: other_urls_def)
  show ?thesis by (simp add: app_Troubleshoot_def c diagnose_rename [OF assms])
qed

definition ex_failed_dep :: deployment where
  "ex_failed_dep = \<lparr>dep_ID = ''dep-7'', dep_Phase = ''ERROR'', dep_Cause = ''boot failed'', dep_PreviousDeploymentID = [], dep_CreatedAt = ''noon'',
     dep_UpdatedAgo = None, dep_Progress = None, dep_Spec = None, dep_Services = [Some ''web''], dep_StaticSites = [], dep_Workers = [],
     dep_Jobs = [], dep_Functions = []\<rparr>"

definition ex_failed_app :: app where
  "ex_failed_app = \<lparr>app_ID = ''app-1'', app_Spec = None, app_LiveURL = [], app_DefaultIngress = [], app_Active = None,
     app_InProgress = Some ex_failed_dep, app_Pending = None, app_Domains = []\<rparr>"

definition ex_failing_client :: "unit app_client" where
  "ex_failing_client = \<lparr>Apps_Create = (\<lambda>_. io_ok None), Apps_Get = (\<lambda>_. io_ok (Some ex_failed_app)), Apps_List = (\<lambda>_. io_ok ([], None)),
     Apps_Update = (\<lambda>_ _. io_ok None), Apps_CreateDeployment = (\<lambda>_. io_ok None), Apps_ListDeployments = (\<lambda>_ _. io_ok [Some ex_failed_dep, None]),
     Apps_Delete = (\<lambda>_. io_ok ()), Apps_GetLogs = (\<lambda>_ _ _ _ _. io_ok (Some [''https://logs/?sig=a'']))\<rparr>"

definition ex_failing_driver :: "unit app_driver" where
  "ex_failing_driver = \<lparr>ap_client = ex_failing_client, ap_regClient = None, ap_dnsClient = None, ap_region = [], ap_probe = (\<lambda>_ _. io_ok ())\<rparr>"

definition ex_failed_ref :: resource_ref where
  "ex_failed_ref = \<lparr>ref_Name = ''web'', ref_Type = ''infra.container_service'', ref_ProviderID = ''app-1''\<rparr>"

text \<open>Every fetch times out, and the error names the URL.\<close>

definition ex_timeout :: "unit log_get" where
  "ex_timeout u n = io_err (UrlError ''Get'' u CtxDeadlineExceeded)"

definition ex_report :: "diagnostic list \<times> message list" where
  "ex_report = (let why = FErr (Errorf ''%s <redacted-url>: %v'' [FStr ''Get'', FErr CtxDeadlineExceeded]) in
     ([\<lparr>dg_ID = ''dep-7'', dg_Phase = ''ERROR'', dg_Cause = ''boot failed'', dg_At = ''noon'',
        dg_Detail = [log_block '': log fetch failed (%s)'' [FStr ''Deploy logs'', FStr ''web'', why]]\<rparr>],
      [Format (''troubleshoot: log HTTP fetch app=%s dep=%s component=%q: %s (presigned URL not logged)'' @ [newline])
         [FStr ''app-1'', FStr ''dep-7'', FStr ''web'', why]]))"

lemma ex_picked: "pickTroubleshootDeployments ex_failed_app [Some ex_failed_dep, None] = [ex_failed_dep]"
  by (simp add: pickTroubleshootDeployments_def add_deployment_def ex_failed_app_def ex_failed_dep_def)

lemma ex_diagnostic: "buildDiagnosticFor ex_failed_dep = Ok (Some \<lparr>dg_ID = ''dep-7'', dg_Phase = ''ERROR'', dg_Cause = ''boot failed'', dg_At = ''noon'', dg_Detail = []\<rparr>)"
  by (simp add: buildDiagnosticFor_def deploymentCauseAndPhase_def ex_failed_dep_def)

lemma ex_logs: "deploymentComponents ex_failed_dep = [''web'']" "chooseLogType ex_failed_dep = Ok ''DEPLOY''" "isTerminalErrorPhase (dep_Phase ex_failed_dep)"
  "dep_ID ex_failed_dep = ''dep-7''"
  by code_simp+

lemma ex_fetch: "fetchLogTail ex_timeout [u] n = io_err (UrlError ''Get'' u CtxDeadlineExceeded)"
  by (simp add: fetchLogTail_def ex_timeout_def)

lemma ex_redact: "redactURLError (UrlError ''Get'' u CtxDeadlineExceeded) = Errorf ''%s <redacted-url>: %v'' [FStr ''Get'', FErr CtxDeadlineExceeded]"
  by (simp add: redactURLError_def)

lemma on_api_simps: "on_api (io_ok x) = io_ok x" "on_api (io_err e) = io_err e"
  by (simp_all add: on_api_def io_ok_def io_err_def fun_eq_iff)

lemma handle_simps: "io_handle (io_ok x) ok bad = ok x" "io_handle (io_err e) ok bad = bad e"
  by (simp_all add: io_simps)

lemma print_stderr_run: "print_stderr m (w, ms) = Some (Ok (), (w, ms @ [m]))"
  by (simp add: print_stderr_def set_state_def)

lemma ex_troubleshoot: "app_Troubleshoot ex_failing_driver ex_timeout ex_failed_ref ((), []) = Some (Ok (fst ex_report), ((), snd ex_report))"
proof -
  have c: "Apps_Get (ap_client ex_failing_driver) i = io_ok (Some ex_failed_app)" "Apps_ListDeployments (ap_client ex_failing_driver) i n = io_ok [Some ex_failed_dep, None]"
    "Apps_GetLogs (ap_client ex_failing_driver) i dep cmp ty m = io_ok (Some [''https://logs/?sig=a''])" for i n dep cmp ty m
    by (simp_all add: ex_failing_driver_def ex_failing_client_def)
  have r: "ref_ProviderID ex_failed_ref = ''app-1''" by (simp add: ex_failed_ref_def)
  show ?thesis
    unfolding app_Troubleshoot_def r c io_wrap_def on_api_simps handle_simps io_bind_Ok option.case ex_picked diagnose.simps ex_diagnostic
      io_bind_res res.case attachDeployLogs_def ex_logs attach_logs.simps Let_def ex_fetch ex_redact io_bind_assoc
    by (simp add: io_bind_res ex_logs attachDeployLogs_def io_bind_assoc c Let_def on_api_simps handle_simps ex_fetch ex_redact print_stderr_run io_ok_def io_bind_def ex_report_def troubleshootLogTailLines_def)
qed

theorem troubleshoot_hides_urls_witness:
  "app_Troubleshoot (ex_failing_driver\<lparr>ap_client := other_urls (\<lambda>u. u @ ''bc'') (ap_client ex_failing_driver)\<rparr>) ex_timeout ex_failed_ref ((), [])
     = Some (Ok (fst ex_report), ((), snd ex_report))"
proof -
  have "same_logs (\<lambda>u. u @ ''bc'') ex_timeout ex_timeout" by (simp add: same_logs_def ex_timeout_def io_simps)
  then show ?thesis using ex_troubleshoot by (simp only: troubleshoot_hides_urls)
qed

section \<open>The deployments that are reported\<close>








lemma add_history_from: "dep \<in> set (add_history ds result) \<Longrightarrow> dep \<in> set result \<or> Some dep \<in> set ds"
proof (induction ds result rule: add_history.induct)
  case (2 d ds result)
  have "dep \<in> set (add_deployment d result) \<Longrightarrow> dep \<in> set result \<or> Some dep = d"
    by (auto simp: add_deployment_def split: option.splits if_splits)
  then show ?case using "2.IH" "2.prems" by (auto split: if_splits)
qed simp


subsection \<open>A message gives a cause\<close>












text \<open>A deployment that is reported on.\<close>

definition reports :: "deployment \<Rightarrow> bool" where
  "reports dep = (\<exists>diag. buildDiagnosticFor dep = Ok (Some diag))"







text \<open>
  A superseded deployment, the third of the phases whose logs are fetched, is reported only when it
  states a cause.
\<close>

lemma superseded_silent: "\<not> reports (ex_failed_dep\<lparr>dep_Phase := ''SUPERSEDED'', dep_Cause := []\<rparr>)"
  by (simp add: reports_def buildDiagnosticFor_def deploymentCauseAndPhase_def ex_failed_dep_def)

end
