(* ===== verification/Deploy.thy ===== *)
theory Deploy
  imports AppPlatform
begin

text \<open>
  The deploy drivers of App Platform (\<^verbatim>\<open>internal/drivers/deploy.go\<close>): one app, an app with a green
  clone, and an app with a canary. Each driver keeps state of its own, on which its operations act
  beside the world; the clients are parameters. A driver without a domain probe uses the default
  one. \<^verbatim>\<open>cloneAppSpec\<close>, a round trip through JSON, is the identity on specs as they are modelled.
\<close>

record 'w deploy_api =
  da_client :: "'w app_client"
  da_regClient :: "'w registry_client option"
  da_defaultProbe :: "'w domain_probe"

section \<open>The driver of one app\<close>

record 'w deploy_driver =
  dd_appID :: string
  dd_appName :: string
  dd_domainProbe :: "'w domain_probe option"
  dd_targetDeploymentID :: string
  dd_previousActiveDeploymentID :: string
  dd_waitingForDeployment :: bool

definition NewAppDeployDriver :: "string \<Rightarrow> string \<Rightarrow> 'w domain_probe option \<Rightarrow> 'w deploy_driver" where
  "NewAppDeployDriver appID appName probe = \<lparr>dd_appID = appID, dd_appName = appName, dd_domainProbe = probe,
     dd_targetDeploymentID = [], dd_previousActiveDeploymentID = [], dd_waitingForDeployment = False\<rparr>"

definition dd_probe :: "'w deploy_api \<Rightarrow> 'w deploy_driver \<Rightarrow> 'w domain_probe" where
  "dd_probe api s = (case dd_domainProbe s of None \<Rightarrow> da_defaultProbe api | Some p \<Rightarrow> p)"

definition resolveAppID :: "'w deploy_api \<Rightarrow> ('w \<times> 'w deploy_driver, string) io" where
  "resolveAppID api = io_bind get_state (\<lambda>s.
     if dd_appID s \<noteq> [] then io_ok (dd_appID s)
     else if dd_appName s = [] then io_err (Errorf ''app deploy: app ID or app name is required'' [])
     else io_bind (on_api (find_page (Apps_List (da_client api)) (named_app (dd_appName s)) 1)) (\<lambda>r. case r of
            Some (Some a) \<Rightarrow> io_bind (set_state (s\<lparr>dd_appID := app_ID a\<rparr>)) (\<lambda>_. io_ok (app_ID a))
          | _ \<Rightarrow> io_err (Errorf ''app %q not found'' [FStr (dd_appName s)])))"

definition dd_getApp :: "'w deploy_api \<Rightarrow> ('w \<times> 'w deploy_driver, app option) io" where
  "dd_getApp api = io_bind (resolveAppID api) (\<lambda>appID. on_api (Apps_Get (da_client api) appID))"

definition image_checked :: "'w deploy_api \<Rightarrow> string \<Rightarrow> ('w, unit) io" where
  "image_checked api img = (case da_regClient api of None \<Rightarrow> io_ok () | Some reg \<Rightarrow> verifyImagePresentInDOCR reg img)"

text \<open>The services of a spec with another image; one without an image is left alone.\<close>

definition with_image :: "string \<Rightarrow> app_service \<Rightarrow> app_service" where
  "with_image img svc = svc\<lparr>svc_Image := map_option (\<lambda>i. i\<lparr>img_Repository := imageRepo img, img_Tag := imageTag img\<rparr>) (svc_Image svc)\<rparr>"

definition set_images :: "string \<Rightarrow> app_spec \<Rightarrow> app_spec res" where
  "set_images img spec =
     (if None \<in> set (as_Services spec) then Panic ''nil pointer dereference''
      else Ok (spec\<lparr>as_Services := map (map_option (with_image img)) (as_Services spec)\<rparr>))"

definition dd_Update :: "'w deploy_api \<Rightarrow> string \<Rightarrow> ('w \<times> 'w deploy_driver, unit) io" where
  "dd_Update api img =
     io_bind (on_api (image_checked api img)) (\<lambda>_.
     io_bind get_state (\<lambda>s0.
     io_bind (io_wrap (Wrapf ''app deploy: get %q: %w'' [FStr (dd_appName s0)]) (dd_getApp api)) (\<lambda>r.
     io_deref r (\<lambda>a.
     io_bind get_state (\<lambda>s.
     let prev = deploymentID (app_Active a) in
     io_bind (set_state (s\<lparr>dd_previousActiveDeploymentID := prev\<rparr>)) (\<lambda>_.
     case app_Spec a of
       None \<Rightarrow> io_err (Errorf ''app deploy: %q has no app spec'' [FStr (dd_appName s)])
     | Some spec \<Rightarrow>
       io_bind (io_res (set_images img spec)) (\<lambda>spec.
       io_bind (on_api (io_wrap (Wrapf ''app deploy: update %q: %w'' [FStr (dd_appName s)])
                  (Apps_Update (da_client api) (dd_appID s) spec))) (\<lambda>updated.
       set_state (s\<lparr>dd_previousActiveDeploymentID := prev, dd_waitingForDeployment := True,
         dd_targetDeploymentID := deploymentID (selectUpdateDeployment updated prev)\<rparr>)))))))))"

definition dd_currentTargetDeployment :: "'w deploy_api \<Rightarrow> app option \<Rightarrow> ('w \<times> 'w deploy_driver, deployment option) io" where
  "dd_currentTargetDeployment api a = io_bind get_state (\<lambda>s.
     case slot_target a (dd_previousActiveDeploymentID s) (dd_targetDeploymentID s) of
       Some dep \<Rightarrow> io_bind (set_state (s\<lparr>dd_targetDeploymentID := dep_ID dep\<rparr>)) (\<lambda>_. io_ok (Some dep))
     | None \<Rightarrow>
       io_bind (resolveAppID api) (\<lambda>appID.
       io_bind (on_api (io_wrap (Wrapf ''app deploy: list deployments %q: %w'' [FStr (dd_appName s)])
                  (Apps_ListDeployments (da_client api) appID 20))) (\<lambda>deployments.
       case history_target deployments (dd_previousActiveDeploymentID s) (dd_targetDeploymentID s) of
         None \<Rightarrow> io_ok None
       | Some dep \<Rightarrow>
         if dd_targetDeploymentID s \<noteq> [] then io_ok (Some dep)
         else io_bind get_state (\<lambda>s. io_bind (set_state (s\<lparr>dd_targetDeploymentID := dep_ID dep\<rparr>)) (\<lambda>_. io_ok (Some dep))))))"

text \<open>While a deployment replaces the app, the error also tells how many custom domains answer.\<close>

definition dd_HealthCheck :: "'w deploy_api \<Rightarrow> string \<Rightarrow> ('w \<times> 'w deploy_driver, unit) io" where
  "dd_HealthCheck api path =
     io_bind get_state (\<lambda>s0.
     io_bind (io_wrap (Wrapf ''app deploy: health check %q: %w'' [FStr (dd_appName s0)]) (dd_getApp api)) (\<lambda>r.
     io_bind get_state (\<lambda>s.
     if dd_waitingForDeployment s then
       io_bind (dd_currentTargetDeployment api r) (\<lambda>dep_opt. case dep_opt of
         None \<Rightarrow> io_err (Errorf ''app deploy: %q waiting for deployment after update'' [FStr (dd_appName s)])
       | Some dep \<Rightarrow> (case deploymentHealthError (dd_appName s) dep of
           Some err \<Rightarrow>
             if isInProgressPhase (dep_Phase dep) then
               io_bind (on_api (case r of None \<Rightarrow> io_ok (0, 0) | Some a \<Rightarrow> appPlatformProbeCustomDomains a (dd_probe api s) path)) (\<lambda>(reachable, total).
               if total > 0 then io_err (Wrapf ''%w; domain probe: %d/%d custom domains reachable'' [FInt (int reachable), FInt (int total)] err)
               else io_err err)
             else io_err err
         | None \<Rightarrow> on_api (case r of None \<Rightarrow> io_ok () | Some a \<Rightarrow> appPlatformCustomDomainReadinessError (dd_appName s) a (dd_probe api s) path)))
     else io_deref r (\<lambda>a. case app_Active a of
            None \<Rightarrow> io_err (Errorf ''app deploy: %q not active (phase: %q)'' [FStr (dd_appName s), FStr []])
          | Some dep \<Rightarrow>
            if dep_Phase dep \<noteq> ''ACTIVE'' then io_err (Errorf ''app deploy: %q not active (phase: %q)'' [FStr (dd_appName s), FStr (dep_Phase dep)])
            else on_api (appPlatformCustomDomainReadinessError (dd_appName s) a (dd_probe api s) path)))))"

definition dd_CurrentImage :: "'w deploy_api \<Rightarrow> ('w \<times> 'w deploy_driver, string) io" where
  "dd_CurrentImage api =
     io_bind get_state (\<lambda>s.
     io_bind (io_wrap (Wrapf ''app deploy: current image %q: %w'' [FStr (dd_appName s)]) (dd_getApp api)) (\<lambda>r.
     io_deref r (\<lambda>a. case app_Spec a of
       None \<Rightarrow> io_err (Errorf ''app deploy: no services in %q'' [FStr (dd_appName s)])
     | Some spec \<Rightarrow> (case as_Services spec of
         [] \<Rightarrow> io_err (Errorf ''app deploy: no services in %q'' [FStr (dd_appName s)])
       | svc # _ \<Rightarrow> io_deref svc (\<lambda>sv. case svc_Image sv of
           None \<Rightarrow> io_err (Errorf ''app deploy: service in %q has no image spec'' [FStr (dd_appName s)])
         | Some img \<Rightarrow> io_ok (img_Repository img @ '':'' @ img_Tag img))))))"

definition dd_ReplicaCount :: "'w deploy_api \<Rightarrow> ('w \<times> 'w deploy_driver, int) io" where
  "dd_ReplicaCount api =
     io_bind get_state (\<lambda>s.
     io_bind (io_wrap (Wrapf ''app deploy: replica count %q: %w'' [FStr (dd_appName s)]) (dd_getApp api)) (\<lambda>r.
     io_deref r (\<lambda>a. case app_Spec a of
       None \<Rightarrow> io_ok 1
     | Some spec \<Rightarrow> (case as_Services spec of [] \<Rightarrow> io_ok 1 | svc # _ \<Rightarrow> io_deref svc (\<lambda>sv. io_ok (svc_InstanceCount sv))))))"

definition sanitizeClonedSpecForCreate :: "app_spec \<Rightarrow> app_spec" where
  "sanitizeClonedSpecForCreate spec = spec\<lparr>as_Domains := []\<rparr>"

text \<open>The spec of a clone under another name, with another image.\<close>

definition clone_spec :: "string \<Rightarrow> string \<Rightarrow> app_spec \<Rightarrow> app_spec res" where
  "clone_spec name img spec = set_images img (sanitizeClonedSpecForCreate (spec\<lparr>as_Name := name\<rparr>))"

section \<open>An app and its green clone\<close>

record 'w rolling_driver =
  ro_blueID :: string
  ro_blueName :: string
  ro_greenID :: string
  ro_greenURL :: string
  ro_stableCheck :: bool
  ro_blueDeploy :: "'w deploy_driver option"
  ro_greenDeploy :: "'w deploy_driver option"
  ro_domainProbe :: "'w domain_probe option"

definition NewAppPrevalidatedRollingDriver :: "string \<Rightarrow> string \<Rightarrow> 'w domain_probe option \<Rightarrow> 'w rolling_driver" where
  "NewAppPrevalidatedRollingDriver blueID blueName probe = \<lparr>ro_blueID = blueID, ro_blueName = blueName, ro_greenID = [], ro_greenURL = [],
     ro_stableCheck = False, ro_blueDeploy = None, ro_greenDeploy = None, ro_domainProbe = probe\<rparr>"

text \<open>The driver of the blue app, and that of the green one, is made when it is first needed.\<close>

definition blueDriver :: "'w rolling_driver \<Rightarrow> 'w deploy_driver" where
  "blueDriver s = (case ro_blueDeploy s of Some d \<Rightarrow> d | None \<Rightarrow> NewAppDeployDriver (ro_blueID s) (ro_blueName s) (ro_domainProbe s))"

definition greenDriver :: "'w rolling_driver \<Rightarrow> 'w deploy_driver" where
  "greenDriver s = (case ro_greenDeploy s of Some d \<Rightarrow> d
     | None \<Rightarrow> NewAppDeployDriver (ro_greenID s) (ro_blueName s @ ''-green'') (ro_domainProbe s))"

definition on_blue :: "('w \<times> 'w deploy_driver, 'a) io \<Rightarrow> ('w \<times> 'w rolling_driver, 'a) io" where
  "on_blue = on_part blueDriver (\<lambda>d s. s\<lparr>ro_blueDeploy := Some d\<rparr>)"

definition on_green :: "('w \<times> 'w deploy_driver, 'a) io \<Rightarrow> ('w \<times> 'w rolling_driver, 'a) io" where
  "on_green = on_part greenDriver (\<lambda>d s. s\<lparr>ro_greenDeploy := Some d\<rparr>)"

definition rolling_Update :: "'w deploy_api \<Rightarrow> string \<Rightarrow> ('w \<times> 'w rolling_driver, unit) io" where
  "rolling_Update api img = on_blue (dd_Update api img)"

definition rolling_HealthCheck :: "'w deploy_api \<Rightarrow> string \<Rightarrow> ('w \<times> 'w rolling_driver, unit) io" where
  "rolling_HealthCheck api path = io_bind get_state (\<lambda>s.
     if ro_greenID s \<noteq> [] \<and> \<not> ro_stableCheck s then on_green (dd_HealthCheck api path) else on_blue (dd_HealthCheck api path))"

definition rolling_CurrentImage :: "'w deploy_api \<Rightarrow> ('w \<times> 'w rolling_driver, string) io" where
  "rolling_CurrentImage api = on_blue (dd_CurrentImage api)"

definition rolling_ReplicaCount :: "'w deploy_api \<Rightarrow> ('w \<times> 'w rolling_driver, int) io" where
  "rolling_ReplicaCount api = on_blue (dd_ReplicaCount api)"

definition CreateGreen :: "'w deploy_api \<Rightarrow> string \<Rightarrow> ('w \<times> 'w rolling_driver, unit) io" where
  "CreateGreen api img =
     io_bind (on_api (image_checked api img)) (\<lambda>_.
     io_bind get_state (\<lambda>s0.
     io_bind (io_wrap (Wrapf ''app prevalidated rolling: get blue %q: %w'' [FStr (ro_blueName s0)]) (on_blue (dd_getApp api))) (\<lambda>r.
     io_deref r (\<lambda>blue. case app_Spec blue of
       None \<Rightarrow> io_err (Errorf ''app prevalidated rolling: blue app %q has no app spec'' [FStr (ro_blueName s0)])
     | Some spec \<Rightarrow>
       io_bind (io_res (clone_spec (ro_blueName s0 @ ''-green'') img spec)) (\<lambda>greenSpec.
       io_bind (on_api (io_wrap (Wrapf ''app prevalidated rolling: create green: %w'' []) (Apps_Create (da_client api) greenSpec))) (\<lambda>g.
       io_deref g (\<lambda>green.
       io_bind get_state (\<lambda>s.
       set_state (s\<lparr>ro_greenID := app_ID green, ro_greenURL := app_LiveURL green,
         ro_greenDeploy := Some (NewAppDeployDriver (app_ID green) (ro_blueName s @ ''-green'') None), ro_stableCheck := False\<rparr>)))))))))"

definition SwitchTraffic :: "'w deploy_api \<Rightarrow> ('w \<times> 'w rolling_driver, unit) io" where
  "SwitchTraffic api = io_bind get_state (\<lambda>s.
     if ro_greenID s = [] then io_err (Errorf ''app prevalidated rolling: CreateGreen must be called before SwitchTraffic'' [])
     else io_bind (io_wrap (Wrapf ''app prevalidated rolling: get green image: %w'' []) (on_green (dd_CurrentImage api))) (\<lambda>greenImg.
          io_bind (on_blue (dd_Update api greenImg)) (\<lambda>_.
          io_bind get_state (\<lambda>s. set_state (s\<lparr>ro_stableCheck := True\<rparr>)))))"

definition DestroyBlue :: "'w deploy_api \<Rightarrow> ('w \<times> 'w rolling_driver, unit) io" where
  "DestroyBlue api = io_bind get_state (\<lambda>s.
     if ro_greenID s = [] then io_err (Errorf ''app prevalidated rolling: no green app to destroy'' [])
     else on_api (io_wrap (Wrapf ''app prevalidated rolling: destroy green clone: %w'' []) (Apps_Delete (da_client api) (ro_greenID s))))"

definition GreenEndpoint :: "('w \<times> 'w rolling_driver, string) io" where
  "GreenEndpoint = io_bind get_state (\<lambda>s.
     if ro_greenURL s = [] then io_err (Errorf ''app prevalidated rolling: green endpoint not available (CreateGreen not called)'' [])
     else io_ok (ro_greenURL s))"

section \<open>An app and its canary\<close>

record 'w canary_driver =
  ca_stableID :: string
  ca_stableName :: string
  ca_canaryID :: string
  ca_stableDeploy :: "'w deploy_driver option"
  ca_canaryDeploy :: "'w deploy_driver option"
  ca_domainProbe :: "'w domain_probe option"

definition NewAppCanaryDriver :: "string \<Rightarrow> string \<Rightarrow> 'w domain_probe option \<Rightarrow> 'w canary_driver" where
  "NewAppCanaryDriver stableID stableName probe = \<lparr>ca_stableID = stableID, ca_stableName = stableName, ca_canaryID = [],
     ca_stableDeploy = None, ca_canaryDeploy = None, ca_domainProbe = probe\<rparr>"

definition stableDriver :: "'w canary_driver \<Rightarrow> 'w deploy_driver" where
  "stableDriver s = (case ca_stableDeploy s of Some d \<Rightarrow> d | None \<Rightarrow> NewAppDeployDriver (ca_stableID s) (ca_stableName s) (ca_domainProbe s))"

definition canaryDriver :: "'w canary_driver \<Rightarrow> 'w deploy_driver" where
  "canaryDriver s = (case ca_canaryDeploy s of Some d \<Rightarrow> d
     | None \<Rightarrow> NewAppDeployDriver (ca_canaryID s) (ca_stableName s @ ''-canary'') (ca_domainProbe s))"

definition on_stable :: "('w \<times> 'w deploy_driver, 'a) io \<Rightarrow> ('w \<times> 'w canary_driver, 'a) io" where
  "on_stable = on_part stableDriver (\<lambda>d s. s\<lparr>ca_stableDeploy := Some d\<rparr>)"

definition on_canary :: "('w \<times> 'w deploy_driver, 'a) io \<Rightarrow> ('w \<times> 'w canary_driver, 'a) io" where
  "on_canary = on_part canaryDriver (\<lambda>d s. s\<lparr>ca_canaryDeploy := Some d\<rparr>)"

definition canary_Update :: "'w deploy_api \<Rightarrow> string \<Rightarrow> ('w \<times> 'w canary_driver, unit) io" where
  "canary_Update api img = on_stable (dd_Update api img)"

definition canary_HealthCheck :: "'w deploy_api \<Rightarrow> string \<Rightarrow> ('w \<times> 'w canary_driver, unit) io" where
  "canary_HealthCheck api path = io_bind get_state (\<lambda>s.
     if ca_canaryID s \<noteq> [] then on_canary (dd_HealthCheck api path) else on_stable (dd_HealthCheck api path))"

definition canary_CurrentImage :: "'w deploy_api \<Rightarrow> ('w \<times> 'w canary_driver, string) io" where
  "canary_CurrentImage api = on_stable (dd_CurrentImage api)"

definition canary_ReplicaCount :: "'w deploy_api \<Rightarrow> ('w \<times> 'w canary_driver, int) io" where
  "canary_ReplicaCount api = on_stable (dd_ReplicaCount api)"

definition CreateCanary :: "'w deploy_api \<Rightarrow> string \<Rightarrow> ('w \<times> 'w canary_driver, unit) io" where
  "CreateCanary api img =
     io_bind (on_api (image_checked api img)) (\<lambda>_.
     io_bind get_state (\<lambda>s0.
     io_bind (io_wrap (Wrapf ''app canary: get stable %q: %w'' [FStr (ca_stableName s0)]) (on_stable (dd_getApp api))) (\<lambda>r.
     io_deref r (\<lambda>stable. case app_Spec stable of
       None \<Rightarrow> io_err (Errorf ''app canary: stable app %q has no app spec'' [FStr (ca_stableName s0)])
     | Some spec \<Rightarrow>
       io_bind (io_res (clone_spec (ca_stableName s0 @ ''-canary'') img spec)) (\<lambda>canarySpec.
       io_bind (on_api (io_wrap (Wrapf ''app canary: create canary: %w'' []) (Apps_Create (da_client api) canarySpec))) (\<lambda>c.
       io_deref c (\<lambda>canary.
       io_bind get_state (\<lambda>s.
       set_state (s\<lparr>ca_canaryID := app_ID canary,
         ca_canaryDeploy := Some (NewAppDeployDriver (app_ID canary) (ca_stableName s @ ''-canary'') None)\<rparr>)))))))))"

definition RoutePercent :: "int \<Rightarrow> ('w \<times> 'w canary_driver, unit) io" where
  "RoutePercent percent = io_err (Errorf (''app canary: RoutePercent(%d) unsupported '' @ [CHR 0xE2, CHR 0x80, CHR 0x94] @ '' DigitalOcean App Platform does not ''
     @ ''support traffic splitting; use DigitalOcean Load Balancer + Droplets for canary deployments'') [FInt percent])"

definition CheckMetricGate :: "string \<Rightarrow> ('w \<times> 'w canary_driver, unit) io" where
  "CheckMetricGate metric = io_ok ()"

definition DestroyCanary :: "'w deploy_api \<Rightarrow> ('w \<times> 'w canary_driver, unit) io" where
  "DestroyCanary api = io_bind get_state (\<lambda>s.
     if ca_canaryID s = [] then io_err (Errorf ''app canary: no canary app to destroy'' [])
     else io_bind (on_api (io_wrap (Wrapf ''app canary: destroy canary: %w'' []) (Apps_Delete (da_client api) (ca_canaryID s)))) (\<lambda>_.
          set_state (s\<lparr>ca_canaryID := [], ca_canaryDeploy := None\<rparr>)))"

definition PromoteCanary :: "'w deploy_api \<Rightarrow> ('w \<times> 'w canary_driver, unit) io" where
  "PromoteCanary api = io_bind get_state (\<lambda>s.
     if ca_canaryID s = [] then io_err (Errorf ''app canary: CreateCanary must be called before PromoteCanary'' [])
     else io_bind (io_wrap (Wrapf ''app canary: get canary image: %w'' []) (on_canary (dd_CurrentImage api))) (\<lambda>canaryImg.
          io_bind (io_wrap (Wrapf ''app canary: promote to stable: %w'' []) (on_stable (dd_Update api canaryImg))) (\<lambda>_.
          DestroyCanary api)))"

end
