(* ===== verification/AppPool.thy ===== *)
theory AppPool
  imports AppStore
begin

text \<open>
  Apps that are also created and deleted: what the deploy drivers rely on of the apps service, kept
  by the store in memory.
\<close>

text \<open>
  A created app has a new id and the spec that was given; a deleted app is gone, and a Delete that
  fails changes nothing; deployments are read without changing an app.
\<close>

locale app_pool = app_store client apps for client :: "'w app_client" and apps +
  assumes create_law: "Apps_Create client new_spec w = Some (r, w') \<Longrightarrow>
      (case r of Ok (Some a) \<Rightarrow> app_ID a \<noteq> [] \<and> apps w (app_ID a) = None \<and> apps w' = (apps w)(app_ID a \<mapsto> a) \<and> app_Spec a = Some new_spec
       | _ \<Rightarrow> apps w' = apps w)"
    and delete_law: "Apps_Delete client i w = Some (deleted, w') \<Longrightarrow> apps w' = (case deleted of Ok _ \<Rightarrow> (apps w)(i := None) | _ \<Rightarrow> apps w)"
    and deployments_law: "Apps_ListDeployments client i n w = Some (ds, w') \<Longrightarrow> apps w' = apps w"

lemma new_id_fresh: "a \<in> set w \<Longrightarrow> app_ID a \<noteq> new_id w"
proof
  assume a: "a \<in> set w" and e: "app_ID a = new_id w"
  have "length (app_ID a) \<le> sum_list (map (\<lambda>a. length (app_ID a)) w)" using a by (simp add: member_le_sum_list)
  then show False using arg_cong [OF e, of length] by (simp add: new_id_def)
qed

lemma new_id_id: "app_id (new_id w)"
  by (simp add: app_id_def new_id_def trim_space_def trim_left_def is_space_def)

lemma app_of_set: "app_of w i = Some a \<Longrightarrow> a \<in> set w"
proof -
  have "set (apps_of w) \<subseteq> set w" by (induction w) auto
  then show "app_of w i = Some a \<Longrightarrow> a \<in> set w" using app_of_SomeD by blast
qed

lemma no_new_id: "app_of w (new_id w) = None"
  using app_of_set new_id_fresh app_of_SomeD by (cases "app_of w (new_id w)") blast+

lemma app_of_create:
  "app_of (w @ [fresh_app (new_id w) spec]) = (app_of w)(new_id w \<mapsto> fresh_app (new_id w) spec)"
proof
  fix i
  have m: "apps_of (w @ [a]) = apps_of w @ [a]" if "app_id (app_ID a)" "\<forall>b \<in> set w. app_ID b \<noteq> app_ID a" for a w
    using that by (induction w) auto
  have a: "apps_of (w @ [fresh_app (new_id w) spec]) = apps_of w @ [fresh_app (new_id w) spec]"
    by (rule m) (simp_all add: fresh_app_def new_id_id new_id_fresh)
  have i: "app_ID (fresh_app (new_id w) spec) = new_id w" by (simp add: fresh_app_def)
  show "app_of (w @ [fresh_app (new_id w) spec]) i = ((app_of w)(new_id w \<mapsto> fresh_app (new_id w) spec)) i"
  proof (cases "i = new_id w")
    case True
    have "first_match (\<lambda>a. app_ID a = new_id w) (apps_of w) = None" using no_new_id [of w] by (simp only: app_of_def)
    then show ?thesis unfolding app_of_def a first_match_append True by (simp add: i)
  next
    case False
    then show ?thesis unfolding app_of_def a first_match_append by (simp add: i split: option.split)
  qed
qed

lemma app_of_delete: "app_of (filter (\<lambda>a. app_ID a \<noteq> i) w) = (app_of w)(i := None)"
proof
  fix j
  have f: "apps_of (filter (\<lambda>a. app_ID a \<noteq> i) w) = filter (\<lambda>a. app_ID a \<noteq> i) (apps_of w)"
    by (induction w) (auto simp: conj_commute intro!: filter_cong)
  have g: "first_match (\<lambda>a. app_ID a = j) (filter (\<lambda>a. app_ID a \<noteq> i) xs) = (if j = i then None else first_match (\<lambda>a. app_ID a = j) xs)" for xs
    by (induction xs) auto
  show "app_of (filter (\<lambda>a. app_ID a \<noteq> i) w) j = ((app_of w)(i := None)) j" by (simp add: app_of_def f g)
qed

interpretation mem_pool: app_pool mem_apps app_of
proof
  fix new_spec w w' and r :: "app option res"
  assume "Apps_Create mem_apps new_spec w = Some (r, w')"
  then have r: "r = Ok (Some (fresh_app (new_id w) new_spec))" and w': "w' = w @ [fresh_app (new_id w) new_spec]"
    by (auto simp: mem_apps_def Let_def)
  have "new_id w \<noteq> []" by (simp add: new_id_def)
  then show "case r of Ok (Some a) \<Rightarrow> app_ID a \<noteq> [] \<and> app_of w (app_ID a) = None \<and> app_of w' = (app_of w)(app_ID a \<mapsto> a) \<and> app_Spec a = Some new_spec
       | _ \<Rightarrow> app_of w' = app_of w"
    using app_of_create [of w new_spec] no_new_id [of w] unfolding r w' by (simp add: fresh_app_def)
next
  fix i w w' and deleted :: "unit res"
  assume "Apps_Delete mem_apps i w = Some (deleted, w')"
  then show "app_of w' = (case deleted of Ok _ \<Rightarrow> (app_of w)(i := None) | _ \<Rightarrow> app_of w)"
    using app_of_delete [of i w] by (auto simp: mem_apps_def)
next
  fix i n w w' and ds :: "deployment option list res"
  assume "Apps_ListDeployments mem_apps i n w = Some (ds, w')"
  then show "app_of w' = app_of w" by (simp add: mem_apps_def)
qed

end
