(* ===== verification/RollingSafe.thy ===== *)
theory RollingSafe
  imports Deploy AppPool
begin

text \<open>
  What the deploy drivers may do to the apps: the driver of one app changes no other app and only
  the images of its own; the driver with a green clone deletes nothing but clones it created.
\<close>

section \<open>What may change\<close>

definition no_images :: "app_spec \<Rightarrow> app_spec" where
  "no_images s = s\<lparr>as_Services := map (map_option (\<lambda>svc. svc\<lparr>svc_Image := None\<rparr>)) (as_Services s)\<rparr>"

text \<open>\<open>redeployed i m m'\<close>: of the apps \<open>m\<close> at most that under \<open>i\<close> has changed, and its spec only in images.\<close>

definition redeployed :: "string \<Rightarrow> (string \<Rightarrow> app option) \<Rightarrow> (string \<Rightarrow> app option) \<Rightarrow> bool" where
  "redeployed i m m' = ((\<forall>j. j \<noteq> i \<longrightarrow> m' j = m j)
     \<and> (case m i of None \<Rightarrow> m' i = None
        | Some a \<Rightarrow> \<exists>a'. m' i = Some a' \<and> map_option no_images (app_Spec a') = map_option no_images (app_Spec a)))"

lemma redeployed_refl [simp]: "redeployed i m m"
  by (simp add: redeployed_def split: option.splits)




section \<open>Clients that do not touch the apps\<close>









section \<open>The driver of one app\<close>


section \<open>An app and its green clone\<close>






lemma drivers_put [simp]:
  "blueDriver (s\<lparr>ro_blueDeploy := Some d\<rparr>) = d" "greenDriver (s\<lparr>ro_greenDeploy := Some d\<rparr>) = d"
  "greenDriver (s\<lparr>ro_blueDeploy := x\<rparr>) = greenDriver s" "blueDriver (s\<lparr>ro_greenDeploy := x\<rparr>) = blueDriver s"
  "blueDriver (s\<lparr>ro_stableCheck := c\<rparr>) = blueDriver s" "greenDriver (s\<lparr>ro_stableCheck := c\<rparr>) = greenDriver s"
  "blueDriver (s\<lparr>ro_greenID := g\<rparr>) = blueDriver s" "blueDriver (s\<lparr>ro_greenURL := u\<rparr>) = blueDriver s"
  by (simp_all add: blueDriver_def greenDriver_def split: option.split)


section \<open>A session\<close>












end
