(* ===== verification/Polling.thy ===== *)
theory Polling
  imports Stateful
begin

text \<open>
  Waiting for something to happen: a loop that polls, looks at the clock and sleeps. The clock is a
  parameter: the error of the context, the time in nanoseconds, and the wait for the next poll,
  which the context can end early, with its error. Durations are nanoseconds.
\<close>

record 'w clock =
  ck_Err :: "'w \<Rightarrow> go_error option"
  ck_Now :: "'w \<Rightarrow> int"
  ck_Wait :: "int \<Rightarrow> ('w, go_error option) io"

text \<open>A step that answers nothing is run again; it may go on for ever.\<close>

partial_function (option) poll_loop :: "('w, 'a option) io \<Rightarrow> 'w \<Rightarrow> ('a res \<times> 'w) option" where
  "poll_loop step w =
     (case step w of
        None \<Rightarrow> None
      | Some (r, w') \<Rightarrow>
        (case r of
           Ok v \<Rightarrow> (case v of Some x \<Rightarrow> Some (Ok x, w') | None \<Rightarrow> poll_loop step w')
         | Err e \<Rightarrow> Some (Err e, w')
         | Panic p \<Rightarrow> Some (Panic p, w')))"

declare poll_loop.simps [code]

text \<open>A step of such a loop: one attempt, the deadline, the wait.\<close>

definition poll_step :: "'w clock \<Rightarrow> (go_error \<Rightarrow> go_error) \<Rightarrow> int \<Rightarrow> int \<Rightarrow> ('w, 'a option \<times> 'a res) io \<Rightarrow> ('w, 'a option) io" where
  "poll_step ck wrap deadline pollInterval attempt =
     io_bind (io_ask (ck_Err ck)) (\<lambda>cancelled. case cancelled of
       Some e \<Rightarrow> io_err (wrap e)
     | None \<Rightarrow>
       io_bind attempt (\<lambda>(found, late). case found of
         Some x \<Rightarrow> io_ok (Some x)
       | None \<Rightarrow>
         io_bind (io_ask (ck_Now ck)) (\<lambda>now.
         if now > deadline then io_bind (io_res late) (\<lambda>x. io_ok (Some x))
         else io_bind (ck_Wait ck pollInterval) (\<lambda>ended. case ended of
                Some e \<Rightarrow> io_err (wrap e)
              | None \<Rightarrow> io_ok None))))"

section \<open>Termination\<close>

lemma poll_loop_induct:
  assumes step: "\<And>w. I w \<Longrightarrow> \<exists>r w'. step w = Some (r, w') \<and> (r = Ok None \<longrightarrow> I w' \<and> (m w' :: nat) < m w)"
    and "I w"
  shows "\<exists>r w'. poll_loop step w = Some (r, w')"
  using assms(2)
proof (induction "m w" arbitrary: w rule: less_induct)
  case less
  obtain r w' where s: "step w = Some (r, w')" "r = Ok None \<longrightarrow> I w' \<and> m w' < m w" using step [OF less.prems] by blast
  show ?case
  proof (cases "r = Ok None")
    case True
    then obtain r2 w2 where "poll_loop step w' = Some (r2, w2)" using less.hyps s(2) by blast
    then show ?thesis using s True by (subst poll_loop.simps) simp
  next
    case False
    then show ?thesis using s by (subst poll_loop.simps) (auto split: res.split option.split)
  qed
qed

text \<open>
  Time passes while one waits, and never runs backwards: with a positive interval between the polls
  the deadline comes.
\<close>

definition passes :: "'w clock \<Rightarrow> bool" where
  "passes ck = (\<forall>n w. \<exists>e w'. ck_Wait ck n w = Some (Ok e, w') \<and> ck_Now ck w + n \<le> ck_Now ck w')"

definition returns_forward :: "'w clock \<Rightarrow> ('w, 'a) io \<Rightarrow> bool" where
  "returns_forward ck m = (\<forall>w. \<exists>r w'. m w = Some (r, w') \<and> ck_Now ck w \<le> ck_Now ck w')"

lemma poll_returns:
  assumes "passes ck" and a: "returns_forward ck attempt" and "0 < pollInterval"
  shows "\<exists>r w'. poll_loop (poll_step ck wrap deadline pollInterval attempt) w = Some (r, w')"
proof (rule poll_loop_induct [where I = "\<lambda>_. True" and m = "\<lambda>w. nat (deadline - ck_Now ck w + 1)"])
  fix w
  obtain r w1 where r: "attempt w = Some (r, w1)" "ck_Now ck w \<le> ck_Now ck w1" using a unfolding returns_forward_def by blast
  obtain e w2 where e: "ck_Wait ck pollInterval w1 = Some (Ok e, w2)" "ck_Now ck w1 + pollInterval \<le> ck_Now ck w2"
    using assms(1) unfolding passes_def by blast
  have dec: "\<not> ck_Now ck w1 > deadline \<Longrightarrow> nat (deadline - ck_Now ck w2 + 1) < nat (deadline - ck_Now ck w + 1)"
    using r(2) e(2) assms(3) by linarith
  show "\<exists>r w'. poll_step ck wrap deadline pollInterval attempt w = Some (r, w')
      \<and> (r = Ok None \<longrightarrow> True \<and> nat (deadline - ck_Now ck w' + 1) < nat (deadline - ck_Now ck w + 1))"
    using r(1) e(1) dec
    by (auto simp: poll_step_def io_bind_def io_ask_def io_err_def io_ok_def io_res_def split: option.splits res.splits prod.splits)
qed simp

section \<open>Invariants\<close>

text \<open>What every step that goes on keeps, holds whenever the loop ends.\<close>

lemma wp_poll_loop:
  assumes step: "\<And>w. I w \<Longrightarrow> wp step (\<lambda>v w'. case v of None \<Rightarrow> I w' | Some x \<Rightarrow> Q x w') E w" and "I w"
  shows "wp (poll_loop step) Q E w"
proof (rule wpI)
  fix r w' assume run: "poll_loop step w = Some (r, w')"
  let ?P = "\<lambda>s w y. s = step \<longrightarrow> I w \<longrightarrow> (case fst y of Ok v \<Rightarrow> Q v (snd y) | _ \<Rightarrow> E (snd y))"
  have "?P step w (r, w')"
  proof (rule poll_loop.raw_induct [OF _ run, where P = ?P], intro impI)
    fix loop s w1 y
    assume IH: "\<And>s w y. loop s w = Some y \<Longrightarrow> ?P s w y"
      and body: "(case s w1 of None \<Rightarrow> None
         | Some (r, w') \<Rightarrow> case r of Ok None \<Rightarrow> loop s w' | Ok (Some x) \<Rightarrow> Some (Ok x, w') | Err e \<Rightarrow> Some (Err e, w') | Panic p \<Rightarrow> Some (Panic p, w')) = Some y"
      and s: "s = step" and i: "I w1"
    have IH: "loop step w = Some y \<Longrightarrow> I w \<Longrightarrow> case fst y of Ok v \<Rightarrow> Q v (snd y) | _ \<Rightarrow> E (snd y)" for w using IH by blast
    show "case fst y of Ok v \<Rightarrow> Q v (snd y) | _ \<Rightarrow> E (snd y)"
      using step [OF i] body unfolding s by (fastforce simp: wp_def split: option.splits prod.splits res.splits dest: IH)
  qed
  then show "case r of Ok v \<Rightarrow> Q v w' | _ \<Rightarrow> E w'" using \<open>I w\<close> by (simp only: fst_conv snd_conv simp_thms)
qed

text \<open>Waiting in a loop whose attempts keep \<open>I\<close>, on a clock that does.\<close>

lemma wp_poll_step:
  assumes attempt: "\<And>w. I w \<Longrightarrow> wp attempt (\<lambda>(found, late) w'. (case found of None \<Rightarrow> I w' \<and> (case late of Ok x \<Rightarrow> Q x w' | _ \<Rightarrow> E w') | Some x \<Rightarrow> Q x w')) E w"
    and wait: "\<And>w. I w \<Longrightarrow> wp (ck_Wait ck n) (\<lambda>_. I) I w" and fail: "\<And>w. I w \<Longrightarrow> E w" and "I w"
  shows "wp (poll_loop (poll_step ck g deadline n attempt)) Q E w"
proof (rule wp_poll_loop [where I = I])
  fix w assume i: "I w"
  have ask: "wp (io_ask q) Q' E' x = Q' (q x) x" for q :: "'a \<Rightarrow> 'c" and Q' E' x by (simp add: wp_def io_ask_def)
  have late: "wp (ck_Wait ck n) (\<lambda>v x. wp (case v of None \<Rightarrow> io_ok None | Some e \<Rightarrow> io_err (g e)) (\<lambda>v w'. (v = None \<longrightarrow> I w') \<and> (\<forall>x. v = Some x \<longrightarrow> Q x w')) E x) E w1"
    if "I w1" for w1
    by (rule wp_mono [OF wait [OF that]]) (auto simp: wp_basic fail split: option.split)
  show "wp (poll_step ck g deadline n attempt) (\<lambda>v w'. case v of None \<Rightarrow> I w' | Some x \<Rightarrow> Q x w') E w"
    unfolding poll_step_def wp_bind ask
    by (auto simp: wp_basic fail i wp_bind ask late split: option.split prod.split res.split intro!: wp_mono [OF attempt [OF i]] split: option.splits res.splits)
qed fact

end
