(* ===== verification/Droplet.thy ===== *)
theory Droplet
  imports DropletPricing Volume Polling
begin

text \<open>
  The droplet driver (\<^verbatim>\<open>internal/drivers/droplet.go\<close>) and the wait for an action of the API
  (\<^verbatim>\<open>internal/drivers/actions_wait.go\<close>). The clients are records of calls; a droplet's addresses are
  those the accessors of package \<^verbatim>\<open>godo\<close> answer, nothing where they answer an error.
\<close>

record droplet =
  dl_ID :: int
  dl_Name :: string
  dl_Status :: string
  dl_Size :: "string option"
  dl_Region :: "string option"
  dl_VPCUUID :: string
  dl_Tags :: "string list"
  dl_VolumeIDs :: "string list"
  dl_Features :: "string list"
  dl_PublicIPv4 :: "string option"
  dl_PrivateIPv4 :: "string option"
  dl_NetworksV4 :: "nat option"

datatype ssh_key = Fingerprint string | KeyID int

record droplet_create_request =
  dcr_Name :: string
  dcr_Region :: string
  dcr_Size :: string
  dcr_Image :: string
  dcr_UserData :: string
  dcr_VPCUUID :: string
  dcr_Tags :: "string list"
  dcr_Backups :: bool
  dcr_Monitoring :: bool
  dcr_IPv6 :: bool
  dcr_SSHKeys :: "ssh_key list"
  dcr_Volumes :: "string list"

record api_action =
  ac_ID :: int
  ac_Status :: string

record 'w droplets_client =
  Droplets_Create :: "droplet_create_request \<Rightarrow> ('w, droplet option) io"
  Droplets_Get :: "int \<Rightarrow> ('w, droplet option) io"
  Droplets_Delete :: "int \<Rightarrow> ('w, unit) io"

text \<open>The storage calls of this driver: a volume by its id, the volumes with a name in a region, the detaching.\<close>

record 'w droplet_storage =
  Storage_GetVolume :: "string \<Rightarrow> ('w, volume option) io"
  Storage_ListNamed :: "string \<Rightarrow> string \<Rightarrow> ('w, volume list) io"

type_synonym 'w detacher = "string \<Rightarrow> int \<Rightarrow> ('w, api_action option) io"
type_synonym 'w actions_client = "int \<Rightarrow> ('w, api_action option) io"

text \<open>\<open>dv_stamp\<close> is the time a quote is stamped with; the timeouts are set by tests only.\<close>

record 'w droplet_driver =
  dv_client :: "'w droplets_client"
  dv_storage :: "'w droplet_storage option"
  dv_storageActions :: "'w detacher option"
  dv_actions :: "'w actions_client option"
  dv_sizes :: "'w sizes_client option"
  dv_region :: string
  dv_clock :: "'w clock"
  dv_stamp :: string
  dv_timeouts :: "(int \<times> int) option"

definition droplet_quote :: "'w droplet_driver \<Rightarrow> resource_spec \<Rightarrow> ('w, price_quote option) io" where
  "droplet_quote d spec = QuoteDropletPrice (ck_Err (dv_clock d)) (dv_stamp d) (dv_sizes d) spec"

section \<open>Reading the configuration\<close>

text \<open>\<^verbatim>\<open>strconv.Atoi\<close>: an optional sign and decimal digits, within 64 bits.\<close>

definition is_digit :: "char \<Rightarrow> bool" where
  "is_digit c = (let n = (of_char c :: nat) in 48 \<le> n \<and> n \<le> 57)"

definition digits_value :: "string \<Rightarrow> int" where
  "digits_value s = fold (\<lambda>c v. 10 * v + (int (of_char c) - 48)) s 0"

definition go_atoi :: "string \<Rightarrow> int option" where
  "go_atoi s =
     (let (neg, ds) = (case s of [] \<Rightarrow> (False, []) | c # cs \<Rightarrow> if c = CHR ''-'' then (True, cs) else if c = CHR ''+'' then (False, cs) else (False, s));
          n = (if neg then - digits_value ds else digits_value ds)
      in if ds \<noteq> [] \<and> list_all is_digit ds \<and> min_int64 \<le> n \<and> n \<le> 9223372036854775807 then Some n else None)"

definition providerIDToInt :: "string \<Rightarrow> int res" where
  "providerIDToInt i = (case go_atoi i of
     None \<Rightarrow> Err (Errorf ''ProviderID %q is not a valid droplet integer ID'' [FStr i])
   | Some n \<Rightarrow> if n \<le> 0 then Err (Errorf ''ProviderID %q is not a valid droplet integer ID'' [FStr i]) else Ok n)"

fun ssh_strings :: "int \<Rightarrow> string list \<Rightarrow> ssh_key list res" where
  "ssh_strings i [] = Ok []"
| "ssh_strings i (s # ss) =
     (if s = [] then Err (Errorf ''ssh_keys[%d]: empty fingerprint'' [FInt i])
      else res_bind (ssh_strings (i + 1) ss) (\<lambda>ks. Ok (Fingerprint s # ks)))"

fun ssh_ints :: "int \<Rightarrow> int list \<Rightarrow> ssh_key list res" where
  "ssh_ints i [] = Ok []"
| "ssh_ints i (n # ns) =
     (if n \<le> 0 then Err (Errorf ''ssh_keys[%d]: non-positive ID %d'' [FInt i, FInt n])
      else res_bind (ssh_ints (i + 1) ns) (\<lambda>ks. Ok (KeyID n # ks)))"

definition ssh_key_of :: "int \<Rightarrow> gval \<Rightarrow> ssh_key res" where
  "ssh_key_of i e = (case e of
     GStr s \<Rightarrow> if s = [] then Err (Errorf ''ssh_keys[%d]: empty fingerprint'' [FInt i]) else Ok (Fingerprint s)
   | GInt n \<Rightarrow> if n \<le> 0 then Err (Errorf ''ssh_keys[%d]: non-positive ID %d'' [FInt i, FInt n]) else Ok (KeyID n)
   | GInt64 n \<Rightarrow> if n \<le> 0 then Err (Errorf ''ssh_keys[%d]: non-positive ID %d'' [FInt i, FInt n]) else Ok (KeyID n)
   | GFloat t \<Rightarrow>
       if \<not> f64_integral t then Err (Errorf ''ssh_keys[%d]: %v is not an integer'' [FInt i, FVal e])
       else if f64_to_int t \<le> 0 then Err (Errorf ''ssh_keys[%d]: non-positive ID %v'' [FInt i, FVal e])
       else Ok (KeyID (f64_to_int t))
   | _ \<Rightarrow> Err (Errorf ''ssh_keys[%d]: unsupported element type %T (want string fingerprint or numeric ID)'' [FInt i, FVal e]))"

fun ssh_anys :: "int \<Rightarrow> gval list \<Rightarrow> ssh_key list res" where
  "ssh_anys i [] = Ok []"
| "ssh_anys i (e # es) = res_bind (ssh_key_of i e) (\<lambda>k. res_bind (ssh_anys (i + 1) es) (\<lambda>ks. Ok (k # ks)))"

text \<open>A Go \<^verbatim>\<open>[]int64\<close> is not among the values a configuration is modelled with.\<close>

definition dropletSSHKeysFromConfig :: "cfg \<Rightarrow> ssh_key list res" where
  "dropletSSHKeysFromConfig config = (case map_of config ''ssh_keys'' of
     None \<Rightarrow> Ok []
   | Some v \<Rightarrow> (case v of
       GNil \<Rightarrow> Ok []
     | GAnys raw \<Rightarrow> ssh_anys 0 (elems raw)
     | GStrs ss \<Rightarrow> ssh_strings 0 (elems ss)
     | GInts ns \<Rightarrow> ssh_ints 0 (elems ns)
     | _ \<Rightarrow> Err (Errorf ''ssh_keys: expected list, got %T'' [FVal v])))"

fun volume_names :: "int \<Rightarrow> gval list \<Rightarrow> string list res" where
  "volume_names i [] = Ok []"
| "volume_names i (e # es) = (case e of
     GStr s \<Rightarrow>
       if s = [] then Err (Errorf ''droplet volumes: invalid entry at index %d: expected non-empty string, got empty string'' [FInt i])
       else res_bind (volume_names (i + 1) es) (\<lambda>ns. Ok (s # ns))
   | _ \<Rightarrow> Err (Errorf ''droplet volumes: invalid entry at index %d: expected non-empty string, got %T'' [FInt i, FVal e]))"

definition dropletVolumesFromConfig :: "cfg \<Rightarrow> string list res" where
  "dropletVolumesFromConfig config = (case map_of config ''volumes'' of
     None \<Rightarrow> Ok []
   | Some v \<Rightarrow> (case v of
       GNil \<Rightarrow> Ok []
     | GStrs ss \<Rightarrow> volume_names 0 (map GStr (elems ss))
     | GAnys raw \<Rightarrow> volume_names 0 (elems raw)
     | _ \<Rightarrow> Err (Errorf ''droplet volumes: expected list, got %T'' [FVal v])))"

text \<open>The first volume listed under a name whose name it is; an empty id counts as none.\<close>

fun resolve_names :: "'w droplet_storage \<Rightarrow> string \<Rightarrow> string list \<Rightarrow> ('w, string list) io" where
  "resolve_names st region [] = io_ok []"
| "resolve_names st region (name # names) =
     io_bind (io_wrap (\<lambda>e. Wrapf ''droplet volumes: list %q: %w'' [FStr name] (WrapGodoError e)) (Storage_ListNamed st name region)) (\<lambda>vols.
     let matchID = (case first_match (\<lambda>v. vol_Name v = name) vols of None \<Rightarrow> [] | Some v \<Rightarrow> vol_ID v) in
     if matchID = [] then io_err (Errorf ''droplet volumes: volume %q not found'' [FStr name])
     else io_bind (resolve_names st region names) (\<lambda>ids. io_ok (matchID # ids)))"

definition resolveDropletVolumes :: "'w droplet_driver \<Rightarrow> cfg \<Rightarrow> string \<Rightarrow> ('w, string list) io" where
  "resolveDropletVolumes d config region =
     io_bind (io_res (dropletVolumesFromConfig config)) (\<lambda>names.
     if names = [] then io_ok []
     else case dv_storage d of
       None \<Rightarrow> io_err (Errorf ''droplet volumes: storage client not configured; cannot resolve volume names'' [])
     | Some st \<Rightarrow> resolve_names st region names)"

section \<open>Outputs\<close>

definition dropletHasFeature :: "droplet \<Rightarrow> string \<Rightarrow> bool" where
  "dropletHasFeature dl feature = (feature \<in> set (dl_Features dl))"

definition dropletBackupsEnabled :: "droplet \<Rightarrow> bool" where
  "dropletBackupsEnabled dl = dropletHasFeature dl ''backups''"

text \<open>
  The name of every volume, with those that were already looked up in the \<open>cache\<close>; an id that cannot
  be resolved stands for itself, and is recorded. The warnings that are logged are left out.
\<close>

fun volume_names_of :: "'w droplet_storage option \<Rightarrow> string list \<Rightarrow> (string \<times> string) list \<Rightarrow> ('w, string list \<times> string list) io" where
  "volume_names_of st [] cache = io_ok ([], [])"
| "volume_names_of st (vid # vids) cache =
     (case map_of cache vid of
        Some name \<Rightarrow> io_bind (volume_names_of st vids cache) (\<lambda>(names, bad). io_ok (name # names, bad))
      | None \<Rightarrow>
        io_bind (case st of
            None \<Rightarrow> io_ok (vid, [vid])
          | Some s \<Rightarrow> io_handle (Storage_GetVolume s vid)
              (\<lambda>v. io_ok (case v of None \<Rightarrow> (vid, [vid]) | Some vol \<Rightarrow> if vol_Name vol = [] then (vid, [vid]) else (vol_Name vol, [])))
              (\<lambda>_. io_ok (vid, [vid]))) (\<lambda>(name, fail).
        io_bind (volume_names_of st vids ((vid, name) # cache)) (\<lambda>(names, bad). io_ok (name # names, fail @ bad))))"

definition droplet_outputs :: "droplet \<Rightarrow> string \<Rightarrow> string \<Rightarrow> string list \<Rightarrow> string list \<Rightarrow> cfg" where
  "droplet_outputs dl sz region names failures =
     [(''id'', GInt (dl_ID dl)),
      (''public_ip'', GStr (case dl_PublicIPv4 dl of None \<Rightarrow> [] | Some ip \<Rightarrow> ip)),
      (''private_ip'', GStr (case dl_PrivateIPv4 dl of None \<Rightarrow> [] | Some ip \<Rightarrow> ip)),
      (''size'', GStr sz), (''region'', GStr region), (''status'', GStr (dl_Status dl)), (''vpc_uuid'', GStr (dl_VPCUUID dl)),
      (''enable_backups'', GBool (dropletBackupsEnabled dl)),
      (''tags'', GAnys (Slice (map GStr (dl_Tags dl)))),
      (''volumes'', GAnys (Slice (map GStr names))),
      (''monitoring'', GBool (dropletHasFeature dl ''monitoring'')), (''ipv6'', GBool (dropletHasFeature dl ''ipv6''))]
     @ (if failures = [] then []
        else [(''volumes_resolution'', GMap [(''unresolved_ids'', GAnys (Slice (map GStr failures))),
          (''note'', GStr ''one or more volume IDs could not be resolved to a name; raw IDs surfaced in volumes[]'')])])"

definition dropletOutput :: "'w droplet_driver \<Rightarrow> droplet \<Rightarrow> ('w, resource_output) io" where
  "dropletOutput d dl =
     io_bind (volume_names_of (dv_storage d) (dl_VolumeIDs dl) []) (\<lambda>(names, failures).
     io_deref (dl_Size dl) (\<lambda>sz. io_deref (dl_Region dl) (\<lambda>region.
     io_ok \<lparr>out_Name = dl_Name dl, out_Type = ''infra.droplet'', out_ProviderID = show_int (dl_ID dl),
       out_Outputs = droplet_outputs dl sz region names failures, out_Sensitive = [], out_Status = dl_Status dl\<rparr>)))"

section \<open>Waiting\<close>

definition dropletReady :: "droplet option \<Rightarrow> bool" where
  "dropletReady dl_opt = (case dl_opt of None \<Rightarrow> False
     | Some dl \<Rightarrow> dl_Status dl = ''active'' \<and> (case dl_PrivateIPv4 dl of None \<Rightarrow> False | Some ip \<Rightarrow> ip \<noteq> []))"

definition dropletReadyTimeouts :: "'w droplet_driver \<Rightarrow> int \<times> int" where
  "dropletReadyTimeouts d = (case dv_timeouts d of Some t \<Rightarrow> t | None \<Rightarrow> (300000000000, 5000000000))"

text \<open>A droplet without networks panics where the error of the timeout counts them.\<close>

definition waitForDropletReady :: "'w droplet_driver \<Rightarrow> int \<Rightarrow> ('w, droplet) io" where
  "waitForDropletReady d i =
     (let (timeout, pollInterval) = dropletReadyTimeouts d in
      io_bind (io_ask (ck_Now (dv_clock d))) (\<lambda>now.
      poll_loop (poll_step (dv_clock d) (\<lambda>e. e) (now + timeout) pollInterval
        (io_bind (io_wrap (\<lambda>e. Wrapf ''get: %w'' [] (WrapGodoError e)) (Droplets_Get (dv_client d) i)) (\<lambda>got. case got of
           None \<Rightarrow> io_err (Errorf ''API returned nil droplet'' [])
         | Some dl \<Rightarrow> io_ok (if dropletReady got then got else None, case dl_NetworksV4 dl of
             None \<Rightarrow> Panic ''nil pointer dereference''
           | Some n \<Rightarrow> Err (Errorf ''timeout after %s (status=%s, networks_v4_count=%d)'' [FInt timeout, FStr (dl_Status dl), FInt (int n)])))))))"

text \<open>\<^verbatim>\<open>waitForActionComplete\<close> of \<^verbatim>\<open>actions_wait.go\<close>.\<close>

definition waitForActionComplete :: "'w clock \<Rightarrow> 'w actions_client \<Rightarrow> int \<Rightarrow> int \<Rightarrow> int \<Rightarrow> ('w, unit) io" where
  "waitForActionComplete ck client actionID timeout pollInterval =
     io_bind (io_ask (ck_Now ck)) (\<lambda>now.
     poll_loop (poll_step ck (Wrapf ''wait action %d: %w'' [FInt actionID]) (now + timeout) pollInterval
       (io_bind (io_wrap (Wrapf ''wait action %d: poll: %w'' [FInt actionID]) (client actionID)) (\<lambda>a.
        io_deref a (\<lambda>act.
        if ac_Status act = ''completed'' then io_ok (Some (), Ok ())
        else if ac_Status act = ''errored'' then io_err (Errorf ''wait action %d: errored'' [FInt actionID])
        else io_ok (None, Err (Errorf ''wait action %d: timeout after %s (status=%s)'' [FInt actionID, FInt timeout, FStr (ac_Status act)])))))))"

definition replaceTimeouts :: "'w droplet_driver \<Rightarrow> int \<times> int" where
  "replaceTimeouts d = (case dv_timeouts d of Some t \<Rightarrow> t | None \<Rightarrow> (60000000000, 2000000000))"

section \<open>Create, Read, Update, Delete, HealthCheck, Scale\<close>

definition droplet_request :: "'w droplet_driver \<Rightarrow> resource_spec \<Rightarrow> ssh_key list \<Rightarrow> string list \<Rightarrow> droplet_create_request" where
  "droplet_request d spec keys volumes =
     (let c = spec_Config spec in
      \<lparr>dcr_Name = spec_Name spec, dcr_Region = strFromConfig c ''region'' (dv_region d), dcr_Size = strFromConfig c ''size'' ''s-1vcpu-2gb'',
       dcr_Image = strFromConfig c ''image'' ''ubuntu-24-04-x64'', dcr_UserData = strFromConfig c ''user_data'' [],
       dcr_VPCUUID = strFromConfig c ''vpc_uuid'' [], dcr_Tags = elems (strSliceFromConfig c ''tags''),
       dcr_Backups = boolFromConfig c ''enable_backups'' False, dcr_Monitoring = boolFromConfig c ''monitoring'' False,
       dcr_IPv6 = boolFromConfig c ''ipv6'' False, dcr_SSHKeys = keys, dcr_Volumes = volumes\<rparr>)"

text \<open>A quote is recorded as the object its fields are encoded as.\<close>

definition quote_value :: "price_quote \<Rightarrow> gval" where
  "quote_value q = GMap [(''size_slug'', GStr (q_SizeSlug q)), (''region'', GStr (q_Region q)), (''monthly_usd'', GFloat (q_MonthlyUSD q)),
     (''max_monthly_usd'', GFloat (q_MaxMonthlyUSD q)), (''source'', GStr ''digitalocean.sizes''), (''checked_at'', GStr (q_CheckedAt q))]"

definition createWithResolvedVolumes :: "'w droplet_driver \<Rightarrow> resource_spec \<Rightarrow> string slice \<Rightarrow> ('w, resource_output) io" where
  "createWithResolvedVolumes d spec resolvedIDs =
     io_bind (droplet_quote d spec) (\<lambda>quote.
     io_bind (io_res (res_wrap (Wrapf ''droplet create %q: %w'' [FStr (spec_Name spec)]) (dropletSSHKeysFromConfig (spec_Config spec)))) (\<lambda>keys.
     io_bind (case resolvedIDs of
         Slice ids \<Rightarrow> io_ok ids
       | NilSlice \<Rightarrow> io_wrap (Wrapf ''droplet create %q: %w'' [FStr (spec_Name spec)])
           (resolveDropletVolumes d (spec_Config spec) (strFromConfig (spec_Config spec) ''region'' (dv_region d)))) (\<lambda>volumes.
     io_bind (io_wrap (\<lambda>e. Wrapf ''droplet create %q: %w'' [FStr (spec_Name spec)] (WrapGodoError e))
                (Droplets_Create (dv_client d) (droplet_request d spec keys volumes))) (\<lambda>created.
     let empty_id = Errorf ''droplet create %q: API returned droplet with empty ID'' [FStr (spec_Name spec)] in
     case created of
       None \<Rightarrow> io_err empty_id
     | Some dl \<Rightarrow>
       if dl_ID dl = 0 then io_err empty_id
       else io_bind (if dropletReady created then io_ok dl
              else io_wrap (Wrapf ''droplet create %q: wait ready (id=%d): %w'' [FStr (spec_Name spec), FInt (dl_ID dl)])
                     (waitForDropletReady d (dl_ID dl))) (\<lambda>ready.
            io_bind (dropletOutput d ready) (\<lambda>out.
            io_ok (case quote of None \<Rightarrow> out | Some q \<Rightarrow> out\<lparr>out_Outputs := out_Outputs out @ [(''price_quote'', quote_value q)]\<rparr>)))))))"

definition droplet_Create :: "'w droplet_driver \<Rightarrow> resource_spec \<Rightarrow> ('w, resource_output) io" where
  "droplet_Create d spec = createWithResolvedVolumes d spec NilSlice"

definition droplet_Read :: "'w droplet_driver \<Rightarrow> resource_ref \<Rightarrow> ('w, resource_output) io" where
  "droplet_Read d ref =
     io_bind (io_res (res_wrap (Wrapf ''droplet read %q: invalid ProviderID %q: %w'' [FStr (ref_Name ref), FStr (ref_ProviderID ref)])
                (providerIDToInt (ref_ProviderID ref)))) (\<lambda>i.
     io_bind (io_wrap (\<lambda>e. Wrapf ''droplet read %q: %w'' [FStr (ref_Name ref)] (WrapGodoError e)) (Droplets_Get (dv_client d) i)) (\<lambda>got.
     io_deref got (dropletOutput d)))"

definition droplet_Update :: "resource_ref \<Rightarrow> resource_spec \<Rightarrow> ('w, resource_output) io" where
  "droplet_Update ref spec = io_err (Errorf ''droplet: use resize action for size changes; delete and recreate for other changes'' [])"

definition droplet_Delete :: "'w droplet_driver \<Rightarrow> resource_ref \<Rightarrow> ('w, unit) io" where
  "droplet_Delete d ref =
     io_bind (io_res (res_wrap (Wrapf ''droplet delete %q: invalid ProviderID %q: %w'' [FStr (ref_Name ref), FStr (ref_ProviderID ref)])
                (providerIDToInt (ref_ProviderID ref)))) (\<lambda>i.
     io_wrap (\<lambda>e. Wrapf ''droplet delete %q: %w'' [FStr (ref_Name ref)] (WrapGodoError e)) (Droplets_Delete (dv_client d) i))"

definition droplet_HealthCheck :: "'w droplet_driver \<Rightarrow> resource_ref \<Rightarrow> ('w, health_result) io" where
  "droplet_HealthCheck d ref = (case providerIDToInt (ref_ProviderID ref) of
     Err e \<Rightarrow> io_ok \<lparr>Healthy = False, Message = ErrorText e\<rparr>
   | Panic p \<Rightarrow> io_panic p
   | Ok i \<Rightarrow> io_handle (Droplets_Get (dv_client d) i)
       (\<lambda>got. io_deref got (\<lambda>dl. io_ok \<lparr>Healthy = (dl_Status dl = ''active''), Message = Text (dl_Status dl)\<rparr>))
       (\<lambda>e. io_ok \<lparr>Healthy = False, Message = ErrorText e\<rparr>))"

definition droplet_Scale :: "resource_ref \<Rightarrow> int \<Rightarrow> ('w, resource_output) io" where
  "droplet_Scale ref n = io_err (Errorf ''droplet does not support scale operation'' [])"

section \<open>Diff\<close>

text \<open>The API has no call for a change in place: every difference asks for a replacement.\<close>

definition droplet_diff_state :: "cfg \<Rightarrow> cfg \<Rightarrow> string list \<Rightarrow> diff_state" where
  "droplet_diff_state config outs names =
     (let sz = strFromConfig config ''size'' [];
          curSize = str_or_empty (map_of outs ''size'');
          vpc = strFromConfig config ''vpc_uuid'' [];
          curVPC = str_or_empty (map_of outs ''vpc_uuid'');
          backups = boolFromConfig config ''enable_backups'' False;
          curBackups = (as_bool (map_of outs ''enable_backups'') = Some True);
          tags = strSliceFromConfig config ''tags'';
          curTags = outputsAsStringSlice (map_of outs ''tags'');
          curVols = outputsAsStringSlice (map_of outs ''volumes'');
          monitoring = boolFromConfig config ''monitoring'' False;
          curMonitoring = (as_bool (map_of outs ''monitoring'') = Some True);
          v6 = boolFromConfig config ''ipv6'' False;
          curIPv6 = (as_bool (map_of outs ''ipv6'') = Some True);
          region = strFromConfig config ''region'' [];
          curRegion = str_or_empty (map_of outs ''region'')
      in diff_step (region \<noteq> [] \<and> curRegion \<noteq> [] \<and> curRegion \<noteq> region)
           (change_new ''region'' (GStr curRegion) (GStr region))
        (diff_step (map_of config ''ipv6'' \<noteq> None \<and> map_of outs ''ipv6'' \<noteq> None \<and> v6 \<noteq> curIPv6)
           (change_new ''ipv6'' (GBool curIPv6) (GBool v6))
        (diff_step (map_of config ''monitoring'' \<noteq> None \<and> map_of outs ''monitoring'' \<noteq> None \<and> monitoring \<noteq> curMonitoring)
           (change_new ''monitoring'' (GBool curMonitoring) (GBool monitoring))
        (diff_step (names \<noteq> [] \<and> \<not> equalStringSet (elems curVols) names)
           (change_new ''volumes'' (GStrs curVols) (GStrs (Slice names)))
        (diff_step (map_of config ''tags'' \<noteq> None \<and> \<not> equalStringSet (elems curTags) (elems tags))
           (change_new ''tags'' (GStrs curTags) (GStrs tags))
        (diff_step (map_of config ''enable_backups'' \<noteq> None \<and> backups \<noteq> curBackups)
           (change_new ''enable_backups'' (GBool curBackups) (GBool backups))
        (diff_step (map_of config ''vpc_uuid'' \<noteq> None \<and> curVPC \<noteq> vpc)
           (change_new ''vpc_uuid'' (GStr curVPC) (GStr vpc))
        (diff_step (sz \<noteq> [] \<and> curSize \<noteq> sz)
           (change_new ''size'' (GStr curSize) (GStr sz))
        ([], False)))))))))"

definition droplet_Diff :: "'w droplet_driver \<Rightarrow> resource_spec \<Rightarrow> resource_output option \<Rightarrow> ('w, diff_result) io" where
  "droplet_Diff d desired current =
     io_bind (droplet_quote d desired) (\<lambda>_.
     case current of
       None \<Rightarrow> io_ok diff_absent
     | Some cur \<Rightarrow>
       io_bind (io_res (dropletVolumesFromConfig (spec_Config desired))) (\<lambda>names.
       io_ok (diff_result_of (droplet_diff_state (spec_Config desired) (out_Outputs cur) names))))"

section \<open>Replace\<close>

text \<open>The volumes are detached one after the other, each action awaited before the next one.\<close>

fun detach_volumes :: "'w droplet_driver \<Rightarrow> 'w detacher \<Rightarrow> 'w actions_client \<Rightarrow> resource_ref \<Rightarrow> int \<Rightarrow> string list \<Rightarrow> ('w, unit) io" where
  "detach_volumes d detach acts oldRef oldID [] = io_ok ()"
| "detach_volumes d detach acts oldRef oldID (volID # volIDs) =
     (let (timeout, pollInterval) = replaceTimeouts d in
      io_bind (io_wrap (\<lambda>e. Wrapf ''droplet replace %q: detach volume %q: %w'' [FStr (ref_Name oldRef), FStr volID] (WrapGodoError e))
                 (detach volID oldID)) (\<lambda>action.
      io_deref action (\<lambda>a.
      io_bind (io_wrap (Wrapf ''droplet replace %q: wait detach action %d: %w'' [FStr (ref_Name oldRef), FInt (ac_ID a)])
                 (waitForActionComplete (dv_clock d) acts (ac_ID a) timeout pollInterval)) (\<lambda>_.
      detach_volumes d detach acts oldRef oldID volIDs))))"

text \<open>The ids that were detached, nil when there was none: then \<open>Create\<close> resolves the names of the configuration.\<close>

definition detach_all :: "'w droplet_driver \<Rightarrow> resource_ref \<Rightarrow> int \<Rightarrow> droplet option \<Rightarrow> ('w, string slice) io" where
  "detach_all d oldRef oldID old = (case old of
     None \<Rightarrow> io_ok NilSlice
   | Some dl \<Rightarrow>
     if dl_VolumeIDs dl = [] then io_ok NilSlice
     else case dv_storageActions d of
       None \<Rightarrow> io_err (Errorf ''droplet replace %q: storage_actions client not configured; cannot detach %d volume(s)''
                        [FStr (ref_Name oldRef), FInt (int (length (dl_VolumeIDs dl)))])
     | Some detach \<Rightarrow>
       (case dv_actions d of
          None \<Rightarrow> io_err (Errorf ''droplet replace %q: actions client not configured; cannot wait for detach completion'' [FStr (ref_Name oldRef)])
        | Some acts \<Rightarrow>
          io_bind (detach_volumes d detach acts oldRef oldID (dl_VolumeIDs dl)) (\<lambda>_.
          io_ok (Slice (dl_VolumeIDs dl)))))"

definition isResourceNotFound :: "go_error \<Rightarrow> bool" where
  "isResourceNotFound e = errors_is e ErrResourceNotFound"

definition read_old :: "'w droplet_driver \<Rightarrow> resource_ref \<Rightarrow> int \<Rightarrow> ('w, droplet option) io" where
  "read_old d oldRef oldID =
     io_handle (Droplets_Get (dv_client d) oldID) io_ok
       (\<lambda>e. if \<not> isResourceNotFound (WrapGodoError e)
             then io_err (Wrapf ''droplet replace %q: read old: %w'' [FStr (ref_Name oldRef)] (WrapGodoError e))
             else io_ok None)"

definition droplet_Replace :: "'w droplet_driver \<Rightarrow> resource_ref \<Rightarrow> resource_spec \<Rightarrow> ('w, resource_output) io" where
  "droplet_Replace d oldRef spec =
     io_bind (io_wrap (Wrapf ''droplet replace: pricing preflight: %w'' []) (droplet_quote d spec)) (\<lambda>_.
     io_bind (io_res (res_wrap (Wrapf ''droplet replace %q: invalid old ProviderID %q: %w'' [FStr (ref_Name oldRef), FStr (ref_ProviderID oldRef)])
                (providerIDToInt (ref_ProviderID oldRef)))) (\<lambda>oldID.
     io_bind (read_old d oldRef oldID) (\<lambda>old.
     io_bind (detach_all d oldRef oldID old) (\<lambda>detachedVolumeIDs.
     io_bind (case old of
         None \<Rightarrow> io_ok ()
       | Some _ \<Rightarrow> io_wrap (\<lambda>e. Wrapf ''droplet replace %q: delete old: %w'' [FStr (ref_Name oldRef)] (WrapGodoError e))
           (Droplets_Delete (dv_client d) oldID)) (\<lambda>_.
     io_wrap (Wrapf ''droplet replace %q: create new: %w'' [FStr (ref_Name oldRef)])
       (createWithResolvedVolumes d spec detachedVolumeIDs))))))"

end
