(* ===== verification/DropletReplace.thy ===== *)
theory DropletReplace
  imports Droplet
begin

text \<open>
  Replacing a droplet: its volumes are detached before it is deleted, and go to the new one. The
  API is seen through four views of the world, which the locale states the documented laws of.
\<close>

section \<open>The API\<close>

text \<open>
  \<open>attached w i\<close> are the volumes of the droplet \<open>i\<close>, \<open>pending w n\<close> is what the action \<open>n\<close> detaches from where,
  \<open>lost w\<close> are the volumes that were attached to a droplet while it was deleted, and \<open>reqs w\<close> the requests for
  new droplets.
\<close>

type_synonym views = "(int \<Rightarrow> string set) \<times> (int \<Rightarrow> (string \<times> int) option) \<times> (string \<times> int) set \<times> droplet_create_request list"

definition view_attached :: "views \<Rightarrow> int \<Rightarrow> string set" where "view_attached v = fst v"
definition view_pending :: "views \<Rightarrow> int \<Rightarrow> (string \<times> int) option" where "view_pending v = fst (snd v)"
definition view_lost :: "views \<Rightarrow> (string \<times> int) set" where "view_lost v = fst (snd (snd v))"
definition view_reqs :: "views \<Rightarrow> droplet_create_request list" where "view_reqs v = snd (snd (snd v))"

text \<open>Detaching takes volumes away, and nothing else.\<close>

definition detaching :: "views \<Rightarrow> views \<Rightarrow> bool" where
  "detaching v v' = ((\<forall>i. view_attached v' i \<subseteq> view_attached v i) \<and> view_lost v' = view_lost v \<and> view_reqs v' = view_reqs v)"

lemma detaching_refl [simp]: "detaching v v"
  by (simp add: detaching_def)

lemma detaching_trans: "detaching v1 v2 \<Longrightarrow> detaching v2 v3 \<Longrightarrow> detaching v1 v3"
  by (auto simp: detaching_def)

definition quiet_storage :: "('w \<Rightarrow> 'v) \<Rightarrow> 'w droplet_driver \<Rightarrow> bool" where
  "quiet_storage view d = (\<forall>st. dv_storage d = Some st \<longrightarrow>
     (\<forall>v. quiet view (Storage_GetVolume st v)) \<and> (\<forall>n r. quiet view (Storage_ListNamed st n r)))"

definition quiet_sizes :: "('w \<Rightarrow> 'v) \<Rightarrow> 'w droplet_driver \<Rightarrow> bool" where
  "quiet_sizes view d = (\<forall>c. dv_sizes d = Some c \<longrightarrow> (\<forall>p. quiet view (Sizes_List c p)))"

lemma quiet_ask [simp]: "quiet view (io_ask q)"
  by (simp add: quiet_def io_ask_def)

lemma quiet_deref: "(\<And>x. quiet view (f x)) \<Longrightarrow> quiet view (io_deref p f)"
  by (cases p) simp_all

lemma quiet_pages: "(\<And>p. quiet view (Sizes_List c p)) \<Longrightarrow> quiet view (quote_pages err c slug page sel rows)"
proof (induction "101 - page" arbitrary: page sel rows rule: less_induct)
  case less
  have IH: "\<not> 100 \<le> page \<Longrightarrow> quiet view (quote_pages err c slug (Suc page) sel rows)" for sel rows
    using less.hyps [of "Suc page"] less.prems by simp
  show ?case unfolding quote_pages.simps [of err c slug page sel rows]
    by (auto simp: Let_def intro!: quiet_bind quiet_wrap less.prems IH split: prod.split next_link.split option.split)
qed

lemma quiet_quote: "quiet_sizes view d \<Longrightarrow> quiet view (droplet_quote d spec)"
  unfolding droplet_quote_def QuoteDropletPrice_def quiet_sizes_def
  by (auto intro!: quiet_bind quiet_pages split: option.split)

lemma quiet_names: "quiet_storage view d \<Longrightarrow> dv_storage d = Some st \<Longrightarrow> quiet view (resolve_names st region names)"
  by (induction names) (auto simp: Let_def quiet_storage_def intro!: quiet_bind quiet_wrap)

lemma quiet_resolve: "quiet_storage view d \<Longrightarrow> quiet view (resolveDropletVolumes d c region)"
  unfolding resolveDropletVolumes_def by (auto intro!: quiet_bind quiet_names split: option.split)

lemma quiet_volume_names: "(\<And>s v. st = Some s \<Longrightarrow> quiet view (Storage_GetVolume s v)) \<Longrightarrow> quiet view (volume_names_of st vids cache)"
  by (induction vids arbitrary: cache) (auto intro!: quiet_bind quiet_handle split: option.split)

lemma quiet_output: "quiet_storage view d \<Longrightarrow> quiet view (dropletOutput d dl)"
  unfolding dropletOutput_def quiet_storage_def by (auto intro!: quiet_bind quiet_volume_names quiet_deref)

locale droplet_api =
  fixes d :: "'w droplet_driver" and view :: "'w \<Rightarrow> views"
  assumes clock_law: "quiet view (ck_Wait (dv_clock d) n)"
    and storage_law: "quiet_storage view d"
    and sizes_law: "quiet_sizes view d"
    and get_law: "Droplets_Get (dv_client d) i w = Some (r, w') \<Longrightarrow> view w' = view w \<and>
      (case r of Ok (Some dl) \<Rightarrow> set (dl_VolumeIDs dl) = view_attached (view w) i | Ok None \<Rightarrow> view_attached (view w) i = {}
       | Err e \<Rightarrow> isResourceNotFound (WrapGodoError e) \<longrightarrow> view_attached (view w) i = {} | Panic _ \<Rightarrow> True)"
    and delete_law: "Droplets_Delete (dv_client d) i w = Some (ru, w') \<Longrightarrow>
      view_lost (view w') \<subseteq> view_lost (view w) \<union> {(v, i) |v. v \<in> view_attached (view w) i} \<and> view_reqs (view w') = view_reqs (view w)"
    and create_law: "Droplets_Create (dv_client d) rq w = Some (r, w') \<Longrightarrow>
      view_lost (view w') = view_lost (view w) \<and> view_reqs (view w') = view_reqs (view w) @ [rq]"
    and detach_law: "dv_storageActions d = Some detach \<Longrightarrow> detach v i w = Some (ra, w') \<Longrightarrow> detaching (view w) (view w') \<and>
      (case ra of Ok (Some a) \<Rightarrow> view_pending (view w') (ac_ID a) = Some (v, i) | _ \<Rightarrow> True)"
    and action_law: "dv_actions d = Some acts \<Longrightarrow> acts n w = Some (ra, w') \<Longrightarrow> detaching (view w) (view w')
      \<and> view_pending (view w') = view_pending (view w) \<and>
      (case ra of Ok (Some a) \<Rightarrow> ac_Status a = ''completed'' \<longrightarrow> view_pending (view w) n = Some (v, i) \<longrightarrow> v \<notin> view_attached (view w') i
       | _ \<Rightarrow> True)"
begin

text \<open>The wait for a detaching action ends well only when the volume is off the droplet.\<close>

lemma wp_wait_action:
  assumes acts: "dv_actions d = Some acts" and p: "view_pending (view w) n = Some (v, i)"
  shows "wp (waitForActionComplete (dv_clock d) acts n timeout interval)
    (\<lambda>_ w'. detaching (view w) (view w') \<and> v \<notin> view_attached (view w') i) (\<lambda>w'. detaching (view w) (view w')) w"
proof -
  define I where "I = (\<lambda>w'. detaching (view w) (view w') \<and> view_pending (view w') n = Some (v, i))"
  have ask: "wp (io_ask q) Q E x = Q (q x) x" for q :: "'w \<Rightarrow> int" and Q E x by (simp add: wp_def io_ask_def)
  have act: "wp (acts n) (\<lambda>a w'. I w' \<and> (\<forall>c. a = Some c \<longrightarrow> ac_Status c = ''completed'' \<longrightarrow> v \<notin> view_attached (view w') i)) I w1"
    if "I w1" for w1
    by (rule wpI) (use that in \<open>auto simp: I_def dest!: action_law [OF acts, where v = v and i = i] intro: detaching_trans split: res.split option.splits\<close>)
  show ?thesis unfolding waitForActionComplete_def wp_bind ask
  proof (rule wp_poll_step [where I = I])
    fix w1 assume "I w1"
    then show "wp (io_bind (io_wrap (Wrapf ''wait action %d: poll: %w'' [FInt n]) (acts n)) (\<lambda>a. io_deref a (\<lambda>act.
        if ac_Status act = ''completed'' then io_ok (Some (), Ok ())
        else if ac_Status act = ''errored'' then io_err (Errorf ''wait action %d: errored'' [FInt n])
        else io_ok (None, Err (Errorf ''wait action %d: timeout after %s (status=%s)'' [FInt n, FInt timeout, FStr (ac_Status act)])))))
      (\<lambda>(found, late) w'. case found of
          None \<Rightarrow> I w' \<and> (case late of Ok x \<Rightarrow> detaching (view w) (view w') \<and> v \<notin> view_attached (view w') i | _ \<Rightarrow> detaching (view w) (view w'))
        | Some x \<Rightarrow> detaching (view w) (view w') \<and> v \<notin> view_attached (view w') i)
      (\<lambda>w'. detaching (view w) (view w')) w1"
      unfolding wp_bind wp_wrap
      by (rule wp_mono [OF act]) (auto simp: I_def wp_simps split: option.split)
  next
    fix w1 assume "I w1"
    then show "wp (ck_Wait (dv_clock d) interval) (\<lambda>_. I) I w1"
      by (intro quiet_wp [OF clock_law]) (simp add: I_def)
  qed (simp_all add: I_def p)
qed

lemma wp_detach_volumes:
  assumes c: "dv_storageActions d = Some detach" "dv_actions d = Some acts"
  shows "wp (detach_volumes d detach acts ref i vids)
    (\<lambda>_ w'. detaching (view w) (view w') \<and> view_attached (view w') i \<inter> set vids = {}) (\<lambda>w'. detaching (view w) (view w')) w"
proof (induction vids arbitrary: w)
  case Nil
  then show ?case by (simp add: wp_simps)
next
  case (Cons v vs)
  have det: "wp (detach v i) (\<lambda>a w'. detaching (view w) (view w') \<and> (\<forall>c. a = Some c \<longrightarrow> view_pending (view w') (ac_ID c) = Some (v, i)))
      (\<lambda>w'. detaching (view w) (view w')) w"
    by (rule wpI) (auto dest!: detach_law [OF c(1)] split: res.split)
  have wait: "wp (waitForActionComplete (dv_clock d) acts n timeout interval)
      (\<lambda>_. wp (detach_volumes d detach acts ref i vs)
        (\<lambda>_ w'. detaching (view w) (view w') \<and> v \<notin> view_attached (view w') i \<and> view_attached (view w') i \<inter> set vs = {}) (\<lambda>w'. detaching (view w) (view w')))
      (\<lambda>w'. detaching (view w) (view w')) w1"
    if "detaching (view w) (view w1)" "view_pending (view w1) n = Some (v, i)" for w1 n timeout interval
  proof (rule wp_mono [OF wp_wait_action [OF c(2) that(2)]])
    fix x w2 assume w2: "detaching (view w1) (view w2) \<and> v \<notin> view_attached (view w2) i"
    then have d2: "detaching (view w) (view w2)" using that(1) detaching_trans by blast
    show "wp (detach_volumes d detach acts ref i vs)
        (\<lambda>_ w'. detaching (view w) (view w') \<and> v \<notin> view_attached (view w') i \<and> view_attached (view w') i \<inter> set vs = {}) (\<lambda>w'. detaching (view w) (view w')) w2"
    proof (rule wp_mono [OF Cons.IH])
      fix w3 assume w3: "detaching (view w2) (view w3) \<and> view_attached (view w3) i \<inter> set vs = {}"
      then have "v \<notin> view_attached (view w3) i" using w2 unfolding detaching_def by blast
      then show "detaching (view w) (view w3) \<and> v \<notin> view_attached (view w3) i \<and> view_attached (view w3) i \<inter> set vs = {}"
        using w3 d2 detaching_trans by blast
    qed (use d2 detaching_trans in blast)
  qed (use that(1) detaching_trans in blast)
  show ?case unfolding detach_volumes.simps Let_def wp_bind wp_wrap prod.case_eq_if
    by (rule wp_mono [OF det]) (auto simp: wp_simps split: option.split intro!: wait)
qed

text \<open>Creating a droplet loses no volume and asks for at most one droplet, with the volumes that were given.\<close>

lemma wp_create:
  assumes "\<And>w' rq. view_lost (view w') = view_lost (view w) \<Longrightarrow>
      view_reqs (view w') = view_reqs (view w) \<or> view_reqs (view w') = view_reqs (view w) @ [rq] \<and> (\<forall>ids. resolved = Slice ids \<longrightarrow> dcr_Volumes rq = ids) \<Longrightarrow> P w'"
  shows "wp (createWithResolvedVolumes d spec resolved) (\<lambda>_. P) P w"
proof -
  define N where "N = (\<lambda>w'. view w' = view w)"
  define D where "D = (\<lambda>w'. view_lost (view w') = view_lost (view w)
     \<and> (\<exists>rq. view_reqs (view w') = view_reqs (view w) @ [rq] \<and> (\<forall>ids. resolved = Slice ids \<longrightarrow> dcr_Volumes rq = ids)))"
  have n: "N w' \<Longrightarrow> P w'" and dd: "D w' \<Longrightarrow> P w'" for w' using assms unfolding N_def D_def by metis+
  have quiet: "N w' \<Longrightarrow> view w2 = view w' \<Longrightarrow> N w2" "D w' \<Longrightarrow> view w2 = view w' \<Longrightarrow> D w2" for w' w2 by (simp_all add: N_def D_def)
  have out: "wp (dropletOutput d dl) (\<lambda>_. D) D w1" if "D w1" for w1 dl
    using that quiet by (intro quiet_wp [OF quiet_output [OF storage_law]]) auto
  have get: "wp (Droplets_Get (dv_client d) i) (\<lambda>_. D) D w1" if "D w1" for w1 i
    using that quiet(2) by (intro wpI) (auto dest!: get_law split: res.splits)
  have ready: "wp (waitForDropletReady d i) (\<lambda>_. D) D w1" if "D w1" for w1 i
  proof -
    have ask: "wp (io_ask q) Q E x = Q (q x) x" for q :: "'w \<Rightarrow> int" and Q E x by (simp add: wp_def io_ask_def)
    show ?thesis unfolding waitForDropletReady_def Let_def prod.case_eq_if wp_bind ask
      by (rule wp_poll_step [where I = D])
        (use that in \<open>auto simp: wp_simps intro!: wp_mono [OF get] quiet_wp [OF clock_law] intro: quiet(2) split: option.split\<close>)
  qed
  have create: "wp (Droplets_Create (dv_client d) (droplet_request d spec keys vols)) (\<lambda>_. D) D w1"
    if "N w1" "\<forall>ids. resolved = Slice ids \<longrightarrow> vols = ids" for w1 keys vols
    using that by (intro wpI) (auto dest!: create_law simp: droplet_request_def Let_def N_def D_def split: res.splits)
  have vols: "wp (case resolved of Slice ids \<Rightarrow> io_ok ids | NilSlice \<Rightarrow> io_wrap g (resolveDropletVolumes d c region))
      (\<lambda>vols w'. N w' \<and> (\<forall>ids. resolved = Slice ids \<longrightarrow> vols = ids)) N w1" if "N w1" for w1 g c region
    using that quiet(1) by (cases resolved) (auto simp: wp_simps intro!: quiet_wp [OF quiet_resolve [OF storage_law]])
  show ?thesis unfolding createWithResolvedVolumes_def wp_bind
  proof (rule quiet_wp [OF quiet_quote [OF sizes_law]], rule conjI)
    fix quote w1 assume "view w1 = view w"
    then have "N w1" by (simp add: N_def)
    then show "P w1" by (rule n)
    show "wp (io_res (res_wrap (Wrapf ''droplet create %q: %w'' [FStr (spec_Name spec)]) (dropletSSHKeysFromConfig (spec_Config spec))))
      (\<lambda>keys. wp (case resolved of Slice ids \<Rightarrow> io_ok ids | NilSlice \<Rightarrow> io_wrap (Wrapf ''droplet create %q: %w'' [FStr (spec_Name spec)])
           (resolveDropletVolumes d (spec_Config spec) (strFromConfig (spec_Config spec) ''region'' (dv_region d))))
        (\<lambda>volumes. wp (io_wrap (\<lambda>e. Wrapf ''droplet create %q: %w'' [FStr (spec_Name spec)] (WrapGodoError e))
                (Droplets_Create (dv_client d) (droplet_request d spec keys volumes)))
          (\<lambda>created. wp (let empty_id = Errorf ''droplet create %q: API returned droplet with empty ID'' [FStr (spec_Name spec)] in
     case created of
       None \<Rightarrow> io_err empty_id
     | Some dl \<Rightarrow>
       if dl_ID dl = 0 then io_err empty_id
       else io_bind (if dropletReady created then io_ok dl
              else io_wrap (Wrapf ''droplet create %q: wait ready (id=%d): %w'' [FStr (spec_Name spec), FInt (dl_ID dl)])
                     (waitForDropletReady d (dl_ID dl))) (\<lambda>ready.
            io_bind (dropletOutput d ready) (\<lambda>out.
            io_ok (case quote of None \<Rightarrow> out | Some q \<Rightarrow> out\<lparr>out_Outputs := out_Outputs out @ [(''price_quote'', quote_value q)]\<rparr>))))
          (\<lambda>_. P) P) P) P) P w1"
      using \<open>N w1\<close> n dd
      by (auto simp: wp_simps Let_def split: res.split option.split
          intro!: wp_mono [OF vols] wp_mono [OF create] wp_mono [OF ready] wp_mono [OF out])
  qed
qed

text \<open>The whole replacement.\<close>

lemma Replace_wp:
  assumes "providerIDToInt (ref_ProviderID ref) = Ok i"
    and P: "\<And>w'. view_lost (view w') \<subseteq> view_lost (view w) \<Longrightarrow> view_reqs (view w') = view_reqs (view w)
        \<or> (\<exists>rq. view_reqs (view w') = view_reqs (view w) @ [rq] \<and> (view_attached (view w) i \<noteq> {} \<longrightarrow> set (dcr_Volumes rq) = view_attached (view w) i)) \<Longrightarrow> P w'"
  shows "wp (droplet_Replace d ref spec) (\<lambda>_. P) P w"
proof -
  have N: "view w' = view w \<Longrightarrow> P w'" and Dt: "detaching (view w) (view w') \<Longrightarrow> P w'" for w' by (rule P; simp add: detaching_def)+
  have old: "wp (read_old d ref i) (\<lambda>old w'. view w' = view w \<and> (case old of None \<Rightarrow> view_attached (view w) i = {}
      | Some dl \<Rightarrow> set (dl_VolumeIDs dl) = view_attached (view w) i)) (\<lambda>w'. view w' = view w) w1" if "view w1 = view w" for w1
    by (rule wpI) (use that get_law [of i w1] in \<open>auto simp: read_old_def io_simps split: option.splits prod.splits res.splits if_splits\<close>)
  have detach: "wp (detach_all d ref i old) (\<lambda>ids w'. detaching (view w) (view w') \<and> view_attached (view w') i = {}
      \<and> (view_attached (view w) i \<noteq> {} \<longrightarrow> (\<exists>l. ids = Slice l \<and> set l = view_attached (view w) i))) (\<lambda>w'. detaching (view w) (view w')) w1"
    if v: "view w1 = view w" and o: "case old of None \<Rightarrow> view_attached (view w) i = {} | Some dl \<Rightarrow> set (dl_VolumeIDs dl) = view_attached (view w) i"
    for old w1
  proof (cases "\<exists>dl f g. old = Some dl \<and> dl_VolumeIDs dl \<noteq> [] \<and> dv_storageActions d = Some f \<and> dv_actions d = Some g")
    case True
    then obtain dl f g where dl: "old = Some dl" "dl_VolumeIDs dl \<noteq> []" and fg: "dv_storageActions d = Some f" "dv_actions d = Some g" by blast
    have s: "set (dl_VolumeIDs dl) = view_attached (view w) i" using o dl by simp
    have "wp (detach_volumes d f g ref i (dl_VolumeIDs dl))
        (\<lambda>_ w'. detaching (view w) (view w') \<and> view_attached (view w') i = {} \<and> set (dl_VolumeIDs dl) = view_attached (view w) i)
        (\<lambda>w'. detaching (view w) (view w')) w1"
    proof (rule wp_mono [OF wp_detach_volumes [OF fg]])
      fix w' assume w': "detaching (view w1) (view w') \<and> view_attached (view w') i \<inter> set (dl_VolumeIDs dl) = {}"
      then have "view_attached (view w') i \<subseteq> set (dl_VolumeIDs dl)" using s v by (auto simp: detaching_def)
      then show "detaching (view w) (view w') \<and> view_attached (view w') i = {} \<and> set (dl_VolumeIDs dl) = view_attached (view w) i"
        using w' s v by auto
    qed (simp add: v)
    then show ?thesis using dl fg by (auto simp: detach_all_def wp_simps elim!: wp_mono)
  qed (use v o in \<open>auto simp: detach_all_def wp_simps split: option.splits\<close>)
  have delete: "wp (Droplets_Delete (dv_client d) i) (\<lambda>_ w'. view_lost (view w') \<subseteq> view_lost (view w) \<and> view_reqs (view w') = view_reqs (view w))
      (\<lambda>w'. view_lost (view w') \<subseteq> view_lost (view w) \<and> view_reqs (view w') = view_reqs (view w)) w1"
    if "detaching (view w) (view w1)" "view_attached (view w1) i = {}" for w1
    by (rule wpI) (use that in \<open>auto simp: detaching_def dest!: delete_law split: res.split\<close>)
  have create: "wp (createWithResolvedVolumes d spec ids) (\<lambda>_. P) P w1"
    if "view_lost (view w1) \<subseteq> view_lost (view w)" "view_reqs (view w1) = view_reqs (view w)"
      and "view_attached (view w) i \<noteq> {} \<longrightarrow> (\<exists>l. ids = Slice l \<and> set l = view_attached (view w) i)" for ids w1
    by (rule wp_create, rule P) (use that in auto)
  have D: "detaching (view w) (view w1) \<Longrightarrow> view_lost (view w1) \<subseteq> view_lost (view w) \<and> view_reqs (view w1) = view_reqs (view w)" for w1
    by (simp add: detaching_def)
  have finish: "wp (case old of None \<Rightarrow> io_ok () | Some _ \<Rightarrow> io_wrap f (Droplets_Delete (dv_client d) i))
      (\<lambda>_. wp (io_wrap g (createWithResolvedVolumes d spec ids)) (\<lambda>_. P) P) P w1"
    if "detaching (view w) (view w1)" "view_attached (view w1) i = {}"
      and "view_attached (view w) i \<noteq> {} \<longrightarrow> (\<exists>l. ids = Slice l \<and> set l = view_attached (view w) i)" for old ids f g w1
    using that D [OF that(1)] P
    by (auto simp: wp_simps split: option.split intro!: wp_mono [OF delete] create)
  show ?thesis unfolding droplet_Replace_def wp_bind
    apply (subst wp_wrap)
    apply (rule quiet_wp [OF quiet_quote [OF sizes_law]], rule conjI)
     apply (simp add: assms(1) wp_basic(4))
     apply (rule wp_mono [OF old], assumption)
      apply (rule wp_mono [OF detach], simp, simp)
       apply (rule finish, simp_all add: N Dt)
    done
qed

end

section \<open>A concrete API\<close>

text \<open>Detaching takes until the clock has moved; a new droplet is reported before it is active.\<close>

record dworld =
  dw_time :: int
  dw_next :: int
  dw_drops :: "(int \<times> droplet) list"
  dw_vols :: "(string \<times> string) list"
  dw_pend :: "(int \<times> (string \<times> int)) list"
  dw_lost :: "(string \<times> int) list"
  dw_reqs :: "droplet_create_request list"

definition dw_attached :: "dworld \<Rightarrow> int \<Rightarrow> string list" where
  "dw_attached w i = (case map_of (dw_drops w) i of None \<Rightarrow> [] | Some dl \<Rightarrow> dl_VolumeIDs dl)"

definition dw_view :: "dworld \<Rightarrow> views" where
  "dw_view w = (\<lambda>i. set (dw_attached w i), map_of (dw_pend w), set (dw_lost w), dw_reqs w)"

definition take_off :: "string \<Rightarrow> int \<Rightarrow> (int \<times> droplet) list \<Rightarrow> (int \<times> droplet) list" where
  "take_off v i ds = map (\<lambda>(j, dl). (j, if j = i then dl\<lparr>dl_VolumeIDs := filter (\<lambda>x. x \<noteq> v) (dl_VolumeIDs dl)\<rparr> else dl)) ds"

definition made_droplet :: "int \<Rightarrow> droplet_create_request \<Rightarrow> droplet" where
  "made_droplet i rq = \<lparr>dl_ID = i, dl_Name = dcr_Name rq, dl_Status = ''active'', dl_Size = Some (dcr_Size rq), dl_Region = Some (dcr_Region rq),
     dl_VPCUUID = dcr_VPCUUID rq, dl_Tags = dcr_Tags rq, dl_VolumeIDs = dcr_Volumes rq, dl_Features = [], dl_PublicIPv4 = None,
     dl_PrivateIPv4 = Some ''10.0.0.2'', dl_NetworksV4 = Some 1\<rparr>"

definition mem_droplets :: "dworld droplets_client" where
  "mem_droplets = \<lparr>
     Droplets_Create = (\<lambda>rq w. let dl = made_droplet (dw_next w) rq in
       Some (Ok (Some (dl\<lparr>dl_Status := ''new''\<rparr>)), w\<lparr>dw_next := dw_next w + 1, dw_drops := (dw_next w, dl) # dw_drops w, dw_reqs := dw_reqs w @ [rq]\<rparr>)),
     Droplets_Get = (\<lambda>i w. Some (case map_of (dw_drops w) i of None \<Rightarrow> Err (GodoError (Some 404) ''not found'') | Some dl \<Rightarrow> Ok (Some dl), w)),
     Droplets_Delete = (\<lambda>i w. Some (Ok (), w\<lparr>dw_drops := filter (\<lambda>(j, _). j \<noteq> i) (dw_drops w), dw_lost := dw_lost w @ map (\<lambda>v. (v, i)) (dw_attached w i)\<rparr>))\<rparr>"

definition mem_volume :: "string \<times> string \<Rightarrow> volume" where
  "mem_volume p = \<lparr>vol_ID = fst p, vol_Name = snd p, vol_SizeGigaBytes = 10, vol_Region = None, vol_FilesystemType = [], vol_Description = [], vol_Tags = []\<rparr>"

definition mem_droplet_driver :: "dworld droplet_driver" where
  "mem_droplet_driver = \<lparr>dv_client = mem_droplets,
     dv_storage = Some \<lparr>Storage_GetVolume = (\<lambda>v w. Some (Ok (map_option (\<lambda>n. mem_volume (v, n)) (map_of (dw_vols w) v)), w)),
       Storage_ListNamed = (\<lambda>n r w. Some (Ok (map mem_volume (filter (\<lambda>p. snd p = n) (dw_vols w))), w))\<rparr>,
     dv_storageActions = Some (\<lambda>v i w. Some (Ok (Some \<lparr>ac_ID = dw_next w, ac_Status = ''in-progress''\<rparr>),
       w\<lparr>dw_next := dw_next w + 1, dw_pend := (dw_next w, (v, i)) # dw_pend w\<rparr>)),
     dv_actions = Some (\<lambda>n w. case map_of (dw_pend w) n of
         None \<Rightarrow> Some (Err (GodoError (Some 404) ''not found''), w)
       | Some (v, i) \<Rightarrow> if dw_time w = 0 then Some (Ok (Some \<lparr>ac_ID = n, ac_Status = ''in-progress''\<rparr>), w)
           else Some (Ok (Some \<lparr>ac_ID = n, ac_Status = ''completed''\<rparr>), w\<lparr>dw_drops := take_off v i (dw_drops w)\<rparr>)),
     dv_sizes = None, dv_region = ''nyc3'',
     dv_clock = \<lparr>ck_Err = \<lambda>_. None, ck_Now = dw_time, ck_Wait = \<lambda>n w. Some (Ok None, w\<lparr>dw_time := dw_time w + n\<rparr>)\<rparr>,
     dv_stamp = [], dv_timeouts = None\<rparr>"

lemma take_off_attached:
  "dw_attached (w\<lparr>dw_drops := take_off v i (dw_drops w)\<rparr>) j = (if j = i then filter (\<lambda>x. x \<noteq> v) (dw_attached w j) else dw_attached w j)"
proof -
  have "map_of (take_off v i ds) j = map_option (\<lambda>dl. if j = i then dl\<lparr>dl_VolumeIDs := filter (\<lambda>x. x \<noteq> v) (dl_VolumeIDs dl)\<rparr> else dl) (map_of ds j)" for ds
    by (induction ds) (auto simp: take_off_def)
  then show ?thesis by (simp add: dw_attached_def split: option.split)
qed

lemmas dw_views = view_attached_def view_pending_def view_lost_def view_reqs_def dw_view_def

interpretation mem_droplet: droplet_api mem_droplet_driver dw_view
proof
  fix i r w w' assume "Droplets_Get (dv_client mem_droplet_driver) i w = Some (r, w')"
  then show "dw_view w' = dw_view w \<and> (case r of Ok (Some dl) \<Rightarrow> set (dl_VolumeIDs dl) = view_attached (dw_view w) i
      | Ok None \<Rightarrow> view_attached (dw_view w) i = {} | Err e \<Rightarrow> isResourceNotFound (WrapGodoError e) \<longrightarrow> view_attached (dw_view w) i = {} | Panic _ \<Rightarrow> True)"
    by (auto simp: mem_droplet_driver_def mem_droplets_def dw_views dw_attached_def split: option.splits)
next
  fix acts n w r w' v i assume a: "dv_actions mem_droplet_driver = Some acts" "acts n w = Some (r, w')"
  show "detaching (dw_view w) (dw_view w') \<and> view_pending (dw_view w') = view_pending (dw_view w)
      \<and> (case r of Ok (Some a) \<Rightarrow> ac_Status a = ''completed'' \<longrightarrow> view_pending (dw_view w) n = Some (v, i) \<longrightarrow> v \<notin> view_attached (dw_view w') i | _ \<Rightarrow> True)"
    using a by (auto simp: mem_droplet_driver_def dw_views detaching_def take_off_attached split: option.splits if_splits)
qed (auto simp: mem_droplet_driver_def mem_droplets_def dw_views quiet_def quiet_storage_def quiet_sizes_def detaching_def dw_attached_def Let_def split: option.splits)

section \<open>Replacing is safe\<close>

text \<open>
  C14: replacing a droplet loses no volume, however far it gets. If the API keeps its documented laws
  (a droplet is read with the volumes attached to it, a completed action has detached its volume),
  then no droplet is deleted while a volume is attached to it, whatever \<^verbatim>\<open>Replace\<close> returns, and at
  most one droplet is asked for: if the old one had volumes, with exactly these, whatever the
  configuration says.
\<close>

theorem replace_loses_no_volume:
  assumes "droplet_api d view" and "providerIDToInt (ref_ProviderID ref) = Ok i"
    and "droplet_Replace d ref spec w = Some (r, w')"
  shows "view_lost (view w') \<subseteq> view_lost (view w)
    \<and> (view_reqs (view w') = view_reqs (view w)
       \<or> (\<exists>rq. view_reqs (view w') = view_reqs (view w) @ [rq] \<and> (view_attached (view w) i \<noteq> {} \<longrightarrow> set (dcr_Volumes rq) = view_attached (view w) i)))"
  by (rule wpD [OF droplet_api.Replace_wp [OF assms(1,2)] assms(3)]) blast

definition ex_droplet_world :: dworld where
  "ex_droplet_world = \<lparr>dw_time = 0, dw_next = 8,
     dw_drops = [(7, made_droplet 7 \<lparr>dcr_Name = ''web'', dcr_Region = ''nyc3'', dcr_Size = ''s-1'', dcr_Image = [], dcr_UserData = [], dcr_VPCUUID = [],
       dcr_Tags = [], dcr_Backups = False, dcr_Monitoring = False, dcr_IPv6 = False, dcr_SSHKeys = [], dcr_Volumes = [''v1'', ''v2'']\<rparr>)],
     dw_vols = [(''v1'', ''data''), (''v2'', ''logs''), (''v3'', ''more'')], dw_pend = [], dw_lost = [], dw_reqs = []\<rparr>"

definition ex_droplet_spec :: resource_spec where
  "ex_droplet_spec = \<lparr>spec_Name = ''web'', spec_Type = ''infra.droplet'', spec_Config = [(''volumes'', GAnys (Slice [GStr ''more'']))]\<rparr>"

definition ex_droplet_ref :: resource_ref where
  "ex_droplet_ref = \<lparr>ref_Name = ''web'', ref_Type = ''infra.droplet'', ref_ProviderID = ''7''\<rparr>"

text \<open>A run of \<open>Replace\<close> with a changed list of volumes, and the plan that is made after it.\<close>

definition replan :: "dworld \<Rightarrow> (dworld \<times> string list list \<times> bool) option" where
  "replan w = (case droplet_Replace mem_droplet_driver ex_droplet_ref ex_droplet_spec w of
     Some (Ok out, w') \<Rightarrow>
       (case droplet_Diff mem_droplet_driver ex_droplet_spec (Some out) w' of
          Some (Ok diff, _) \<Rightarrow> Some (w', map dcr_Volumes (dw_reqs w'), NeedsReplace diff)
        | _ \<Rightarrow> None)
   | _ \<Rightarrow> None)"

lemma replan_again: "map_option (\<lambda>(w', vols, again). (dw_lost w', vols, again)) (replan ex_droplet_world) = Some ([], [[''v1'', ''v2'']], True)"
  by code_simp

definition replaced_run :: bool where
  "replaced_run = (case droplet_Replace mem_droplet_driver ex_droplet_ref ex_droplet_spec ex_droplet_world of
     Some (Ok out, w') \<Rightarrow> map dcr_Volumes (dw_reqs w') = [[''v1'', ''v2'']] \<and> dw_attached w' 7 = [] | _ \<Rightarrow> False)"

theorem replace_loses_no_volume_witness:
  "\<exists>out w'. droplet_Replace mem_droplet_driver ex_droplet_ref ex_droplet_spec ex_droplet_world = Some (Ok out, w')
    \<and> dw_lost w' = [] \<and> map dcr_Volumes (dw_reqs w') = [[''v1'', ''v2'']]"
proof -
  have run: replaced_run by code_simp
  then obtain out w' where r: "droplet_Replace mem_droplet_driver ex_droplet_ref ex_droplet_spec ex_droplet_world = Some (Ok out, w')"
    and q: "map dcr_Volumes (dw_reqs w') = [[''v1'', ''v2'']]"
    by (auto simp: replaced_run_def split: option.splits prod.splits res.splits)
  have i: "providerIDToInt (ref_ProviderID ex_droplet_ref) = Ok 7" by code_simp
  have "dw_lost ex_droplet_world = []" by (simp add: ex_droplet_world_def)
  then show ?thesis
    using replace_loses_no_volume [OF mem_droplet.droplet_api_axioms i r] r q by (simp add: dw_views)
qed

section \<open>Replacing ends\<close>

lemma forward_basic [simp]:
  "returns_forward ck (io_ok v)" "returns_forward ck (io_err e)" "returns_forward ck (io_panic p)" "returns_forward ck (io_res r)"
  "returns_forward ck (io_ask q)"
  by (simp_all add: returns_forward_def io_simps)

lemma forward_handle:
  assumes m: "returns_forward ck m" and f: "\<And>x. returns_forward ck (f x)" and g: "\<And>e. returns_forward ck (g e)"
  shows "returns_forward ck (io_handle m f g)"
  unfolding returns_forward_def
proof
  fix w
  obtain r w1 where 1: "m w = Some (r, w1)" "ck_Now ck w \<le> ck_Now ck w1" using m unfolding returns_forward_def by blast
  have fin: "\<exists>r w'. m' w1 = Some (r, w') \<and> ck_Now ck w \<le> ck_Now ck w'" if "returns_forward ck m'" for m' :: "('a, 'c) io"
    using that 1(2) unfolding returns_forward_def by (meson order_trans)
  show "\<exists>r w'. io_handle m f g w = Some (r, w') \<and> ck_Now ck w \<le> ck_Now ck w'"
    using 1 fin [OF f] fin [OF g] by (cases r) (auto simp: io_handle_def)
qed

lemma forward_bind: "returns_forward ck m \<Longrightarrow> (\<And>x. returns_forward ck (f x)) \<Longrightarrow> returns_forward ck (io_bind m f)"
proof -
  assume "returns_forward ck m" "\<And>x. returns_forward ck (f x)"
  moreover have "io_bind m f = io_handle m f io_err"
    by (auto simp: io_bind_def io_handle_def io_err_def fun_eq_iff split: option.split prod.split res.split)
  ultimately show ?thesis by (simp add: forward_handle)
qed

lemma forward_wrap: "returns_forward ck m \<Longrightarrow> returns_forward ck (io_wrap g m)"
  by (simp add: io_wrap_def forward_handle)

lemma forward_deref: "(\<And>x. returns_forward ck (f x)) \<Longrightarrow> returns_forward ck (io_deref p f)"
  by (cases p) simp_all

lemma passes_wait: "passes ck \<Longrightarrow> 0 \<le> n \<Longrightarrow> returns_forward ck (ck_Wait ck n)"
  unfolding passes_def returns_forward_def by (meson le_add_same_cancel1 order_trans)

lemma forward_poll:
  assumes "passes ck" and a: "returns_forward ck attempt" and "0 < n"
  shows "returns_forward ck (poll_loop (poll_step ck g deadline n attempt))"
  unfolding returns_forward_def
proof
  fix w
  let ?I = "\<lambda>w'. ck_Now ck w \<le> ck_Now ck w'"
  obtain r w' where r: "poll_loop (poll_step ck g deadline n attempt) w = Some (r, w')"
    using poll_returns [OF assms] by blast
  have after: "?I w2" if "returns_forward ck m" "?I w1" "m w1 = Some (r2, w2)" for m :: "('a, 'c) io" and r2 w1 w2
    using that unfolding returns_forward_def by (metis Pair_inject option.inject order_trans)
  have keep: "wp m (\<lambda>_. ?I) ?I w1" if "returns_forward ck m" "?I w1" for m :: "('a, 'c) io" and w1
    by (rule wpI) (use after [OF that] in \<open>simp split: res.split\<close>)
  have wait: "wp (ck_Wait ck n) (\<lambda>_. ?I) ?I w1" if "?I w1" for w1
    by (rule keep [OF passes_wait [OF assms(1)]]) (use that assms(3) in auto)
  have all: "wp (poll_loop (poll_step ck g deadline n attempt)) (\<lambda>_. ?I) ?I w"
  proof (rule wp_poll_step [where I = ?I])
    fix w1 assume "?I w1"
    from keep [OF a this] show "wp attempt (\<lambda>(found, late) w'. case found of
        None \<Rightarrow> ?I w' \<and> (case late of Ok x \<Rightarrow> ?I w' | _ \<Rightarrow> ?I w') | Some x \<Rightarrow> ?I w') ?I w1"
      by (rule wp_mono) (simp_all split: option.split res.split prod.split)
  qed (assumption | rule wait, assumption | rule order_refl)+
  show "\<exists>r w'. poll_loop (poll_step ck g deadline n attempt) w = Some (r, w') \<and> ?I w'"
    using r wpD [where Q = ?I and m = "poll_loop (poll_step ck g deadline n attempt)", OF all r] by simp
qed

text \<open>Every client the driver has answers, and the time goes on while one waits.\<close>

locale answering_api =
  fixes d :: "'w droplet_driver"
  assumes clock: "passes (dv_clock d)"
    and droplets: "returns_forward (dv_clock d) (Droplets_Create (dv_client d) rq)" "returns_forward (dv_clock d) (Droplets_Get (dv_client d) i)"
      "returns_forward (dv_clock d) (Droplets_Delete (dv_client d) i)"
    and storage: "dv_storage d = Some st \<Longrightarrow> returns_forward (dv_clock d) (Storage_GetVolume st v)"
      "dv_storage d = Some st \<Longrightarrow> returns_forward (dv_clock d) (Storage_ListNamed st v region)"
    and detaches: "dv_storageActions d = Some f \<Longrightarrow> returns_forward (dv_clock d) (f v i)"
    and actions: "dv_actions d = Some acts \<Longrightarrow> returns_forward (dv_clock d) (acts i)"
    and sizes: "dv_sizes d = Some c \<Longrightarrow> returns_forward (dv_clock d) (Sizes_List c p)"
    and interval: "dv_timeouts d = Some (timeout, poll) \<Longrightarrow> 0 < poll"
begin

abbreviation fw :: "('w, 'a) io \<Rightarrow> bool" where
  "fw \<equiv> returns_forward (dv_clock d)"

lemmas fw_intros = forward_bind forward_handle forward_wrap forward_deref

lemma fw_pages: "dv_sizes d = Some c \<Longrightarrow> fw (quote_pages err c slug page sel rows)"
proof (induction "101 - page" arbitrary: page sel rows rule: less_induct)
  case less
  have IH: "\<not> 100 \<le> page \<Longrightarrow> fw (quote_pages err c slug (Suc page) sel rows)" for sel rows
    using less.hyps [of "Suc page"] less.prems by simp
  show ?case unfolding quote_pages.simps [of err c slug page sel rows]
    by (auto simp: Let_def intro!: fw_intros sizes less.prems IH split: prod.split next_link.split option.split)
qed

lemma fw_quote: "fw (droplet_quote d spec)"
  unfolding droplet_quote_def QuoteDropletPrice_def by (auto intro!: fw_intros fw_pages split: option.split)

lemma fw_names: "dv_storage d = Some st \<Longrightarrow> fw (resolve_names st region names)"
  by (induction names) (auto simp: Let_def intro!: fw_intros storage)

lemma fw_resolve: "fw (resolveDropletVolumes d c region)"
  unfolding resolveDropletVolumes_def by (auto intro!: fw_intros fw_names split: option.split)

lemma fw_volume_names: "(\<And>s v. st = Some s \<Longrightarrow> fw (Storage_GetVolume s v)) \<Longrightarrow> fw (volume_names_of st vids cache)"
  by (induction vids arbitrary: cache) (auto intro!: fw_intros split: option.split)

lemma fw_output: "fw (dropletOutput d dl)"
  unfolding dropletOutput_def by (auto intro!: fw_intros fw_volume_names storage(1))

lemma fw_wait_action: "dv_actions d = Some acts \<Longrightarrow> 0 < poll \<Longrightarrow> fw (waitForActionComplete (dv_clock d) acts i timeout poll)"
  unfolding waitForActionComplete_def using actions by (auto intro!: fw_intros forward_poll [OF clock])

lemma fw_wait_ready: "fw (waitForDropletReady d i)"
proof -
  have "0 < snd (dropletReadyTimeouts d)"
    using interval by (cases "dv_timeouts d") (auto simp: dropletReadyTimeouts_def)
  then show ?thesis unfolding waitForDropletReady_def Let_def prod.case_eq_if
    by (auto intro!: fw_intros forward_poll [OF clock] droplets split: option.split)
qed

lemma fw_create: "fw (createWithResolvedVolumes d spec resolved)"
  unfolding createWithResolvedVolumes_def Let_def
  by (auto intro!: fw_intros fw_quote fw_resolve fw_output fw_wait_ready droplets split: option.split slice.split)

lemma fw_detach: "dv_storageActions d = Some detach \<Longrightarrow> dv_actions d = Some acts \<Longrightarrow> fw (detach_volumes d detach acts ref i vids)"
proof (induction vids)
  case (Cons v vs)
  have "0 < snd (replaceTimeouts d)" using interval by (cases "dv_timeouts d") (auto simp: replaceTimeouts_def)
  then show ?case using Cons detaches [OF Cons.prems(1)]
    by (auto simp: Let_def split: prod.split intro!: fw_intros fw_wait_action)
qed simp

lemma fw_Replace: "fw (droplet_Replace d ref spec)"
  unfolding droplet_Replace_def read_old_def detach_all_def
  by (auto intro!: fw_intros fw_quote fw_create fw_detach droplets split: option.split)

end

interpretation mem_answers: answering_api mem_droplet_driver
  by unfold_locales (auto simp: mem_droplet_driver_def mem_droplets_def passes_def returns_forward_def Let_def split: option.split)

text \<open>
  C27: \<^verbatim>\<open>Create\<close> and \<^verbatim>\<open>Replace\<close> always return. Their loops poll an action and a droplet until a
  deadline: if each call of the API returns, time goes on while one waits, and the interval
  between the polls is positive, which it is unless tests set it, then neither runs for ever,
  whatever the API answers.
\<close>

theorem replace_returns:
  assumes "answering_api d"
  shows "(\<exists>r w'. droplet_Replace d ref spec w = Some (r, w')) \<and> (\<exists>r w'. droplet_Create d spec w = Some (r, w'))"
  using answering_api.fw_Replace [OF assms, of ref spec] answering_api.fw_create [OF assms, of spec NilSlice]
  unfolding returns_forward_def droplet_Create_def by blast

theorem replace_returns_witness:
  "(\<exists>r w'. droplet_Replace mem_droplet_driver ex_droplet_ref ex_droplet_spec ex_droplet_world = Some (r, w'))
    \<and> (\<exists>r w'. droplet_Create mem_droplet_driver ex_droplet_spec ex_droplet_world = Some (r, w'))"
  using replace_returns [OF mem_answers.answering_api_axioms] by simp

end
