(* ===== verification/LoadBalancer.thy ===== *)
theory LoadBalancer
  imports Heal
begin

text \<open>The load balancer driver (\<^verbatim>\<open>internal/drivers/load_balancer.go\<close>).\<close>

record load_balancer =
  lb_ID :: string
  lb_Name :: string
  lb_IP :: string
  lb_Status :: string

record forwarding_rule =
  fr_EntryProtocol :: string
  fr_EntryPort :: int
  fr_TargetProtocol :: string
  fr_TargetPort :: int

record lb_request =
  lbr_Name :: string
  lbr_Region :: string
  lbr_Algorithm :: string
  lbr_ForwardingRules :: "forwarding_rule list"

record 'w lb_client =
  LB_Create :: "lb_request \<Rightarrow> ('w, load_balancer option) io"
  LB_Get :: "string \<Rightarrow> ('w, load_balancer option) io"
  LB_List :: "('w, load_balancer) lister"
  LB_Update :: "string \<Rightarrow> lb_request \<Rightarrow> ('w, load_balancer option) io"
  LB_Delete :: "string \<Rightarrow> ('w, unit) io"

record 'w lb_driver =
  lbd_client :: "'w lb_client"
  lbd_region :: string

definition lbOutput :: "load_balancer \<Rightarrow> resource_output" where
  "lbOutput lb =
     \<lparr>out_Name = lb_Name lb, out_Type = ''infra.load_balancer'', out_ProviderID = lb_ID lb,
      out_Outputs = [(''ip'', GStr (lb_IP lb)), (''status'', GStr (lb_Status lb))],
      out_Sensitive = [], out_Status = lb_Status lb\<rparr>"

text \<open>The request of \<open>Create\<close> and \<open>Update\<close>: one rule for plain HTTP, whatever the configuration says.\<close>

definition lb_request_of :: "'w lb_driver \<Rightarrow> resource_spec \<Rightarrow> lb_request" where
  "lb_request_of d spec =
     \<lparr>lbr_Name = spec_Name spec, lbr_Region = strFromConfig (spec_Config spec) ''region'' (lbd_region d),
      lbr_Algorithm = strFromConfig (spec_Config spec) ''algorithm'' ''round_robin'',
      lbr_ForwardingRules = [\<lparr>fr_EntryProtocol = ''http'', fr_EntryPort = 80, fr_TargetProtocol = ''http'', fr_TargetPort = 80\<rparr>]\<rparr>"

definition lb_Create :: "'w lb_driver \<Rightarrow> resource_spec \<Rightarrow> ('w, resource_output) io" where
  "lb_Create d spec =
     io_bind (io_wrap (\<lambda>e. Wrapf ''load balancer create %q: %w'' [FStr (spec_Name spec)] (WrapGodoError e))
               (LB_Create (lbd_client d) (lb_request_of d spec))) (\<lambda>r.
     let empty_id = Errorf ''load balancer create %q: API returned load balancer with empty ID'' [FStr (spec_Name spec)] in
     case r of
       None \<Rightarrow> io_err empty_id
     | Some lb \<Rightarrow> if lb_ID lb = [] then io_err empty_id else io_ok (lbOutput lb))"

definition lb_Read :: "'w lb_driver \<Rightarrow> resource_ref \<Rightarrow> ('w, resource_output) io" where
  "lb_Read d ref =
     io_bind (io_wrap (\<lambda>e. Wrapf ''load balancer read %q: %w'' [FStr (ref_Name ref)] (WrapGodoError e))
               (LB_Get (lbd_client d) (ref_ProviderID ref))) (\<lambda>r.
     io_deref r (\<lambda>lb. io_ok (lbOutput lb)))"

definition findLoadBalancerByName :: "'w lb_driver \<Rightarrow> string \<Rightarrow> ('w, resource_output) io" where
  "findLoadBalancerByName d =
     find_by_name ''load balancer list: %w'' ''load_balancer %q: %w'' (LB_List (lbd_client d)) lb_Name lbOutput"

definition lb_resolveProviderID :: "'w lb_driver \<Rightarrow> resource_ref \<Rightarrow> ('w, string) io" where
  "lb_resolveProviderID d = heal ''load_balancer state-heal for %q: %w'' (findLoadBalancerByName d)"

definition lb_Update :: "'w lb_driver \<Rightarrow> resource_ref \<Rightarrow> resource_spec \<Rightarrow> ('w, resource_output) io" where
  "lb_Update d ref spec =
     io_bind (lb_resolveProviderID d ref) (\<lambda>providerID.
     io_bind (io_wrap (\<lambda>e. Wrapf ''load balancer update %q: %w'' [FStr (ref_Name ref)] (WrapGodoError e))
               (LB_Update (lbd_client d) providerID (lb_request_of d spec))) (\<lambda>r.
     io_deref r (\<lambda>lb. io_ok (lbOutput lb))))"

definition lb_Delete :: "'w lb_driver \<Rightarrow> resource_ref \<Rightarrow> ('w, unit) io" where
  "lb_Delete d ref =
     io_bind (lb_resolveProviderID d ref) (\<lambda>providerID.
     io_wrap (\<lambda>e. Wrapf ''load balancer delete %q: %w'' [FStr (ref_Name ref)] (WrapGodoError e))
       (LB_Delete (lbd_client d) providerID))"

definition lb_Diff :: "resource_spec \<Rightarrow> resource_output option \<Rightarrow> diff_result res" where
  "lb_Diff desired current = Ok (case current of None \<Rightarrow> diff_absent | Some _ \<Rightarrow> diff_result_of ([], False))"

definition lb_HealthCheck :: "'w lb_driver \<Rightarrow> resource_ref \<Rightarrow> ('w, health_result) io" where
  "lb_HealthCheck d ref =
     io_handle (lb_resolveProviderID d ref)
       (\<lambda>providerID. io_handle (LB_Get (lbd_client d) providerID)
          (\<lambda>r. io_deref r (\<lambda>lb. io_ok \<lparr>Healthy = (lb_Status lb = ''active''), Message = Text (lb_Status lb)\<rparr>))
          (\<lambda>e. io_ok \<lparr>Healthy = False, Message = ErrorText e\<rparr>))
       (\<lambda>e. io_ok \<lparr>Healthy = False, Message = ErrorText e\<rparr>)"

definition lb_Scale :: "resource_ref \<Rightarrow> int \<Rightarrow> ('w, resource_output) io" where
  "lb_Scale ref n = io_err (Errorf ''load balancer does not support scale operation'' [])"

interpretation lb_diff: field_differ lb_Diff
  by unfold_locales (auto simp: lb_Diff_def diff_result_of_def)

end
