(* ===== verification/Kubernetes.thy ===== *)
theory Kubernetes
  imports Heal
begin

text \<open>The driver of Kubernetes clusters (\<^verbatim>\<open>internal/drivers/kubernetes.go\<close>).\<close>

record cluster_status =
  cs_State :: string
  cs_Message :: string

record cluster =
  kc_ID :: string
  kc_Name :: string
  kc_Endpoint :: string
  kc_RegionSlug :: string
  kc_VersionSlug :: string
  kc_Status :: "cluster_status option"
  kc_NodePools :: "string option list"

record cluster_request =
  kcr_Name :: string
  kcr_RegionSlug :: string
  kcr_VersionSlug :: string
  kcr_PoolName :: string
  kcr_PoolSize :: string
  kcr_PoolCount :: int

text \<open>A node pool is given by its id; \<open>K8s_Update\<close> takes the new name, \<open>K8s_UpdateNodePool\<close> the new count.\<close>

record 'w k8s_client =
  K8s_Create :: "cluster_request \<Rightarrow> ('w, cluster option) io"
  K8s_Get :: "string \<Rightarrow> ('w, cluster option) io"
  K8s_List :: "('w, cluster option) lister"
  K8s_Update :: "string \<Rightarrow> string \<Rightarrow> ('w, cluster option) io"
  K8s_Delete :: "string \<Rightarrow> ('w, unit) io"
  K8s_UpdateNodePool :: "string \<Rightarrow> string \<Rightarrow> int \<Rightarrow> ('w, unit) io"

record 'w k8s_driver =
  kd_client :: "'w k8s_client"
  kd_region :: string

definition k8sOutput :: "cluster \<Rightarrow> resource_output" where
  "k8sOutput c =
     \<lparr>out_Name = kc_Name c, out_Type = ''infra.k8s_cluster'', out_ProviderID = kc_ID c,
      out_Outputs = [(''endpoint'', GStr (kc_Endpoint c)), (''region'', GStr (kc_RegionSlug c)), (''version'', GStr (kc_VersionSlug c))],
      out_Sensitive = [], out_Status = (case kc_Status c of None \<Rightarrow> ''provisioning'' | Some s \<Rightarrow> cs_State s)\<rparr>"

definition k8s_request :: "'w k8s_driver \<Rightarrow> resource_spec \<Rightarrow> cluster_request" where
  "k8s_request d spec = (let c = spec_Config spec in
     \<lparr>kcr_Name = spec_Name spec, kcr_RegionSlug = strFromConfig c ''region'' (kd_region d), kcr_VersionSlug = strFromConfig c ''version'' ''latest'',
      kcr_PoolName = spec_Name spec @ ''-pool'', kcr_PoolSize = strFromConfig c ''node_size'' ''s-2vcpu-4gb'',
      kcr_PoolCount = fst (intFromConfig c ''node_count'' 3)\<rparr>)"

definition k8s_Create :: "'w k8s_driver \<Rightarrow> resource_spec \<Rightarrow> ('w, resource_output) io" where
  "k8s_Create d spec =
     io_bind (io_wrap (\<lambda>e. Wrapf ''kubernetes create %q: %w'' [FStr (spec_Name spec)] (WrapGodoError e))
               (K8s_Create (kd_client d) (k8s_request d spec))) (\<lambda>r.
     let empty_id = Errorf ''kubernetes create %q: API returned cluster with empty ID'' [FStr (spec_Name spec)] in
     case r of
       None \<Rightarrow> io_err empty_id
     | Some c \<Rightarrow> if kc_ID c = [] then io_err empty_id else io_ok (k8sOutput c))"

definition k8s_Read :: "'w k8s_driver \<Rightarrow> resource_ref \<Rightarrow> ('w, resource_output) io" where
  "k8s_Read d ref =
     io_bind (io_wrap (\<lambda>e. Wrapf ''kubernetes read %q: %w'' [FStr (ref_Name ref)] (WrapGodoError e))
               (K8s_Get (kd_client d) (ref_ProviderID ref))) (\<lambda>r.
     io_deref r (\<lambda>c. io_ok (k8sOutput c)))"

text \<open>The list holds pointers: a nil entry that is reached panics.\<close>

definition findClusterByName :: "'w k8s_driver \<Rightarrow> string \<Rightarrow> ('w, resource_output) io" where
  "findClusterByName d name =
     io_bind (io_wrap (\<lambda>e. Wrapf ''kubernetes list: %w'' [] (WrapGodoError e))
               (find_page (K8s_List (kd_client d)) (\<lambda>c. case c of None \<Rightarrow> True | Some k \<Rightarrow> kc_Name k = name) 1)) (\<lambda>r.
     case r of
       Some c \<Rightarrow> io_deref c (\<lambda>k. io_ok (k8sOutput k))
     | None \<Rightarrow> io_err (Wrapf ''k8s_cluster %q: %w'' [FStr name] (Sentinel ErrResourceNotFound)))"

definition k8s_resolveProviderID :: "'w k8s_driver \<Rightarrow> resource_ref \<Rightarrow> ('w, string) io" where
  "k8s_resolveProviderID d = heal ''k8s_cluster state-heal for %q: %w'' (findClusterByName d)"

definition k8s_Update :: "'w k8s_driver \<Rightarrow> resource_ref \<Rightarrow> resource_spec \<Rightarrow> ('w, resource_output) io" where
  "k8s_Update d ref spec =
     io_bind (k8s_resolveProviderID d ref) (\<lambda>providerID.
     io_bind (io_wrap (\<lambda>e. Wrapf ''kubernetes update %q: %w'' [FStr (ref_Name ref)] (WrapGodoError e))
               (K8s_Update (kd_client d) providerID (spec_Name spec))) (\<lambda>r.
     io_deref r (\<lambda>c. io_ok (k8sOutput c))))"

definition k8s_Delete :: "'w k8s_driver \<Rightarrow> resource_ref \<Rightarrow> ('w, unit) io" where
  "k8s_Delete d ref =
     io_bind (k8s_resolveProviderID d ref) (\<lambda>providerID.
     io_wrap (\<lambda>e. Wrapf ''kubernetes delete %q: %w'' [FStr (ref_Name ref)] (WrapGodoError e)) (K8s_Delete (kd_client d) providerID))"

definition k8s_Diff :: "resource_spec \<Rightarrow> resource_output option \<Rightarrow> diff_result res" where
  "k8s_Diff desired current = Ok (case current of None \<Rightarrow> diff_absent | Some _ \<Rightarrow> diff_result_of ([], False))"

definition k8s_health :: "cluster \<Rightarrow> health_result" where
  "k8s_health c = (case kc_Status c of
     None \<Rightarrow> \<lparr>Healthy = False, Message = Text []\<rparr>
   | Some s \<Rightarrow> if cs_State s = ''running'' then \<lparr>Healthy = True, Message = Text []\<rparr> else \<lparr>Healthy = False, Message = Text (cs_Message s)\<rparr>)"

definition k8s_HealthCheck :: "'w k8s_driver \<Rightarrow> resource_ref \<Rightarrow> ('w, health_result) io" where
  "k8s_HealthCheck d ref =
     io_handle (k8s_resolveProviderID d ref)
       (\<lambda>providerID. io_handle (K8s_Get (kd_client d) providerID)
          (\<lambda>r. io_deref r (\<lambda>c. io_ok (k8s_health c)))
          (\<lambda>e. io_ok \<lparr>Healthy = False, Message = ErrorText e\<rparr>))
       (\<lambda>e. io_ok \<lparr>Healthy = False, Message = ErrorText e\<rparr>)"

text \<open>The first node pool is resized.\<close>

definition k8s_Scale :: "'w k8s_driver \<Rightarrow> resource_ref \<Rightarrow> int \<Rightarrow> ('w, resource_output) io" where
  "k8s_Scale d ref replicas =
     io_bind (k8s_resolveProviderID d ref) (\<lambda>providerID.
     io_bind (io_wrap (\<lambda>e. Wrapf ''kubernetes scale read %q: %w'' [FStr (ref_Name ref)] (WrapGodoError e)) (K8s_Get (kd_client d) providerID)) (\<lambda>r.
     io_deref r (\<lambda>c.
     case kc_NodePools c of
       [] \<Rightarrow> io_err (Errorf ''kubernetes scale %q: no node pools found'' [FStr (ref_Name ref)])
     | p # _ \<Rightarrow> io_deref p (\<lambda>pool.
         io_bind (io_wrap (\<lambda>e. Wrapf ''kubernetes scale %q pool %q: %w'' [FStr (ref_Name ref), FStr pool] (WrapGodoError e))
                    (K8s_UpdateNodePool (kd_client d) providerID pool replicas)) (\<lambda>_.
         k8s_Read d (ref\<lparr>ref_ProviderID := providerID\<rparr>))))))"

interpretation k8s_diff: field_differ k8s_Diff
  by unfold_locales (auto simp: k8s_Diff_def diff_result_of_def)

end
