(* ===== verification/Cache.thy ===== *)
theory Cache
  imports Heal
begin

text \<open>
  The Redis driver (\<^verbatim>\<open>internal/drivers/cache.go\<close>): clusters of the database API, of the engine redis.
\<close>

record db_connection =
  con_Host :: string
  con_Port :: int
  con_Database :: string
  con_User :: string
  con_Password :: string
  con_URI :: string

record database =
  db_ID :: string
  db_Name :: string
  db_EngineSlug :: string
  db_VersionSlug :: string
  db_RegionSlug :: string
  db_SizeSlug :: string
  db_Status :: string
  db_Tags :: "string list"
  db_NumNodes :: int
  db_Connection :: "db_connection option"

record db_create_request =
  dbr_Name :: string
  dbr_EngineSlug :: string
  dbr_Version :: string
  dbr_SizeSlug :: string
  dbr_Region :: string
  dbr_NumNodes :: int
  dbr_Tags :: "string slice"

record 'w cache_client =
  Cache_Create :: "db_create_request \<Rightarrow> ('w, database option) io"
  Cache_Get :: "string \<Rightarrow> ('w, database option) io"
  Cache_List :: "('w, database) lister"
  Cache_Resize :: "string \<Rightarrow> string \<Rightarrow> int \<Rightarrow> ('w, unit) io"
  Cache_Delete :: "string \<Rightarrow> ('w, unit) io"

record 'w cache_driver =
  cad_client :: "'w cache_client"
  cad_region :: string

definition cacheOutput :: "database \<Rightarrow> resource_output" where
  "cacheOutput db =
     \<lparr>out_Name = db_Name db, out_Type = ''infra.cache'', out_ProviderID = db_ID db,
      out_Outputs = [(''engine'', GStr (db_EngineSlug db)), (''region'', GStr (db_RegionSlug db)), (''size'', GStr (db_SizeSlug db)),
          (''tags'', GAnys (Slice (map GStr (db_Tags db)))), (''version'', GStr (db_VersionSlug db))]
        @ (case db_Connection db of None \<Rightarrow> []
           | Some c \<Rightarrow> [(''host'', GStr (con_Host c)), (''port'', GInt (con_Port c)), (''uri'', GStr (con_URI c))]),
      out_Sensitive = [], out_Status = db_Status db\<rparr>"

definition cache_size :: "cfg \<Rightarrow> string" where
  "cache_size c = strFromConfig c ''size'' ''db-s-1vcpu-1gb''"

definition cache_nodes :: "cfg \<Rightarrow> int" where
  "cache_nodes c = fst (intFromConfig c ''num_nodes'' 1)"

definition cache_request :: "'w cache_driver \<Rightarrow> resource_spec \<Rightarrow> db_create_request" where
  "cache_request d spec = (let c = spec_Config spec in
     \<lparr>dbr_Name = spec_Name spec, dbr_EngineSlug = ''redis'', dbr_Version = strFromConfig c ''version'' ''7'', dbr_SizeSlug = cache_size c,
      dbr_Region = strFromConfig c ''region'' (cad_region d), dbr_NumNodes = cache_nodes c, dbr_Tags = NilSlice\<rparr>)"

definition cache_Create :: "'w cache_driver \<Rightarrow> resource_spec \<Rightarrow> ('w, resource_output) io" where
  "cache_Create d spec =
     io_bind (io_wrap (\<lambda>e. Wrapf ''cache create %q: %w'' [FStr (spec_Name spec)] (WrapGodoError e))
               (Cache_Create (cad_client d) (cache_request d spec))) (\<lambda>r.
     let empty_id = Errorf ''cache create %q: API returned cache with empty ID'' [FStr (spec_Name spec)] in
     case r of
       None \<Rightarrow> io_err empty_id
     | Some db \<Rightarrow> if db_ID db = [] then io_err empty_id else io_ok (cacheOutput db))"

definition cache_Read :: "'w cache_driver \<Rightarrow> resource_ref \<Rightarrow> ('w, resource_output) io" where
  "cache_Read d ref =
     io_bind (io_wrap (\<lambda>e. Wrapf ''cache read %q: %w'' [FStr (ref_Name ref)] (WrapGodoError e))
               (Cache_Get (cad_client d) (ref_ProviderID ref))) (\<lambda>r.
     io_deref r (\<lambda>db. io_ok (cacheOutput db)))"

definition findCacheByName :: "'w cache_driver \<Rightarrow> string \<Rightarrow> ('w, resource_output) io" where
  "findCacheByName d name =
     io_bind (io_wrap (\<lambda>e. Wrapf ''cache list: %w'' [] (WrapGodoError e))
               (find_page (Cache_List (cad_client d)) (\<lambda>db. db_Name db = name \<and> db_EngineSlug db = ''redis'') 1)) (\<lambda>r.
     case r of
       Some db \<Rightarrow> io_ok (cacheOutput db)
     | None \<Rightarrow> io_err (Wrapf ''cache %q: %w'' [FStr name] (Sentinel ErrResourceNotFound)))"

definition cache_resolveProviderID :: "'w cache_driver \<Rightarrow> resource_ref \<Rightarrow> ('w, string) io" where
  "cache_resolveProviderID d = heal ''cache state-heal for %q: %w'' (findCacheByName d)"

definition cache_Update :: "'w cache_driver \<Rightarrow> resource_ref \<Rightarrow> resource_spec \<Rightarrow> ('w, resource_output) io" where
  "cache_Update d ref spec =
     io_bind (cache_resolveProviderID d ref) (\<lambda>providerID.
     io_bind (io_wrap (\<lambda>e. Wrapf ''cache update %q: %w'' [FStr (ref_Name ref)] (WrapGodoError e))
               (Cache_Resize (cad_client d) providerID (cache_size (spec_Config spec)) (cache_nodes (spec_Config spec)))) (\<lambda>_.
     cache_Read d (ref\<lparr>ref_ProviderID := providerID\<rparr>)))"

definition cache_Delete :: "'w cache_driver \<Rightarrow> resource_ref \<Rightarrow> ('w, unit) io" where
  "cache_Delete d ref =
     io_bind (cache_resolveProviderID d ref) (\<lambda>providerID.
     io_wrap (\<lambda>e. Wrapf ''cache delete %q: %w'' [FStr (ref_Name ref)] (WrapGodoError e)) (Cache_Delete (cad_client d) providerID))"

definition cache_Diff :: "resource_spec \<Rightarrow> resource_output option \<Rightarrow> diff_result res" where
  "cache_Diff desired current = Ok (case current of
     None \<Rightarrow> diff_absent
   | Some cur \<Rightarrow>
     let sz = strFromConfig (spec_Config desired) ''size'' []; curSize = str_or_empty (map_of (out_Outputs cur) ''size'')
     in diff_result_of (diff_step (sz \<noteq> [] \<and> curSize \<noteq> sz) (change ''size'' (GStr curSize) (GStr sz)) ([], False)))"

definition cache_HealthCheck :: "'w cache_driver \<Rightarrow> resource_ref \<Rightarrow> ('w, health_result) io" where
  "cache_HealthCheck d ref =
     io_handle (cache_resolveProviderID d ref)
       (\<lambda>providerID. io_handle (Cache_Get (cad_client d) providerID)
          (\<lambda>r. io_deref r (\<lambda>db. io_ok \<lparr>Healthy = (db_Status db = ''online''), Message = Text (db_Status db)\<rparr>))
          (\<lambda>e. io_ok \<lparr>Healthy = False, Message = ErrorText e\<rparr>))
       (\<lambda>e. io_ok \<lparr>Healthy = False, Message = ErrorText e\<rparr>)"

definition cache_Scale :: "'w cache_driver \<Rightarrow> resource_ref \<Rightarrow> int \<Rightarrow> ('w, resource_output) io" where
  "cache_Scale d ref replicas =
     io_bind (cache_resolveProviderID d ref) (\<lambda>providerID.
     io_bind (io_wrap (\<lambda>e. Wrapf ''cache scale read %q: %w'' [FStr (ref_Name ref)] (WrapGodoError e)) (Cache_Get (cad_client d) providerID)) (\<lambda>r.
     io_deref r (\<lambda>db.
     io_bind (io_wrap (\<lambda>e. Wrapf ''cache scale %q: %w'' [FStr (ref_Name ref)] (WrapGodoError e))
                (Cache_Resize (cad_client d) providerID (db_SizeSlug db) replicas)) (\<lambda>_.
     cache_Read d (ref\<lparr>ref_ProviderID := providerID\<rparr>)))))"

interpretation cache_diff: field_differ cache_Diff
  by unfold_locales (auto simp: cache_Diff_def diff_result_of_def diff_step_def change_def Let_def split: if_splits)

end
