(* ===== verification/ApiGateway.thy ===== *)
theory ApiGateway
  imports AppPlatform
begin

text \<open>
  The API gateway driver (\<^verbatim>\<open>internal/drivers/api_gateway.go\<close>): an app whose services are nothing but
  routes to components.
\<close>

record 'w gateway_driver =
  gwd_client :: "'w app_client"
  gwd_region :: string

definition gateway_service :: "cfg \<Rightarrow> app_service" where
  "gateway_service m =
     \<lparr>svc_Name = strFromConfig m ''component'' [], svc_Image = None, svc_HTTPPort = 0, svc_InstanceCount = 0, svc_Envs = [],
      svc_BuildCommand = [], svc_RunCommand = [], svc_DockerfilePath = [], svc_SourceDir = [], svc_InstanceSizeSlug = [], svc_Protocol = [],
      svc_InternalPorts = [],
      svc_Routes = [Some \<lparr>rt_Path = strFromConfig m ''path'' ''/'', rt_PreservePathPrefix = (as_bool (map_of m ''preserve_path_prefix'') = Some True)\<rparr>],
      svc_HealthCheck = None, svc_LivenessHealthCheck = None, svc_CORS = None, svc_Autoscaling = None, svc_Termination = None,
      svc_LogDestinations = [], svc_Alerts = []\<rparr>"

text \<open>Entries that are no objects are skipped; a nil object is none.\<close>

fun gateway_services :: "gval list \<Rightarrow> app_service option list" where
  "gateway_services [] = []"
| "gateway_services (r # rs) = (case r of GMap m \<Rightarrow> Some (gateway_service m) # gateway_services rs | _ \<Rightarrow> gateway_services rs)"

definition buildAPIGatewaySpec :: "string \<Rightarrow> string \<Rightarrow> cfg \<Rightarrow> app_spec" where
  "buildAPIGatewaySpec name region config =
     \<lparr>as_Name = name, as_Region = region,
      as_Services = gateway_services (case as_anys (map_of config ''routes'') of None \<Rightarrow> [] | Some s \<Rightarrow> elems s),
      as_Jobs = [], as_Workers = [], as_StaticSites = [], as_Functions = [], as_Databases = [], as_Domains = [], as_Alerts = [], as_Ingress = None,
      as_Egress = None, as_Maintenance = None, as_Vpc = None, as_Features = [], as_DisableEdgeCache = False,
      as_DisableEmailObfuscation = False, as_EnhancedThreatControl = False\<rparr>"

definition apiGatewayOutput :: "app \<Rightarrow> resource_output res" where
  "apiGatewayOutput a =
     (case app_Spec a of
        None \<Rightarrow> Panic ''nil pointer dereference''
      | Some spec \<Rightarrow> Ok
          \<lparr>out_Name = as_Name spec, out_Type = ''infra.api_gateway'', out_ProviderID = app_ID a,
           out_Outputs = [(''live_url'', GStr (app_LiveURL a))], out_Sensitive = [],
           out_Status = (case app_Active a of Some dep \<Rightarrow> if dep_Phase dep = ''ACTIVE'' then ''running'' else ''pending'' | None \<Rightarrow> ''pending'')\<rparr>)"

definition gateway_spec :: "'w gateway_driver \<Rightarrow> resource_spec \<Rightarrow> app_spec" where
  "gateway_spec d spec = buildAPIGatewaySpec (spec_Name spec) (strFromConfig (spec_Config spec) ''region'' (gwd_region d)) (spec_Config spec)"

definition gateway_Create :: "'w gateway_driver \<Rightarrow> resource_spec \<Rightarrow> ('w, resource_output) io" where
  "gateway_Create d spec =
     io_bind (io_wrap (\<lambda>e. Wrapf ''api_gateway create %q: %w'' [FStr (spec_Name spec)] (WrapGodoError e))
               (Apps_Create (gwd_client d) (gateway_spec d spec))) (\<lambda>r.
     let empty_id = Errorf ''api_gateway create %q: API returned app with empty ID'' [FStr (spec_Name spec)] in
     case r of
       None \<Rightarrow> io_err empty_id
     | Some a \<Rightarrow> if app_ID a = [] then io_err empty_id else io_res (apiGatewayOutput a))"

definition gateway_Read :: "'w gateway_driver \<Rightarrow> resource_ref \<Rightarrow> ('w, resource_output) io" where
  "gateway_Read d ref =
     io_bind (io_wrap (\<lambda>e. Wrapf ''api_gateway read %q: %w'' [FStr (ref_Name ref)] (WrapGodoError e))
               (Apps_Get (gwd_client d) (ref_ProviderID ref))) (\<lambda>r.
     io_deref r (\<lambda>a. io_res (apiGatewayOutput a)))"

definition findAPIGatewayByName :: "'w gateway_driver \<Rightarrow> string \<Rightarrow> ('w, resource_output) io" where
  "findAPIGatewayByName d name =
     io_bind (io_wrap (\<lambda>e. Wrapf ''api_gateway list: %w'' [] (WrapGodoError e))
               (find_page (Apps_List (gwd_client d)) (\<lambda>a. a = None \<or> named_app name a) 1)) (\<lambda>r.
     case r of
       Some a_opt \<Rightarrow> io_deref a_opt (\<lambda>a. io_res (apiGatewayOutput a))
     | None \<Rightarrow> io_err (Wrapf ''api_gateway %q: %w'' [FStr name] (Sentinel ErrResourceNotFound)))"

definition gateway_resolveProviderID :: "'w gateway_driver \<Rightarrow> resource_ref \<Rightarrow> ('w, string) io" where
  "gateway_resolveProviderID d = heal ''api_gateway state-heal for %q: %w'' (findAPIGatewayByName d)"

definition gateway_Update :: "'w gateway_driver \<Rightarrow> resource_ref \<Rightarrow> resource_spec \<Rightarrow> ('w, resource_output) io" where
  "gateway_Update d ref spec =
     io_bind (gateway_resolveProviderID d ref) (\<lambda>providerID.
     io_bind (io_wrap (\<lambda>e. Wrapf ''api_gateway update %q: %w'' [FStr (ref_Name ref)] (WrapGodoError e))
               (Apps_Update (gwd_client d) providerID (gateway_spec d spec))) (\<lambda>r.
     io_deref r (\<lambda>a. io_res (apiGatewayOutput a))))"

definition gateway_Delete :: "'w gateway_driver \<Rightarrow> resource_ref \<Rightarrow> ('w, unit) io" where
  "gateway_Delete d ref =
     io_bind (gateway_resolveProviderID d ref) (\<lambda>providerID.
     io_wrap (\<lambda>e. Wrapf ''api_gateway delete %q: %w'' [FStr (ref_Name ref)] (WrapGodoError e)) (Apps_Delete (gwd_client d) providerID))"

definition gateway_Diff :: "resource_spec \<Rightarrow> resource_output option \<Rightarrow> diff_result res" where
  "gateway_Diff desired current = Ok (case current of None \<Rightarrow> diff_absent | Some _ \<Rightarrow> diff_result_of ([], False))"

definition gateway_HealthCheck :: "'w gateway_driver \<Rightarrow> resource_ref \<Rightarrow> ('w, health_result) io" where
  "gateway_HealthCheck d ref =
     io_handle (gateway_resolveProviderID d ref)
       (\<lambda>providerID. io_handle (Apps_Get (gwd_client d) providerID)
          (\<lambda>r. io_deref r (appHealthResult None))
          (\<lambda>e. io_ok \<lparr>Healthy = False, Message = ErrorText e\<rparr>))
       (\<lambda>e. io_ok \<lparr>Healthy = False, Message = ErrorText e\<rparr>)"

definition gateway_Scale :: "resource_ref \<Rightarrow> int \<Rightarrow> ('w, resource_output) io" where
  "gateway_Scale ref n = io_err (Errorf ''api_gateway does not support scale operation'' [])"

interpretation gateway_diff: field_differ gateway_Diff
  by unfold_locales (auto simp: gateway_Diff_def diff_result_of_def)

end
