(* ===== verification/Buckets.thy ===== *)
theory Buckets
  imports ConfigUtil Errors Stateful
begin

text \<open>
  The drivers of resources that are only declared or only counted: the container registry
  (\<^verbatim>\<open>internal/drivers/registry.go\<close>), the Spaces buckets (\<^verbatim>\<open>internal/drivers/spaces.go\<close>) and the IAM roles
  (\<^verbatim>\<open>internal/drivers/iam_role.go\<close>).
\<close>

section \<open>The container registry\<close>

record registry =
  reg_Name :: string
  reg_Region :: string

text \<open>\<open>Reg_Create\<close> takes the name, the tier and the region.\<close>

record 'w docr_client =
  Reg_Create :: "string \<Rightarrow> string \<Rightarrow> string \<Rightarrow> ('w, registry option) io"
  Reg_Get :: "('w, registry option) io"
  Reg_Delete :: "('w, unit) io"

definition registryOutput :: "registry \<Rightarrow> string \<Rightarrow> resource_output" where
  "registryOutput reg name =
     \<lparr>out_Name = name, out_Type = ''infra.registry'', out_ProviderID = reg_Name reg,
      out_Outputs = [(''name'', GStr (reg_Name reg)), (''endpoint'', GStr (''registry.digitalocean.com/'' @ reg_Name reg)), (''region'', GStr (reg_Region reg))],
      out_Sensitive = [], out_Status = ''active''\<rparr>"

definition registry_Create :: "'w docr_client \<Rightarrow> resource_spec \<Rightarrow> ('w, resource_output) io" where
  "registry_Create cl spec =
     io_bind (io_wrap (\<lambda>e. Wrapf ''registry create %q: %w'' [FStr (spec_Name spec)] (WrapGodoError e))
       (Reg_Create cl (spec_Name spec) (strFromConfig (spec_Config spec) ''tier'' ''starter'') (strFromConfig (spec_Config spec) ''region'' ''nyc3''))) (\<lambda>r.
     io_deref r (\<lambda>reg. io_ok (registryOutput reg (spec_Name spec))))"

definition registry_Read :: "'w docr_client \<Rightarrow> resource_ref \<Rightarrow> ('w, resource_output) io" where
  "registry_Read cl ref =
     io_bind (io_wrap (\<lambda>e. Wrapf ''registry read %q: %w'' [FStr (ref_Name ref)] (WrapGodoError e)) (Reg_Get cl)) (\<lambda>r.
     io_deref r (\<lambda>reg. io_ok (registryOutput reg (ref_Name ref))))"

definition registry_Update :: "'w docr_client \<Rightarrow> resource_ref \<Rightarrow> resource_spec \<Rightarrow> ('w, resource_output) io" where
  "registry_Update cl ref spec =
     io_bind (io_wrap (\<lambda>e. Wrapf ''registry update %q: %w'' [FStr (spec_Name spec)] (WrapGodoError e)) (Reg_Get cl)) (\<lambda>r.
     io_deref r (\<lambda>reg. io_ok (registryOutput reg (spec_Name spec))))"

definition registry_Delete :: "'w docr_client \<Rightarrow> resource_ref \<Rightarrow> ('w, unit) io" where
  "registry_Delete cl ref = io_wrap (\<lambda>e. Wrapf ''registry delete %q: %w'' [FStr (ref_Name ref)] (WrapGodoError e)) (Reg_Delete cl)"

definition registry_Diff :: "resource_spec \<Rightarrow> resource_output option \<Rightarrow> diff_result res" where
  "registry_Diff desired current = Ok (case current of None \<Rightarrow> diff_absent | Some _ \<Rightarrow> diff_result_of ([], False))"

definition registry_HealthCheck :: "'w docr_client \<Rightarrow> resource_ref \<Rightarrow> ('w, health_result) io" where
  "registry_HealthCheck cl ref =
     io_handle (Reg_Get cl) (\<lambda>_. io_ok \<lparr>Healthy = True, Message = Text []\<rparr>) (\<lambda>e. io_ok \<lparr>Healthy = False, Message = ErrorText e\<rparr>)"

definition registry_Scale :: "resource_ref \<Rightarrow> int \<Rightarrow> ('w, resource_output) io" where
  "registry_Scale ref n = io_err (Errorf ''registry does not support scale operation'' [])"

section \<open>Spaces buckets\<close>

text \<open>A bucket without the time of its creation, which nothing reads.\<close>

record spaces_bucket =
  sb_Name :: string
  sb_Region :: string

record 'w bucket_client =
  CreateBucket :: "string \<Rightarrow> string \<Rightarrow> ('w, spaces_bucket option) io"
  GetBucket :: "string \<Rightarrow> string \<Rightarrow> ('w, spaces_bucket option) io"
  DeleteBucket :: "string \<Rightarrow> string \<Rightarrow> ('w, unit) io"

record 'w spaces_driver =
  sd_client :: "'w bucket_client"
  sd_region :: string

text \<open>The S3 API at the endpoint of a region: create, look up, delete a bucket by its name.\<close>

record 'w s3_api =
  S3_CreateBucket :: "string \<Rightarrow> string \<Rightarrow> ('w, unit) io"
  S3_HeadBucket :: "string \<Rightarrow> string \<Rightarrow> ('w, unit) io"
  S3_DeleteBucket :: "string \<Rightarrow> string \<Rightarrow> ('w, unit) io"

definition s3SpacesClient :: "'w s3_api \<Rightarrow> 'w bucket_client" where
  "s3SpacesClient s3 = \<lparr>
     CreateBucket = (\<lambda>name region. io_bind (io_wrap (Wrapf ''spaces s3 create bucket %q: %w'' [FStr name]) (S3_CreateBucket s3 region name)) (\<lambda>_.
       io_ok (Some \<lparr>sb_Name = name, sb_Region = region\<rparr>))),
     GetBucket = (\<lambda>name region. io_bind (io_wrap (Wrapf ''spaces s3 get bucket %q: %w'' [FStr name]) (S3_HeadBucket s3 region name)) (\<lambda>_.
       io_ok (Some \<lparr>sb_Name = name, sb_Region = region\<rparr>))),
     DeleteBucket = (\<lambda>name region. io_wrap (Wrapf ''spaces s3 delete bucket %q: %w'' [FStr name]) (S3_DeleteBucket s3 region name))\<rparr>"

definition noopSpacesClient :: "'w bucket_client" where
  "noopSpacesClient = \<lparr>
     CreateBucket = (\<lambda>name region. io_ok (Some \<lparr>sb_Name = name, sb_Region = region\<rparr>)),
     GetBucket = (\<lambda>name region. io_ok (Some \<lparr>sb_Name = name, sb_Region = region\<rparr>)),
     DeleteBucket = (\<lambda>name region. io_ok ())\<rparr>"

text \<open>\<open>s3\<close> is the API reached with the two keys.\<close>

definition NewSpacesDriver :: "(string \<Rightarrow> string \<Rightarrow> 'w s3_api) \<Rightarrow> string \<Rightarrow> string \<Rightarrow> string \<Rightarrow> 'w spaces_driver" where
  "NewSpacesDriver s3 region accessKey secretKey =
     \<lparr>sd_client = (if accessKey \<noteq> [] \<and> secretKey \<noteq> [] then s3SpacesClient (s3 accessKey secretKey) else noopSpacesClient), sd_region = region\<rparr>"

definition spacesOutput :: "spaces_bucket \<Rightarrow> string \<Rightarrow> resource_output" where
  "spacesOutput b name =
     \<lparr>out_Name = name, out_Type = ''infra.storage'', out_ProviderID = sb_Name b,
      out_Outputs = [(''name'', GStr (sb_Name b)), (''region'', GStr (sb_Region b)),
        (''endpoint'', GStr (''https://'' @ sb_Name b @ ''.'' @ sb_Region b @ ''.digitaloceanspaces.com''))],
      out_Sensitive = [], out_Status = ''active''\<rparr>"

definition spaces_Create :: "'w spaces_driver \<Rightarrow> resource_spec \<Rightarrow> ('w, resource_output) io" where
  "spaces_Create d spec =
     io_bind (io_wrap (Wrapf ''spaces create %q: %w'' [FStr (spec_Name spec)])
       (CreateBucket (sd_client d) (spec_Name spec) (strFromConfig (spec_Config spec) ''region'' (sd_region d)))) (\<lambda>r.
     io_deref r (\<lambda>b. io_ok (spacesOutput b (spec_Name spec))))"

definition spaces_Read :: "'w spaces_driver \<Rightarrow> resource_ref \<Rightarrow> ('w, resource_output) io" where
  "spaces_Read d ref =
     io_bind (io_wrap (Wrapf ''spaces read %q: %w'' [FStr (ref_Name ref)]) (GetBucket (sd_client d) (ref_Name ref) (sd_region d))) (\<lambda>r.
     io_deref r (\<lambda>b. io_ok (spacesOutput b (ref_Name ref))))"

definition spaces_Update :: "resource_ref \<Rightarrow> resource_spec \<Rightarrow> ('w, resource_output) io" where
  "spaces_Update ref spec = io_err (Errorf ''spaces: bucket properties are immutable after creation'' [])"

definition spaces_Delete :: "'w spaces_driver \<Rightarrow> resource_ref \<Rightarrow> ('w, unit) io" where
  "spaces_Delete d ref = io_wrap (Wrapf ''spaces delete %q: %w'' [FStr (ref_Name ref)]) (DeleteBucket (sd_client d) (ref_Name ref) (sd_region d))"

definition spaces_Diff :: "resource_spec \<Rightarrow> resource_output option \<Rightarrow> diff_result res" where
  "spaces_Diff desired current = Ok (case current of None \<Rightarrow> diff_absent | Some _ \<Rightarrow> diff_result_of ([], False))"

definition spaces_HealthCheck :: "'w spaces_driver \<Rightarrow> resource_ref \<Rightarrow> ('w, health_result) io" where
  "spaces_HealthCheck d ref =
     io_handle (GetBucket (sd_client d) (ref_Name ref) (sd_region d))
       (\<lambda>_. io_ok \<lparr>Healthy = True, Message = Text []\<rparr>) (\<lambda>e. io_ok \<lparr>Healthy = False, Message = ErrorText e\<rparr>)"

definition spaces_Scale :: "resource_ref \<Rightarrow> int \<Rightarrow> ('w, resource_output) io" where
  "spaces_Scale ref n = io_err (Errorf ''spaces does not support scale operation'' [])"

section \<open>IAM roles\<close>

definition iam_limitation :: gval where
  "iam_limitation = GStr ''DigitalOcean does not provide a programmatic IAM role API via godo. Manage tokens via the DO control panel.''"

text \<open>The configuration is copied over the notice.\<close>

definition iamOutput :: "string \<Rightarrow> cfg \<Rightarrow> resource_output" where
  "iamOutput name config =
     \<lparr>out_Name = name, out_Type = ''infra.iam_role'', out_ProviderID = name,
      out_Outputs = config @ [(''limitation'', iam_limitation)], out_Sensitive = [], out_Status = ''declared''\<rparr>"

definition iam_Create :: "resource_spec \<Rightarrow> ('w, resource_output) io" where
  "iam_Create spec = io_ok (iamOutput (spec_Name spec) (spec_Config spec))"

definition iam_Read :: "resource_ref \<Rightarrow> ('w, resource_output) io" where
  "iam_Read ref = io_ok
     \<lparr>out_Name = ref_Name ref, out_Type = ''infra.iam_role'', out_ProviderID = ref_ProviderID ref,
      out_Outputs = [(''limitation'', iam_limitation)], out_Sensitive = [], out_Status = ''declared''\<rparr>"

definition iam_Update :: "resource_ref \<Rightarrow> resource_spec \<Rightarrow> ('w, resource_output) io" where
  "iam_Update ref spec = io_ok (iamOutput (spec_Name spec) (spec_Config spec))"

definition iam_Delete :: "resource_ref \<Rightarrow> ('w, unit) io" where
  "iam_Delete ref = io_ok ()"

definition iam_Diff :: "resource_spec \<Rightarrow> resource_output option \<Rightarrow> diff_result res" where
  "iam_Diff desired current = Ok (case current of None \<Rightarrow> diff_absent | Some _ \<Rightarrow> diff_result_of ([], False))"

definition iam_HealthCheck :: "resource_ref \<Rightarrow> ('w, health_result) io" where
  "iam_HealthCheck ref = io_ok \<lparr>Healthy = True, Message = Format ''IAM role %q is declared (no live DO resource backing)'' [FStr (ref_Name ref)]\<rparr>"

definition iam_Scale :: "resource_ref \<Rightarrow> int \<Rightarrow> ('w, resource_output) io" where
  "iam_Scale ref n = io_err (Errorf ''iam_role does not support scale operation'' [])"

section \<open>The diff contract\<close>

interpretation registry_diff: field_differ registry_Diff
  by unfold_locales (auto simp: registry_Diff_def diff_result_of_def)

interpretation spaces_diff: field_differ spaces_Diff
  by unfold_locales (auto simp: spaces_Diff_def diff_result_of_def)

interpretation iam_diff: field_differ iam_Diff
  by unfold_locales (auto simp: iam_Diff_def diff_result_of_def)

section \<open>A bucket in a region of its own\<close>

text \<open>
  The buckets of each region, as the S3 API keeps them: a creation adds one, a look-up succeeds for
  those that are there and fails with the status 404 for the others.
\<close>

locale s3_store =
  fixes s3 :: "'w s3_api" and buckets :: "'w \<Rightarrow> (string \<times> string) set"
  assumes create: "S3_CreateBucket s3 region name w = Some (Ok (), w') \<Longrightarrow> buckets w' = insert (region, name) (buckets w)"
    and head: "S3_HeadBucket s3 region name w = Some (if (region, name) \<in> buckets w then Ok () else Err (GodoError (Some 404) ''NotFound''), w)"
begin

lemma read_back:
  assumes "sd_client d = s3SpacesClient s3" and "spaces_Create d spec w = Some (Ok out, w')" and "ref_Name ref = spec_Name spec"
    and "(sd_region d, spec_Name spec) \<notin> buckets w"
  shows "(case spaces_Read d ref w' of Some (Ok out', _) \<Rightarrow> out' = out | _ \<Rightarrow> False)
    \<longleftrightarrow> strFromConfig (spec_Config spec) ''region'' (sd_region d) = sd_region d"
proof -
  let ?r = "strFromConfig (spec_Config spec) ''region'' (sd_region d)"
  obtain u where c: "S3_CreateBucket s3 ?r (spec_Name spec) w = Some (Ok u, w')"
    and out: "out = spacesOutput \<lparr>sb_Name = spec_Name spec, sb_Region = ?r\<rparr> (spec_Name spec)"
    using assms(1,2) by (auto simp: spaces_Create_def s3SpacesClient_def io_simps split: option.splits prod.splits res.splits)
  have b: "buckets w' = insert (?r, spec_Name spec) (buckets w)" using create c by simp
  show ?thesis
    using assms(1,3,4) b out by (auto simp: spaces_Read_def s3SpacesClient_def io_simps head)
qed

end

text \<open>A concrete store: the buckets of each region.\<close>

definition mem_s3 :: "(string \<times> string) set s3_api" where
  "mem_s3 = \<lparr>S3_CreateBucket = (\<lambda>r n w. Some (Ok (), insert (r, n) w)),
     S3_HeadBucket = (\<lambda>r n w. Some (if (r, n) \<in> w then Ok () else Err (GodoError (Some 404) ''NotFound''), w)),
     S3_DeleteBucket = (\<lambda>r n w. Some (Ok (), w - {(r, n)}))\<rparr>"

interpretation mem_s3: s3_store mem_s3 "\<lambda>w. w"
  by unfold_locales (simp_all add: mem_s3_def)

text \<open>
  C39: a bucket is read where it was created only if its region is the driver's. \<^verbatim>\<open>Create\<close> takes the
  region of the configuration, \<^verbatim>\<open>Read\<close>, \<^verbatim>\<open>Delete\<close> and \<^verbatim>\<open>HealthCheck\<close> that of the driver: after a
  successful creation of a new name, \<^verbatim>\<open>Read\<close> answers the output of \<^verbatim>\<open>Create\<close> if and only if the
  configuration names no other region.
\<close>

theorem spaces_read_back:
  assumes "s3_store s3 buckets" and "sd_client d = s3SpacesClient s3"
    and "spaces_Create d spec w = Some (Ok out, w')" and "ref_Name ref = spec_Name spec"
    and "(sd_region d, spec_Name spec) \<notin> buckets w"
  shows "(case spaces_Read d ref w' of Some (Ok out', _) \<Rightarrow> out' = out | _ \<Rightarrow> False)
    \<longleftrightarrow> strFromConfig (spec_Config spec) ''region'' (sd_region d) = sd_region d"
  by (rule s3_store.read_back [OF assms])

theorem spaces_read_back_witness:
  "\<not> (case spaces_Read \<lparr>sd_client = s3SpacesClient mem_s3, sd_region = ''nyc3''\<rparr> \<lparr>ref_Name = ''b'', ref_Type = ''infra.storage'', ref_ProviderID = ''b''\<rparr>
        {(''fra1'', ''b'')} of
       Some (Ok out', _) \<Rightarrow> out' = spacesOutput \<lparr>sb_Name = ''b'', sb_Region = ''fra1''\<rparr> ''b'' | _ \<Rightarrow> False)"
proof -
  let ?d = "\<lparr>sd_client = s3SpacesClient mem_s3, sd_region = ''nyc3''\<rparr>"
  let ?s = "\<lparr>spec_Name = ''b'', spec_Type = ''infra.storage'', spec_Config = [(''region'', GStr ''fra1'')]\<rparr>"
  have c: "spaces_Create ?d ?s {} = Some (Ok (spacesOutput \<lparr>sb_Name = ''b'', sb_Region = ''fra1''\<rparr> ''b''), {(''fra1'', ''b'')})"
    by (simp add: spaces_Create_def s3SpacesClient_def mem_s3_def io_simps strFromConfig_def)
  show ?thesis
    using spaces_read_back [OF mem_s3.s3_store_axioms _ c, of "\<lparr>ref_Name = ''b'', ref_Type = ''infra.storage'', ref_ProviderID = ''b''\<rparr>"]
    by (simp add: strFromConfig_def)
qed

end
