(* ===== verification/DatabaseUser.thy ===== *)
theory DatabaseUser
  imports Cache NetURL NetIP
begin

text \<open>
  The driver of database users (\<^verbatim>\<open>internal/drivers/database_user.go\<close>), and what it shares with that of
  databases: the identities, the connection URI, the epoch whose change asks for new credentials,
  and the errors that hide their cause. Parsing a UUID, the check of the prior state and the test
  for a reference to a stored secret belong to packages the code imports: they are parameters.
\<close>

record externals =
  env_uuid :: "string \<Rightarrow> string option"
  env_placeholder :: "gval \<Rightarrow> bool"
  env_prior :: "resource_ref \<Rightarrow> resource_spec \<Rightarrow> resource_state option \<Rightarrow> go_error option"

section \<open>Errors\<close>

text \<open>
  The text of a \<^verbatim>\<open>databaseOperationFailure\<close> names the operation and the classification of its
  cause; the cause itself can only be reached by unwrapping.
\<close>

definition databaseAPIError :: "string \<Rightarrow> go_error \<Rightarrow> go_error" where
  "databaseAPIError op cause =
     (case (case errors_as_godo cause of Some (Some status, _) \<Rightarrow> sentinelForStatus status | _ \<Rightarrow> None) of
        Some s \<Rightarrow> Wraps ''%s: %s'' [FStr op, FErr (Sentinel s)] (Sentinel s) cause
      | None \<Rightarrow> Wrapf ''%s failed'' [FStr op] cause)"

definition databaseValidationError :: "string \<Rightarrow> go_error" where
  "databaseValidationError msg = Wrapf ''%s: %w'' [FStr msg] (Sentinel ErrValidation)"

section \<open>Names\<close>

text \<open>\<^verbatim>\<open>utf8.ValidString\<close>: no stray or missing continuation byte, no overlong form, no surrogate.\<close>

definition byte :: "char \<Rightarrow> nat" where
  "byte c = of_char c"

definition cont :: "char \<Rightarrow> bool" where
  "cont c = (128 \<le> byte c \<and> byte c \<le> 191)"

fun valid_utf8 :: "string \<Rightarrow> bool" where
  "valid_utf8 [] = True"
| "valid_utf8 (c # s) =
     (if byte c < 128 then valid_utf8 s
      else if 194 \<le> byte c \<and> byte c \<le> 223 then (case s of c2 # r \<Rightarrow> cont c2 \<and> valid_utf8 r | _ \<Rightarrow> False)
      else if 224 \<le> byte c \<and> byte c \<le> 239 then
        (case s of c2 # c3 # r \<Rightarrow> cont c2 \<and> cont c3 \<and> (byte c = 224 \<longrightarrow> 160 \<le> byte c2) \<and> (byte c = 237 \<longrightarrow> byte c2 \<le> 159) \<and> valid_utf8 r
         | _ \<Rightarrow> False)
      else if 240 \<le> byte c \<and> byte c \<le> 244 then
        (case s of c2 # c3 # c4 # r \<Rightarrow> cont c2 \<and> cont c3 \<and> cont c4 \<and> (byte c = 240 \<longrightarrow> 144 \<le> byte c2) \<and> (byte c = 244 \<longrightarrow> byte c2 \<le> 143) \<and> valid_utf8 r
         | _ \<Rightarrow> False)
      else False)"

text \<open>
  \<^verbatim>\<open>unicode.IsControl\<close> of some rune: U+0000 to U+001F and U+007F are one byte, U+0080 to U+009F are
  the byte \<open>0xC2\<close> and one up to \<open>0x9F\<close>; decoding always starts anew at \<open>0xC2\<close>.
\<close>

fun has_control :: "string \<Rightarrow> bool" where
  "has_control [] = False"
| "has_control (c # s) =
     (byte c < 32 \<or> byte c = 127 \<or> (byte c = 194 \<and> (case s of c2 # _ \<Rightarrow> 128 \<le> byte c2 \<and> byte c2 \<le> 159 | [] \<Rightarrow> False)) \<or> has_control s)"

definition validDatabaseUsername :: "string \<Rightarrow> bool" where
  "validDatabaseUsername username =
     (if trim_space username = [] \<or> username = ''.'' \<or> username = ''..'' \<or> \<not> valid_utf8 username then False
      else \<not> has_control username)"

definition canonicalDatabaseID :: "externals \<Rightarrow> string \<Rightarrow> bool" where
  "canonicalDatabaseID env i = (env_uuid env i = Some i)"

text \<open>\<^verbatim>\<open>url.PathEscape\<close> and the escaping of a user and password.\<close>

definition segment_escapes :: "char \<Rightarrow> bool" where
  "segment_escapes c = (\<not> (alpha c \<or> digit c \<or> c \<in> set ''-_.~$&+:=@''))"

definition user_escapes :: "char \<Rightarrow> bool" where
  "user_escapes c = (\<not> (alpha c \<or> digit c \<or> c \<in> set ''-_.~$&+,;=''))"

definition PathEscape :: "string \<Rightarrow> string" where
  "PathEscape s = escape segment_escapes s"

definition parseDatabaseUserProviderID :: "externals \<Rightarrow> string \<Rightarrow> (string \<times> string) res" where
  "parseDatabaseUserProviderID env providerID =
     (let malformed = Err (databaseValidationError ''provider_id must be <database-uuid>/<url-escaped-user>'') in
      case cut_at (CHR ''/'') providerID of
        None \<Rightarrow> malformed
      | Some (i, encoded) \<Rightarrow>
        if \<not> canonicalDatabaseID env i \<or> CHR ''/'' \<in> set encoded then malformed
        else let bad = Err (databaseValidationError ''provider_id must contain a canonical escaped username'') in
          case unescape False encoded of
            None \<Rightarrow> bad
          | Some username \<Rightarrow>
            if \<not> validDatabaseUsername username \<or> PathEscape username \<noteq> encoded then bad else Ok (i, username))"

section \<open>The configuration\<close>

text \<open>The epoch, if there is one.\<close>

definition databaseEpochFromConfig :: "cfg \<Rightarrow> string \<Rightarrow> string option res" where
  "databaseEpochFromConfig config key = (case map_of config key of
     None \<Rightarrow> Ok None
   | Some v \<Rightarrow> (case v of
       GStr epoch \<Rightarrow> if trim_space epoch = [] then Err (databaseValidationError (key @ '' must be a nonempty string'')) else Ok (Some epoch)
     | _ \<Rightarrow> Err (databaseValidationError (key @ '' must be a nonempty string''))))"

record databaseUserConfig =
  duc_databaseID :: string
  duc_username :: string
  duc_epoch :: "string option"

definition parseDatabaseUserConfig :: "externals \<Rightarrow> cfg \<Rightarrow> databaseUserConfig res" where
  "parseDatabaseUserConfig env config =
     (let bad_id = Err (databaseValidationError ''database_id must be a canonical database UUID'');
          bad_name = Err (databaseValidationError ''username must be a nonempty database username'') in
      case as_str (map_of config ''database_id'') of
        None \<Rightarrow> bad_id
      | Some i \<Rightarrow>
        if \<not> canonicalDatabaseID env i then bad_id
        else case as_str (map_of config ''username'') of
          None \<Rightarrow> bad_name
        | Some username \<Rightarrow>
          if \<not> validDatabaseUsername username then bad_name
          else res_bind (databaseEpochFromConfig config ''rotation_epoch'') (\<lambda>epoch.
            Ok \<lparr>duc_databaseID = i, duc_username = username, duc_epoch = epoch\<rparr>))"

section \<open>The connection URI\<close>

definition JoinHostPort :: "string \<Rightarrow> int \<Rightarrow> string" where
  "JoinHostPort host port = (if CHR '':'' \<in> set host then ''['' @ host @ '']:'' @ show_int port else host @ '':'' @ show_int port)"

text \<open>The text of the URL: its raw path is always a valid encoding of its path.\<close>

definition connection_uri :: "string \<Rightarrow> string \<Rightarrow> string \<Rightarrow> db_connection \<Rightarrow> string \<Rightarrow> string" where
  "connection_uri scheme username password c query =
     scheme @ ''://'' @ escape user_escapes username @ '':'' @ escape user_escapes password @ ''@''
     @ escape host_escapes (JoinHostPort (con_Host c) (con_Port c)) @ ''/'' @ PathEscape (con_Database c) @ ''?'' @ query"

definition valid_endpoint :: "db_connection \<Rightarrow> bool" where
  "valid_endpoint c =
     (con_Host c \<noteq> [] \<and> \<not> contains_any (con_Host c) (''/?#@% '' @ [CHR 0x09, CHR 0x0D, CHR 0x0A])
      \<and> \<not> (CHR '':'' \<in> set (con_Host c) \<and> ParseAddr (con_Host c) = None)
      \<and> 1 \<le> con_Port c \<and> con_Port c \<le> 65535 \<and> con_Database c \<noteq> [] \<and> \<not> has_control (con_Database c))"

definition databaseTLSURI :: "database \<Rightarrow> string \<Rightarrow> string \<Rightarrow> string res" where
  "databaseTLSURI db username password = (case db_Connection db of
     None \<Rightarrow> Err (databaseValidationError ''database credential response is incomplete'')
   | Some c \<Rightarrow>
     if password = [] then Err (databaseValidationError ''database credential response is incomplete'')
     else if \<not> valid_endpoint c then Err (databaseValidationError ''database connection endpoint is invalid'')
     else if db_EngineSlug db = ''pg'' then Ok (connection_uri ''postgresql'' username password c ''sslmode=require'')
     else if db_EngineSlug db = ''mysql'' then Ok (connection_uri ''mysql'' username password c ''tls=true'')
     else Err (databaseValidationError ''database credential URI requires PostgreSQL or MySQL''))"

section \<open>The driver\<close>

record database_user =
  du_Name :: string
  du_Role :: string
  du_Password :: string

record 'w db_user_client =
  DBU_Get :: "string \<Rightarrow> ('w, database option) io"
  DBU_CreateUser :: "string \<Rightarrow> string \<Rightarrow> ('w, database_user option) io"
  DBU_GetUser :: "string \<Rightarrow> string \<Rightarrow> ('w, database_user option) io"
  DBU_ResetUserAuth :: "string \<Rightarrow> string \<Rightarrow> ('w, database_user option) io"
  DBU_DeleteUser :: "string \<Rightarrow> string \<Rightarrow> ('w, unit) io"

definition readDatabaseParent :: "(string \<Rightarrow> ('w, database option) io) \<Rightarrow> string \<Rightarrow> ('w, database) io" where
  "readDatabaseParent get i =
     io_bind (io_wrap (databaseAPIError ''database parent read'') (get i)) (\<lambda>r.
     let bad = databaseValidationError ''database API returned incomplete or mismatched parent identity'' in
     case r of None \<Rightarrow> io_err bad | Some db \<Rightarrow> if db_ID db \<noteq> i then io_err bad else io_ok db)"

definition validateDatabaseUser :: "database_user option \<Rightarrow> string \<Rightarrow> database_user res" where
  "validateDatabaseUser user username =
     (let bad = Err (databaseValidationError ''database API returned incomplete or mismatched user identity'') in
      case user of None \<Rightarrow> bad | Some u \<Rightarrow> if du_Name u \<noteq> username then bad else Ok u)"

definition databaseUserOutput :: "string \<Rightarrow> string \<Rightarrow> string \<Rightarrow> database \<Rightarrow> database_user option \<Rightarrow> bool \<Rightarrow> resource_output res" where
  "databaseUserOutput name i username db user credentials =
     res_bind (validateDatabaseUser user username) (\<lambda>u.
     let outputs = [(''database_id'', GStr i), (''username'', GStr username), (''role'', GStr (du_Role u))]
       @ (case db_Connection db of None \<Rightarrow> []
          | Some c \<Rightarrow> [(''host'', GStr (con_Host c)), (''port'', GInt (con_Port c)), (''database'', GStr (con_Database c))]) in
     res_bind (if credentials then res_bind (databaseTLSURI db username (du_Password u)) (\<lambda>uri.
                 Ok (outputs @ [(''uri'', GStr uri), (''password'', GStr (du_Password u))]))
               else Ok outputs) (\<lambda>outs.
     Ok \<lparr>out_Name = name, out_Type = ''digitalocean.database_user'', out_ProviderID = i @ ''/'' @ PathEscape username, out_Outputs = outs,
       out_Sensitive = [(''uri'', True), (''password'', True)], out_Status = db_Status db\<rparr>))"

text \<open>\<^verbatim>\<open>out.Outputs[k] = v\<close>\<close>

definition set_output :: "string \<Rightarrow> gval \<Rightarrow> resource_output \<Rightarrow> resource_output" where
  "set_output k v out = out\<lparr>out_Outputs := (k, v) # filter (\<lambda>p. fst p \<noteq> k) (out_Outputs out)\<rparr>"

text \<open>A secret that is routed elsewhere keeps its reference, which is not a secret.\<close>

fun preserve_secrets :: "externals \<Rightarrow> cfg \<Rightarrow> (string \<times> bool) list \<Rightarrow> resource_output \<Rightarrow> resource_output" where
  "preserve_secrets env prior [] out = out"
| "preserve_secrets env prior ((key, sens) # rest) out =
     (let v = (case map_of prior key of None \<Rightarrow> GNil | Some x \<Rightarrow> x) in
      preserve_secrets env prior rest
        (if sens \<and> env_placeholder env v
         then (set_output key v out)\<lparr>out_Sensitive := filter (\<lambda>p. fst p \<noteq> key) (out_Sensitive out)\<rparr>
         else out))"

definition preserveDatabaseState :: "externals \<Rightarrow> resource_output \<Rightarrow> resource_state option \<Rightarrow> string \<Rightarrow> resource_output" where
  "preserveDatabaseState env out prior epochKey = (case prior of
     None \<Rightarrow> out
   | Some p \<Rightarrow>
     let out2 = (if map_of (out_Outputs out) epochKey = None
                 then (case as_str (map_of (rst_Outputs p) epochKey) of
                         Some epoch \<Rightarrow> if trim_space epoch \<noteq> [] then set_output epochKey (GStr epoch) out else out
                       | None \<Rightarrow> out)
                 else out)
     in preserve_secrets env (rst_Outputs p) (out_Sensitive out2) out2)"

definition dbu_Create :: "externals \<Rightarrow> 'w db_user_client \<Rightarrow> resource_spec \<Rightarrow> ('w, resource_output) io" where
  "dbu_Create env cl spec =
     io_bind (io_res (parseDatabaseUserConfig env (spec_Config spec))) (\<lambda>cfg.
     io_bind (readDatabaseParent (DBU_Get cl) (duc_databaseID cfg)) (\<lambda>db.
     io_bind (io_res (databaseTLSURI db (duc_username cfg) ''preflight'')) (\<lambda>_.
     io_bind (io_wrap (databaseAPIError ''database user create'') (DBU_CreateUser cl (duc_databaseID cfg) (duc_username cfg))) (\<lambda>user.
     io_bind (io_res (databaseUserOutput (spec_Name spec) (duc_databaseID cfg) (duc_username cfg) db user True)) (\<lambda>out.
     io_ok (case duc_epoch cfg of None \<Rightarrow> out | Some e \<Rightarrow> set_output ''rotation_epoch'' (GStr e) out))))))"

definition dbu_Read :: "externals \<Rightarrow> 'w db_user_client \<Rightarrow> resource_ref \<Rightarrow> ('w, resource_output) io" where
  "dbu_Read env cl ref =
     io_bind (io_res (parseDatabaseUserProviderID env (ref_ProviderID ref))) (\<lambda>(i, username).
     io_bind (readDatabaseParent (DBU_Get cl) i) (\<lambda>db.
     io_bind (io_wrap (databaseAPIError ''database user read'') (DBU_GetUser cl i (PathEscape username))) (\<lambda>user.
     io_res (databaseUserOutput (ref_Name ref) i username db user False))))"

definition dbu_rotate :: "'w db_user_client \<Rightarrow> resource_spec \<Rightarrow> string \<Rightarrow> string \<Rightarrow> string \<Rightarrow> ('w, resource_output) io" where
  "dbu_rotate cl spec i username epoch =
     io_bind (readDatabaseParent (DBU_Get cl) i) (\<lambda>db.
     io_bind (io_res (databaseTLSURI db username ''preflight'')) (\<lambda>_.
     io_bind (io_wrap (databaseAPIError ''database user rotation read'') (DBU_GetUser cl i (PathEscape username))) (\<lambda>user.
     io_bind (io_res (validateDatabaseUser user username)) (\<lambda>_.
     io_bind (io_wrap (databaseAPIError ''database user reset auth'') (DBU_ResetUserAuth cl i (PathEscape username))) (\<lambda>user.
     io_bind (io_res (databaseUserOutput (spec_Name spec) i username db user True)) (\<lambda>out.
     io_ok (set_output ''rotation_epoch'' (GStr epoch) out)))))))"

definition dbu_UpdateWithState ::
  "externals \<Rightarrow> 'w db_user_client \<Rightarrow> resource_ref \<Rightarrow> resource_spec \<Rightarrow> resource_state option \<Rightarrow> ('w, resource_output) io" where
  "dbu_UpdateWithState env cl ref spec prior =
     io_bind (io_res (parseDatabaseUserConfig env (spec_Config spec))) (\<lambda>cfg.
     io_bind (if prior \<noteq> None \<or> duc_epoch cfg \<noteq> None then io_res (of_opt_err (env_prior env ref spec prior)) else io_ok ()) (\<lambda>_.
     io_bind (io_res (parseDatabaseUserProviderID env (ref_ProviderID ref))) (\<lambda>(i, username).
     if i \<noteq> duc_databaseID cfg \<or> username \<noteq> duc_username cfg
     then io_err (databaseValidationError ''database user update requires unchanged parent and username'')
     else case duc_epoch cfg of
       None \<Rightarrow> io_bind (dbu_Read env cl ref) (\<lambda>out. io_ok (preserveDatabaseState env out prior ''rotation_epoch''))
     | Some epoch \<Rightarrow>
       io_deref prior (\<lambda>p.
       io_bind (io_res (databaseEpochFromConfig (rst_Outputs p) ''rotation_epoch'')) (\<lambda>previous.
       if previous = Some epoch
       then io_bind (dbu_Read env cl ref) (\<lambda>out.
              io_ok (preserveDatabaseState env (set_output ''rotation_epoch'' (GStr epoch) out) prior ''rotation_epoch''))
       else dbu_rotate cl spec i username epoch)))))"

definition dbu_Update :: "externals \<Rightarrow> 'w db_user_client \<Rightarrow> resource_ref \<Rightarrow> resource_spec \<Rightarrow> ('w, resource_output) io" where
  "dbu_Update env cl ref spec = dbu_UpdateWithState env cl ref spec None"

definition dbu_Delete :: "externals \<Rightarrow> 'w db_user_client \<Rightarrow> resource_ref \<Rightarrow> ('w, unit) io" where
  "dbu_Delete env cl ref =
     io_bind (io_res (parseDatabaseUserProviderID env (ref_ProviderID ref))) (\<lambda>(i, username).
     io_handle (DBU_DeleteUser cl i (PathEscape username)) io_ok
       (\<lambda>e. if (case errors_as_godo e of Some (Some status, _) \<Rightarrow> status = 404 | _ \<Rightarrow> False) then io_ok ()
             else io_err (databaseAPIError ''database user delete'' e)))"

definition dbu_Diff :: "externals \<Rightarrow> resource_spec \<Rightarrow> resource_output option \<Rightarrow> diff_result res" where
  "dbu_Diff env desired current =
     res_bind (parseDatabaseUserConfig env (spec_Config desired)) (\<lambda>cfg.
     case current of
       None \<Rightarrow> Ok diff_absent
     | Some cur \<Rightarrow>
       res_bind (parseDatabaseUserProviderID env (out_ProviderID cur)) (\<lambda>(i, username).
       res_bind (case duc_epoch cfg of
           None \<Rightarrow> Ok []
         | Some epoch \<Rightarrow> res_bind (databaseEpochFromConfig (out_Outputs cur) ''rotation_epoch'') (\<lambda>previous.
             Ok (if previous \<noteq> Some epoch
                 then [change ''rotation_epoch'' (GStr (case previous of None \<Rightarrow> [] | Some p \<Rightarrow> p)) (GStr epoch)] else []))) (\<lambda>epoch_changes.
       let changes = (if i \<noteq> duc_databaseID cfg then [change_new ''database_id'' (GStr i) (GStr (duc_databaseID cfg))] else [])
         @ (if username \<noteq> duc_username cfg then [change_new ''username'' (GStr username) (GStr (duc_username cfg))] else [])
         @ epoch_changes
       in Ok \<lparr>NeedsUpdate = (changes \<noteq> []), NeedsReplace = hasForceNewChange changes, Changes = changes\<rparr>)))"

text \<open>The error is returned next to an unhealthy result that carries its text.\<close>

definition dbu_HealthCheck :: "externals \<Rightarrow> 'w db_user_client \<Rightarrow> resource_ref \<Rightarrow> ('w, health_result \<times> go_error option) io" where
  "dbu_HealthCheck env cl ref =
     io_handle (dbu_Read env cl ref) (\<lambda>_. io_ok (\<lparr>Healthy = True, Message = Text []\<rparr>, None))
       (\<lambda>e. io_ok (\<lparr>Healthy = False, Message = ErrorText e\<rparr>, Some e))"

definition dbu_Scale :: "resource_ref \<Rightarrow> int \<Rightarrow> ('w, resource_output) io" where
  "dbu_Scale ref n = io_err (Opaque ''database user does not support scale'')"

definition dbu_SensitiveInputPaths :: "('w \<Rightarrow> go_error option) \<Rightarrow> ('w, string list) io" where
  "dbu_SensitiveInputPaths ctx_err = io_bind (io_ask ctx_err) (\<lambda>e. case e of Some err \<Rightarrow> io_err err | None \<Rightarrow> io_ok [''/password'', ''/uri''])"

end
