(* ===== verification/DatabaseRotation.thy ===== *)
theory DatabaseRotation
  imports DatabaseUser Stateful
begin

text \<open>
  Database users: the id a user is recorded under determines parent and name, and an update renews
  the credentials exactly when the epoch of the configuration has changed.
\<close>

section \<open>Escaping\<close>

lemma hex_val_digit: "n < 16 \<Longrightarrow> hex_val (hex_digit n) = Some n"
  by (simp add: hex_val_def hex_digit_def Let_def)

lemma hex_digit_slash: "n < 16 \<Longrightarrow> hex_digit n \<noteq> CHR ''/''"
  using hex_val_digit [of n] by (auto simp: hex_val_def)

lemma of_char_lt: "(of_char c :: nat) < 256"
  by (metis mod_less_divisor of_char_mod_256 zero_less_numeral)

lemma nibbles: "(of_char c :: nat) div 16 < 16" "(of_char c :: nat) mod 16 < 16"
  using of_char_lt [of c] by (simp_all add: less_mult_imp_div_less)

lemma escape_Cons: "escape f (c # s) = (if f c then [CHR ''%'', hex_digit ((of_char c :: nat) div 16), hex_digit ((of_char c :: nat) mod 16)] else [c]) @ escape f s"
  by (simp add: escape_def)

lemma unescape_escape:
  assumes "f (CHR ''%'')"
  shows "unescape False (escape f s) = Some s"
proof (induction s)
  case Nil
  then show ?case by (simp add: escape_def)
next
  case (Cons c s)
  have h: "hex_val (hex_digit ((of_char c :: nat) div 16)) = Some ((of_char c :: nat) div 16)"
    "hex_val (hex_digit ((of_char c :: nat) mod 16)) = Some ((of_char c :: nat) mod 16)"
    by (rule hex_val_digit, rule nibbles)+
  show ?case
  proof (cases "f c")
    case True
    then show ?thesis using h Cons by (simp add: escape_Cons)
  next
    case False
    then have "c \<noteq> CHR ''%''" using assms by auto
    then show ?thesis using False Cons by (simp add: escape_Cons)
  qed
qed

lemma slash_not_escaped: "f (CHR ''/'') \<Longrightarrow> CHR ''/'' \<notin> set (escape f s)"
proof (induction s)
  case (Cons c s)
  have "hex_digit ((of_char c :: nat) div 16) \<noteq> CHR ''/''" "hex_digit ((of_char c :: nat) mod 16) \<noteq> CHR ''/''"
    by (rule hex_digit_slash, rule nibbles)+
  then show ?case using Cons by (auto simp: escape_Cons)
qed (simp add: escape_def)

lemma PathEscape_facts: "unescape False (PathEscape s) = Some s" "CHR ''/'' \<notin> set (PathEscape s)"
  unfolding PathEscape_def
  by (rule unescape_escape, code_simp) (rule slash_not_escaped, code_simp)

text \<open>
  C24: the id of a database user is a faithful name for it. If the text of a UUID has no slash, then
  \<^verbatim>\<open>parseDatabaseUserProviderID\<close> accepts exactly the texts that \<^verbatim>\<open>databaseUserOutput\<close> writes for a
  canonical database id and a valid user name, and gives both back: no two users share an id, and
  no id that was not written so is accepted.
\<close>

theorem provider_id_roundtrip:
  assumes "\<forall>s. env_uuid env s = Some s \<longrightarrow> CHR ''/'' \<notin> set s"
  shows "parseDatabaseUserProviderID env p = Ok (i, u) \<longleftrightarrow>
    canonicalDatabaseID env i \<and> validDatabaseUsername u \<and> p = i @ ''/'' @ PathEscape u"
proof
  assume "parseDatabaseUserProviderID env p = Ok (i, u)"
  then show "canonicalDatabaseID env i \<and> validDatabaseUsername u \<and> p = i @ ''/'' @ PathEscape u"
    by (auto simp: parseDatabaseUserProviderID_def Let_def split: option.splits if_splits dest!: cut_at_SomeD)
next
  assume a: "canonicalDatabaseID env i \<and> validDatabaseUsername u \<and> p = i @ ''/'' @ PathEscape u"
  then have "cut_at (CHR ''/'') p = Some (i, PathEscape u)"
    using assms cut_at_append [of "CHR ''/''" i] by (simp add: canonicalDatabaseID_def)
  then show "parseDatabaseUserProviderID env p = Ok (i, u)"
    using a by (simp add: parseDatabaseUserProviderID_def Let_def PathEscape_facts)
qed

definition ex_env :: externals where
  "ex_env = \<lparr>env_uuid = (\<lambda>s. if s = ''9cc10173-e9ea-4176-9dbc-a4cee4c4ff30'' then Some s else None),
     env_placeholder = (\<lambda>v. case v of GStr s \<Rightarrow> has_prefix s ''secret://'' | _ \<Rightarrow> False),
     env_prior = (\<lambda>_ _ p. case p of None \<Rightarrow> Some (Opaque ''prior state is missing'') | Some _ \<Rightarrow> None)\<rparr>"

theorem provider_id_roundtrip_witness:
  "parseDatabaseUserProviderID ex_env ''9cc10173-e9ea-4176-9dbc-a4cee4c4ff30/app%2Fowner'' = Ok (''9cc10173-e9ea-4176-9dbc-a4cee4c4ff30'', ''app/owner'')"
proof -
  have l: "\<forall>s. env_uuid ex_env s = Some s \<longrightarrow> CHR ''/'' \<notin> set s" by (simp add: ex_env_def)
  have "canonicalDatabaseID ex_env ''9cc10173-e9ea-4176-9dbc-a4cee4c4ff30'' \<and> validDatabaseUsername ''app/owner''
      \<and> ''9cc10173-e9ea-4176-9dbc-a4cee4c4ff30/app%2Fowner'' = ''9cc10173-e9ea-4176-9dbc-a4cee4c4ff30'' @ ''/'' @ PathEscape ''app/owner''"
    by code_simp
  then show ?thesis using provider_id_roundtrip [OF l] by blast
qed

section \<open>Rotation\<close>

text \<open>
  \<open>resets w\<close> are the users whose credentials were reset, by the ids the API was called with. Only a reset
  changes them, and one that succeeded has taken place.
\<close>

locale user_api =
  fixes cl :: "'w db_user_client" and resets :: "'w \<Rightarrow> (string \<times> string) list"
  assumes reads: "quiet resets (DBU_Get cl i)" "quiet resets (DBU_GetUser cl i u)"
    and reset: "DBU_ResetUserAuth cl i u w = Some (r, w') \<Longrightarrow> resets w' = resets w @ [(i, u)] \<or> (resets w' = resets w \<and> (\<forall>x. r \<noteq> Ok x))"
begin

lemma wp_reads:
  "(\<And>v w'. resets w' = resets w \<Longrightarrow> Q v w' \<and> E w') \<Longrightarrow> wp (DBU_Get cl i) Q E w"
  "(\<And>v w'. resets w' = resets w \<Longrightarrow> Q2 v w' \<and> E w') \<Longrightarrow> wp (DBU_GetUser cl i u) Q2 E w"
  by (rule quiet_wp [OF reads(1)], blast) (rule quiet_wp [OF reads(2)], blast)

lemma wp_reset:
  "(\<And>v w'. resets w' = resets w @ [(i, u)] \<Longrightarrow> Q v w' \<and> E w') \<Longrightarrow> (\<And>w'. resets w' = resets w \<Longrightarrow> E w')
    \<Longrightarrow> wp (DBU_ResetUserAuth cl i u) Q E w"
  by (rule wpI) (auto dest!: reset split: res.splits)

lemma wp_Read:
  assumes "\<And>out w'. resets w' = resets w \<Longrightarrow> map_of (out_Outputs out) ''uri'' = None \<Longrightarrow> map_of (out_Outputs out) ''password'' = None
      \<Longrightarrow> map_of (out_Outputs out) ''rotation_epoch'' = None \<Longrightarrow> out_Sensitive out = [(''uri'', True), (''password'', True)] \<Longrightarrow> Q out w'"
    and "\<And>w'. resets w' = resets w \<Longrightarrow> E w'"
  shows "wp (dbu_Read env cl ref) Q E w"
proof -
  have out: "Q out w1" if "databaseUserOutput n i u db user False = Ok out" "resets w1 = resets w" for n i u db user w1 out
    using that by (intro assms(1)) (auto simp: databaseUserOutput_def res_bind_Ok_iff Let_def split: option.splits)
  show ?thesis
    unfolding dbu_Read_def readDatabaseParent_def
    by (auto simp: wp_simps Let_def assms(2) split: res.split option.split intro!: wp_reads) (rule out, assumption, simp)
qed

end

text \<open>What an output says of the secrets: nothing but references the prior state has.\<close>

definition unsecret :: "externals \<Rightarrow> resource_state option \<Rightarrow> resource_output \<Rightarrow> bool" where
  "unsecret env prior out = (\<forall>k \<in> {''uri'', ''password''}. \<forall>v. map_of (out_Outputs out) k = Some v \<longrightarrow>
     env_placeholder env v \<and> (\<exists>p. prior = Some p \<and> map_of (rst_Outputs p) k = Some v))"

lemma map_of_drop: "map_of (filter (\<lambda>p. fst p \<noteq> k) m) j = (if j = k then None else map_of m j)"
  by (induction m) auto

lemma map_of_set_output [simp]: "map_of (out_Outputs (set_output k v out)) j = (if j = k then Some v else map_of (out_Outputs out) j)"
  by (simp add: set_output_def map_of_drop)

lemma set_output_Sensitive [simp]: "out_Sensitive (set_output k v out) = out_Sensitive out"
  by (simp add: set_output_def)

lemma preserve_secrets_two:
  assumes "map_of (out_Outputs out) k1 = None" and "map_of (out_Outputs out) k2 = None" and "k1 \<noteq> k2" and "\<not> env_placeholder env GNil"
  shows "k = k1 \<or> k = k2 \<Longrightarrow> map_of (out_Outputs (preserve_secrets env m [(k1, True), (k2, True)] out)) k = Some v
      \<Longrightarrow> env_placeholder env v \<and> map_of m k = Some v"
    and "j \<noteq> k1 \<Longrightarrow> j \<noteq> k2 \<Longrightarrow> map_of (out_Outputs (preserve_secrets env m [(k1, True), (k2, True)] out)) j = map_of (out_Outputs out) j"
  using assms by (cases "map_of m k1"; cases "map_of m k2"; auto simp: Let_def split: if_splits)+

lemma preserve_unsecret:
  assumes out: "map_of (out_Outputs out) ''uri'' = None" "map_of (out_Outputs out) ''password'' = None"
      "out_Sensitive out = [(''uri'', True), (''password'', True)]" and g: "\<not> env_placeholder env GNil"
    and e: "e \<noteq> ''uri''" "e \<noteq> ''password''"
  shows "unsecret env prior (preserveDatabaseState env out prior e)"
    and "map_of (out_Outputs out) e = Some x \<Longrightarrow> map_of (out_Outputs (preserveDatabaseState env out prior e)) e = Some x"
proof -
  define out2 where "out2 = (\<lambda>p :: resource_state. if map_of (out_Outputs out) e = None
                 then (case as_str (map_of (rst_Outputs p) e) of
                         Some epoch \<Rightarrow> if trim_space epoch \<noteq> [] then set_output e (GStr epoch) out else out
                       | None \<Rightarrow> out)
                 else out)"
  have o: "map_of (out_Outputs (out2 p)) ''uri'' = None" "map_of (out_Outputs (out2 p)) ''password'' = None" "out_Sensitive (out2 p) = out_Sensitive out" for p
    using out e by (simp_all add: out2_def split: option.split)
  have ne: "''uri'' \<noteq> ''password''" by simp
  have p: "preserveDatabaseState env out (Some q) e = preserve_secrets env (rst_Outputs q) [(''uri'', True), (''password'', True)] (out2 q)" for q
    using o(3) out(3) by (simp add: preserveDatabaseState_def out2_def Let_def)
  note two = preserve_secrets_two [OF o(1,2) ne g]
  show "unsecret env prior (preserveDatabaseState env out prior e)"
  proof (cases prior)
    case None
    then show ?thesis using out by (simp add: unsecret_def preserveDatabaseState_def)
  next
    case (Some q)
    show ?thesis unfolding unsecret_def Some p
    proof (intro ballI allI impI)
      fix k v assume "k \<in> {''uri'', ''password''}"
        and v: "map_of (out_Outputs (preserve_secrets env (rst_Outputs q) [(''uri'', True), (''password'', True)] (out2 q))) k = Some v"
      then have k: "k = ''uri'' \<or> k = ''password''" by blast
      show "env_placeholder env v \<and> (\<exists>p. Some q = Some p \<and> map_of (rst_Outputs p) k = Some v)"
        using two(1) [OF k v] by blast
    qed
  qed
  assume x: "map_of (out_Outputs out) e = Some x"
  then have "out2 q = out" for q by (simp add: out2_def)
  then show "map_of (out_Outputs (preserveDatabaseState env out prior e)) e = Some x"
    using x p two(2) [OF e] by (cases prior) (simp_all add: preserveDatabaseState_def)
qed

text \<open>The epoch the configuration asks for differs from the recorded one.\<close>

definition rotation_due :: "externals \<Rightarrow> resource_spec \<Rightarrow> resource_state option \<Rightarrow> bool" where
  "rotation_due env spec prior = (case (parseDatabaseUserConfig env (spec_Config spec), prior) of
     (Ok cfg, Some p) \<Rightarrow> duc_epoch cfg \<noteq> None \<and> (case databaseEpochFromConfig (rst_Outputs p) ''rotation_epoch'' of Ok e \<Rightarrow> e \<noteq> duc_epoch cfg | _ \<Rightarrow> False)
   | _ \<Rightarrow> False)"

lemma wp_ok: "wp (io_ok v) Q E = Q v"
  by (simp add: fun_eq_iff wp_basic)

context user_api
begin

lemma wp_rotate:
  assumes Q: "\<And>out w'. resets w' = resets w @ [(i, PathEscape u)] \<Longrightarrow> (\<exists>pw. map_of (out_Outputs out) ''password'' = Some (GStr pw))
      \<Longrightarrow> map_of (out_Outputs out) ''rotation_epoch'' = Some (GStr epoch) \<Longrightarrow> Q out w'"
    and E: "\<And>w'. resets w' = resets w \<or> resets w' = resets w @ [(i, PathEscape u)] \<Longrightarrow> E w'"
  shows "wp (dbu_rotate cl spec i u epoch) Q E w"
proof -
  have out: "Q (set_output ''rotation_epoch'' (GStr epoch) out) w1"
    if "databaseUserOutput n j v db user True = Ok out" "resets w1 = resets w @ [(i, PathEscape u)]" for n j v db user w1 out
    using that by (intro Q) (auto simp: databaseUserOutput_def res_bind_Ok_iff Let_def split: option.splits)
  show ?thesis
    unfolding dbu_rotate_def readDatabaseParent_def
    by (auto simp: wp_simps Let_def E split: res.split option.split intro!: wp_reads wp_reset) (rule out, assumption, simp)
qed

lemma wp_update:
  assumes Qkeep: "\<And>out w'. resets w' = resets w \<Longrightarrow> \<not> rotation_due env spec prior \<Longrightarrow> unsecret env prior out
      \<Longrightarrow> (\<And>cfg e. parseDatabaseUserConfig env (spec_Config spec) = Ok cfg \<Longrightarrow> duc_epoch cfg = Some e \<Longrightarrow> map_of (out_Outputs out) ''rotation_epoch'' = Some (GStr e))
      \<Longrightarrow> Q out w'"
    and Qnew: "\<And>out w' cfg e. resets w' = resets w @ [(duc_databaseID cfg, PathEscape (duc_username cfg))] \<Longrightarrow> rotation_due env spec prior
      \<Longrightarrow> parseDatabaseUserConfig env (spec_Config spec) = Ok cfg \<Longrightarrow> duc_epoch cfg = Some e
      \<Longrightarrow> (\<exists>pw. map_of (out_Outputs out) ''password'' = Some (GStr pw)) \<Longrightarrow> map_of (out_Outputs out) ''rotation_epoch'' = Some (GStr e) \<Longrightarrow> Q out w'"
    and E: "\<And>w'. resets w' = resets w \<Longrightarrow> E w'"
    and Enew: "\<And>cfg w'. rotation_due env spec prior \<Longrightarrow> parseDatabaseUserConfig env (spec_Config spec) = Ok cfg
      \<Longrightarrow> resets w' = resets w @ [(duc_databaseID cfg, PathEscape (duc_username cfg))] \<Longrightarrow> E w'"
    and g: "\<not> env_placeholder env GNil"
  shows "wp (dbu_UpdateWithState env cl ref spec prior) Q E w"
proof -
  have ne: "''rotation_epoch'' \<noteq> ''uri''" "''rotation_epoch'' \<noteq> ''password''" by simp_all
  have keep: "wp (dbu_Read env cl ref) (\<lambda>out w'. Q (preserveDatabaseState env (f out) prior ''rotation_epoch'') w') E w"
    if due: "\<not> rotation_due env spec prior" and c: "parseDatabaseUserConfig env (spec_Config spec) = Ok cfg"
      and f: "f = (\<lambda>out. case duc_epoch cfg of None \<Rightarrow> out | Some e \<Rightarrow> set_output ''rotation_epoch'' (GStr e) out)" for cfg f
  proof (rule wp_Read)
    fix out :: resource_output and w' assume o: "resets w' = resets w" "map_of (out_Outputs out) ''uri'' = None" "map_of (out_Outputs out) ''password'' = None"
      "out_Sensitive out = [(''uri'', True), (''password'', True)]"
    have fo: "map_of (out_Outputs (f out)) ''uri'' = None" "map_of (out_Outputs (f out)) ''password'' = None"
      "out_Sensitive (f out) = [(''uri'', True), (''password'', True)]"
      using o by (simp_all add: f split: option.split)
    have fe: "duc_epoch cfg = Some e \<Longrightarrow> map_of (out_Outputs (f out)) ''rotation_epoch'' = Some (GStr e)" for e by (simp add: f)
    show "Q (preserveDatabaseState env (f out) prior ''rotation_epoch'') w'"
    proof (rule Qkeep [OF o(1) due])
      show "unsecret env prior (preserveDatabaseState env (f out) prior ''rotation_epoch'')" by (rule preserve_unsecret(1) [OF fo g ne])
      fix cfg' e assume "parseDatabaseUserConfig env (spec_Config spec) = Ok cfg'" "duc_epoch cfg' = Some e"
      then have "map_of (out_Outputs (f out)) ''rotation_epoch'' = Some (GStr e)" using c fe by simp
      then show "map_of (out_Outputs (preserveDatabaseState env (f out) prior ''rotation_epoch'')) ''rotation_epoch'' = Some (GStr e)"
        by (rule preserve_unsecret(2) [OF fo g ne])
    qed
  qed (rule E)
  show ?thesis
  proof (cases "parseDatabaseUserConfig env (spec_Config spec)")
    case cfg: (Ok cfg)
    show ?thesis
    proof (cases "duc_epoch cfg")
      case None
      have "\<not> rotation_due env spec prior" using cfg None by (simp add: rotation_due_def split: option.split)
      from keep [OF this cfg refl] show ?thesis
        unfolding dbu_UpdateWithState_def
        by (auto simp: wp_simps wp_ok cfg None E split: res.split option.split)
    next
      case (Some e)
      have due: "rotation_due env spec prior" if "prior = Some p" "databaseEpochFromConfig (rst_Outputs p) ''rotation_epoch'' = Ok prev" "prev \<noteq> Some e" for p prev
        using cfg Some that by (simp add: rotation_due_def)
      have notdue: "\<not> rotation_due env spec prior" if "prior = Some p" "databaseEpochFromConfig (rst_Outputs p) ''rotation_epoch'' = Ok (Some e)" for p
        using cfg Some that by (simp add: rotation_due_def)
      have same: "wp (dbu_Read env cl ref) (\<lambda>out w'. Q (preserveDatabaseState env (set_output ''rotation_epoch'' (GStr e) out) prior ''rotation_epoch'') w') E w"
        if "\<not> rotation_due env spec prior"
        using keep [OF that cfg refl] Some by simp
      have new: "wp (dbu_rotate cl spec (duc_databaseID cfg) (duc_username cfg) e) Q E w" if d: "rotation_due env spec prior"
        by (rule wp_rotate) (use Qnew [OF _ d cfg Some] E Enew [OF d cfg] in blast)+
      show ?thesis
        unfolding dbu_UpdateWithState_def
        using same notdue new due
        by (auto simp: wp_simps wp_ok cfg Some E split: res.split option.split)
    qed
  qed (simp_all add: dbu_UpdateWithState_def wp_simps E)
qed

end

section \<open>Credentials change with the epoch only\<close>

text \<open>
  C15: credentials are renewed exactly when the epoch changes, and only then written. Whatever
  \<^verbatim>\<open>UpdateWithState\<close> returns, it has reset the credentials of at most one user, the configured one,
  and only when the configuration has an epoch that differs from the recorded one. When it
  succeeds, it has done so if and only if that was due; the output carries the epoch, so that the
  same update again resets nothing; and without a reset the output holds no secret, only
  references the prior state already had.
\<close>

theorem rotation_once:
  assumes "user_api cl resets" and "\<not> env_placeholder env GNil"
    and "dbu_UpdateWithState env cl ref spec prior w = Some (r, w')"
  shows "(resets w' = resets w \<or> (rotation_due env spec prior
        \<and> (\<exists>cfg. parseDatabaseUserConfig env (spec_Config spec) = Ok cfg \<and> resets w' = resets w @ [(duc_databaseID cfg, PathEscape (duc_username cfg))])))
    \<and> (case r of Ok out \<Rightarrow> (resets w' = resets w) = (\<not> rotation_due env spec prior) \<and> (resets w' = resets w \<longrightarrow> unsecret env prior out)
         \<and> (\<forall>cfg e. parseDatabaseUserConfig env (spec_Config spec) = Ok cfg \<longrightarrow> duc_epoch cfg = Some e \<longrightarrow>
              map_of (out_Outputs out) ''rotation_epoch'' = Some (GStr e))
       | _ \<Rightarrow> True)"
proof -
  let ?new = "\<lambda>w'. rotation_due env spec prior
        \<and> (\<exists>cfg. parseDatabaseUserConfig env (spec_Config spec) = Ok cfg \<and> resets w' = resets w @ [(duc_databaseID cfg, PathEscape (duc_username cfg))])"
  let ?Q = "\<lambda>out w'. (resets w' = resets w \<or> ?new w') \<and> (resets w' = resets w) = (\<not> rotation_due env spec prior)
     \<and> (resets w' = resets w \<longrightarrow> unsecret env prior out)
     \<and> (\<forall>cfg e. parseDatabaseUserConfig env (spec_Config spec) = Ok cfg \<longrightarrow> duc_epoch cfg = Some e \<longrightarrow> map_of (out_Outputs out) ''rotation_epoch'' = Some (GStr e))"
  have "wp (dbu_UpdateWithState env cl ref spec prior) ?Q (\<lambda>w'. resets w' = resets w \<or> ?new w') w"
    by (rule user_api.wp_update [OF assms(1) _ _ _ _ assms(2)]) auto
  then show ?thesis using assms(3) by (auto simp: wp_def split: res.splits)
qed

text \<open>A concrete API with one user, which the witness resets.\<close>

definition ex_db :: database where
  "ex_db = \<lparr>db_ID = ''9cc10173-e9ea-4176-9dbc-a4cee4c4ff30'', db_Name = ''main'', db_EngineSlug = ''pg'', db_VersionSlug = ''16'', db_RegionSlug = ''nyc3'',
     db_SizeSlug = ''db-s-1vcpu-1gb'', db_Status = ''online'', db_Tags = [], db_NumNodes = 1,
     db_Connection = Some \<lparr>con_Host = ''db.example'', con_Port = 5, con_Database = ''defaultdb'', con_User = ''doadmin'', con_Password = ''p'', con_URI = ''u''\<rparr>\<rparr>"

definition mem_users :: "(string \<times> string) list db_user_client" where
  "mem_users = \<lparr>DBU_Get = (\<lambda>i w. Some (Ok (Some (ex_db\<lparr>db_ID := i\<rparr>)), w)),
     DBU_CreateUser = (\<lambda>i u w. Some (Ok (Some \<lparr>du_Name = u, du_Role = ''normal'', du_Password = ''pw0''\<rparr>), w)),
     DBU_GetUser = (\<lambda>i u w. Some (Ok (Some \<lparr>du_Name = u, du_Role = ''normal'', du_Password = []\<rparr>), w)),
     DBU_ResetUserAuth = (\<lambda>i u w. Some (Ok (Some \<lparr>du_Name = u, du_Role = ''normal'', du_Password = ''pw1''\<rparr>), w @ [(i, u)])),
     DBU_DeleteUser = (\<lambda>i u w. Some (Ok (), w))\<rparr>"

interpretation mem_users: user_api mem_users "\<lambda>w. w"
  by unfold_locales (auto simp: mem_users_def quiet_def)

definition ex_user_spec :: resource_spec where
  "ex_user_spec = \<lparr>spec_Name = ''app'', spec_Type = ''digitalocean.database_user'',
     spec_Config = [(''database_id'', GStr ''9cc10173-e9ea-4176-9dbc-a4cee4c4ff30''), (''username'', GStr ''app''), (''rotation_epoch'', GStr ''2'')]\<rparr>"

definition ex_user_ref :: resource_ref where
  "ex_user_ref = \<lparr>ref_Name = ''app'', ref_Type = ''digitalocean.database_user'', ref_ProviderID = ''9cc10173-e9ea-4176-9dbc-a4cee4c4ff30/app''\<rparr>"

definition ex_user_prior :: resource_state where
  "ex_user_prior = \<lparr>rst_ID = [], rst_Name = ''app'', rst_Type = ''digitalocean.database_user'', rst_Provider = ''digitalocean'',
     rst_ProviderID = ''9cc10173-e9ea-4176-9dbc-a4cee4c4ff30/app'', rst_Outputs = [(''rotation_epoch'', GStr ''1'')], rst_CreatedAt = [], rst_UpdatedAt = []\<rparr>"

definition rotated_run :: bool where
  "rotated_run = (case dbu_UpdateWithState ex_env mem_users ex_user_ref ex_user_spec (Some ex_user_prior) [] of Some (Ok _, _) \<Rightarrow> True | _ \<Rightarrow> False)"

theorem rotation_once_witness:
  "\<exists>out. dbu_UpdateWithState ex_env mem_users ex_user_ref ex_user_spec (Some ex_user_prior) []
    = Some (Ok out, [(''9cc10173-e9ea-4176-9dbc-a4cee4c4ff30'', ''app'')])"
proof -
  have rotated_run by code_simp
  then obtain out w' where r: "dbu_UpdateWithState ex_env mem_users ex_user_ref ex_user_spec (Some ex_user_prior) [] = Some (Ok out, w')"
    by (auto simp: rotated_run_def split: option.splits prod.splits res.splits)
  have g: "\<not> env_placeholder ex_env GNil" by (simp add: ex_env_def)
  have due: "rotation_due ex_env ex_user_spec (Some ex_user_prior)"
    and c: "case parseDatabaseUserConfig ex_env (spec_Config ex_user_spec) of
      Ok cfg \<Rightarrow> (duc_databaseID cfg, PathEscape (duc_username cfg)) = (''9cc10173-e9ea-4176-9dbc-a4cee4c4ff30'', ''app'') | _ \<Rightarrow> False"
    by code_simp+
  show ?thesis using rotation_once [OF mem_users.user_api_axioms g r] due c r by (auto split: res.splits)
qed

end
