(* ===== verification/Database.thy ===== *)
theory Database
  imports DatabaseUser AppTypes Stateful
begin

text \<open>
  The database driver (\<^verbatim>\<open>internal/drivers/database.go\<close>). Its operations act on the world and on the
  queue of firewall updates it has put off, because they name apps that do not exist yet.
\<close>

record db_rule =
  dfr_Type :: string
  dfr_Value :: string

record db_request = db_create_request +
  dbr_Rules :: "db_rule list"

text \<open>Resetting the admin's credentials is something not every client can do.\<close>

record 'w database_client =
  DB_Create :: "db_request \<Rightarrow> ('w, database option) io"
  DB_Get :: "string \<Rightarrow> ('w, database option) io"
  DB_List :: "('w, database) lister"
  DB_Resize :: "string \<Rightarrow> string \<Rightarrow> int \<Rightarrow> ('w, unit) io"
  DB_Delete :: "string \<Rightarrow> ('w, unit) io"
  DB_UpdateFirewallRules :: "string \<Rightarrow> db_rule list \<Rightarrow> ('w, unit) io"
  DB_ResetUserAuth :: "(string \<Rightarrow> string \<Rightarrow> ('w, database_user option) io) option"

record deferredFirewallUpdate =
  dfu_providerID :: string
  dfu_spec :: resource_spec

record 'w database_driver =
  dbd_client :: "'w database_client"
  dbd_apps :: "('w, app option) lister option"
  dbd_region :: string

section \<open>Trusted sources\<close>

definition ErrAppNotFound :: go_error where
  "ErrAppNotFound = Wrapf ''trusted_sources app: %w'' [] (Sentinel ErrResourceNotFound)"

text \<open>\<^verbatim>\<open>errors.Is(err, ErrAppNotFound)\<close>\<close>

fun is_ErrAppNotFound :: "go_error \<Rightarrow> bool" where
  "is_ErrAppNotFound (Wrapf f args e) = (Wrapf f args e = ErrAppNotFound \<or> is_ErrAppNotFound e)"
| "is_ErrAppNotFound (Wraps f args e1 e2) = (is_ErrAppNotFound e1 \<or> is_ErrAppNotFound e2)"
| "is_ErrAppNotFound (UrlError op u e) = is_ErrAppNotFound e"
| "is_ErrAppNotFound _ = False"

text \<open>The names of apps, each once, that have to be looked up.\<close>

definition app_name_of :: "gval \<Rightarrow> string list" where
  "app_name_of v = (case v of
     GMap m \<Rightarrow> let val = strFromConfig m ''value'' [] in
       if strFromConfig m ''type'' [] \<noteq> ''app'' \<or> val = [] \<or> isUUIDLike val then [] else [val]
   | _ \<Rightarrow> [])"

definition needed_apps :: "gval list \<Rightarrow> string list" where
  "needed_apps raw = remdups (concat (map app_name_of raw))"

text \<open>The apps of one page; the flag tells that every name is resolved. A later app of the same name replaces an earlier one.\<close>

fun resolve_apps :: "string list \<Rightarrow> (string \<times> string) list \<Rightarrow> app option list \<Rightarrow> (bool \<times> (string \<times> string) list) res" where
  "resolve_apps needed resolved [] = Ok (False, resolved)"
| "resolve_apps needed resolved (a_opt # apps) = (case a_opt of
     None \<Rightarrow> Panic ''nil pointer dereference''
   | Some a \<Rightarrow> (case app_Spec a of
       None \<Rightarrow> resolve_apps needed resolved apps
     | Some spec \<Rightarrow>
       if as_Name spec \<in> set needed
       then let resolved' = (as_Name spec, app_ID a) # resolved in
            if length (remdups (map fst resolved')) = length needed then Ok (True, resolved')
            else resolve_apps needed resolved' apps
       else resolve_apps needed resolved apps))"

partial_function (option) resolve_pages ::
  "('w, app option) lister \<Rightarrow> string list \<Rightarrow> nat \<Rightarrow> (string \<times> string) list \<Rightarrow> 'w \<Rightarrow> ((string \<times> string) list res \<times> 'w) option" where
  "resolve_pages lst needed page resolved w =
     (case lst page w of
        None \<Rightarrow> None
      | Some (r, w') \<Rightarrow>
        (case r of
           Err e \<Rightarrow> Some (Err (Wrapf ''app list for trusted_source resolution: %w'' [] (WrapGodoError e)), w')
         | Panic p \<Rightarrow> Some (Panic p, w')
         | Ok (apps, l) \<Rightarrow>
           (case resolve_apps needed resolved apps of
              Err e \<Rightarrow> Some (Err e, w')
            | Panic p \<Rightarrow> Some (Panic p, w')
            | Ok (finished, resolved') \<Rightarrow>
              if finished \<or> last_page l then Some (Ok resolved', w') else resolve_pages lst needed (Suc page) resolved' w')))"

declare resolve_pages.simps [code]

text \<open>The names an error lists, sorted, are its arguments.\<close>

definition resolveAppNamesMap :: "'w database_driver \<Rightarrow> gval list \<Rightarrow> ('w, (string \<times> string) list) io" where
  "resolveAppNamesMap d raw =
     (let needed = needed_apps raw in
      if needed = [] then io_ok []
      else case dbd_apps d of
        None \<Rightarrow> io_err (Errorf ''trusted_sources: type=app value(s) %s are not UUIDs and no Apps client is configured for name lookup; pass app UUIDs directly''
                         (map FStr (sort needed)))
      | Some apps \<Rightarrow>
        io_bind (resolve_pages apps needed 1 []) (\<lambda>resolved.
        let missing = filter (\<lambda>n. map_of resolved n = None) needed in
        if missing = [] then io_ok resolved
        else io_err (Wrapf ''trusted_sources app(s) %s: %w'' (map FStr (sort missing)) ErrAppNotFound)))"

text \<open>Entries that are no objects, or lack a type or value, are skipped.\<close>

fun firewall_rules :: "(string \<times> string) list \<Rightarrow> gval list \<Rightarrow> db_rule list" where
  "firewall_rules uuids [] = []"
| "firewall_rules uuids (v # vs) = (case v of
     GMap m \<Rightarrow>
       let ruleType = strFromConfig m ''type'' []; ruleValue = strFromConfig m ''value'' [] in
       if ruleType = [] \<or> ruleValue = [] then firewall_rules uuids vs
       else \<lparr>dfr_Type = ruleType,
              dfr_Value = (if ruleType = ''app'' then (case map_of uuids ruleValue of Some u \<Rightarrow> u | None \<Rightarrow> ruleValue) else ruleValue)\<rparr>
            # firewall_rules uuids vs
   | _ \<Rightarrow> firewall_rules uuids vs)"

definition not_a_list :: "gval \<Rightarrow> go_error" where
  "not_a_list v = Errorf ''trusted_sources: expected a list of rule objects, got %T; check your config syntax (use a YAML list, not a scalar)'' [FVal v]"

definition buildCreateFirewallRules :: "'w database_driver \<Rightarrow> cfg \<Rightarrow> ('w, db_rule list) io" where
  "buildCreateFirewallRules d config = (case map_of config ''trusted_sources'' of
     None \<Rightarrow> io_ok []
   | Some v \<Rightarrow> (case v of
       GAnys raw \<Rightarrow>
         if elems raw = [] then io_ok []
         else io_bind (resolveAppNamesMap d (elems raw)) (\<lambda>uuids. io_ok (firewall_rules uuids (elems raw)))
     | _ \<Rightarrow> io_err (not_a_list v)))"

text \<open>Nothing when the key is absent: then the rules are left alone.\<close>

definition buildUpdateFirewallRules :: "'w database_driver \<Rightarrow> cfg \<Rightarrow> ('w, db_rule list option) io" where
  "buildUpdateFirewallRules d config = (case map_of config ''trusted_sources'' of
     None \<Rightarrow> io_ok None
   | Some v \<Rightarrow> (case v of
       GAnys raw \<Rightarrow> io_bind (resolveAppNamesMap d (elems raw)) (\<lambda>uuids. io_ok (Some (firewall_rules uuids (elems raw))))
     | _ \<Rightarrow> io_err (not_a_list v)))"

text \<open>The same without the apps that have to be looked up.\<close>

definition excluding_apps :: "gval list \<Rightarrow> db_rule list" where
  "excluding_apps raw = firewall_rules [] (filter (\<lambda>v. app_name_of v = []) raw)"

definition buildCreateFirewallRulesExcludingApps :: "cfg \<Rightarrow> db_rule list res" where
  "buildCreateFirewallRulesExcludingApps config = (case map_of config ''trusted_sources'' of
     None \<Rightarrow> Ok []
   | Some v \<Rightarrow> (case v of GAnys raw \<Rightarrow> Ok (excluding_apps (elems raw)) | _ \<Rightarrow> Err (not_a_list v)))"

definition buildUpdateFirewallRulesExcludingApps :: "cfg \<Rightarrow> db_rule list option res" where
  "buildUpdateFirewallRulesExcludingApps config = (case map_of config ''trusted_sources'' of
     None \<Rightarrow> Ok None
   | Some v \<Rightarrow> (case v of GAnys raw \<Rightarrow> Ok (Some (excluding_apps (elems raw))) | _ \<Rightarrow> Err (not_a_list v)))"

definition trustedSourceCreateRulesFromConfig :: "cfg \<Rightarrow> db_rule list" where
  "trustedSourceCreateRulesFromConfig config = (case as_anys (map_of config ''trusted_sources'') of None \<Rightarrow> [] | Some raw \<Rightarrow> firewall_rules [] (elems raw))"

definition trustedSourceFirewallRulesFromConfig :: "cfg \<Rightarrow> db_rule list option" where
  "trustedSourceFirewallRulesFromConfig config = (case map_of config ''trusted_sources'' of
     None \<Rightarrow> None
   | Some v \<Rightarrow> Some (case as_anys (Some v) of None \<Rightarrow> [] | Some raw \<Rightarrow> firewall_rules [] (elems raw)))"

section \<open>Outputs\<close>

definition dbOutput :: "database \<Rightarrow> resource_output" where
  "dbOutput db =
     \<lparr>out_Name = db_Name db, out_Type = ''infra.database'', out_ProviderID = db_ID db,
      out_Outputs = [(''engine'', GStr (db_EngineSlug db)), (''num_nodes'', GFloat (f64_of_int (db_NumNodes db))), (''region'', GStr (db_RegionSlug db)),
          (''size'', GStr (db_SizeSlug db)), (''status'', GStr (db_Status db)), (''tags'', GAnys (Slice (map GStr (db_Tags db)))),
          (''version'', GStr (db_VersionSlug db))]
        @ (case db_Connection db of None \<Rightarrow> []
           | Some c \<Rightarrow> [(''host'', GStr (con_Host c)), (''port'', GInt (con_Port c)), (''database'', GStr (con_Database c)),
               (''user'', GStr (con_User c)), (''uri'', GStr (con_URI c))]),
      out_Sensitive = [(''uri'', True), (''password'', True), (''user'', True)], out_Status = db_Status db\<rparr>"

definition dbReadOutput :: "database \<Rightarrow> resource_output" where
  "dbReadOutput db = (let out = dbOutput db in
     out\<lparr>out_Outputs := filter (\<lambda>p. fst p \<noteq> ''uri'' \<and> fst p \<noteq> ''password'' \<and> fst p \<noteq> ''user'') (out_Outputs out)\<rparr>)"

definition databaseAdminOutput :: "database \<Rightarrow> db_connection option \<Rightarrow> string \<Rightarrow> resource_output res" where
  "databaseAdminOutput db connection epoch =
     (let bad = Err (databaseValidationError ''database admin connection is incomplete'') in
      case connection of
        None \<Rightarrow> bad
      | Some c \<Rightarrow>
        if \<not> validDatabaseUsername (con_User c) then bad
        else let snapshot = db\<lparr>db_Connection := Some c\<rparr> in
             res_bind (databaseTLSURI snapshot (con_User c) (con_Password c)) (\<lambda>uri.
             Ok (set_output ''admin_rotation_epoch'' (GStr epoch)
                  (set_output ''password'' (GStr (con_Password c)) (set_output ''uri'' (GStr uri) (dbOutput snapshot))))))"

section \<open>Create, Read\<close>

definition db_size :: "cfg \<Rightarrow> string" where
  "db_size c = strFromConfig c ''size'' ''db-s-1vcpu-1gb''"

definition db_nodes :: "cfg \<Rightarrow> int" where
  "db_nodes c = fst (intFromConfig c ''num_nodes'' 1)"

text \<open>The rules for now, and whether the rest of them is put off.\<close>

definition create_rules :: "'w database_driver \<Rightarrow> resource_spec \<Rightarrow> ('w, db_rule list \<times> bool) io" where
  "create_rules d spec =
     io_handle (buildCreateFirewallRules d (spec_Config spec)) (\<lambda>rules. io_ok (rules, False))
       (\<lambda>e. if \<not> is_ErrAppNotFound e then io_err (Wrapf ''database create %q: %w'' [FStr (spec_Name spec)] e)
             else io_bind (io_res (res_wrap (Wrapf ''database create %q: build partial rules: %w'' [FStr (spec_Name spec)])
                    (buildCreateFirewallRulesExcludingApps (spec_Config spec)))) (\<lambda>rules. io_ok (rules, True)))"

definition db_create_req :: "'w database_driver \<Rightarrow> resource_spec \<Rightarrow> db_rule list \<Rightarrow> db_request" where
  "db_create_req d spec rules = (let c = spec_Config spec in
     \<lparr>dbr_Name = spec_Name spec, dbr_EngineSlug = strFromConfig c ''engine'' ''pg'', dbr_Version = strFromConfig c ''version'' [],
      dbr_SizeSlug = db_size c, dbr_Region = strFromConfig c ''region'' (dbd_region d), dbr_NumNodes = db_nodes c, dbr_Tags = NilSlice,
      dbr_Rules = rules\<rparr>)"

definition put_off :: "string \<Rightarrow> resource_spec \<Rightarrow> ('w \<times> deferredFirewallUpdate list, unit) io" where
  "put_off i spec = io_bind get_state (\<lambda>q. set_state (q @ [\<lparr>dfu_providerID = i, dfu_spec = spec\<rparr>]))"

definition db_Create :: "'w database_driver \<Rightarrow> resource_spec \<Rightarrow> ('w \<times> deferredFirewallUpdate list, resource_output) io" where
  "db_Create d spec =
     io_bind (io_res (databaseEpochFromConfig (spec_Config spec) ''admin_rotation_epoch'')) (\<lambda>epoch.
     io_bind (on_api (create_rules d spec)) (\<lambda>(rules, deferred).
     io_bind (io_wrap (\<lambda>e. if epoch \<noteq> None then databaseAPIError ''database create'' e
                           else Wrapf ''database create %q: %w'' [FStr (spec_Name spec)] (WrapGodoError e))
                (on_api (DB_Create (dbd_client d) (db_create_req d spec rules)))) (\<lambda>r.
     let empty_id = Errorf ''database create %q: API returned database with empty ID'' [FStr (spec_Name spec)] in
     case r of
       None \<Rightarrow> io_err empty_id
     | Some db \<Rightarrow>
       if db_ID db = [] then io_err empty_id
       else io_bind (if deferred then put_off (db_ID db) spec else io_ok ()) (\<lambda>_.
            case epoch of
              Some e \<Rightarrow> io_res (databaseAdminOutput db (db_Connection db) e)
            | None \<Rightarrow> io_ok (dbOutput db)))))"

definition db_SupportsUpsert :: bool where
  "db_SupportsUpsert = True"

definition db_AdoptionRef :: "resource_spec \<Rightarrow> (resource_ref \<times> bool) res" where
  "db_AdoptionRef spec =
     (let none = \<lparr>ref_Name = [], ref_Type = [], ref_ProviderID = []\<rparr> in
      if \<not> boolFromConfig (spec_Config spec) ''adopt_existing'' False then Ok (none, False)
      else if trim_space (spec_Name spec) = [] then Err (Errorf ''database adoption requires resource name'' [])
      else Ok (\<lparr>ref_Name = spec_Name spec, ref_Type = (if spec_Type spec = [] then ''infra.database'' else spec_Type spec), ref_ProviderID = []\<rparr>, True))"

definition lookupDatabaseByName :: "'w database_driver \<Rightarrow> string \<Rightarrow> ('w, database) io" where
  "lookupDatabaseByName d name =
     io_bind (io_wrap (\<lambda>e. Wrapf ''database list: %w'' [] (WrapGodoError e)) (find_page (DB_List (dbd_client d)) (\<lambda>db. db_Name db = name) 1)) (\<lambda>r.
     case r of
       Some db \<Rightarrow> io_ok db
     | None \<Rightarrow> io_err (Wrapf ''database %q: %w'' [FStr name] (Sentinel ErrResourceNotFound)))"

definition findDatabaseByName :: "'w database_driver \<Rightarrow> string \<Rightarrow> ('w, resource_output) io" where
  "findDatabaseByName d name =
     io_bind (lookupDatabaseByName d name) (\<lambda>db.
     if db_ID db = [] then io_ok (dbReadOutput db)
     else io_bind (io_wrap (databaseAPIError ''database read after name lookup'') (DB_Get (dbd_client d) (db_ID db))) (\<lambda>hydrated.
          io_ok (dbReadOutput (case hydrated of None \<Rightarrow> db | Some h \<Rightarrow> h))))"

definition db_resolveProviderID :: "'w database_driver \<Rightarrow> resource_ref \<Rightarrow> ('w, string) io" where
  "db_resolveProviderID d ref =
     (if isUUIDLike (ref_ProviderID ref) then io_ok (ref_ProviderID ref)
      else io_bind (io_wrap (Wrapf ''database state-heal for %q: %w'' [FStr (ref_Name ref)]) (lookupDatabaseByName d (ref_Name ref))) (\<lambda>db.
           io_ok (db_ID db)))"

definition db_Read :: "'w database_driver \<Rightarrow> resource_ref \<Rightarrow> ('w, resource_output) io" where
  "db_Read d ref =
     (if ref_ProviderID ref = [] then findDatabaseByName d (ref_Name ref)
      else io_bind (io_wrap (databaseAPIError ''database read'') (DB_Get (dbd_client d) (ref_ProviderID ref))) (\<lambda>r.
           case r of
             None \<Rightarrow> io_err (databaseValidationError ''database API returned incomplete database'')
           | Some db \<Rightarrow> io_ok (dbReadOutput db)))"

section \<open>Update\<close>

text \<open>What a rotation needs is read and checked before anything is changed: the reset and the admin's name.\<close>

definition rotation_preflight ::
  "'w database_driver \<Rightarrow> string \<Rightarrow> ('w, (string \<Rightarrow> string \<Rightarrow> ('w, database_user option) io) \<times> string) io" where
  "rotation_preflight d providerID = (case DB_ResetUserAuth (dbd_client d) of
     None \<Rightarrow> io_err (databaseValidationError ''database client does not support admin auth reset'')
   | Some reset \<Rightarrow>
     io_bind (readDatabaseParent (DB_Get (dbd_client d)) providerID) (\<lambda>db.
     let incomplete = databaseValidationError ''database admin connection is incomplete'' in
     case db_Connection db of
       None \<Rightarrow> io_err incomplete
     | Some c \<Rightarrow>
       if \<not> validDatabaseUsername (con_User c) then io_err incomplete
       else io_bind (io_res (databaseTLSURI db (con_User c) ''preflight'')) (\<lambda>_. io_ok (reset, con_User c))))"

definition update_rules :: "'w database_driver \<Rightarrow> resource_ref \<Rightarrow> resource_spec \<Rightarrow> ('w, db_rule list option \<times> bool) io" where
  "update_rules d ref spec =
     io_handle (buildUpdateFirewallRules d (spec_Config spec)) (\<lambda>rules. io_ok (rules, False))
       (\<lambda>e. if \<not> is_ErrAppNotFound e then io_err (Wrapf ''database update firewall %q: %w'' [FStr (ref_Name ref)] e)
             else io_bind (io_res (res_wrap (Wrapf ''database update %q: build partial rules: %w'' [FStr (ref_Name ref)])
                    (buildUpdateFirewallRulesExcludingApps (spec_Config spec)))) (\<lambda>rules. io_ok (rules, True)))"

definition admin_reset ::
  "'w database_driver \<Rightarrow> (string \<Rightarrow> string \<Rightarrow> ('w, database_user option) io) \<Rightarrow> string \<Rightarrow> string \<Rightarrow> string \<Rightarrow> ('w, resource_output) io" where
  "admin_reset d reset providerID username epoch =
     io_bind (readDatabaseParent (DB_Get (dbd_client d)) providerID) (\<lambda>db.
     let changed = databaseValidationError ''database admin identity changed during update'' in
     case db_Connection db of
       None \<Rightarrow> io_err changed
     | Some c \<Rightarrow>
       if con_User c \<noteq> username then io_err changed
       else
       io_bind (io_res (databaseTLSURI db username ''preflight'')) (\<lambda>_.
       io_bind (io_wrap (databaseAPIError ''database admin reset auth'') (reset providerID (PathEscape username))) (\<lambda>user.
       io_bind (io_res (validateDatabaseUser user username)) (\<lambda>u.
       io_res (databaseAdminOutput db (Some (c\<lparr>con_Password := du_Password u\<rparr>)) epoch)))))"

definition db_UpdateWithState ::
  "externals \<Rightarrow> 'w database_driver \<Rightarrow> resource_ref \<Rightarrow> resource_spec \<Rightarrow> resource_state option
    \<Rightarrow> ('w \<times> deferredFirewallUpdate list, resource_output) io" where
  "db_UpdateWithState env d ref spec prior =
     io_bind (io_res (databaseEpochFromConfig (spec_Config spec) ''admin_rotation_epoch'')) (\<lambda>epoch.
     io_bind (if prior \<noteq> None \<or> epoch \<noteq> None then io_res (of_opt_err (env_prior env ref spec prior)) else io_ok ()) (\<lambda>_.
     if epoch \<noteq> None \<and> \<not> canonicalDatabaseID env (ref_ProviderID ref)
     then io_err (databaseValidationError ''database rotation requires canonical database UUID'')
     else
     io_bind (on_api (db_resolveProviderID d ref)) (\<lambda>providerID.
     io_bind (case epoch of
         None \<Rightarrow> io_ok None
       | Some e \<Rightarrow> io_deref prior (\<lambda>p.
           io_bind (io_res (databaseEpochFromConfig (rst_Outputs p) ''admin_rotation_epoch'')) (\<lambda>previous.
           if previous = Some e then io_ok None
           else io_bind (on_api (rotation_preflight d providerID)) (\<lambda>x. io_ok (Some x))))) (\<lambda>rotate.
     io_bind (on_api (update_rules d ref spec)) (\<lambda>(fwRules, deferred).
     io_bind (io_wrap (\<lambda>e. if epoch \<noteq> None then databaseAPIError ''database update'' e
                           else Wrapf ''database update %q: %w'' [FStr (ref_Name ref)] (WrapGodoError e))
                (on_api (DB_Resize (dbd_client d) providerID (db_size (spec_Config spec)) (db_nodes (spec_Config spec))))) (\<lambda>_.
     io_bind (case fwRules of
         None \<Rightarrow> io_ok ()
       | Some rules \<Rightarrow> io_wrap (\<lambda>e. if epoch \<noteq> None then databaseAPIError ''database update firewall'' e
                               else Wrapf ''database update firewall %q: %w'' [FStr (ref_Name ref)] (WrapGodoError e))
                    (on_api (DB_UpdateFirewallRules (dbd_client d) providerID rules))) (\<lambda>_.
     io_bind (if deferred then put_off providerID spec else io_ok ()) (\<lambda>_.
     case rotate of
       Some (reset, username) \<Rightarrow> on_api (admin_reset d reset providerID username (the epoch))
     | None \<Rightarrow>
       io_bind (on_api (db_Read d (ref\<lparr>ref_ProviderID := providerID\<rparr>))) (\<lambda>out.
       io_ok (preserveDatabaseState env (case epoch of None \<Rightarrow> out | Some e \<Rightarrow> set_output ''admin_rotation_epoch'' (GStr e) out)
                prior ''admin_rotation_epoch''))))))))))"

definition db_Update :: "externals \<Rightarrow> 'w database_driver \<Rightarrow> resource_ref \<Rightarrow> resource_spec \<Rightarrow> ('w \<times> deferredFirewallUpdate list, resource_output) io" where
  "db_Update env d ref spec = db_UpdateWithState env d ref spec None"

section \<open>Delete, Diff, HealthCheck, Scale\<close>

definition db_Delete :: "'w database_driver \<Rightarrow> resource_ref \<Rightarrow> ('w, unit) io" where
  "db_Delete d ref =
     io_bind (db_resolveProviderID d ref) (\<lambda>providerID.
     io_wrap (\<lambda>e. Wrapf ''database delete %q: %w'' [FStr (ref_Name ref)] (WrapGodoError e)) (DB_Delete (dbd_client d) providerID))"

definition intOutputFromMap :: "cfg \<Rightarrow> string \<Rightarrow> int option" where
  "intOutputFromMap outputs key = (case map_of outputs key of
     Some (GInt n) \<Rightarrow> Some n | Some (GInt64 n) \<Rightarrow> Some n | Some (GFloat t) \<Rightarrow> Some (f64_to_int t) | _ \<Rightarrow> None)"

text \<open>A field that can only be set at creation: nothing desired or nothing recorded is no difference.\<close>

definition fixed_field :: "cfg \<Rightarrow> cfg \<Rightarrow> string \<Rightarrow> string \<Rightarrow> diff_state \<Rightarrow> diff_state" where
  "fixed_field config outs key def st =
     (let desired = strFromConfig config key def; current = str_or_empty (map_of outs key) in
      diff_step (desired \<noteq> [] \<and> current \<noteq> [] \<and> current \<noteq> desired) (change_new key (GStr current) (GStr desired)) st)"

definition db_diff_state :: "string \<Rightarrow> cfg \<Rightarrow> cfg \<Rightarrow> field_change list \<Rightarrow> diff_state" where
  "db_diff_state region config outs epoch_changes =
     (let sz = strFromConfig config ''size'' []; curSize = str_or_empty (map_of outs ''size'');
          (numNodes, present) = intFromConfig config ''num_nodes'' 0; cur = intOutputFromMap outs ''num_nodes''
      in diff_step (present \<and> cur \<noteq> None \<and> cur \<noteq> Some numNodes) (change ''num_nodes'' (GInt (case cur of None \<Rightarrow> 0 | Some n \<Rightarrow> n)) (GInt numNodes))
        (diff_step (sz \<noteq> [] \<and> curSize \<noteq> sz) (change ''size'' (GStr curSize) (GStr sz))
        (fixed_field config outs ''region'' region
        (fixed_field config outs ''version'' []
        (fixed_field config outs ''engine'' ''pg'' (epoch_changes, False))))))"

definition db_Diff :: "externals \<Rightarrow> 'w database_driver \<Rightarrow> resource_spec \<Rightarrow> resource_output option \<Rightarrow> diff_result res" where
  "db_Diff env d desired current =
     res_bind (databaseEpochFromConfig (spec_Config desired) ''admin_rotation_epoch'') (\<lambda>epoch.
     case current of
       None \<Rightarrow> Ok diff_absent
     | Some cur \<Rightarrow>
       res_bind (case epoch of
           None \<Rightarrow> Ok []
         | Some e \<Rightarrow>
           if \<not> canonicalDatabaseID env (out_ProviderID cur)
           then Err (databaseValidationError ''database rotation requires canonical database UUID state'')
           else res_bind (databaseEpochFromConfig (out_Outputs cur) ''admin_rotation_epoch'') (\<lambda>previous.
             Ok (if previous \<noteq> Some e
                 then [change ''admin_rotation_epoch'' (GStr (case previous of None \<Rightarrow> [] | Some p \<Rightarrow> p)) (GStr e)] else []))) (\<lambda>epoch_changes.
       Ok (diff_result_of (db_diff_state (dbd_region d) (spec_Config desired) (out_Outputs cur) epoch_changes))))"

definition db_HealthCheck :: "'w database_driver \<Rightarrow> resource_ref \<Rightarrow> ('w, health_result) io" where
  "db_HealthCheck d ref =
     io_handle (db_resolveProviderID d ref)
       (\<lambda>providerID. io_handle (DB_Get (dbd_client d) providerID)
          (\<lambda>r. io_deref r (\<lambda>db. io_ok \<lparr>Healthy = (db_Status db = ''online''), Message = Text (db_Status db)\<rparr>))
          (\<lambda>e. io_ok \<lparr>Healthy = False, Message = ErrorText e\<rparr>))
       (\<lambda>e. io_ok \<lparr>Healthy = False, Message = ErrorText e\<rparr>)"

definition db_Scale :: "'w database_driver \<Rightarrow> resource_ref \<Rightarrow> int \<Rightarrow> ('w, resource_output) io" where
  "db_Scale d ref replicas =
     io_bind (db_resolveProviderID d ref) (\<lambda>providerID.
     io_bind (io_wrap (\<lambda>e. Wrapf ''database scale read %q: %w'' [FStr (ref_Name ref)] (WrapGodoError e)) (DB_Get (dbd_client d) providerID)) (\<lambda>r.
     io_deref r (\<lambda>db.
     io_bind (io_wrap (\<lambda>e. Wrapf ''database scale %q: %w'' [FStr (ref_Name ref)] (WrapGodoError e))
                (DB_Resize (dbd_client d) providerID (db_SizeSlug db) replicas)) (\<lambda>_.
     db_Read d (ref\<lparr>ref_ProviderID := providerID\<rparr>)))))"

definition db_SensitiveInputPaths :: "('w \<Rightarrow> go_error option) \<Rightarrow> ('w, string list) io" where
  "db_SensitiveInputPaths ctx_err = io_bind (io_ask ctx_err) (\<lambda>e. case e of Some err \<Rightarrow> io_err err | None \<Rightarrow> io_ok [''/password'', ''/uri''])"

section \<open>Updates that were put off\<close>

definition db_HasDeferredUpdates :: "deferredFirewallUpdate list \<Rightarrow> bool" where
  "db_HasDeferredUpdates q = (q \<noteq> [])"

text \<open>The errors, and the entries that stay: those whose rules cannot be resolved or set. A spec without the key has no rules to set.\<close>

fun flush_each :: "'w database_driver \<Rightarrow> deferredFirewallUpdate list \<Rightarrow> ('w, go_error list \<times> deferredFirewallUpdate list) io" where
  "flush_each d [] = io_ok ([], [])"
| "flush_each d (p # ps) =
     io_bind (io_handle (buildUpdateFirewallRules d (spec_Config (dfu_spec p)))
       (\<lambda>rules. io_handle (DB_UpdateFirewallRules (dbd_client d) (dfu_providerID p) (case rules of None \<Rightarrow> [] | Some rs \<Rightarrow> rs))
          (\<lambda>_. io_ok None)
          (\<lambda>e. io_ok (Some (Errorf ''deferred firewall update %q: %v'' [FStr (spec_Name (dfu_spec p)), FErr (WrapGodoError e)]))))
       (\<lambda>e. io_ok (Some (Errorf ''deferred firewall update %q: resolve rules: %v'' [FStr (spec_Name (dfu_spec p)), FErr e])))) (\<lambda>failed.
     io_bind (flush_each d ps) (\<lambda>(errs, remaining).
     io_ok (case failed of None \<Rightarrow> (errs, remaining) | Some e \<Rightarrow> (e # errs, p # remaining))))"

definition db_FlushDeferredUpdates :: "'w database_driver \<Rightarrow> ('w \<times> deferredFirewallUpdate list, unit) io" where
  "db_FlushDeferredUpdates d =
     io_bind get_state (\<lambda>q.
     if q = [] then io_ok ()
     else
     io_bind (on_api (flush_each d q)) (\<lambda>(errs, remaining).
     io_bind (set_state remaining) (\<lambda>_.
     if errs = [] then io_ok () else io_err (Errorf ''%s'' (map FErr errs)))))"

end
