(* ===== verification/DatabaseFirewall.thy ===== *)
theory DatabaseFirewall
  imports Database
begin

text \<open>
  The firewall of a database: how the names of apps are resolved, and what becomes of the updates
  that were put off.
\<close>

section \<open>Resolving the names of apps\<close>

lemma is_ErrAppNotFound [simp]: "is_ErrAppNotFound ErrAppNotFound"
  by (simp add: ErrAppNotFound_def)

lemma resolve_apps_append:
  "resolve_apps needed r (xs @ ys) = (case resolve_apps needed r xs of
     Ok (finished, r') \<Rightarrow> if finished then Ok (True, r') else resolve_apps needed r' ys
   | Err e \<Rightarrow> Err e | Panic p \<Rightarrow> Panic p)"
  by (induction needed r xs rule: resolve_apps.induct) (auto simp: Let_def split: option.splits)

lemma resolve_pages_from:
  assumes "paged_list lst pages"
  shows "i < length (pages w) \<Longrightarrow> resolve_pages lst needed (Suc i) r w
    = Some (res_bind (resolve_apps needed r (concat (drop i (pages w)))) (\<lambda>(_, r'). Ok r'), w)"
proof (induction "length (pages w) - i" arbitrary: i r)
  case 0
  then show ?case by simp
next
  case (Suc n)
  obtain l where l: "lst (Suc i) w = Some (Ok (pages w ! i, l), w)" "last_page l = (Suc i = length (pages w))"
    using paged_list.list_page [OF assms Suc.prems] by blast
  have d: "drop i (pages w) = pages w ! i # drop (Suc i) (pages w)" using Suc.prems by (simp add: Cons_nth_drop_Suc)
  show ?case
  proof (cases "Suc i = length (pages w)")
    case True
    then show ?thesis
      using l d unfolding resolve_pages.simps [of lst needed "Suc i" r w] by (auto split: res.splits)
  next
    case False
    then have "resolve_pages lst needed (Suc (Suc i)) r' w
        = Some (res_bind (resolve_apps needed r' (concat (drop (Suc i) (pages w)))) (\<lambda>(_, r'). Ok r'), w)" for r'
      using Suc by simp
    then show ?thesis
      using l d False unfolding resolve_pages.simps [of lst needed "Suc i" r w] by (auto simp: resolve_apps_append split: res.splits)
  qed
qed

text \<open>The apps by name. There is no nil entry, and no two apps have the same name.\<close>

fun app_ids :: "app option list \<Rightarrow> (string \<times> string) list" where
  "app_ids [] = []"
| "app_ids (a_opt # apps) = (case a_opt of
     None \<Rightarrow> app_ids apps
   | Some a \<Rightarrow> (case app_Spec a of None \<Rightarrow> app_ids apps | Some spec \<Rightarrow> (as_Name spec, app_ID a) # app_ids apps))"

lemma resolve_apps_spec:
  assumes "None \<notin> set apps" and "distinct needed" and "fst ` set r \<subseteq> set needed"
  shows "\<exists>b r'. resolve_apps needed r apps = Ok (b, r') \<and> set r \<subseteq> set r' \<and> set r' \<subseteq> set r \<union> set (app_ids apps)
    \<and> fst ` set r' \<subseteq> set needed \<and> set needed \<inter> fst ` set (app_ids apps) \<subseteq> fst ` set r'"
  using assms(1,3)
proof (induction apps arbitrary: r)
  case Nil
  then show ?case by (intro exI [of _ False] exI [of _ r]) simp
next
  case (Cons a_opt apps)
  obtain a where a: "a_opt = Some a" using Cons.prems(1) by (cases a_opt) auto
  show ?case
  proof (cases "app_Spec a")
    case None
    then show ?thesis using Cons a by simp
  next
    case (Some spec)
    let ?n = "as_Name spec" and ?r = "(as_Name spec, app_ID a) # r"
    show ?thesis
    proof (cases "?n \<in> set needed")
      case False
      have "None \<notin> set apps" using Cons.prems(1) by simp
      from Cons.IH [OF this Cons.prems(2)] obtain b r' where "resolve_apps needed r apps = Ok (b, r')" "set r \<subseteq> set r'"
        "set r' \<subseteq> set r \<union> set (app_ids apps)" "fst ` set r' \<subseteq> set needed" "set needed \<inter> fst ` set (app_ids apps) \<subseteq> fst ` set r'" by blast
      then show ?thesis using False a Some by (intro exI [of _ b] exI [of _ r']) auto
    next
      case True
      then have sub: "fst ` set ?r \<subseteq> set needed" using Cons.prems(2) by simp
      show ?thesis
      proof (cases "length (remdups (map fst ?r)) = length needed")
        case len: True
        then have "card (fst ` set ?r) = card (set needed)" using assms(2) length_remdups_card_conv [of "map fst ?r"] by (simp only: distinct_card set_map)
        then have "fst ` set ?r = set needed" using sub by (simp add: card_subset_eq)
        then show ?thesis using len True a Some by (intro exI [of _ True] exI [of _ ?r]) auto
      next
        case False
        have "None \<notin> set apps" using Cons.prems(1) by simp
        from Cons.IH [OF this sub] obtain b r' where "resolve_apps needed ?r apps = Ok (b, r')" "set ?r \<subseteq> set r'"
          "set r' \<subseteq> set ?r \<union> set (app_ids apps)" "fst ` set r' \<subseteq> set needed" "set needed \<inter> fst ` set (app_ids apps) \<subseteq> fst ` set r'" by blast
        moreover from this(2) have "as_Name spec \<in> fst ` set r'" by force
        ultimately show ?thesis using False True a Some by (intro exI [of _ b] exI [of _ r']) auto
      qed
    qed
  qed
qed

section \<open>The rules a configuration intends\<close>

text \<open>An app by its name stands for its id; everything else for itself.\<close>

definition intended_rule :: "(string \<Rightarrow> string option) \<Rightarrow> gval \<Rightarrow> db_rule list" where
  "intended_rule ids v = (case v of
     GMap m \<Rightarrow>
       let t = strFromConfig m ''type'' []; x = strFromConfig m ''value'' [] in
       if t = [] \<or> x = [] then []
       else [\<lparr>dfr_Type = t, dfr_Value = (if t = ''app'' \<and> \<not> isUUIDLike x then the (ids x) else x)\<rparr>]
   | _ \<Rightarrow> [])"

lemma intended_rule_skip: "(\<And>m. v \<noteq> GMap m) \<Longrightarrow> intended_rule ids v = []"
  by (cases v) (auto simp: intended_rule_def)

lemma firewall_rules_intended:
  assumes "\<forall>n. (\<exists>v \<in> set raw. app_name_of v = [n]) \<longrightarrow> map_of r n = ids n \<and> ids n \<noteq> None" and "\<forall>n. map_of r n \<noteq> None \<longrightarrow> \<not> isUUIDLike n"
  shows "firewall_rules r raw = concat (map (intended_rule ids) raw)"
  using assms(1)
proof (induction raw)
  case (Cons v raw)
  have IH: "firewall_rules r raw = concat (map (intended_rule ids) raw)" using Cons by auto
  show ?case
  proof (cases v)
    case (GMap m)
    let ?t = "strFromConfig m ''type'' []" and ?x = "strFromConfig m ''value'' []"
    have "?t = ''app'' \<Longrightarrow> ?x \<noteq> [] \<Longrightarrow> \<not> isUUIDLike ?x \<Longrightarrow> map_of r ?x = ids ?x \<and> ids ?x \<noteq> None"
      using Cons.prems GMap by (auto simp: app_name_of_def Let_def)
    moreover have "isUUIDLike ?x \<Longrightarrow> map_of r ?x = None" using assms(2) by blast
    moreover have "intended_rule ids v = (if ?t = [] \<or> ?x = [] then [] else [\<lparr>dfr_Type = ?t, dfr_Value = (if ?t = ''app'' \<and> \<not> isUUIDLike ?x then the (ids ?x) else ?x)\<rparr>])"
      by (simp add: intended_rule_def GMap Let_def)
    ultimately show ?thesis using GMap IH by (auto simp: Let_def split: option.split)
  qed (simp_all add: IH intended_rule_skip)
qed simp

text \<open>What the queued configuration \<open>p\<close> wants, when all the apps it names are there.\<close>

definition sources_of :: "deferredFirewallUpdate \<Rightarrow> gval list" where
  "sources_of p = (case as_anys (map_of (spec_Config (dfu_spec p)) ''trusted_sources'') of None \<Rightarrow> [] | Some raw \<Rightarrow> elems raw)"

definition wanted :: "app option list \<Rightarrow> deferredFirewallUpdate \<Rightarrow> db_rule list option" where
  "wanted apps p = (if set (needed_apps (sources_of p)) \<subseteq> fst ` set (app_ids apps)
     then Some (concat (map (intended_rule (map_of (app_ids apps))) (sources_of p))) else None)"

section \<open>The API\<close>

text \<open>
  The apps are listed page by page, with no two of one name. Setting the rules of a database that
  exists sets them and nothing else; for one that does not it fails and changes nothing.
\<close>

locale firewall_api =
  fixes d :: "'w database_driver" and lst :: "('w, app option) lister" and pages :: "'w \<Rightarrow> app option list list"
    and databases :: "'w \<Rightarrow> string set" and rules :: "'w \<Rightarrow> string \<Rightarrow> db_rule list"
  assumes apps: "dbd_apps d = Some lst" and lister: "paged_list lst pages"
    and named: "None \<notin> set (concat (pages w))" "distinct (map fst (app_ids (concat (pages w))))"
    and update: "i \<in> databases w \<Longrightarrow> \<exists>w'. DB_UpdateFirewallRules (dbd_client d) i rs w = Some (Ok (), w')
      \<and> rules w' = (rules w)(i := rs) \<and> databases w' = databases w \<and> pages w' = pages w"
    and missing: "i \<notin> databases w \<Longrightarrow> \<exists>e. DB_UpdateFirewallRules (dbd_client d) i rs w = Some (Err e, w)"
begin

lemma resolveAppNamesMap_spec:
  "if set (needed_apps raw) \<subseteq> fst ` set (app_ids (concat (pages w)))
   then \<exists>r. resolveAppNamesMap d raw w = Some (Ok r, w) \<and> (\<forall>n \<in> set (needed_apps raw). map_of r n = map_of (app_ids (concat (pages w))) n \<and> map_of r n \<noteq> None)
      \<and> fst ` set r \<subseteq> set (needed_apps raw)
   else \<exists>e. resolveAppNamesMap d raw w = Some (Err e, w) \<and> is_ErrAppNotFound e"
proof -
  let ?apps = "concat (pages w)" and ?needed = "needed_apps raw"
  have "fst ` set [] \<subseteq> set ?needed" by simp
  from resolve_apps_spec [where needed = ?needed and r = "[]", OF named(1) [of w] _ this]
  obtain b r where r: "resolve_apps ?needed [] ?apps = Ok (b, r)" "set r \<subseteq> set (app_ids ?apps)" "fst ` set r \<subseteq> set ?needed"
    "set ?needed \<inter> fst ` set (app_ids ?apps) \<subseteq> fst ` set r"
    by (auto simp: needed_apps_def)
  have pg: "resolve_pages lst ?needed 1 [] w = Some (Ok r, w)"
    using resolve_pages_from [OF lister, of 0 w ?needed "[]"] paged_list.pages_nonempty [OF lister, of w] r(1) by simp
  have m: "map_of r n = Some x \<Longrightarrow> map_of (app_ids ?apps) n = Some x" for n x
    using r(2) named(2) by (metis map_of_SomeD map_of_is_SomeI subsetD)
  have dom: "map_of r n \<noteq> None" if "n \<in> set ?needed" "n \<in> fst ` set (app_ids ?apps)" for n
    using r(4) that by (auto simp: map_of_eq_None_iff)
  show ?thesis
  proof (cases "set ?needed \<subseteq> fst ` set (app_ids ?apps)")
    case True
    have all: "map_of r n \<noteq> None" if "n \<in> set ?needed" for n by (rule dom [OF that subsetD [OF True that]])
    then have none: "filter (\<lambda>n. map_of r n = None) ?needed = []" by (simp add: filter_empty_conv)
    have "map_of r n = map_of (app_ids ?apps) n \<and> map_of r n \<noteq> None" if "n \<in> set ?needed" for n
      using all [OF that] m [of n] by (cases "map_of r n") simp_all
    then have ball: "\<forall>n \<in> set ?needed. map_of r n = map_of (app_ids ?apps) n \<and> map_of r n \<noteq> None" by blast
    moreover have "resolveAppNamesMap d raw w = Some (Ok (if ?needed = [] then [] else r), w)"
      using pg none by (auto simp: resolveAppNamesMap_def Let_def apps io_simps)
    ultimately show ?thesis
      unfolding if_P [OF True] using ball r(3) by (intro exI [of _ "if ?needed = [] then [] else r"]) (simp only: split: if_split; simp)
  next
    case False
    then obtain n where n: "n \<in> set ?needed" "n \<notin> fst ` set (app_ids ?apps)" by blast
    then have "map_of r n = None" using r(2) by (auto simp: map_of_eq_None_iff)
    then have "filter (\<lambda>n. map_of r n = None) ?needed \<noteq> []" "?needed \<noteq> []" using n(1) by (auto simp: filter_empty_conv)
    then show ?thesis
      using False pg by (auto simp: resolveAppNamesMap_def Let_def apps io_simps)
  qed
qed

lemma buildUpdateFirewallRules_spec:
  assumes "map_of (spec_Config (dfu_spec p)) ''trusted_sources'' = Some (GAnys raw)"
  shows "case wanted (concat (pages w)) p of
     Some rs \<Rightarrow> buildUpdateFirewallRules d (spec_Config (dfu_spec p)) w = Some (Ok (Some rs), w)
   | None \<Rightarrow> \<exists>e. buildUpdateFirewallRules d (spec_Config (dfu_spec p)) w = Some (Err e, w) \<and> is_ErrAppNotFound e"
proof -
  let ?ids = "map_of (app_ids (concat (pages w)))"
  have src: "sources_of p = elems raw" by (simp add: sources_of_def assms)
  show ?thesis
  proof (cases "set (needed_apps (elems raw)) \<subseteq> fst ` set (app_ids (concat (pages w)))")
    case True
    then obtain r where r: "resolveAppNamesMap d (elems raw) w = Some (Ok r, w)"
      "\<forall>n \<in> set (needed_apps (elems raw)). map_of r n = ?ids n \<and> map_of r n \<noteq> None" "fst ` set r \<subseteq> set (needed_apps (elems raw))"
      using resolveAppNamesMap_spec [of "elems raw" w] by auto
    have "firewall_rules r (elems raw) = concat (map (intended_rule ?ids) (elems raw))"
    proof (rule firewall_rules_intended)
      show "\<forall>n. (\<exists>v\<in>set (elems raw). app_name_of v = [n]) \<longrightarrow> map_of r n = ?ids n \<and> ?ids n \<noteq> None"
        using r(2) by (force simp: needed_apps_def)
      have "\<not> isUUIDLike n" if "n \<in> set (needed_apps (elems raw))" for n
        using that by (auto simp: needed_apps_def app_name_of_def Let_def split: gval.splits if_splits)
      then show "\<forall>n. map_of r n \<noteq> None \<longrightarrow> \<not> isUUIDLike n" using r(3) by (auto simp: map_of_eq_None_iff)
    qed
    then show ?thesis using True r(1) by (simp add: wanted_def src buildUpdateFirewallRules_def assms io_simps)
  next
    case False
    then show ?thesis
      using resolveAppNamesMap_spec [of "elems raw" w] by (auto simp: wanted_def src buildUpdateFirewallRules_def assms io_simps)
  qed
qed

text \<open>An entry is settled when its apps and its database are there.\<close>

definition settles :: "'w \<Rightarrow> deferredFirewallUpdate \<Rightarrow> bool" where
  "settles w p = (wanted (concat (pages w)) p \<noteq> None \<and> dfu_providerID p \<in> databases w)"

lemma flush_step:
  assumes "map_of (spec_Config (dfu_spec p)) ''trusted_sources'' = Some (GAnys raw)"
  shows "\<exists>failed w'. flush_each d (p # ps) w = io_bind (flush_each d ps) (\<lambda>(errs, remaining).
      io_ok (case failed of None \<Rightarrow> (errs, remaining) | Some e \<Rightarrow> (e # errs, p # remaining))) w'
    \<and> pages w' = pages w \<and> databases w' = databases w \<and> (failed = None) = settles w p
    \<and> rules w' = (if settles w p then (rules w)(dfu_providerID p := the (wanted (concat (pages w)) p)) else rules w)"
proof (cases "wanted (concat (pages w)) p")
  case None
  then obtain e where "buildUpdateFirewallRules d (spec_Config (dfu_spec p)) w = Some (Err e, w)"
    using buildUpdateFirewallRules_spec [OF assms, of w] by auto
  then show ?thesis
    using None by (intro exI [of _ "Some (Errorf ''deferred firewall update %q: resolve rules: %v'' [FStr (spec_Name (dfu_spec p)), FErr e])"] exI [of _ w])
      (auto simp: io_simps settles_def split: option.split res.split)
next
  case (Some rs)
  then have b: "buildUpdateFirewallRules d (spec_Config (dfu_spec p)) w = Some (Ok (Some rs), w)"
    using buildUpdateFirewallRules_spec [OF assms, of w] by simp
  show ?thesis
  proof (cases "dfu_providerID p \<in> databases w")
    case True
    then obtain w' where "DB_UpdateFirewallRules (dbd_client d) (dfu_providerID p) rs w = Some (Ok (), w')"
      "rules w' = (rules w)(dfu_providerID p := rs)" "databases w' = databases w" "pages w' = pages w"
      using update by blast
    then show ?thesis using b Some True by (intro exI [of _ None] exI [of _ w']) (auto simp: io_simps settles_def split: option.split res.split)
  next
    case False
    then obtain e where "DB_UpdateFirewallRules (dbd_client d) (dfu_providerID p) rs w = Some (Err e, w)" using missing by blast
    then show ?thesis
      using b Some False by (intro exI [of _ "Some (Errorf ''deferred firewall update %q: %v'' [FStr (spec_Name (dfu_spec p)), FErr (WrapGodoError e)])"] exI [of _ w])
        (auto simp: io_simps settles_def split: option.split res.split)
  qed
qed

text \<open>The rules after the entries \<open>q\<close> have been gone through in the world \<open>w\<close>.\<close>

definition flushed :: "'w \<Rightarrow> deferredFirewallUpdate list \<Rightarrow> (string \<Rightarrow> db_rule list) \<Rightarrow> string \<Rightarrow> db_rule list" where
  "flushed w q f = fold (\<lambda>p f. if settles w p then f(dfu_providerID p := the (wanted (concat (pages w)) p)) else f) q f"

lemma flush_each_spec:
  assumes "\<forall>p \<in> set q. \<exists>raw. map_of (spec_Config (dfu_spec p)) ''trusted_sources'' = Some (GAnys raw)"
  shows "\<exists>errs w'. flush_each d q w = Some (Ok (errs, filter (\<lambda>p. \<not> settles w p) q), w') \<and> (errs = []) = (\<forall>p \<in> set q. settles w p)
    \<and> pages w' = pages w \<and> databases w' = databases w \<and> rules w' = flushed w q (rules w)"
  using assms
proof (induction q arbitrary: w)
  case Nil
  then show ?case by (simp add: io_simps flushed_def)
next
  case (Cons p q)
  obtain raw where "map_of (spec_Config (dfu_spec p)) ''trusted_sources'' = Some (GAnys raw)" using Cons.prems by auto
  from flush_step [OF this, of q w] obtain failed w1 where s: "flush_each d (p # q) w = io_bind (flush_each d q) (\<lambda>(errs, remaining).
      io_ok (case failed of None \<Rightarrow> (errs, remaining) | Some e \<Rightarrow> (e # errs, p # remaining))) w1"
    "pages w1 = pages w" "databases w1 = databases w" "(failed = None) = settles w p"
    "rules w1 = (if settles w p then (rules w)(dfu_providerID p := the (wanted (concat (pages w)) p)) else rules w)" by blast
  have same: "settles w1 = settles w" using s(2,3) by (simp add: settles_def fun_eq_iff)
  then have f: "flushed w1 q = flushed w q" unfolding flushed_def same s(2) by simp
  obtain errs w' where "flush_each d q w1 = Some (Ok (errs, filter (\<lambda>p. \<not> settles w p) q), w')" "(errs = []) = (\<forall>p \<in> set q. settles w p)"
    "pages w' = pages w1" "databases w' = databases w1" "rules w' = flushed w q (rules w1)"
    using Cons.IH [of w1] Cons.prems same f by auto
  moreover have "flushed w (p # q) (rules w) = flushed w q (rules w1)" using s(5) by (simp add: flushed_def)
  ultimately show ?case using s by (cases failed) (auto simp: io_simps)
qed

end

text \<open>
  C11: flushing the queue. Over the documented API, \<^verbatim>\<open>FlushDeferredUpdates\<close> always returns. It goes
  through the entries in their order: one whose apps all exist by now, and whose database exists,
  gets exactly the rules its configuration intends, every app by its id, and leaves the queue; every
  other entry stays, in order, and its database keeps its rules. It succeeds if and only if nothing
  stays. So the last settled entry of a database decides, also over rules a later update has set,
  and an entry of a deleted database stays for ever.
\<close>

theorem flush_deferred:
  assumes "firewall_api d lst pages databases rules"
    and "\<forall>p \<in> set q. \<exists>raw. map_of (spec_Config (dfu_spec p)) ''trusted_sources'' = Some (GAnys raw)"
  shows "\<exists>r w'. db_FlushDeferredUpdates d (w, q) = Some (r, (w', filter (\<lambda>p. \<not> firewall_api.settles pages databases w p) q))
    \<and> (r = Ok ()) = (\<forall>p \<in> set q. firewall_api.settles pages databases w p)
    \<and> rules w' = fold (\<lambda>p f. if firewall_api.settles pages databases w p then f(dfu_providerID p := the (wanted (concat (pages w)) p)) else f) q (rules w)"
proof (cases "q = []")
  case False
  obtain errs w' where "flush_each d q w = Some (Ok (errs, filter (\<lambda>p. \<not> firewall_api.settles pages databases w p) q), w')"
    "(errs = []) = (\<forall>p \<in> set q. firewall_api.settles pages databases w p)" "rules w' = firewall_api.flushed pages databases w q (rules w)"
    using firewall_api.flush_each_spec [OF assms, of w] by blast
  then show ?thesis
    using False by (auto simp: db_FlushDeferredUpdates_def io_simps get_state_def set_state_def on_api_def firewall_api.flushed_def [OF assms(1)])
qed (simp add: db_FlushDeferredUpdates_def get_state_def io_simps)

text \<open>A concrete API with one app and one database; the world are the rules.\<close>

definition ex_web :: app where
  "ex_web = \<lparr>app_ID = ''id-web'', app_Spec = Some \<lparr>as_Name = ''web'', as_Region = [], as_Services = [], as_Jobs = [], as_Workers = [], as_StaticSites = [],
     as_Functions = [], as_Databases = [], as_Domains = [], as_Alerts = [], as_Ingress = None, as_Egress = None, as_Maintenance = None, as_Vpc = None, as_Features = [],
     as_DisableEdgeCache = False, as_DisableEmailObfuscation = False, as_EnhancedThreatControl = False\<rparr>, app_LiveURL = [], app_DefaultIngress = [],
     app_Active = None, app_InProgress = None, app_Pending = None, app_Domains = []\<rparr>"

definition mem_firewall :: "(string \<Rightarrow> db_rule list) database_driver" where
  "mem_firewall = \<lparr>dbd_client = \<lparr>DB_Create = (\<lambda>_ w. Some (Ok None, w)), DB_Get = (\<lambda>_ w. Some (Ok None, w)), DB_List = page_lister (\<lambda>_. []),
       DB_Resize = (\<lambda>_ _ _ w. Some (Ok (), w)), DB_Delete = (\<lambda>_ w. Some (Ok (), w)),
       DB_UpdateFirewallRules = (\<lambda>i rs w. if i = ''db'' then Some (Ok (), w(i := rs)) else Some (Err (GodoError (Some 404) ''not found''), w)),
       DB_ResetUserAuth = None\<rparr>,
     dbd_apps = Some (page_lister (\<lambda>_. [[Some ex_web]])), dbd_region = ''nyc3''\<rparr>"

interpretation mem_firewall: firewall_api mem_firewall "page_lister (\<lambda>_. [[Some ex_web]])" "\<lambda>_. nonempty_pages [[Some ex_web]]" "\<lambda>_. {''db''}" "\<lambda>w. w"
  by unfold_locales (auto simp: mem_firewall_def nonempty_pages_def ex_web_def page_lister_def last_page_def)

definition ex_deferred :: "string \<Rightarrow> deferredFirewallUpdate" where
  "ex_deferred i = \<lparr>dfu_providerID = i, dfu_spec = \<lparr>spec_Name = i, spec_Type = ''infra.database'',
     spec_Config = [(''trusted_sources'', GAnys (Slice [GMap [(''type'', GStr ''app''), (''value'', GStr ''web'')]]))]\<rparr>\<rparr>"

theorem flush_deferred_witness:
  "\<exists>r w'. db_FlushDeferredUpdates mem_firewall (\<lambda>_. [], [ex_deferred ''db'', ex_deferred ''gone'']) = Some (r, (w', [ex_deferred ''gone'']))
    \<and> r \<noteq> Ok () \<and> w' ''db'' = [\<lparr>dfr_Type = ''app'', dfr_Value = ''id-web''\<rparr>]"
proof -
  let ?q = "[ex_deferred ''db'', ex_deferred ''gone'']"
  have l: "\<forall>p \<in> set ?q. \<exists>raw. map_of (spec_Config (dfu_spec p)) ''trusted_sources'' = Some (GAnys raw)" by (simp add: ex_deferred_def)
  have s: "sources_of (ex_deferred i) = [GMap [(''type'', GStr ''app''), (''value'', GStr ''web'')]]" for i by (simp add: sources_of_def ex_deferred_def)
  have a: "app_ids (concat (nonempty_pages [[Some ex_web]])) = [(''web'', ''id-web'')]" by code_simp
  have n: "needed_apps [GMap [(''type'', GStr ''app''), (''value'', GStr ''web'')]] = [''web'']" by code_simp
  have u: "\<not> isUUIDLike ''web''" by code_simp
  have r: "intended_rule (map_of [(''web'', ''id-web'')]) (GMap [(''type'', GStr ''app''), (''value'', GStr ''web'')]) = [\<lparr>dfr_Type = ''app'', dfr_Value = ''id-web''\<rparr>]"
    using u by (simp add: intended_rule_def strFromConfig_def)
  have w: "wanted (concat (nonempty_pages [[Some ex_web]])) (ex_deferred i) = Some [\<lparr>dfr_Type = ''app'', dfr_Value = ''id-web''\<rparr>]" for i
    using r by (simp add: wanted_def s a n)
  have i: "dfu_providerID (ex_deferred i) = i" for i by (simp add: ex_deferred_def)
  obtain r where "db_FlushDeferredUpdates mem_firewall (\<lambda>_. [], ?q)
      = Some (r, ((\<lambda>_. [])(''db'' := [\<lparr>dfr_Type = ''app'', dfr_Value = ''id-web''\<rparr>]), [ex_deferred ''gone'']))" "r \<noteq> Ok ()"
    using flush_deferred [OF mem_firewall.firewall_api_axioms l, of "\<lambda>_. []"] by (auto simp: mem_firewall.settles_def w i)
  then show ?thesis by (intro exI [of _ r] exI [of _ "(\<lambda>_. [])(''db'' := [\<lparr>dfr_Type = ''app'', dfr_Value = ''id-web''\<rparr>])"]) simp
qed

end
