(* ===== verification/MigrationRepair.thy ===== *)
theory MigrationRepair
  imports AppPool ImageRef Polling Errors "HOL-Library.Word"
begin

text \<open>
  Repairing a dirty database migration (\<^verbatim>\<open>internal/drivers/app_platform_migration_repair.go\<close>): a
  temporary job is added to the spec of the app, which deploys it, the driver waits for the job to
  end, and takes it out of the spec again. The API of job invocations, the random bytes, the timers
  and the HTTP GET of a log are parameters. A client is a function of the context of the call:
  \<open>Bounded\<close> is the context of the caller with the timeout of the request, \<open>Detached\<close> one that the
  caller cannot cancel, each with its timeout in nanoseconds. \<^verbatim>\<open>cloneAppSpec\<close> is the identity.
\<close>

section \<open>Requests, results, clients\<close>

record repair_request =
  rq_AppResourceName :: string
  rq_JobImage :: string
  rq_SourceDir :: string
  rq_ExpectedDirtyVersion :: string
  rq_ForceVersion :: string
  rq_ConfirmForce :: string
  rq_ThenUp :: bool
  rq_UpIfClean :: bool
  rq_Env :: "(string \<times> string) list"
  rq_TimeoutSeconds :: int

record repair_diagnostic =
  rd_ID :: string
  rd_Phase :: string
  rd_Cause :: message
  rd_Detail :: message

datatype repair_status = MigrationRepairStatusSucceeded | MigrationRepairStatusFailed

record repair_result =
  rr_Status :: repair_status
  rr_ProviderJobID :: string
  rr_Diagnostics :: "repair_diagnostic list"
  rr_Logs :: string

record job_invocation =
  ji_ID :: string
  ji_JobName :: string
  ji_DeploymentID :: string
  ji_Phase :: string

record app_logs =
  al_LiveURL :: string
  al_HistoricURLs :: "string list"

datatype call_ctx = Bounded int | Detached int

record 'w invocation_client =
  Jobs_ListJobInvocations :: "call_ctx \<Rightarrow> string \<Rightarrow> string list \<Rightarrow> int \<Rightarrow> ('w, job_invocation option) lister"
  Jobs_GetJobInvocationLogs :: "call_ctx \<Rightarrow> string \<Rightarrow> string \<Rightarrow> string \<Rightarrow> int \<Rightarrow> ('w, app_logs option) io"
  Jobs_CancelJobInvocation :: "call_ctx \<Rightarrow> string \<Rightarrow> string \<Rightarrow> string \<Rightarrow> ('w, unit) io"

text \<open>
  What the wait for the next poll ends with: the context is done, the deadline is there, or the
  ticker ticked. \<open>re_Token\<close> is \<^verbatim>\<open>rand.Read\<close> of six bytes, \<open>re_Count\<close> the fallback counter after its
  increment, \<open>re_Nano\<close> the clock, \<open>re_Fetch\<close> an HTTP GET: the status and what reading the body gives.
\<close>

datatype wait_event = CtxDone go_error | DeadlineHit | Tick

record 'w repair_env =
  re_Validate :: "repair_request \<Rightarrow> go_error option"
  re_Token :: "('w, 8 word list) io"
  re_Count :: "('w, 64 word) io"
  re_Nano :: "('w, 64 word) io"
  re_Now :: "'w \<Rightarrow> int"
  re_Select :: "call_ctx \<Rightarrow> int \<Rightarrow> int \<Rightarrow> ('w, wait_event) io"
  re_Fetch :: "call_ctx \<Rightarrow> string \<Rightarrow> ('w, int \<times> string res) io"

definition seconds :: "int \<Rightarrow> int" where
  "seconds n = signed_take_bit 63 (n * 1000000000)"

definition defaultMigrationRepairTimeout :: int where
  "defaultMigrationRepairTimeout = seconds 600"

definition migrationRepairPollInterval :: int where
  "migrationRepairPollInterval = seconds 2"

section \<open>The temporary job\<close>

definition shellQuote :: "string \<Rightarrow> string" where
  "shellQuote v =
     (if v = [] then [CHR 0x27, CHR 0x27]
      else if contains_any v [CHR '' '', CHR 0x09, CHR 0x0A, CHR 0x27, CHR 0x22, CHR ''$'', CHR 0x60, CHR 0x5C]
           then [CHR 0x27] @ concat (map (\<lambda>c. if c = CHR 0x27 then [CHR 0x27, CHR 0x5C, CHR 0x27, CHR 0x27] else [c]) v) @ [CHR 0x27]
           else v)"

definition migrationRepairRunCommand :: "repair_request \<Rightarrow> string" where
  "migrationRepairRunCommand req =
     str_join '' '' ([''/workflow-migrate repair-dirty'',
        ''--source-dir '' @ shellQuote (rq_SourceDir req),
        ''--expected-dirty-version '' @ shellQuote (rq_ExpectedDirtyVersion req),
        ''--force-version '' @ shellQuote (rq_ForceVersion req),
        ''--confirm-force '' @ shellQuote (rq_ConfirmForce req)]
       @ (if rq_ThenUp req then [''--then-up''] else []) @ (if rq_UpIfClean req then [''--up-if-clean''] else []))"

definition migrationRepairEnv :: "(string \<times> string) list \<Rightarrow> env_var option list" where
  "migrationRepairEnv env = map (\<lambda>(k, v). Some \<lparr>ev_Key = k, ev_Value = v, ev_Type = ''SECRET'', ev_Scope = ''RUN_TIME''\<rparr>) env"

definition migrationRepairTimeout :: "int \<Rightarrow> string" where
  "migrationRepairTimeout secs = (if secs \<le> 0 then [] else show_int secs @ ''s'')"

definition migrationRepairJobSpec :: "string \<Rightarrow> repair_request \<Rightarrow> app_job res" where
  "migrationRepairJobSpec name req =
     res_bind (res_wrap (Wrapf ''app platform migration repair image: %w'' []) (ParseImageRef (rq_JobImage req))) (\<lambda>img.
     Ok \<lparr>job_Name = name, job_Kind = ''PRE_DEPLOY'', job_RunCommand = migrationRepairRunCommand req, job_BuildCommand = [],
        job_DockerfilePath = [], job_SourceDir = [], job_InstanceSizeSlug = [], job_Envs = migrationRepairEnv (rq_Env req),
        job_Image = Some img, job_Schedule = None, job_Termination = None, job_Timeout = migrationRepairTimeout (rq_TimeoutSeconds req)\<rparr>)"

definition migrationRepairJobPrefix :: string where
  "migrationRepairJobPrefix = ''wfctl-mig-repair''"

definition lower_hex :: "nat \<Rightarrow> char" where
  "lower_hex n = (if n < 10 then char_of (48 + n) else char_of (87 + n))"

definition hex_byte :: "8 word \<Rightarrow> string" where
  "hex_byte b = [lower_hex (unat b div 16), lower_hex (unat b mod 16)]"

text \<open>\<open>hex12 s\<close> is \<^verbatim>\<open>fmt.Sprintf("%012x", s & 0xffffffffffff)\<close>: twelve digits.\<close>

definition hex12 :: "64 word \<Rightarrow> string" where
  "hex12 s = concat (map (\<lambda>i. hex_byte (ucast (drop_bit (8 * i) s))) [5, 4, 3, 2, 1, 0])"

definition migrationRepairJobName :: "'w repair_env \<Rightarrow> ('w, string) io" where
  "migrationRepairJobName env =
     io_handle (re_Token env) (\<lambda>token. io_ok (migrationRepairJobPrefix @ ''-'' @ concat (map hex_byte token)))
       (\<lambda>_. io_bind (re_Nano env) (\<lambda>now. io_bind (re_Count env) (\<lambda>n.
            io_ok (migrationRepairJobPrefix @ ''-'' @ hex12 (xor now (n * 0x9e3779b97f4a7c15))))))"

definition named :: "('c \<Rightarrow> string) \<Rightarrow> string \<Rightarrow> 'c option list \<Rightarrow> bool" where
  "named nm name cs = list_ex (\<lambda>c. map_option nm c = Some name) cs"

definition appSpecHasComponentName :: "app_spec \<Rightarrow> string \<Rightarrow> bool" where
  "appSpecHasComponentName spec name =
     (named svc_Name name (as_Services spec) \<or> named ss_Name name (as_StaticSites spec) \<or> named wk_Name name (as_Workers spec)
      \<or> named job_Name name (as_Jobs spec) \<or> named (\<lambda>f. f) name (as_Functions spec) \<or> named (\<lambda>d. d) name (as_Databases spec))"

fun job_name_absent :: "nat \<Rightarrow> ('w, string) io \<Rightarrow> app_spec \<Rightarrow> ('w, string) io" where
  "job_name_absent 0 gen spec =
     io_err (Opaque ''app platform migration repair: could not generate a unique temporary job name'')"
| "job_name_absent (Suc n) gen spec =
     io_bind gen (\<lambda>name. if \<not> appSpecHasComponentName spec name then io_ok name else job_name_absent n gen spec)"

definition migrationRepairJobNameAbsentFromSpec :: "('w, string) io \<Rightarrow> app_spec \<Rightarrow> ('w, string) io" where
  "migrationRepairJobNameAbsentFromSpec gen spec = job_name_absent 32 gen spec"

definition withoutMigrationRepairJobName :: "app_job option list \<Rightarrow> string \<Rightarrow> app_job option list" where
  "withoutMigrationRepairJobName jobs name = filter (\<lambda>j. map_option job_Name j \<noteq> Some name) jobs"

section \<open>Errors\<close>

text \<open>\<^verbatim>\<open>errors.As\<close> with a target that has a \<^verbatim>\<open>GRPCStatus\<close> method.\<close>

fun errors_as_grpc :: "go_error \<Rightarrow> grpc_code option" where
  "errors_as_grpc (GrpcStatus c _ _) = Some c"
| "errors_as_grpc (Wrapf _ _ e) = errors_as_grpc e"
| "errors_as_grpc (UrlError _ _ e) = errors_as_grpc e"
| "errors_as_grpc (Wraps _ _ e1 e2) = (case errors_as_grpc e1 of Some c \<Rightarrow> Some c | None \<Rightarrow> errors_as_grpc e2)"
| "errors_as_grpc _ = None"

definition isUnsupportedJobInvocationError :: "go_error \<Rightarrow> bool" where
  "isUnsupportedJobInvocationError e =
     (case errors_as_godo e of
        Some (Some st, _) \<Rightarrow> st = 404 \<or> st = 405
      | _ \<Rightarrow> errors_as_grpc e = Some Unimplemented)"

definition component_scopes :: "string list" where
  "component_scopes = [''component'', ''services['', ''static_sites['', ''workers['', ''jobs['', ''functions['', ''databases['']"

definition isMigrationRepairComponentNameConflict :: "go_error \<Rightarrow> bool" where
  "isMigrationRepairComponentNameConflict e =
     (case errors_as_godo e of
        Some (Some st, raw) \<Rightarrow>
          let msg = to_lower raw in
          st \<in> {400, 422, 409} \<and> str_contains msg ''name'' \<and> list_ex (str_contains msg) component_scopes
          \<and> (str_contains msg ''unique'' \<or> str_contains msg ''duplicate'' \<or> str_contains msg ''already'')
      | _ \<Rightarrow> False)"

definition errMigrationRepairProviderPoll :: go_error where
  "errMigrationRepairProviderPoll = Opaque ''migration repair provider poll failed''"

definition jobs_unsupported :: go_error where
  "jobs_unsupported = GrpcStatus Unimplemented ''app platform migration repair: job invocation APIs are not supported'' []"

definition preflightMigrationRepairJobInvocations :: "call_ctx \<Rightarrow> 'w invocation_client \<Rightarrow> string \<Rightarrow> ('w, unit) io" where
  "preflightMigrationRepairJobInvocations ctx jobs appID =
     io_handle (Jobs_ListJobInvocations jobs ctx appID [] 1 1) (\<lambda>_. io_ok ())
       (\<lambda>e. if isUnsupportedJobInvocationError e then io_err jobs_unsupported
            else io_err (Wraps ''%w: preflight job invocations: %w'' [] errMigrationRepairProviderPoll (WrapGodoError e)))"

section \<open>Waiting for the job\<close>

definition listMigrationRepairInvocations ::
  "call_ctx \<Rightarrow> 'w invocation_client \<Rightarrow> string \<Rightarrow> string \<Rightarrow> ('w, job_invocation option list) io" where
  "listMigrationRepairInvocations ctx jobs appID jobName =
     collect_pages (Jobs_ListJobInvocations jobs ctx appID [jobName] 20) 1 []"

definition terminal_phases :: "string list" where
  "terminal_phases = [''SUCCEEDED'', ''FAILED'', ''CANCELED'', ''SKIPPED'']"

text \<open>The first invocation of the job that ended, if there is one, and the last one seen.\<close>

fun scan_invocations :: "string \<Rightarrow> job_invocation option \<Rightarrow> job_invocation option list \<Rightarrow> job_invocation option \<times> job_invocation option" where
  "scan_invocations jobName seen [] = (None, seen)"
| "scan_invocations jobName seen (None # invs) = scan_invocations jobName seen invs"
| "scan_invocations jobName seen (Some ivc # invs) =
     (if ji_JobName ivc \<noteq> jobName then scan_invocations jobName seen invs
      else if ji_Phase ivc \<in> set terminal_phases then (Some ivc, Some ivc)
      else scan_invocations jobName (Some ivc) invs)"

type_synonym found_invocation = "job_invocation option \<times> go_error option"

definition timed_out :: "string \<Rightarrow> go_error" where
  "timed_out jobName = Errorf ''timed out waiting for migration repair job %q'' [FStr jobName]"

text \<open>One poll; the last invocation seen is the state of the loop.\<close>

definition wait_step ::
  "'w repair_env \<Rightarrow> call_ctx \<Rightarrow> 'w invocation_client \<Rightarrow> string \<Rightarrow> string \<Rightarrow> int \<Rightarrow> ('w \<times> job_invocation option, found_invocation option) io" where
  "wait_step env ctx jobs appID jobName deadline =
     io_bind get_state (\<lambda>seen.
     io_handle (on_api (listMigrationRepairInvocations ctx jobs appID jobName))
       (\<lambda>invs. case scan_invocations jobName seen invs of
          (Some ivc, _) \<Rightarrow> io_ok (Some (Some ivc, None))
        | (None, seen) \<Rightarrow>
            io_bind (set_state seen) (\<lambda>_.
            io_bind (on_api (re_Select env ctx deadline migrationRepairPollInterval)) (\<lambda>ev. case ev of
              CtxDone e \<Rightarrow> io_ok (Some (seen, Some (if e = CtxDeadlineExceeded then timed_out jobName else e)))
            | DeadlineHit \<Rightarrow> io_ok (Some (seen, Some (timed_out jobName)))
            | Tick \<Rightarrow> io_ok None)))
       (\<lambda>e. io_ok (Some (seen, Some
          (if isUnsupportedJobInvocationError e then jobs_unsupported
           else Wraps ''%w: list job invocations: %w'' [] errMigrationRepairProviderPoll (WrapGodoError e))))))"

text \<open>An operation with state of its own, run from an initial state which is dropped afterwards.\<close>

definition run_with :: "'s \<Rightarrow> ('w \<times> 's, 'a) io \<Rightarrow> ('w, 'a) io" where
  "run_with s m = (\<lambda>w. case m (w, s) of None \<Rightarrow> None | Some (r, (w', _)) \<Rightarrow> Some (r, w'))"

definition waitForMigrationRepairInvocation ::
  "'w repair_env \<Rightarrow> call_ctx \<Rightarrow> 'w invocation_client \<Rightarrow> string \<Rightarrow> string \<Rightarrow> int \<Rightarrow> ('w, found_invocation) io" where
  "waitForMigrationRepairInvocation env ctx jobs appID jobName timeout =
     io_bind (io_ask (re_Now env)) (\<lambda>now.
     run_with None (poll_loop (wait_step env ctx jobs appID jobName
       (now + (if timeout \<le> 0 then seconds 600 else timeout)))))"

section \<open>Logs\<close>

definition fetchMigrationRepairLogURL :: "'w repair_env \<Rightarrow> call_ctx \<Rightarrow> string \<Rightarrow> ('w, string) io" where
  "fetchMigrationRepairLogURL env ctx url =
     io_handle (re_Fetch env ctx url)
       (\<lambda>(st, body). if st < 200 \<or> st > 299 then io_ok ''log unavailable''
          else case body of
            Ok text \<Rightarrow> (let data = take 65536 text in io_ok (if trim_space data = [] then ''log unavailable'' else data))
          | _ \<Rightarrow> io_ok ''log unavailable'')
       (\<lambda>_. io_ok ''log unavailable'')"

fun fetch_all :: "'w repair_env \<Rightarrow> call_ctx \<Rightarrow> string list \<Rightarrow> ('w, string list) io" where
  "fetch_all env ctx [] = io_ok []"
| "fetch_all env ctx (u # us) =
     io_bind (fetchMigrationRepairLogURL env ctx u) (\<lambda>t. io_bind (fetch_all env ctx us) (\<lambda>ts. io_ok (t # ts)))"

definition formatAppLogs :: "'w repair_env \<Rightarrow> call_ctx \<Rightarrow> app_logs option \<Rightarrow> ('w, string) io" where
  "formatAppLogs env ctx logs = (case logs of
     None \<Rightarrow> io_ok []
   | Some l \<Rightarrow> io_bind (fetch_all env ctx (filter (\<lambda>u. u \<noteq> []) (al_LiveURL l # al_HistoricURLs l)))
                 (\<lambda>parts. io_ok (str_join [CHR 0x0A] parts)))"

definition fetchMigrationRepairInvocationLogs ::
  "'w repair_env \<Rightarrow> 'w invocation_client \<Rightarrow> string \<Rightarrow> string \<Rightarrow> string \<Rightarrow> ('w, string) io" where
  "fetchMigrationRepairInvocationLogs env jobs appID invocationID jobName =
     (let ctx = Detached (seconds 10) in
      io_handle (Jobs_GetJobInvocationLogs jobs ctx appID invocationID jobName 200) (formatAppLogs env ctx) (\<lambda>_. io_ok []))"

section \<open>The repair\<close>

definition migrationRepairStatusFromJobInvocation :: "string \<Rightarrow> repair_status" where
  "migrationRepairStatusFromJobInvocation phase =
     (if phase = ''SUCCEEDED'' then MigrationRepairStatusSucceeded else MigrationRepairStatusFailed)"

definition findAppObjectByName :: "'w app_client \<Rightarrow> string \<Rightarrow> ('w, app option) io" where
  "findAppObjectByName client name =
     io_bind (io_wrap (\<lambda>e. Wrapf ''app platform list: %w'' [] (WrapGodoError e))
       (find_page (Apps_List client) (\<lambda>a. case a of None \<Rightarrow> False | Some x \<Rightarrow> map_option as_Name (app_Spec x) = Some name) 1)) (\<lambda>r.
     case r of Some a \<Rightarrow> io_ok a | None \<Rightarrow> io_err (Wrapf ''app %q: %w'' [FStr name] (Sentinel ErrResourceNotFound)))"

definition prepareRepairSpec ::
  "(call_ctx \<Rightarrow> 'w app_client) \<Rightarrow> 'w repair_env \<Rightarrow> call_ctx \<Rightarrow> repair_request \<Rightarrow> string \<Rightarrow> ('w, string \<times> app_spec) io" where
  "prepareRepairSpec client env ctx req appID =
     io_bind (io_wrap (\<lambda>e. Wrapf ''app platform migration repair read live spec %q: %w'' [FStr (rq_AppResourceName req)] (WrapGodoError e))
       (Apps_Get (client ctx) appID)) (\<lambda>live.
     case Option.bind live app_Spec of
       None \<Rightarrow> io_err (Errorf ''app platform migration repair %q: live app spec missing'' [FStr (rq_AppResourceName req)])
     | Some repairSpec \<Rightarrow>
       io_bind (migrationRepairJobNameAbsentFromSpec (migrationRepairJobName env) repairSpec) (\<lambda>jobName.
       io_bind (io_res (migrationRepairJobSpec jobName req)) (\<lambda>job.
       io_ok (jobName, repairSpec\<lparr>as_Jobs := as_Jobs repairSpec @ [Some job]\<rparr>))))"

definition diagnosed :: "string \<Rightarrow> string \<Rightarrow> message \<Rightarrow> message \<Rightarrow> repair_result \<Rightarrow> repair_result" where
  "diagnosed i phase cause detail res =
     res\<lparr>rr_Diagnostics := rr_Diagnostics res @ [\<lparr>rd_ID = i, rd_Phase = phase, rd_Cause = cause, rd_Detail = detail\<rparr>]\<rparr>"

definition restore_failed :: "string \<Rightarrow> message \<Rightarrow> repair_result \<Rightarrow> repair_result" where
  "restore_failed cause detail res = diagnosed [] ''restore'' (Text cause) detail (res\<lparr>rr_Status := MigrationRepairStatusFailed\<rparr>)"

text \<open>The result and the error of a Go function that returns both.\<close>

type_synonym repair_answer = "repair_result option \<times> go_error option"

definition restoreSpec :: "(call_ctx \<Rightarrow> 'w app_client) \<Rightarrow> repair_request \<Rightarrow> string \<Rightarrow> string \<Rightarrow> repair_result \<Rightarrow> ('w, repair_result \<times> go_error option) io" where
  "restoreSpec client req appID jobName res =
     (let ctx = Detached (seconds 120); nm = FStr (rq_AppResourceName req) in
      io_handle (Apps_Get (client ctx) appID)
        (\<lambda>live. case Option.bind live app_Spec of
           None \<Rightarrow> io_ok (restore_failed ''live app spec missing'' (Text []) res,
                    Some (Errorf ''app platform migration repair restore %q: live app spec missing'' [nm]))
         | Some spec \<Rightarrow>
             let jobs = withoutMigrationRepairJobName (as_Jobs spec) jobName in
             if length jobs = length (as_Jobs spec)
             then io_ok (diagnosed [] ''restore'' (Text ''generated repair job already absent from live spec'') (Text []) res, None)
             else io_handle (Apps_Update (client ctx) appID (spec\<lparr>as_Jobs := jobs\<rparr>))
                    (\<lambda>_. io_ok (res, None))
                    (\<lambda>e. io_ok (restore_failed ''restore app spec failed'' (ErrorText e) res,
                       Some (Wrapf ''app platform migration repair restore %q: %w'' [nm] (WrapGodoError e)))))
        (\<lambda>e. io_ok (restore_failed ''read live app spec failed'' (ErrorText e) res,
           Some (Wrapf ''app platform migration repair restore read %q: %w'' [nm] (WrapGodoError e)))))"

text \<open>At most three updates; only a clash of the generated name is tried again, with another name.\<close>

fun update_attempts ::
  "nat \<Rightarrow> (call_ctx \<Rightarrow> 'w app_client) \<Rightarrow> 'w repair_env \<Rightarrow> call_ctx \<Rightarrow> repair_request \<Rightarrow> string \<Rightarrow> string \<Rightarrow> app_spec
    \<Rightarrow> ('w, string \<times> go_error option) io" where
  "update_attempts n client env ctx req appID jobName spec =
     io_handle (Apps_Update (client ctx) appID spec) (\<lambda>_. io_ok (jobName, None))
       (\<lambda>e. if \<not> isMigrationRepairComponentNameConflict e then io_ok (jobName, Some e)
            else case n of
              0 \<Rightarrow> io_ok (jobName, Some e)
            | Suc m \<Rightarrow> io_bind (prepareRepairSpec client env ctx req appID) (\<lambda>(name, spec').
                update_attempts m client env ctx req appID name spec'))"

declare update_attempts.simps [simp del]

text \<open>What happens when no update was accepted: a clash of names left the spec as it was.\<close>

definition update_failed ::
  "(call_ctx \<Rightarrow> 'w app_client) \<Rightarrow> repair_request \<Rightarrow> string \<Rightarrow> string \<Rightarrow> go_error \<Rightarrow> ('w, repair_result \<times> go_error option) io" where
  "update_failed client req appID jobName e =
     (let nm = FStr (rq_AppResourceName req);
          res = \<lparr>rr_Status = MigrationRepairStatusFailed, rr_ProviderJobID = [], rr_Diagnostics =
            [\<lparr>rd_ID = [], rd_Phase = ''update'', rd_Cause = Text ''temporary repair job update failed'', rd_Detail = ErrorText e\<rparr>], rr_Logs = []\<rparr>
      in if isMigrationRepairComponentNameConflict e
         then io_ok (res, Some (Wrapf ''app platform migration repair update %q after component name retries: %w'' [nm] (WrapGodoError e)))
         else io_bind (restoreSpec client req appID jobName res) (\<lambda>(restored, err).
              io_ok (restored, case err of Some x \<Rightarrow> Some x
                | None \<Rightarrow> Some (Wrapf ''app platform migration repair update %q: %w'' [nm] (WrapGodoError e)))))"

definition waiting_result :: repair_result where
  "waiting_result = \<lparr>rr_Status = MigrationRepairStatusFailed, rr_ProviderJobID = [], rr_Diagnostics =
     [\<lparr>rd_ID = [], rd_Phase = ''job_invocation'', rd_Cause = Text ''waiting for migration repair job invocation'', rd_Detail = Text []\<rparr>], rr_Logs = []\<rparr>"

definition cancelInvocation :: "'w invocation_client \<Rightarrow> string \<Rightarrow> string \<Rightarrow> string \<Rightarrow> repair_result \<Rightarrow> ('w, repair_result) io" where
  "cancelInvocation jobs appID i jobName res =
     io_handle (Jobs_CancelJobInvocation jobs (Detached (seconds 30)) appID i jobName)
       (\<lambda>_. io_ok (diagnosed i ''cancel'' (Text ''job invocation cancellation requested'') (Text []) res))
       (\<lambda>e. io_ok (diagnosed i ''cancel'' (Text ''cancel job invocation failed'') (ErrorText e) res))"

text \<open>The id of the invocation, if one was seen and it has an id.\<close>

definition invocation_id :: "job_invocation option \<Rightarrow> string" where
  "invocation_id i = (case i of None \<Rightarrow> [] | Some ivc \<Rightarrow> ji_ID ivc)"

definition wait_failed ::
  "(call_ctx \<Rightarrow> 'w app_client) \<Rightarrow> 'w invocation_client \<Rightarrow> 'w repair_env \<Rightarrow> repair_request \<Rightarrow> string \<Rightarrow> string
    \<Rightarrow> job_invocation option \<Rightarrow> go_error \<Rightarrow> ('w, repair_result \<times> go_error option) io" where
  "wait_failed client jobs env req appID jobName seen e =
     (let i = invocation_id seen; res = diagnosed [] ''job_invocation'' (ErrorText e) (Text []) waiting_result in
      io_bind (if i = [] then io_ok res else cancelInvocation jobs appID i jobName (res\<lparr>rr_ProviderJobID := i\<rparr>)) (\<lambda>res.
      io_bind (restoreSpec client req appID jobName res) (\<lambda>(restored, err). case err of
        Some x \<Rightarrow> io_ok (restored, Some x)
      | None \<Rightarrow> if i = [] then io_ok (restored, Some e)
          else io_bind (fetchMigrationRepairInvocationLogs env jobs appID i jobName) (\<lambda>logs.
               io_ok (restored\<lparr>rr_Logs := logs\<rparr>, Some e)))))"

definition job_ended ::
  "(call_ctx \<Rightarrow> 'w app_client) \<Rightarrow> 'w invocation_client \<Rightarrow> 'w repair_env \<Rightarrow> repair_request \<Rightarrow> string \<Rightarrow> string
    \<Rightarrow> job_invocation \<Rightarrow> ('w, repair_result \<times> go_error option) io" where
  "job_ended client jobs env req appID jobName ivc =
     (let res = diagnosed (ji_DeploymentID ivc) (ji_Phase ivc) (Format ''job %s'' [FStr (ji_JobName ivc)])
            (Format ''app_id=%s deployment_id=%s job_invocation_id=%s job_name=%s phase=%s''
               [FStr appID, FStr (ji_DeploymentID ivc), FStr (ji_ID ivc), FStr (ji_JobName ivc), FStr (ji_Phase ivc)])
            (waiting_result\<lparr>rr_ProviderJobID := ji_ID ivc, rr_Status := migrationRepairStatusFromJobInvocation (ji_Phase ivc)\<rparr>)
      in io_bind (restoreSpec client req appID jobName res) (\<lambda>(restored, err). case err of
           Some x \<Rightarrow> io_ok (restored, Some x)
         | None \<Rightarrow> io_bind (fetchMigrationRepairInvocationLogs env jobs appID (ji_ID ivc) jobName) (\<lambda>logs.
                    io_ok (restored\<lparr>rr_Logs := logs\<rparr>, None))))"

text \<open>An answer without a result is the error alone.\<close>

definition run_repair ::
  "(call_ctx \<Rightarrow> 'w app_client) \<Rightarrow> 'w invocation_client \<Rightarrow> 'w repair_env \<Rightarrow> call_ctx \<Rightarrow> repair_request \<Rightarrow> string
    \<Rightarrow> ('w, repair_result \<times> go_error option) io" where
  "run_repair client jobs env ctx req appID =
     io_bind (preflightMigrationRepairJobInvocations ctx jobs appID) (\<lambda>_.
     io_bind (prepareRepairSpec client env ctx req appID) (\<lambda>(name, spec).
     io_bind (update_attempts 2 client env ctx req appID name spec) (\<lambda>(jobName, failed). case failed of
       Some e \<Rightarrow> update_failed client req appID jobName e
     | None \<Rightarrow>
       io_bind (waitForMigrationRepairInvocation env ctx jobs appID jobName (seconds (rq_TimeoutSeconds req))) (\<lambda>(found, err).
       case err of
         Some e \<Rightarrow> wait_failed client jobs env req appID jobName found e
       | None \<Rightarrow> io_deref found (job_ended client jobs env req appID jobName)))))"

definition RepairDirtyMigration ::
  "(call_ctx \<Rightarrow> 'w app_client) \<Rightarrow> 'w invocation_client option \<Rightarrow> 'w repair_env \<Rightarrow> repair_request \<Rightarrow> ('w, repair_result \<times> go_error option) io" where
  "RepairDirtyMigration client invocations env req =
     (case re_Validate env req of Some e \<Rightarrow> io_err e
      | None \<Rightarrow>
        let ctx = Bounded (if rq_TimeoutSeconds req > 0 then seconds (rq_TimeoutSeconds req) else defaultMigrationRepairTimeout) in
        case invocations of
          None \<Rightarrow> io_err (GrpcStatus Unimplemented ''app platform migration repair: client does not support job invocation APIs'' [])
        | Some jobs \<Rightarrow>
          io_bind (findAppObjectByName (client ctx) (rq_AppResourceName req)) (\<lambda>a. case a of
            Some x \<Rightarrow> if app_ID x = [] \<or> app_Spec x = None
              then io_err (Errorf ''app platform migration repair %q: app is missing ID or spec'' [FStr (rq_AppResourceName req)])
              else run_repair client jobs env ctx req (app_ID x)
          | None \<Rightarrow> io_err (Errorf ''app platform migration repair %q: app is missing ID or spec'' [FStr (rq_AppResourceName req)])))"

end
