(* ===== verification/RepairSafe.thy ===== *)
theory RepairSafe
  imports MigrationRepair
begin

text \<open>
  What a repair leaves behind: the specs of the apps as they were, or an error that says that the
  temporary job could not be taken out. And it always returns.
\<close>

section \<open>Total correctness\<close>

text \<open>\<open>does m Q w\<close>: the operation returns from \<open>w\<close>, with \<open>Q\<close>. The equations go down to the calls it makes.\<close>

definition does :: "('w, 'a) io \<Rightarrow> ('a res \<Rightarrow> 'w \<Rightarrow> bool) \<Rightarrow> 'w \<Rightarrow> bool" where
  "does m Q w = (case m w of None \<Rightarrow> False | Some (r, w') \<Rightarrow> Q r w')"

lemma does_handle: "does (io_handle m f g) Q w =
    does m (\<lambda>r w'. case r of Ok x \<Rightarrow> does (f x) Q w' | Err e \<Rightarrow> does (g e) Q w' | Panic p \<Rightarrow> Q (Panic p) w') w"
  by (auto simp: does_def io_handle_def split: option.splits prod.splits res.splits)

lemma does_bind: "does (io_bind m f) Q w =
    does m (\<lambda>r w'. case r of Ok x \<Rightarrow> does (f x) Q w' | Err e \<Rightarrow> Q (Err e) w' | Panic p \<Rightarrow> Q (Panic p) w') w"
  by (auto simp: does_def io_bind_def split: option.splits prod.splits res.splits)

lemma does_wrap: "does (io_wrap g m) Q w = does m (\<lambda>r. Q (res_wrap g r)) w"
  by (auto simp: does_def io_simps split: option.splits prod.splits res.splits)

lemma does_basic: "does (io_ok v) Q w = Q (Ok v) w" "does (io_err e) Q w = Q (Err e) w" "does (io_res r) Q w = Q r w"
  "does (io_ask q) Q w = Q (Ok (q w)) w"
  by (simp_all add: does_def io_simps)

lemma does_api: "does (on_api m) Q (w, s) = does m (\<lambda>r w'. Q r (w', s)) w"
  by (auto simp: does_def on_api_def split: option.splits prod.splits)

lemma does_get_state: "does get_state Q (w, s) = Q (Ok s) (w, s)"
  by (simp add: does_def get_state_def)

lemma does_set_state: "does (set_state t) Q (w, s) = Q (Ok ()) (w, t)"
  by (simp add: does_def set_state_def)

lemmas does_state = does_api does_get_state does_set_state

lemma does_run_with: "does (run_with s m) Q w = does m (\<lambda>r (w', _). Q r w') (w, s)"
  by (auto simp: does_def run_with_def split: option.splits prod.splits)

lemmas does_simps = does_handle does_bind does_wrap does_basic does_state does_run_with

lemma does_mono: "does m Q w \<Longrightarrow> (\<And>r w'. Q r w' \<Longrightarrow> R r w') \<Longrightarrow> does m R w"
  by (auto simp: does_def split: option.splits prod.splits)

lemma does_conj: "does m Q w \<Longrightarrow> does m R w \<Longrightarrow> does m (\<lambda>r w'. Q r w' \<and> R r w') w"
  by (auto simp: does_def split: option.splits prod.splits)

lemma does_bindI:
  assumes "does m R w" and "\<And>x w'. R (Ok x) w' \<Longrightarrow> does (f x) Q w'" and "\<And>e w'. R (Err e) w' \<Longrightarrow> Q (Err e) w'"
    and "\<And>p w'. R (Panic p) w' \<Longrightarrow> Q (Panic p) w'"
  shows "does (io_bind m f) Q w"
  unfolding does_bind by (rule does_mono [OF assms(1)]) (use assms(2-4) in \<open>auto split: res.split\<close>)

lemma does_handleI:
  assumes "does m R w" and "\<And>x w'. R (Ok x) w' \<Longrightarrow> does (f x) Q w'" and "\<And>e w'. R (Err e) w' \<Longrightarrow> does (g e) Q w'"
    and "\<And>p w'. R (Panic p) w' \<Longrightarrow> Q (Panic p) w'"
  shows "does (io_handle m f g) Q w"
  unfolding does_handle by (rule does_mono [OF assms(1)]) (use assms(2-4) in \<open>auto split: res.split\<close>)

text \<open>A loop whose steps go down in some measure.\<close>

lemma does_poll_loop:
  assumes "\<And>w. I w \<Longrightarrow> does step (\<lambda>r w'. if r = Ok None then I w' \<and> (m w' :: nat) < m w
      else Q (case r of Ok (Some x) \<Rightarrow> Ok x | Err e \<Rightarrow> Err e | Panic p \<Rightarrow> Panic p) w') w" and "I w"
  shows "does (poll_loop step) Q w"
  using assms(2)
proof (induction "m w" arbitrary: w rule: less_induct)
  case less
  obtain r w' where s: "step w = Some (r, w')" and q: "if r = Ok None then I w' \<and> m w' < m w
      else Q (case r of Ok (Some x) \<Rightarrow> Ok x | Err e \<Rightarrow> Err e | Panic p \<Rightarrow> Panic p) w'"
    using assms(1) [OF less.prems] by (auto simp: does_def split: option.splits prod.splits)
  show ?case
  proof (cases "r = Ok None")
    case True
    then have "does (poll_loop step) Q w'" using q less.hyps [of w'] by simp
    then show ?thesis using s True by (simp add: does_def poll_loop.simps [of step w])
  next
    case False
    then show ?thesis using s q by (auto simp: does_def poll_loop.simps [of step w] split: res.splits option.splits)
  qed
qed

section \<open>The apps and the jobs\<close>

lemma ParseImageRef_total: "ParseImageRef r \<noteq> Panic p"
  by (auto simp: ParseImageRef_def image_parts_def Let_def split: option.split)

lemma job_spec_total: "migrationRepairJobSpec name req \<noteq> Panic p" "migrationRepairJobSpec name req = Ok job \<Longrightarrow> job_Name job = name"
  using ParseImageRef_total [of "rq_JobImage req"] unfolding migrationRepairJobSpec_def
  by (cases "ParseImageRef (rq_JobImage req)"; auto)+

text \<open>The spec of the app with a job of that name added, where there was none.\<close>

definition with_job :: "app_spec \<Rightarrow> string \<Rightarrow> app_spec \<Rightarrow> bool" where
  "with_job spec name spec' = (\<not> named job_Name name (as_Jobs spec) \<and> (\<exists>job. job_Name job = name \<and> spec' = spec\<lparr>as_Jobs := as_Jobs spec @ [Some job]\<rparr>))"

lemma with_jobI: "\<not> appSpecHasComponentName spec name \<Longrightarrow> job_Name job = name \<Longrightarrow> with_job spec name (spec\<lparr>as_Jobs := as_Jobs spec @ [Some job]\<rparr>)"
  unfolding with_job_def appSpecHasComponentName_def by blast

text \<open>What an answer says that could not take the job out.\<close>

definition broken :: "repair_result \<Rightarrow> bool" where
  "broken res = (rr_Status res = MigrationRepairStatusFailed \<and> (\<exists>d \<in> set (rr_Diagnostics res). rd_Phase d = ''restore''
     \<and> rd_Cause d \<in> {Text ''read live app spec failed'', Text ''restore app spec failed''}))"

text \<open>
  The apps service as the driver may see it: reading an app changes nothing; an accepted update
  stores the spec; a refused update stores nothing when it says that a name clashes, and may have
  stored the spec or not when it says something else, a timeout for instance. Every call returns,
  nobody else writes to the apps, and a wait ticks a bounded number of times.
\<close>

definition stored :: "('w \<Rightarrow> string \<Rightarrow> app_spec option) \<Rightarrow> string \<Rightarrow> app_spec \<Rightarrow> 'w \<Rightarrow> 'w \<Rightarrow> bool" where
  "stored specs i s w w' = (specs w' = (specs w)(i \<mapsto> s))"

text \<open>Calls in a context the caller cannot cancel do not fail.\<close>

definition detached_calm :: "(call_ctx \<Rightarrow> 'w app_client) \<Rightarrow> ('w \<Rightarrow> string \<Rightarrow> app_spec option) \<Rightarrow> bool" where
  "detached_calm client specs = (\<forall>d i s w. specs w i \<noteq> None \<longrightarrow> does (Apps_Get (client (Detached d)) i) (\<lambda>r _. \<forall>e. r \<noteq> Err e) w
     \<and> does (Apps_Update (client (Detached d)) i s) (\<lambda>r _. \<forall>e. r \<noteq> Err e) w)"

text \<open>Returning without a panic, the specs as they were, and no tick more.\<close>

definition steady :: "('w \<Rightarrow> 'v) \<Rightarrow> ('w \<Rightarrow> nat) \<Rightarrow> ('w, 'a) io \<Rightarrow> bool" where
  "steady specs ticks m = (\<forall>w. does m (\<lambda>r w'. (\<forall>p. r \<noteq> Panic p) \<and> specs w' = specs w \<and> ticks w' \<le> ticks w) w)"

locale repair_world =
  fixes client :: "call_ctx \<Rightarrow> 'w app_client" and jobs :: "'w invocation_client" and env :: "'w repair_env"
    and specs :: "'w \<Rightarrow> string \<Rightarrow> app_spec option" and ticks :: "'w \<Rightarrow> nat"
  assumes get_law: "does (Apps_Get (client c) i) (\<lambda>r w'. (\<forall>p. r \<noteq> Panic p) \<and> specs w' = specs w \<and> ticks w' \<le> ticks w
        \<and> (\<forall>a. r = Ok a \<longrightarrow> Option.bind a app_Spec = specs w i)) w"
    and update_law: "specs w i \<noteq> None \<Longrightarrow> does (Apps_Update (client c) i s) (\<lambda>r w'. ticks w' \<le> ticks w \<and> (case r of
          Ok _ \<Rightarrow> stored specs i s w w'
        | Err e \<Rightarrow> specs w' = specs w \<or> \<not> isMigrationRepairComponentNameConflict e \<and> stored specs i s w w'
        | Panic p \<Rightarrow> False)) w"
    and list_law: "steady specs ticks (find_page (Apps_List (client c)) p 1)"
    and jobs_law: "steady specs ticks (Jobs_ListJobInvocations jobs c i names n page)"
      "steady specs ticks (collect_pages (Jobs_ListJobInvocations jobs c i names n) 1 [])"
      "steady specs ticks (Jobs_GetJobInvocationLogs jobs c i v name k)" "steady specs ticks (Jobs_CancelJobInvocation jobs c i v name)"
    and env_law: "steady specs ticks (re_Token env)" "steady specs ticks (re_Count env)" "steady specs ticks (re_Nano env)"
      "steady specs ticks (re_Fetch env c u)"
    and select_law: "does (re_Select env c dl n) (\<lambda>r w'. (\<exists>ev. r = Ok ev) \<and> specs w' = specs w \<and> ticks w' \<le> ticks w
        \<and> (r = Ok Tick \<longrightarrow> ticks w' < ticks w)) w"
begin

abbreviation kept :: "'w \<Rightarrow> 'a res \<Rightarrow> 'w \<Rightarrow> bool" where
  "kept w r w' \<equiv> (\<forall>p. r \<noteq> Panic p) \<and> specs w' = specs w \<and> ticks w' \<le> ticks w"

lemma steadyD:
  assumes "steady specs ticks m" and q: "\<And>r w'. kept w r w' \<Longrightarrow> Q r w'"
  shows "does m Q w"
proof -
  have "does m (kept w) w" using assms(1) by (simp only: steady_def)
  then show ?thesis by (rule does_mono) (rule q)
qed

lemma steady_handle:
  fixes m :: "('w, 'a) io"
  assumes m: "steady specs ticks m" and f: "\<And>x. steady specs ticks (f x)" and g: "\<And>e. steady specs ticks (g e)"
  shows "steady specs ticks (io_handle m f g)"
  unfolding steady_def
proof
  fix w
  have go: "does m' (kept w) w1" if "steady specs ticks m'" "specs w1 = specs w" "ticks w1 \<le> ticks w" for m' :: "('w, 'c) io" and w1
    using that by (intro steadyD [OF that(1)]) auto
  show "does (io_handle m f g) (kept w) w"
    unfolding does_handle
  proof (rule steadyD [OF m])
    fix r :: "'a res" and w' assume "kept w r w'"
    then show "case r of Ok x \<Rightarrow> does (f x) (kept w) w' | Err e \<Rightarrow> does (g e) (kept w) w' | Panic p \<Rightarrow> kept w (Panic p) w'"
      using go [OF f] go [OF g] by (cases r) auto
  qed
qed

lemma steady_basic [simp]: "steady specs ticks (io_ok x)" "steady specs ticks (io_err e)"
  by (simp_all add: steady_def does_basic)

lemma steady_bind: "steady specs ticks m \<Longrightarrow> (\<And>x. steady specs ticks (f x)) \<Longrightarrow> steady specs ticks (io_bind m f)"
proof -
  assume "steady specs ticks m" "\<And>x. steady specs ticks (f x)"
  moreover have "io_bind m f = io_handle m f io_err"
    by (auto simp: io_bind_def io_handle_def io_err_def fun_eq_iff split: option.split prod.split res.split)
  ultimately show ?thesis by (simp add: steady_handle)
qed

section \<open>Each step of a repair\<close>

lemma steady_preflight: "steady specs ticks (preflightMigrationRepairJobInvocations c jobs i)"
  unfolding preflightMigrationRepairJobInvocations_def by (auto intro!: steady_handle jobs_law)

lemma steady_name: "steady specs ticks (migrationRepairJobName env)"
  unfolding migrationRepairJobName_def by (auto intro!: steady_handle steady_bind env_law)

lemma job_name_fresh: "does (job_name_absent n (migrationRepairJobName env) spec)
    (\<lambda>r w'. kept w r w' \<and> (\<forall>name. r = Ok name \<longrightarrow> \<not> appSpecHasComponentName spec name)) w"
proof (induction n arbitrary: w)
  case (Suc n)
  show ?case unfolding job_name_absent.simps
    by (rule does_bindI [OF steadyD [OF steady_name]], assumption) (auto simp: does_basic intro!: does_mono [OF Suc.IH])
qed (simp add: does_basic)

definition prepared_as :: "'w \<Rightarrow> string \<Rightarrow> (string \<times> app_spec) res \<Rightarrow> 'w \<Rightarrow> bool" where
  "prepared_as w i r w' = (kept w r w' \<and> (\<forall>name spec'. r = Ok (name, spec') \<longrightarrow> (\<exists>spec. specs w i = Some spec \<and> with_job spec name spec')))"

lemma prepared: "does (prepareRepairSpec client env c req i) (prepared_as w i) w"
  unfolding prepareRepairSpec_def
proof (rule does_bindI)
  show "does (io_wrap (\<lambda>e. Wrapf ''app platform migration repair read live spec %q: %w'' [FStr (rq_AppResourceName req)] (WrapGodoError e))
      (Apps_Get (client c) i)) (\<lambda>r w'. kept w r w' \<and> (\<forall>a. r = Ok a \<longrightarrow> Option.bind a app_Spec = specs w i)) w"
    unfolding does_wrap by (rule does_mono [OF get_law]) (auto elim: res_wrap.elims)
  fix live w1
  assume g: "kept w (Ok live) w1 \<and> (\<forall>a. Ok live = Ok a \<longrightarrow> Option.bind a app_Spec = specs w i)"
  show "does (case Option.bind live app_Spec of
          None \<Rightarrow> io_err (Errorf ''app platform migration repair %q: live app spec missing'' [FStr (rq_AppResourceName req)])
        | Some spec \<Rightarrow> io_bind (migrationRepairJobNameAbsentFromSpec (migrationRepairJobName env) spec) (\<lambda>jobName.
            io_bind (io_res (migrationRepairJobSpec jobName req)) (\<lambda>job. io_ok (jobName, spec\<lparr>as_Jobs := as_Jobs spec @ [Some job]\<rparr>))))
      (prepared_as w i) w1"
  proof (cases "Option.bind live app_Spec")
    case (Some spec)
    have "does (io_bind (io_res (migrationRepairJobSpec n req)) (\<lambda>job. io_ok (n, spec\<lparr>as_Jobs := as_Jobs spec @ [Some job]\<rparr>)))
        (prepared_as w i) w2" if "kept w1 (Ok n) w2" "\<not> appSpecHasComponentName spec n" for n w2
    proof -
      have sp: "specs w i = Some spec" using g Some by simp
      show ?thesis using that g sp job_spec_total(1) with_jobI [OF that(2) job_spec_total(2)]
        by (cases "migrationRepairJobSpec n req") (auto simp: does_simps prepared_as_def)
    qed
    then show ?thesis unfolding Some option.case migrationRepairJobNameAbsentFromSpec_def
      by (rule does_bindI [OF job_name_fresh]) (use g in \<open>auto simp: prepared_as_def\<close>)
  qed (use g in \<open>simp add: does_basic prepared_as_def\<close>)
qed (auto simp: prepared_as_def)

text \<open>
  Between the first update and the restoration: the spec of the app is the one of the start, which
  has no job of the name, or has that job added; the other apps are as at the start.
\<close>

definition opened :: "'w \<Rightarrow> string \<Rightarrow> string \<Rightarrow> 'w \<Rightarrow> bool" where
  "opened w0 i name w = (\<exists>spec spec'. specs w0 i = Some spec \<and> with_job spec name spec' \<and> (specs w = specs w0 \<or> stored specs i spec' w0 w))"

definition attempted :: "'w \<Rightarrow> string \<Rightarrow> (string \<times> go_error option) res \<Rightarrow> 'w \<Rightarrow> bool" where
  "attempted w0 i r w = (case r of
     Ok (name, None) \<Rightarrow> opened w0 i name w
   | Ok (name, Some e) \<Rightarrow> (if isMigrationRepairComponentNameConflict e then specs w = specs w0 else opened w0 i name w)
   | Err e \<Rightarrow> specs w = specs w0
   | Panic p \<Rightarrow> False)"

lemma attempted_simps:
  "attempted w0 i (Ok (name, None)) w = opened w0 i name w"
  "attempted w0 i (Ok (name, Some e)) w = (if isMigrationRepairComponentNameConflict e then specs w = specs w0 else opened w0 i name w)"
  "attempted w0 i (Err e) w = (specs w = specs w0)" "attempted w0 i (Panic p) w = False"
  by (simp_all add: attempted_def)

lemma attempts:
  "specs w = specs w0 \<Longrightarrow> specs w0 i = Some spec \<Longrightarrow> with_job spec name spec'
   \<Longrightarrow> does (update_attempts n client env c req i name spec') (\<lambda>r w'. ticks w' \<le> ticks w \<and> attempted w0 i r w') w"
proof (induction n arbitrary: w name spec spec')
  case 0
  have "specs w i \<noteq> None" using 0 by simp
  then show ?case unfolding update_attempts.simps [of 0]
    by (rule does_handleI [OF update_law]) (use 0 in \<open>auto simp: does_basic attempted_simps opened_def stored_def split: nat.split\<close>)
next
  case (Suc n)
  have again: "does (io_bind (prepareRepairSpec client env c req i) (\<lambda>(name, spec'). update_attempts n client env c req i name spec'))
      (\<lambda>r w'. ticks w' \<le> ticks w \<and> attempted w0 i r w') w1" if w1: "specs w1 = specs w" "ticks w1 \<le> ticks w" for w1
  proof (rule does_bindI [OF prepared], goal_cases)
    case (1 x w2)
    obtain name2 spec2 where x: "x = (name2, spec2)" by (cases x)
    then obtain sp where sp: "specs w1 i = Some sp" "with_job sp name2 spec2" and k: "specs w2 = specs w1" "ticks w2 \<le> ticks w1"
      using 1 by (auto simp: prepared_as_def)
    have "does (update_attempts n client env c req i name2 spec2) (\<lambda>r w'. ticks w' \<le> ticks w2 \<and> attempted w0 i r w') w2"
      using Suc.IH [of w2 sp name2 spec2] Suc.prems(1) sp k w1 by simp
    then show ?case unfolding x prod.case using k w1 by (elim does_mono) auto
  qed (use that Suc.prems in \<open>auto simp: prepared_as_def attempted_simps\<close>)
  have "specs w i \<noteq> None" using Suc.prems by simp
  then show ?case unfolding update_attempts.simps [of "Suc n"]
    by (rule does_handleI [OF update_law]) (use Suc.prems again in \<open>auto simp: does_basic attempted_simps opened_def stored_def\<close>)
qed

section \<open>Taking the job out\<close>

abbreviation calm :: bool where
  "calm \<equiv> detached_calm client specs"

lemma calm_get: "calm \<Longrightarrow> specs w i \<noteq> None \<Longrightarrow> does (Apps_Get (client (Detached d)) i) (\<lambda>r _. \<forall>e. r \<noteq> Err e) w"
  and calm_update: "calm \<Longrightarrow> specs w i \<noteq> None \<Longrightarrow> does (Apps_Update (client (Detached d)) i s) (\<lambda>r _. \<forall>e. r \<noteq> Err e) w"
  unfolding detached_calm_def by blast+

definition restored_or :: "'w \<Rightarrow> repair_result \<times> go_error option \<Rightarrow> 'w \<Rightarrow> bool" where
  "restored_or w0 x w = (case x of (res, err) \<Rightarrow> (case err of None \<Rightarrow> specs w = specs w0 | Some _ \<Rightarrow> broken res \<and> \<not> calm))"

lemma without_added:
  assumes "with_job spec name spec'"
  shows "withoutMigrationRepairJobName (as_Jobs spec) name = as_Jobs spec"
    and "spec'\<lparr>as_Jobs := withoutMigrationRepairJobName (as_Jobs spec') name\<rparr> = spec"
    and "length (withoutMigrationRepairJobName (as_Jobs spec') name) \<noteq> length (as_Jobs spec')"
proof -
  obtain job where j: "\<not> named job_Name name (as_Jobs spec)" "job_Name job = name" "spec' = spec\<lparr>as_Jobs := as_Jobs spec @ [Some job]\<rparr>"
    using assms unfolding with_job_def by blast
  show w: "withoutMigrationRepairJobName (as_Jobs spec) name = as_Jobs spec"
    using j(1) by (auto simp: withoutMigrationRepairJobName_def named_def list_ex_iff filter_id_conv)
  have "withoutMigrationRepairJobName (as_Jobs spec') name = as_Jobs spec"
    using w j(2,3) by (simp add: withoutMigrationRepairJobName_def)
  then show "spec'\<lparr>as_Jobs := withoutMigrationRepairJobName (as_Jobs spec') name\<rparr> = spec"
    "length (withoutMigrationRepairJobName (as_Jobs spec') name) \<noteq> length (as_Jobs spec')"
    using j(3) by simp_all
qed

lemma broken_restore: "cause \<in> {''read live app spec failed'', ''restore app spec failed''} \<Longrightarrow> broken (restore_failed cause detail res)"
  by (auto simp: broken_def restore_failed_def diagnosed_def)

lemma restores:
  assumes "opened w0 i name w"
  shows "does (restoreSpec client req i name res) (\<lambda>r w'. ticks w' \<le> ticks w \<and> (\<exists>x. r = Ok x \<and> restored_or w0 x w')) w"
proof -
  obtain spec spec' where s: "specs w0 i = Some spec" "with_job spec name spec'" and w: "specs w = specs w0 \<or> stored specs i spec' w0 w"
    using assms unfolding opened_def by blast
  have some: "specs w i \<noteq> None" using w s(1) by (auto simp: stored_def)
  have got: "does (Apps_Get (client (Detached (seconds 120))) i) (\<lambda>r w'. kept w r w' \<and> (\<forall>a. r = Ok a \<longrightarrow> Option.bind a app_Spec = specs w i)
      \<and> (\<forall>e. r = Err e \<longrightarrow> \<not> calm)) w"
    using does_mono [OF get_law] does_mono [OF does_conj [OF get_law calm_get [OF _ some]]] by (cases calm) simp_all
  show ?thesis unfolding restoreSpec_def Let_def
  proof (rule does_handleI [OF got], goal_cases)
    case (1 live w1)
    have sp: "Option.bind live app_Spec = specs w i" and k: "specs w1 = specs w" "ticks w1 \<le> ticks w" using 1 by auto
    have put: "does (Apps_Update (client (Detached (seconds 120))) i sp) (\<lambda>r w'. ticks w' \<le> ticks w1 \<and> (case r of
          Ok _ \<Rightarrow> specs w' = (specs w1)(i \<mapsto> sp) | Err e \<Rightarrow> \<not> calm | Panic p \<Rightarrow> False)) w1" for sp
    proof -
      have some1: "specs w1 i \<noteq> None" using some k by simp
      show ?thesis
      proof (cases calm)
        case True
        show ?thesis by (rule does_mono [OF does_conj [OF update_law [OF some1] calm_update [OF True some1]]]) (auto simp: stored_def split: res.splits)
      next
        case False
        show ?thesis by (rule does_mono [OF update_law [OF some1]]) (use False in \<open>auto simp: stored_def split: res.splits\<close>)
      qed
    qed
    show ?case
    proof (cases "specs w = specs w0")
      case True
      then have "Option.bind live app_Spec = Some spec" using sp s(1) by simp
      then show ?thesis using without_added(1) [OF s(2)] True k by (simp add: does_basic restored_or_def)
    next
      case False
      then have st: "specs w = (specs w0)(i \<mapsto> spec')" using w by (simp add: stored_def)
      then have l: "Option.bind live app_Spec = Some spec'" using sp by simp
      show ?thesis unfolding l option.case if_not_P [OF without_added(3) [OF s(2)]] without_added(2) [OF s(2)]
        by (rule does_handleI [OF put]) (use k st s(1) broken_restore in \<open>auto simp: does_basic restored_or_def fun_upd_idem_iff\<close>)
    qed
  next
    case (2 e w1)
    then show ?case using broken_restore by (auto simp: does_basic restored_or_def)
  qed simp
qed

section \<open>Waiting, and the logs\<close>

definition stepped :: "'w \<Rightarrow> found_invocation option res \<Rightarrow> 'w \<times> job_invocation option \<Rightarrow> bool" where
  "stepped w r x = (specs (fst x) = specs w \<and> (case r of
     Ok None \<Rightarrow> ticks (fst x) < ticks w | Ok (Some (found, err)) \<Rightarrow> err = None \<longrightarrow> found \<noteq> None | _ \<Rightarrow> False))"

lemma wait_stepped: "does (wait_step env c jobs i name dl) (stepped w) (w, seen)"
proof -
  have list: "does (on_api (listMigrationRepairInvocations c jobs i name)) (\<lambda>r x. kept w r (fst x) \<and> snd x = seen) (w, seen)"
    unfolding does_state listMigrationRepairInvocations_def by (rule steadyD [OF jobs_law(2)]) simp
  have select: "does (on_api (re_Select env c dl n)) (\<lambda>r x. (\<exists>ev. r = Ok ev) \<and> kept w1 r (fst x) \<and> (r = Ok Tick \<longrightarrow> ticks (fst x) < ticks w1)) (w1, s)" for n w1 s
    unfolding does_state by (rule does_mono [OF select_law]) auto
  show ?thesis unfolding wait_step_def
  proof (rule does_bindI [where R = "\<lambda>r x. r = Ok seen \<and> x = (w, seen)"], goal_cases)
    case (2 x w')
    then have x: "x = seen" "w' = (w, seen)" by auto
    show ?case unfolding x
    proof (rule does_handleI [OF list], goal_cases)
      case (1 invs y)
      obtain w1 where y: "y = (w1, seen)" and k: "specs w1 = specs w" "ticks w1 \<le> ticks w" using 1 by (cases y) auto
      obtain found s where sc: "scan_invocations name seen invs = (found, s)" by (cases "scan_invocations name seen invs")
      show ?case unfolding sc prod.case y
      proof (cases found)
        case None
        have "does (io_bind (on_api (re_Select env c dl migrationRepairPollInterval)) (\<lambda>ev. case ev of
              CtxDone e \<Rightarrow> io_ok (Some (s, Some (if e = CtxDeadlineExceeded then timed_out name else e)))
            | DeadlineHit \<Rightarrow> io_ok (Some (s, Some (timed_out name))) | Tick \<Rightarrow> io_ok None)) (stepped w) (w1, s)"
          by (rule does_bindI [OF select]) (use k in \<open>auto simp: does_basic stepped_def split: wait_event.split\<close>)
        then show "does (case found of None \<Rightarrow> io_bind (set_state s) (\<lambda>_.
            io_bind (on_api (re_Select env c dl migrationRepairPollInterval)) (\<lambda>ev. case ev of
              CtxDone e \<Rightarrow> io_ok (Some (s, Some (if e = CtxDeadlineExceeded then timed_out name else e)))
            | DeadlineHit \<Rightarrow> io_ok (Some (s, Some (timed_out name))) | Tick \<Rightarrow> io_ok None))
            | Some ivc \<Rightarrow> io_ok (Some (Some ivc, None))) (stepped w) (w1, seen)"
          unfolding None option.case does_bind [of "set_state s"] does_state by simp
      qed (use k in \<open>simp add: does_basic stepped_def\<close>)
    qed (auto simp: does_basic stepped_def)
  qed (auto simp: does_state)
qed

lemma waited:
  "does (waitForMigrationRepairInvocation env c jobs i name timeout)
     (\<lambda>r w'. specs w' = specs w \<and> (\<exists>found err. r = Ok (found, err) \<and> (err = None \<longrightarrow> found \<noteq> None))) w"
proof -
  let ?good = "\<lambda>r x. specs (fst x) = specs w \<and> (\<exists>found err. r = Ok (found :: job_invocation option, err :: go_error option) \<and> (err = None \<longrightarrow> found \<noteq> None))"
  have "does (poll_loop (wait_step env c jobs i name dl)) ?good (w, None)" for dl
  proof (rule does_poll_loop [where I = "\<lambda>x. specs (fst x) = specs w" and m = "ticks \<circ> fst"])
    fix x :: "'w \<times> job_invocation option"
    assume x: "specs (fst x) = specs w"
    show "does (wait_step env c jobs i name dl) (\<lambda>r y. if r = Ok None then specs (fst y) = specs w \<and> (ticks \<circ> fst) y < (ticks \<circ> fst) x
        else ?good (case r of Ok (Some x) \<Rightarrow> Ok x | Err e \<Rightarrow> Err e | Panic p \<Rightarrow> Panic p) y) x"
      using x by (cases x) (auto intro!: does_mono [OF wait_stepped] simp: stepped_def split: res.splits option.splits)
  qed simp
  then show ?thesis unfolding waitForMigrationRepairInvocation_def
    by (simp add: does_simps case_prod_unfold)
qed

lemma steady_fetch: "steady specs ticks (fetchMigrationRepairLogURL env c u)"
  unfolding fetchMigrationRepairLogURL_def by (auto intro!: steady_handle env_law simp: Let_def split: res.split)

lemma steady_logs: "steady specs ticks (fetchMigrationRepairInvocationLogs env jobs i v name)"
proof -
  have all: "steady specs ticks (fetch_all env c us)" for c us
    by (induction us) (auto intro!: steady_bind steady_fetch)
  show ?thesis unfolding fetchMigrationRepairInvocationLogs_def formatAppLogs_def Let_def
    by (auto intro!: steady_handle steady_bind jobs_law all steady_fetch split: option.split)
qed

section \<open>The repair\<close>

definition mended :: "'w \<Rightarrow> (repair_result \<times> go_error option) res \<Rightarrow> 'w \<Rightarrow> bool" where
  "mended w0 r w = ((\<forall>p. r \<noteq> Panic p) \<and> (specs w = specs w0 \<or> \<not> calm \<and> (\<exists>res e. r = Ok (res, Some e) \<and> broken res)))"

lemma mended_kept: "specs w = specs w0 \<Longrightarrow> \<forall>p. r \<noteq> Panic p \<Longrightarrow> mended w0 r w"
  by (simp add: mended_def)

lemma mended_broken: "restored_or w0 (res, Some e) w \<Longrightarrow> mended w0 (Ok (res, Some e)) w"
  by (simp add: mended_def restored_or_def)

lemma logs_mended: "specs w = specs w0 \<Longrightarrow>
    does (io_bind (fetchMigrationRepairInvocationLogs env jobs i v name) (\<lambda>logs. io_ok (res\<lparr>rr_Logs := logs\<rparr>, err))) (mended w0) w"
  by (rule does_bindI [OF steadyD [OF steady_logs]], assumption) (auto simp: does_basic mended_def)

lemma failed_mended:
  assumes "attempted w0 i (Ok (name, Some e)) w"
  shows "does (update_failed client req i name e) (mended w0) w"
proof (cases "isMigrationRepairComponentNameConflict e")
  case True
  then show ?thesis using assms by (simp add: update_failed_def Let_def does_basic attempted_simps mended_def)
next
  case False
  then have o: "opened w0 i name w" using assms by (simp add: attempted_simps)
  show ?thesis unfolding update_failed_def Let_def if_not_P [OF False]
    by (rule does_bindI [OF restores [OF o]])
       (auto simp: does_basic restored_or_def mended_def split: option.splits)
qed

lemma restored_then:
  assumes o: "opened w0 i name w" and k: "\<And>res w'. specs w' = specs w0 \<Longrightarrow> does (k res) (mended w0) w'"
  shows "does (io_bind (restoreSpec client req i name res) (\<lambda>(restored, err). case err of Some x \<Rightarrow> io_ok (restored, Some x) | None \<Rightarrow> k restored)) (mended w0) w"
  by (rule does_bindI [OF restores [OF o]])
     (auto simp: does_basic restored_or_def intro: k mended_broken [unfolded restored_or_def prod.case option.case] split: option.splits)

lemma opened_specs: "opened w0 i name w \<Longrightarrow> specs w' = specs w \<Longrightarrow> opened w0 i name w'"
  by (simp add: opened_def stored_def)

lemma unwaited_mended:
  assumes o: "opened w0 i name w"
  shows "does (wait_failed client jobs env req i name seen e) (mended w0) w"
proof -
  have cancel: "does (if j = [] then io_ok r else cancelInvocation jobs i j name r') (\<lambda>r w'. (\<exists>x. r = Ok x) \<and> specs w' = specs w) w" for j r r'
  proof (cases "j = []")
    case False
    show ?thesis unfolding if_not_P [OF False] cancelInvocation_def
      by (rule does_handleI [OF steadyD [OF jobs_law(4)]], assumption) (auto simp: does_basic)
  qed (simp add: does_basic)
  have after: "does (if j = [] then io_ok (r, Some e) else
      io_bind (fetchMigrationRepairInvocationLogs env jobs i j name) (\<lambda>logs. io_ok (r\<lparr>rr_Logs := logs\<rparr>, Some e))) (mended w0) w'"
    if "specs w' = specs w0" for j r w'
    using that logs_mended [OF that] by (simp add: does_basic mended_def)
  show ?thesis unfolding wait_failed_def Let_def
    by (rule does_bindI [OF cancel])
       (auto intro!: restored_then after opened_specs [OF o] simp: mended_def)
qed

lemma ended_mended: "opened w0 i name w \<Longrightarrow> does (job_ended client jobs env req i name ivc) (mended w0) w"
  unfolding job_ended_def Let_def by (intro restored_then logs_mended)

lemma run_mended: "does (run_repair client jobs env c req i) (mended w) w"
  unfolding run_repair_def
proof (rule does_bindI [OF steadyD [OF steady_preflight]], assumption, goal_cases)
  case (1 u w1)
  show ?case
  proof (rule does_bindI [OF prepared], goal_cases)
    case (1 x w2)
    obtain name spec' where x: "x = (name, spec')" by (cases x)
    obtain spec where s: "specs w i = Some spec" "with_job spec name spec'" and w2: "specs w2 = specs w"
      using 1 \<open>kept w (Ok u) w1\<close> by (auto simp: prepared_as_def x)
    show ?case unfolding x prod.case
    proof (rule does_bindI [OF attempts [OF w2 s]], goal_cases)
      case (1 y w3)
      obtain n failed where y: "y = (n, failed)" by (cases y)
      show ?case
      proof (cases failed)
        case (Some e)
        then show ?thesis using 1 failed_mended by (simp add: y)
      next
        case None
        then have o: "opened w i n w3" using 1 by (simp add: y attempted_simps)
        have found: "does (case z of (found, err) \<Rightarrow> case err of None \<Rightarrow> io_deref found (job_ended client jobs env req i n)
            | Some e \<Rightarrow> wait_failed client jobs env req i n found e) (mended w) w4"
          if "specs w4 = specs w3" "snd z = None \<longrightarrow> fst z \<noteq> None" for z w4
          using that unwaited_mended [OF opened_specs [OF o]] ended_mended [OF opened_specs [OF o]]
          by (cases z) (auto split: option.split)
        show ?thesis unfolding y None prod.case option.case
        proof (rule does_bindI [OF waited], goal_cases)
          case (1 z w4)
          show ?case by (rule found) (use 1 in auto)
        qed auto
      qed
    qed (auto simp: attempted_simps mended_def)
  qed (use 1 in \<open>auto simp: prepared_as_def mended_def\<close>)
qed (auto simp: mended_def)

lemma repair_mended: "does (RepairDirtyMigration client (Some jobs) env req) (mended w) w"
proof -
  have found: "steady specs ticks (findAppObjectByName (client c) name)" for c name
  proof -
    have "steady specs ticks (io_wrap g (find_page (Apps_List (client c)) p 1))" for g p
      unfolding io_wrap_def by (intro steady_handle list_law steady_basic)
    then show ?thesis unfolding findAppObjectByName_def by (intro steady_bind) (auto split: option.split)
  qed
  have run: "does (run_repair client jobs env c req i) (mended w) w'" if "specs w' = specs w" for c i w'
  proof -
    have "mended w' = mended w" using that by (simp add: mended_def fun_eq_iff)
    then show ?thesis using run_mended [of c req i w'] by simp
  qed
  have found_app: "does (io_bind (findAppObjectByName (client c) name) (\<lambda>a. case a of
        Some x \<Rightarrow> if app_ID x = [] \<or> app_Spec x = None then io_err e else run_repair client jobs env c req (app_ID x)
      | None \<Rightarrow> io_err e)) (mended w) w" for c name e
    by (rule does_bindI [OF steadyD [OF found]], assumption) (auto simp: does_basic intro: run mended_kept split: option.split)
  show ?thesis
  proof (cases "re_Validate env req")
    case None
    show ?thesis unfolding RepairDirtyMigration_def Let_def None option.case by (rule found_app)
  qed (simp add: RepairDirtyMigration_def does_basic mended_kept)
qed

end

section \<open>An app in memory\<close>

text \<open>
  One app. The job runs until the timer has ticked \<open>rm_ticks\<close> times. Updates within the request are
  stored, but their answer is lost when \<open>rm_lossy\<close>.
\<close>

record repair_mem =
  rm_spec :: "app_spec option"
  rm_ticks :: nat
  rm_lossy :: bool
  rm_log :: "app_spec list"

definition rm_specs :: "repair_mem \<Rightarrow> string \<Rightarrow> app_spec option" where
  "rm_specs w i = (if i = ''a1'' then rm_spec w else None)"

definition rm_app :: "repair_mem \<Rightarrow> app option" where
  "rm_app w = map_option (\<lambda>sp. (fresh_app ''a1'' sp)) (rm_spec w)"

definition rm_client :: "call_ctx \<Rightarrow> repair_mem app_client" where
  "rm_client c = \<lparr>
     Apps_Create = (\<lambda>_ w. Some (Err (Opaque ''no''), w)),
     Apps_Get = (\<lambda>i w. Some (Ok (if i = ''a1'' then rm_app w else None), w)),
     Apps_List = page_lister (\<lambda>w. [[rm_app w]]),
     Apps_Update = (\<lambda>i spec w. if rm_specs w i = None then Some (Err (GodoError (Some 404) ''not found''), w)
        else let w' = w\<lparr>rm_spec := Some spec, rm_log := rm_log w @ [spec]\<rparr>
             in Some (if rm_lossy w \<and> (case c of Bounded d \<Rightarrow> True | Detached d \<Rightarrow> False) then Err CtxDeadlineExceeded else Ok None, w')),
     Apps_CreateDeployment = (\<lambda>_ w. Some (Err (Opaque ''no''), w)),
     Apps_ListDeployments = (\<lambda>_ _ w. Some (Ok [], w)),
     Apps_Delete = (\<lambda>_ w. Some (Err (Opaque ''no''), w)),
     Apps_GetLogs = (\<lambda>_ _ _ _ _ w. Some (Ok None, w))\<rparr>"

definition rm_invocations :: "string list \<Rightarrow> repair_mem \<Rightarrow> job_invocation option list" where
  "rm_invocations names w = map (\<lambda>n. Some \<lparr>ji_ID = ''inv'', ji_JobName = n, ji_DeploymentID = ''dep'',
     ji_Phase = (if rm_ticks w = 0 then ''SUCCEEDED'' else ''RUNNING'')\<rparr>) names"

definition rm_jobs :: "repair_mem invocation_client" where
  "rm_jobs = \<lparr>
     Jobs_ListJobInvocations = (\<lambda>_ _ names _. page_lister (\<lambda>w. [rm_invocations names w])),
     Jobs_GetJobInvocationLogs = (\<lambda>_ _ _ _ _ w. Some (Ok None, w)),
     Jobs_CancelJobInvocation = (\<lambda>_ _ _ _ w. Some (Ok (), w))\<rparr>"

definition rm_env :: "repair_mem repair_env" where
  "rm_env = \<lparr>re_Validate = (\<lambda>_. None), re_Token = (\<lambda>w. Some (Ok [1, 2, 3, 4, 5, 255], w)), re_Count = (\<lambda>w. Some (Ok 1, w)),
     re_Nano = (\<lambda>w. Some (Ok 0, w)), re_Now = (\<lambda>_. 0),
     re_Select = (\<lambda>_ _ _ w. if rm_ticks w = 0 then Some (Ok DeadlineHit, w) else Some (Ok Tick, w\<lparr>rm_ticks := rm_ticks w - 1\<rparr>)),
     re_Fetch = (\<lambda>_ _ w. Some (Ok (404, Ok []), w))\<rparr>"

interpretation rm_repair: repair_world rm_client rm_jobs rm_env rm_specs rm_ticks
proof
  fix c i w
  show "does (Apps_Get (rm_client c) i) (\<lambda>r w'. (\<forall>p. r \<noteq> Panic p) \<and> rm_specs w' = rm_specs w \<and> rm_ticks w' \<le> rm_ticks w
      \<and> (\<forall>a. r = Ok a \<longrightarrow> Option.bind a app_Spec = rm_specs w i)) w"
    by (cases "rm_spec w") (auto simp: does_def rm_client_def rm_app_def rm_specs_def fresh_app_def)
next
  fix c i s w assume "rm_specs w i \<noteq> None"
  then show "does (Apps_Update (rm_client c) i s) (\<lambda>r w'. rm_ticks w' \<le> rm_ticks w \<and> (case r of
      Ok _ \<Rightarrow> stored rm_specs i s w w' | Err e \<Rightarrow> rm_specs w' = rm_specs w \<or> \<not> isMigrationRepairComponentNameConflict e \<and> stored rm_specs i s w w'
    | Panic p \<Rightarrow> False)) w"
    by (auto simp: does_def rm_client_def rm_specs_def stored_def Let_def fun_eq_iff isMigrationRepairComponentNameConflict_def split: if_splits call_ctx.splits)
next
  fix c p
  show "steady rm_specs rm_ticks (find_page (Apps_List (rm_client c)) p 1)"
    using static_pages.find_page_all [of "\<lambda>w. [[rm_app w]]" p] by (simp add: steady_def does_def rm_client_def)
next
  fix c i names n
  show "steady rm_specs rm_ticks (collect_pages (Jobs_ListJobInvocations rm_jobs c i names n) 1 [])"
    using static_pages.collect_pages_all [of "\<lambda>w. [rm_invocations names w]"] by (simp add: steady_def does_def rm_jobs_def)
qed (auto simp: steady_def does_def rm_jobs_def rm_env_def rm_specs_def page_lister_def Let_def fun_eq_iff)

text \<open>
  C7: a repair leaves the app as it was. Whatever the API answers, and whether an update without an
  answer was stored or not, \<^verbatim>\<open>RepairDirtyMigration\<close> returns, and then the spec of every app is the
  one it was before, or the answer is a failed result with a diagnostic that the restoration failed,
  and an error. If the calls that the caller cannot cancel succeed, then the specs are as before
  even when the request has timed out, the job was never seen, or the update was refused.
\<close>

theorem repair_restores:
  assumes "repair_world client jobs env specs ticks"
  shows "\<exists>r w'. RepairDirtyMigration client (Some jobs) env req w = Some (r, w') \<and> (\<forall>p. r \<noteq> Panic p)
    \<and> (specs w' = specs w \<or> (\<exists>res e. r = Ok (res, Some e) \<and> broken res)) \<and> (detached_calm client specs \<longrightarrow> specs w' = specs w)"
  using repair_world.repair_mended [OF assms, of req w] unfolding does_def repair_world.mended_def [OF assms]
  by (auto split: option.splits)

lemma rm_calm: "detached_calm rm_client rm_specs"
  by (auto simp: detached_calm_def does_def rm_client_def Let_def rm_specs_def)

definition ex_migrated :: app_spec where
  "ex_migrated = \<lparr>as_Name = ''shop'', as_Region = [], as_Services = [], as_Jobs = [], as_Workers = [], as_StaticSites = [],
     as_Functions = [], as_Databases = [], as_Domains = [], as_Alerts = [], as_Ingress = None, as_Egress = None, as_Maintenance = None, as_Vpc = None,
     as_Features = [], as_DisableEdgeCache = False, as_DisableEmailObfuscation = False, as_EnhancedThreatControl = False\<rparr>"

definition ex_repair :: "bool \<Rightarrow> repair_mem" where
  "ex_repair lossy = \<lparr>rm_spec = Some ex_migrated, rm_ticks = 2, rm_lossy = lossy, rm_log = []\<rparr>"

definition ex_request :: repair_request where
  "ex_request = \<lparr>rq_AppResourceName = ''shop'', rq_JobImage = ''docker.io/acme/migrate:v2'', rq_SourceDir = ''db'', rq_ExpectedDirtyVersion = ''3'',
     rq_ForceVersion = ''2'', rq_ConfirmForce = ''yes'', rq_ThenUp = True, rq_UpIfClean = False, rq_Env = [], rq_TimeoutSeconds = 60\<rparr>"

text \<open>Twice the job is added and taken out again, once although the request failed.\<close>

definition job_history :: "repair_mem \<Rightarrow> string option list list" where
  "job_history w = map (\<lambda>sp. map (map_option job_Name) (as_Jobs sp)) (rm_log w)"

definition ex_job :: string where
  "ex_job = ''wfctl-mig-repair-0102030405ff''"

definition repaired_run :: "bool \<Rightarrow> bool" where
  "repaired_run lossy = (case RepairDirtyMigration rm_client (Some rm_jobs) rm_env ex_request (ex_repair lossy) of
     Some (Ok (res, err), w') \<Rightarrow> (err = None) = (\<not> lossy) \<and> (rr_Status res = MigrationRepairStatusSucceeded) = (\<not> lossy)
       \<and> job_history w' = [[Some ex_job], []]
   | _ \<Rightarrow> False)"

declare find_page.simps [code] collect_pages.simps [code]

theorem repair_restores_witness:
  "\<exists>r w'. RepairDirtyMigration rm_client (Some rm_jobs) rm_env ex_request (ex_repair True) = Some (r, w')
     \<and> rm_specs w' = rm_specs (ex_repair True) \<and> job_history w' = [[Some ex_job], []] \<and> repaired_run False"
proof -
  have run: "repaired_run True" "repaired_run False" by code_simp+
  obtain r w' where r: "RepairDirtyMigration rm_client (Some rm_jobs) rm_env ex_request (ex_repair True) = Some (r, w')"
    and s: "rm_specs w' = rm_specs (ex_repair True)"
    using repair_restores [OF rm_repair.repair_world_axioms, of ex_request "ex_repair True"] rm_calm by blast
  have "job_history w' = [[Some ex_job], []]" using run(1) r by (auto simp: repaired_run_def split: res.splits)
  then show ?thesis using r s run(2) by blast
qed

end
