(* ===== verification/Steps.thy ===== *)
theory Steps
  imports AppPool Troubleshoot MigrationRepair
begin

text \<open>
  The two pipeline steps of the plugin (\<^verbatim>\<open>internal/steps/iac_scale.go\<close>, \<^verbatim>\<open>iac_logs.go\<close>): scaling one
  service of an app, and fetching the logs of an app. Values of type \<^verbatim>\<open>int32\<close> and \<^verbatim>\<open>float32\<close>, which
  no decoder of the plugin makes, are outside the model. The HTTP GET of a log is a parameter.
\<close>

section \<open>Scaling a service\<close>

record step_result =
  st_Output :: cfg
  st_StopPipeline :: bool

text \<open>Reading a key finds the value of the configuration first.\<close>

definition mergeInputs :: "cfg \<Rightarrow> cfg \<Rightarrow> cfg" where
  "mergeInputs current config = config @ filter (\<lambda>(k, _). map_of config k = None) current"

definition max_int32 :: int where
  "max_int32 = 2147483647"

definition intFromAny :: "gval option \<Rightarrow> int res" where
  "intFromAny v = (case v of
     Some (GFloat (Fin q)) \<Rightarrow>
       if of_int (rat_trunc q) \<noteq> q then Err (Errorf ''expected integer value, got fractional float %v'' [FVal (GFloat (Fin q))])
       else if q < 0 \<or> q > of_int max_int32 then Err (Errorf ''value %v out of valid range [0, %d]'' [FVal (GFloat (Fin q)), FInt max_int32])
       else Ok (rat_trunc q)
   | Some (GFloat NaN) \<Rightarrow> Err (Errorf ''expected integer value, got fractional float %v'' [FVal (GFloat NaN)])
   | Some (GFloat f) \<Rightarrow> Err (Errorf ''value %v out of valid range [0, %d]'' [FVal (GFloat f), FInt max_int32])
   | Some (GInt n) \<Rightarrow> Ok n
   | Some (GInt64 n) \<Rightarrow> Ok n
   | Some GNil \<Rightarrow> Err (Errorf ''value is nil (not provided)'' [])
   | None \<Rightarrow> Err (Errorf ''value is nil (not provided)'' [])
   | Some x \<Rightarrow> Err (Errorf ''expected numeric type, got %T'' [FVal x]))"

fun findServiceCount :: "app_service option list \<Rightarrow> string \<Rightarrow> int option res" where
  "findServiceCount [] name = Ok None"
| "findServiceCount (None # svcs) name = Panic ''nil pointer dereference''"
| "findServiceCount (Some svc # svcs) name = (if svc_Name svc = name then Ok (Some (svc_InstanceCount svc)) else findServiceCount svcs name)"

fun setServiceCount :: "app_service option list \<Rightarrow> string \<Rightarrow> int \<Rightarrow> app_service option list" where
  "setServiceCount [] name n = []"
| "setServiceCount (None # svcs) name n = None # setServiceCount svcs name n"
| "setServiceCount (Some svc # svcs) name n =
     (if svc_Name svc = name then Some (svc\<lparr>svc_InstanceCount := n\<rparr>) # svcs else Some svc # setServiceCount svcs name n)"

definition serviceNames :: "app_service option list \<Rightarrow> string res" where
  "serviceNames svcs =
     (if svcs = [] then Ok ''<none>''
      else if None \<in> set svcs then Panic ''nil pointer dereference''
      else Ok (str_join '', '' (map (\<lambda>s. svc_Name (the s)) svcs)))"

definition wrapGodoErr :: "go_error \<Rightarrow> go_error" where
  "wrapGodoErr e = (case errors_as_godo e of
     Some (Some st, _) \<Rightarrow> if st = 409 then Wrapf ''concurrent update conflict (another deployment is in progress): %w'' [] e else e
   | _ \<Rightarrow> e)"

definition scale_output :: "int \<Rightarrow> int \<Rightarrow> string \<Rightarrow> string \<Rightarrow> step_result" where
  "scale_output previous now appID depID = \<lparr>st_Output =
     [(''previous_count'', GFloat (f64_of_int previous)), (''new_count'', GFloat (f64_of_int now)),
      (''app_id'', GStr appID), (''deployment_id'', GStr depID)], st_StopPipeline = False\<rparr>"

definition updated_deployment :: "app option \<Rightarrow> string" where
  "updated_deployment updated = (case Option.bind updated app_InProgress of None \<Rightarrow> [] | Some dep \<Rightarrow> dep_ID dep)"

text \<open>The update of a scaling whose service and current count are known.\<close>

definition scale_to :: "'w app_client \<Rightarrow> string \<Rightarrow> string \<Rightarrow> string \<Rightarrow> int \<Rightarrow> app_spec \<Rightarrow> int \<Rightarrow> ('w, step_result) io" where
  "scale_to client sname appID componentName target spec previous =
     (if previous = target then io_ok (scale_output previous previous appID [])
      else io_bind (io_wrap (\<lambda>e. Wrapf ''step %s: scale app %q component %q to %d: %w''
               [FStr sname, FStr appID, FStr componentName, FInt target] (wrapGodoErr e))
             (Apps_Update client appID (spec\<lparr>as_Services := setServiceCount (as_Services spec) componentName target\<rparr>))) (\<lambda>updated.
           io_ok (scale_output previous target appID (updated_deployment updated))))"

definition scale_Execute :: "string \<Rightarrow> 'w app_client option \<Rightarrow> cfg \<Rightarrow> cfg \<Rightarrow> ('w, step_result) io" where
  "scale_Execute sname client_opt current config =
     (case client_opt of
        None \<Rightarrow> io_err (Errorf ''step %s: DigitalOcean client not initialized (plugin not yet configured via iac.provider)'' [FStr sname])
      | Some client \<Rightarrow>
        let merged = mergeInputs current config; appID = str_or_empty (map_of merged ''app_id'');
            componentName = str_or_empty (map_of merged ''component_name'') in
        if appID = [] then io_err (Errorf ''step %s: app_id is required'' [FStr sname])
        else if componentName = [] then io_err (Errorf ''step %s: component_name is required'' [FStr sname])
        else
          io_bind (io_res (res_wrap (Wrapf ''step %s: instance_count: %w'' [FStr sname]) (intFromAny (map_of merged ''instance_count'')))) (\<lambda>target.
          if target < 0 then io_err (Errorf ''step %s: instance_count must be >= 0, got %d'' [FStr sname, FInt target])
          else
            io_bind (io_wrap (\<lambda>e. Wrapf ''step %s: get app %q: %w'' [FStr sname, FStr appID] (wrapGodoErr e)) (Apps_Get client appID)) (\<lambda>got.
            io_deref got (\<lambda>a. case app_Spec a of
              None \<Rightarrow> io_err (Errorf ''step %s: app %q has no spec'' [FStr sname, FStr appID])
            | Some spec \<Rightarrow>
              io_bind (io_res (findServiceCount (as_Services spec) componentName)) (\<lambda>count. case count of
                None \<Rightarrow> io_bind (io_res (serviceNames (as_Services spec))) (\<lambda>names.
                  io_err (Errorf ''step %s: component %q not found in app %q (available services: %s)''
                    [FStr sname, FStr componentName, FStr appID, FStr names]))
              | Some previous \<Rightarrow> scale_to client sname appID componentName target spec previous)))))"

section \<open>Fetching logs\<close>

record 'w logs_client =
  LC_List :: "('w, app option) lister"
  LC_GetLogs :: "string \<Rightarrow> string \<Rightarrow> string \<Rightarrow> string \<Rightarrow> bool \<Rightarrow> int \<Rightarrow> ('w, app_logs option) io"

record logs_config =
  lc_module :: string
  lc_logType :: string
  lc_componentName :: string
  lc_tailLines :: int
  lc_follow :: bool

definition parse_log_type :: "string \<Rightarrow> string option" where
  "parse_log_type s = (let u = to_upper s in if u \<in> {''BUILD'', ''DEPLOY'', ''RUN'', ''RUN_RESTARTED''} then Some u else None)"

definition parseLogType :: "string \<Rightarrow> string res" where
  "parseLogType s = (case parse_log_type s of Some t \<Rightarrow> Ok t
     | None \<Rightarrow> Err (Errorf ''unsupported log_type %q; valid values: BUILD, DEPLOY, RUN, RUN_RESTARTED'' [FStr s]))"

definition logs_intFromConfig :: "cfg \<Rightarrow> string \<Rightarrow> int option" where
  "logs_intFromConfig config key = (case map_of config key of
     Some (GInt n) \<Rightarrow> Some n | Some (GInt64 n) \<Rightarrow> Some n | Some (GFloat f) \<Rightarrow> Some (f64_to_int f) | _ \<Rightarrow> None)"

definition logs_CreateStep :: "string \<Rightarrow> cfg \<Rightarrow> logs_config res" where
  "logs_CreateStep typeName config =
     (if typeName \<noteq> ''step.iac_logs'' then Err (Errorf ''iac_logs factory: unsupported step type %q'' [FStr typeName])
      else
        let moduleName = str_or_empty (map_of config ''module'') in
        if moduleName = [] then Err (Errorf ''step.iac_logs: 'module' is required (name of an infra.container_service resource)'' [])
        else
          let logTypeStr = str_or_empty (map_of config ''log_type'');
              logTypeStr = (if logTypeStr = [] then ''RUN'' else logTypeStr) in
          res_bind (res_wrap (Wrapf ''step.iac_logs: %w'' []) (parseLogType logTypeStr)) (\<lambda>lt.
          Ok \<lparr>lc_module = moduleName, lc_logType = lt, lc_componentName = str_or_empty (map_of config ''component_name''),
              lc_tailLines = (case logs_intFromConfig config ''tail_lines'' of Some n \<Rightarrow> if n > 0 then n else 100 | None \<Rightarrow> 100),
              lc_follow = (as_bool (map_of config ''follow'') = Some True)\<rparr>))"

text \<open>
  The pages are counted until one is shorter than 200. That an app is found, or the last page, ends
  the loop; it may go on for ever.
\<close>

fun app_on_page :: "string \<Rightarrow> app option list \<Rightarrow> string option res" where
  "app_on_page name [] = Ok None"
| "app_on_page name (None # as) = Panic ''nil pointer dereference''"
| "app_on_page name (Some a # as) =
     (if map_option as_Name (app_Spec a) = Some name then Ok (Some (app_ID a)) else app_on_page name as)"

partial_function (option) app_pages :: "('w, app option) lister \<Rightarrow> string \<Rightarrow> nat \<Rightarrow> 'w \<Rightarrow> (string res \<times> 'w) option" where
  "app_pages list name page w =
     (case list page w of
        None \<Rightarrow> None
      | Some (r, w') \<Rightarrow>
        (case r of
           Ok (as, l) \<Rightarrow>
             (case app_on_page name as of
                Ok (Some i) \<Rightarrow> Some (Ok i, w')
              | Ok None \<Rightarrow>
                  if length as < 200 then Some (Err (Errorf ''app %q not found in DigitalOcean App Platform'' [FStr name]), w')
                  else app_pages list name (Suc page) w'
              | Err e \<Rightarrow> Some (Err e, w')
              | Panic p \<Rightarrow> Some (Panic p, w'))
         | Err e \<Rightarrow> Some (Err e, w')
         | Panic p \<Rightarrow> Some (Panic p, w')))"

declare app_pages.simps [code]

definition log_resolveAppID :: "'w logs_client \<Rightarrow> string \<Rightarrow> ('w, string) io" where
  "log_resolveAppID client name = app_pages (LC_List client) name 1"

text \<open>
  An HTTP GET, with the cap on the body that is read: the URL may be no URL, the request may fail,
  or there is a status and what reading the body gives.
\<close>

datatype http_answer = BadURL | NoAnswer go_error | Answer int "string res"

type_synonym 'w http_get = "string \<Rightarrow> nat \<Rightarrow> ('w, http_answer) io"

definition maxLogCaptureBytes :: nat where
  "maxLogCaptureBytes = 10 * 1024 * 1024"

definition last_lines :: "int \<Rightarrow> string \<Rightarrow> string list option" where
  "last_lines n s = (let ls = split_on newline (trim_newlines s) in
     if int (length ls) \<le> n then None else Some (drop (nat (int (length ls) - n)) ls))"

definition step_tailString :: "string \<Rightarrow> int \<Rightarrow> string" where
  "step_tailString s n = (case last_lines n s of None \<Rightarrow> s | Some ls \<Rightarrow> str_join [newline] ls)"

definition fetchLogContent :: "'w http_get \<Rightarrow> string \<Rightarrow> int \<Rightarrow> ('w, string) io" where
  "fetchLogContent http url tailLines =
     io_bind (http url maxLogCaptureBytes) (\<lambda>answer. case answer of
       BadURL \<Rightarrow> io_err (Errorf ''log request: invalid URL shape'' [])
     | NoAnswer e \<Rightarrow> io_err (Errorf ''log fetch: network error'' [])
     | Answer st body \<Rightarrow>
         if st \<noteq> 200 then io_err (Errorf ''log fetch: HTTP %d'' [FInt st])
         else io_bind (io_wrap (Wrapf ''log fetch: read body: %w'' []) (io_res body)) (\<lambda>b. io_ok (step_tailString b tailLines)))"

definition live_url :: "app_logs option \<Rightarrow> string" where
  "live_url logs = (case logs of None \<Rightarrow> [] | Some l \<Rightarrow> al_LiveURL l)"

definition historic_urls :: "app_logs option \<Rightarrow> string list" where
  "historic_urls logs = (case logs of None \<Rightarrow> [] | Some l \<Rightarrow> al_HistoricURLs l)"

definition logs_output :: "string \<Rightarrow> string \<Rightarrow> string \<Rightarrow> step_result" where
  "logs_output text url componentName = \<lparr>st_Output = [(''logs'', GStr text), (''log_url'', GStr url),
     (''component_count'', GFloat (f64_of_int (if componentName = [] then 0 else 1)))], st_StopPipeline = False\<rparr>"

definition logs_Execute :: "'w http_get \<Rightarrow> 'w logs_client option \<Rightarrow> logs_config \<Rightarrow> ('w, step_result) io" where
  "logs_Execute http client_opt c =
     (case client_opt of
        None \<Rightarrow> io_err (Errorf ''step.iac_logs: DO provider not initialized (client is nil)'' [])
      | Some client \<Rightarrow>
        io_bind (io_wrap (Wrapf ''step.iac_logs: %w'' []) (log_resolveAppID client (lc_module c))) (\<lambda>appID.
        io_bind (io_wrap (Wrapf ''step.iac_logs: GetLogs app=%s: %w'' [FStr (lc_module c)])
          (LC_GetLogs client appID [] (lc_componentName c) (lc_logType c) (lc_follow c) (lc_tailLines c))) (\<lambda>logs.
        io_bind (case historic_urls logs of
            [] \<Rightarrow> io_ok []
          | u # _ \<Rightarrow> io_handle (fetchLogContent http u (lc_tailLines c)) io_ok (\<lambda>_. io_ok [])) (\<lambda>text.
        io_ok (logs_output text (live_url logs) (lc_componentName c))))))"

end
