(* ===== verification/StepRouter.thy ===== *)
theory StepRouter
  imports Steps AppHash DatabaseUser "HOL-Library.AList"
begin

text \<open>
  The router of the pipeline steps (\<^verbatim>\<open>internal/step_router.go\<close>): the live instances by handle, and the
  counter that numbers the handles. An instance keeps the client the provider had when it was
  created, which may be none. Requests run one at a time. A value that a \<^verbatim>\<open>structpb.Struct\<close> cannot
  hold is here a text that is not UTF-8.
\<close>

section \<open>Handles\<close>

datatype 'w step_instance = LogsStep "'w logs_client option" logs_config | ScaleStep string "'w app_client option"

record 'w step_registry =
  sr_instances :: "(string \<times> 'w step_instance) list"
  sr_counter :: "64 word"

record 'w step_clients =
  sc_logs :: "'w logs_client option"
  sc_scale :: "'w app_client option"

definition handle_id :: "64 word \<Rightarrow> string" where
  "handle_id n = ''do-step-'' @ show_nat (unat n)"

definition newHandleID :: "'w step_registry \<Rightarrow> string \<times> 'w step_registry" where
  "newHandleID s = (let n = sr_counter s + 1 in (handle_id n, s\<lparr>sr_counter := n\<rparr>))"

text \<open>The error of a response is a text, a handle otherwise.\<close>

definition new_instance :: "'w step_clients \<Rightarrow> string \<Rightarrow> string \<Rightarrow> cfg option \<Rightarrow> message + 'w step_instance" where
  "new_instance clients ty nm config_opt =
     (let config = (case config_opt of None \<Rightarrow> [] | Some m \<Rightarrow> m) in
      if ty = ''step.iac_logs'' then (case logs_CreateStep ty config of
          Ok c \<Rightarrow> Inr (LogsStep (sc_logs clients) c) | Err e \<Rightarrow> Inl (ErrorText e) | Panic p \<Rightarrow> Inl (Text p))
      else if ty = ''step.iac_scale'' then Inr (ScaleStep nm (sc_scale clients))
      else Inl (Format ''unknown step type %q'' [FStr ty]))"

definition CreateStep :: "'w step_clients \<Rightarrow> string \<Rightarrow> string \<Rightarrow> cfg option \<Rightarrow> 'w step_registry \<Rightarrow> (message + string) \<times> 'w step_registry" where
  "CreateStep clients ty nm config s = (case new_instance clients ty nm config of
     Inl e \<Rightarrow> (Inl e, s)
   | Inr i \<Rightarrow> (case newHandleID s of (h, s') \<Rightarrow> (Inr h, s'\<lparr>sr_instances := AList.update h i (sr_instances s')\<rparr>)))"

definition unknown_handle :: "string \<Rightarrow> message" where
  "unknown_handle h = Format ''unknown step handle: %s'' [FStr h]"

definition DestroyStep :: "string \<Rightarrow> 'w step_registry \<Rightarrow> message option \<times> 'w step_registry" where
  "DestroyStep h s = (case map_of (sr_instances s) h of
     None \<Rightarrow> (Some (unknown_handle h), s)
   | Some _ \<Rightarrow> (None, s\<lparr>sr_instances := AList.delete h (sr_instances s)\<rparr>))"

section \<open>Executing a step\<close>

fun struct_value :: "gval \<Rightarrow> bool" where
  "struct_value (GStr t) = valid_utf8 t"
| "struct_value _ = True"

definition encodable :: "cfg \<Rightarrow> bool" where
  "encodable out = list_all (\<lambda>(k, v). valid_utf8 k \<and> struct_value v) out"

definition step_Execute :: "'w http_get \<Rightarrow> 'w step_instance \<Rightarrow> cfg \<Rightarrow> cfg \<Rightarrow> ('w, step_result) io" where
  "step_Execute http i current config = (case i of
     LogsStep client c \<Rightarrow> logs_Execute http client c | ScaleStep nm client \<Rightarrow> scale_Execute nm client current config)"

definition ExecuteStep :: "'w http_get \<Rightarrow> string \<Rightarrow> cfg \<Rightarrow> cfg \<Rightarrow> ('w \<times> 'w step_registry, message + step_result) io" where
  "ExecuteStep http h current config = io_bind get_state (\<lambda>s. case map_of (sr_instances s) h of
     None \<Rightarrow> io_ok (Inl (unknown_handle h))
   | Some i \<Rightarrow> io_handle (on_api (step_Execute http i current config))
       (\<lambda>res. if encodable (st_Output res) then io_ok (Inr res) else io_ok (Inl (Format ''encode step output: %v'' [])))
       (\<lambda>e. io_ok (Inl (ErrorText e))))"

section \<open>The handles over a run\<close>

text \<open>A request that changes the registry, its answer, and a run of them.\<close>

datatype 'w step_request = Create "'w step_clients" string string "cfg option" | Destroy string

fun serve :: "'w step_request \<Rightarrow> 'w step_registry \<Rightarrow> string option \<times> 'w step_registry" where
  "serve (Create clients ty nm config) s = (case CreateStep clients ty nm config s of
     (Inl e, s') \<Rightarrow> (None, s') | (Inr h, s') \<Rightarrow> (Some h, s'))"
| "serve (Destroy h) s = (None, snd (DestroyStep h s))"

fun serve_all :: "'w step_request list \<Rightarrow> 'w step_registry \<Rightarrow> string option list \<times> 'w step_registry" where
  "serve_all [] s = ([], s)"
| "serve_all (r # rs) s = (case serve r s of (h, s') \<Rightarrow> case serve_all rs s' of (hs, s'') \<Rightarrow> (h # hs, s''))"

definition empty_registry :: "'w step_registry" where
  "empty_registry = \<lparr>sr_instances = [], sr_counter = 0\<rparr>"

text \<open>What the host may expect: the handles it holds, each with the instance it asked for.\<close>

fun live :: "'w step_request list \<Rightarrow> string option list \<Rightarrow> (string \<rightharpoonup> 'w step_instance) \<Rightarrow> string \<rightharpoonup> 'w step_instance" where
  "live (Create clients ty nm config # rs) (Some h # hs) m = live rs hs (case new_instance clients ty nm config of Inr i \<Rightarrow> m(h \<mapsto> i) | Inl e \<Rightarrow> m)"
| "live (Destroy h # rs) (_ # hs) m = live rs hs (m(h := None))"
| "live (_ # rs) (_ # hs) m = live rs hs m"
| "live _ _ m = m"

definition numbered :: "64 word \<Rightarrow> string set" where
  "numbered n = {h. \<exists>k. 0 < unat k \<and> k \<le> n \<and> h = handle_id k}"

lemma handle_id_inj: "handle_id a = handle_id b \<Longrightarrow> a = b"
  unfolding handle_id_def by (metis append_same_eq same_append_eq show_nat_inj word_unat_eq_iff)

lemma numbered_next:
  assumes "unat n + 1 < 2 ^ 64"
  shows "handle_id (n + 1) \<notin> numbered n" and "numbered n \<subseteq> numbered (n + 1)" and "handle_id (n + 1) \<in> numbered (n + 1)"
proof -
  have u: "unat (n + 1) = unat n + 1" using assms by (simp add: unat_add_lem [THEN iffD1])
  then have lt: "n < n + 1" by (simp add: word_less_nat_alt)
  show "handle_id (n + 1) \<notin> numbered n" using lt by (auto simp: numbered_def dest!: handle_id_inj)
  have "k \<le> n + 1" if "k \<le> n" for k using that lt by simp
  then show "numbered n \<subseteq> numbered (n + 1)" by (auto simp: numbered_def)
  show "handle_id (n + 1) \<in> numbered (n + 1)" unfolding numbered_def using u by (auto intro!: exI [of _ "n + 1"])
qed

text \<open>The handles that were answered.\<close>

definition given :: "string option list \<Rightarrow> string list" where
  "given hs = map the (filter (\<lambda>h. h \<noteq> None) hs)"

lemma given_simps [simp]: "given [] = []" "given (None # hs) = given hs" "given (Some h # hs) = h # given hs"
  by (simp_all add: given_def)

lemma serve_all_live:
  "serve_all rs s = (hs, s') \<Longrightarrow> dom (map_of (sr_instances s)) \<subseteq> numbered (sr_counter s) \<Longrightarrow> unat (sr_counter s) + length rs < 2 ^ 64
   \<Longrightarrow> map_of (sr_instances s') = live rs hs (map_of (sr_instances s)) \<and> distinct (given hs)
     \<and> set (given hs) \<inter> numbered (sr_counter s) = {}"
proof (induction rs arbitrary: s hs)
  case (Cons r rs)
  obtain h s1 hs1 where r: "serve r s = (h, s1)" and rest: "serve_all rs s1 = (hs1, s')" and hs: "hs = h # hs1"
    using Cons.prems(1) by (auto split: prod.splits)
  have room: "unat (sr_counter s) + 1 < 2 ^ 64" using Cons.prems(3) by simp
  have same: "unat (sr_counter s1) + length rs < 2 ^ 64" if "sr_counter s1 = sr_counter s" using Cons.prems(3) that by simp
  show ?case
  proof (cases r)
    case (Destroy x)
    have s1: "map_of (sr_instances s1) = (map_of (sr_instances s))(x := None)" "sr_counter s1 = sr_counter s" "h = None"
      using r by (auto simp: Destroy DestroyStep_def AList.delete_conv' fun_upd_idem_iff split: option.splits)
    have "dom (map_of (sr_instances s1)) \<subseteq> numbered (sr_counter s1)" using Cons.prems(2) by (auto simp: s1)
    from Cons.IH [OF rest this same [OF s1(2)]] show ?thesis unfolding hs Destroy by (simp add: s1 fun_upd_def)
  next
    case (Create clients ty nm config)
    show ?thesis
    proof (cases "new_instance clients ty nm config")
      case (Inl e)
      have s1: "s1 = s" "h = None" using r by (auto simp: Create CreateStep_def Inl)
      have "dom (map_of (sr_instances s1)) \<subseteq> numbered (sr_counter s1)" using Cons.prems(2) by (simp add: s1)
      from Cons.IH [OF rest this same] show ?thesis unfolding hs Create by (simp add: s1)
    next
      case (Inr i)
      let ?n = "sr_counter s + 1"
      have s1: "map_of (sr_instances s1) = (map_of (sr_instances s))(handle_id ?n \<mapsto> i)" "sr_counter s1 = ?n" "h = Some (handle_id ?n)"
        using r by (auto simp: Create CreateStep_def Inr newHandleID_def Let_def AList.update_conv')
      have u: "unat ?n = unat (sr_counter s) + 1" using room by (simp add: unat_add_lem [THEN iffD1])
      have d: "dom (map_of (sr_instances s1)) \<subseteq> numbered (sr_counter s1)"
        using Cons.prems(2) numbered_next(2,3) [OF room] by (auto simp: s1)
      have l: "unat (sr_counter s1) + length rs < 2 ^ 64" using Cons.prems(3) u by (simp add: s1)
      from Cons.IH [OF rest d l] have ih: "map_of (sr_instances s') = live rs hs1 (map_of (sr_instances s1))" "distinct (given hs1)"
        "set (given hs1) \<inter> numbered ?n = {}" by (simp_all add: s1 fun_upd_def)
      then show ?thesis unfolding hs Create
        using numbered_next [OF room] Inr by (auto simp: s1 fun_upd_def)
    qed
  qed
qed simp

text \<open>
  C38: the handles of the steps. Over any run of fewer than \<open>2 ^ 64\<close> requests to create and destroy steps,
  no handle is given twice; afterwards the router holds exactly the steps that were created and
  not destroyed, each under its handle. \<^verbatim>\<open>ExecuteStep\<close> of a handle runs the step that was created
  under it, with the clients of the time of its creation, and that of another handle calls nothing.
\<close>

theorem handles_live:
  assumes "serve_all rs empty_registry = (hs, s)" and "length rs < 2 ^ 64"
  shows "distinct (given hs) \<and> map_of (sr_instances s) = live rs hs Map.empty
    \<and> (live rs hs Map.empty h = None \<longrightarrow> ExecuteStep http h current config (w, s) = Some (Ok (Inl (unknown_handle h)), (w, s)))
    \<and> (\<forall>i res w'. live rs hs Map.empty h = Some i \<longrightarrow> step_Execute http i current config w = Some (Ok res, w') \<longrightarrow> encodable (st_Output res)
         \<longrightarrow> ExecuteStep http h current config (w, s) = Some (Ok (Inr res), (w', s)))"
proof -
  have l: "map_of (sr_instances s) = live rs hs Map.empty" and d: "distinct (given hs)"
    using serve_all_live [OF assms(1)] assms(2) by (simp_all add: empty_registry_def)
  show ?thesis unfolding l [symmetric] using d
    by (auto simp: ExecuteStep_def io_bind_def get_state_def io_ok_def io_handle_def on_api_def)
qed

definition ex_requests :: "unit step_request list" where
  "ex_requests = (let c = \<lparr>sc_logs = None, sc_scale = None\<rparr> in
     [Create c ''step.iac_scale'' ''a'' None, Create c ''step.none'' ''b'' None, Create c ''step.iac_scale'' ''c'' None,
      Destroy ''do-step-1'', Destroy ''do-step-9''])"

theorem handles_live_witness:
  "\<exists>hs s. serve_all ex_requests empty_registry = (hs, s) \<and> given hs = [''do-step-1'', ''do-step-2'']
     \<and> map_of (sr_instances s) = [''do-step-2'' \<mapsto> ScaleStep ''c'' None]"
proof -
  obtain hs s where r: "serve_all ex_requests empty_registry = (hs, s)" by (cases "serve_all ex_requests empty_registry")
  have "fst (serve_all ex_requests empty_registry) = [Some ''do-step-1'', None, Some ''do-step-2'', None, None]" by code_simp
  then have hs: "hs = [Some ''do-step-1'', None, Some ''do-step-2'', None, None]" using r by simp
  have l: "live ex_requests hs Map.empty = [''do-step-2'' \<mapsto> ScaleStep ''c'' None]"
    unfolding hs ex_requests_def Let_def by (simp add: new_instance_def fun_eq_iff)
  have n: "length ex_requests < 2 ^ 64" by (simp add: ex_requests_def Let_def)
  show ?thesis using handles_live [OF r n] r l by (simp add: hs)
qed

end
