(* ===== verification/Spec2Isabelle.thy ===== *)
theory Spec2Isabelle
  imports Prelude Resource Errors ConfigUtil Volume Json StateBackend StateContract StateProtocol StateServer Heal Vpc Certificate DeepEqual Firewall NextPages SpacesKey DropletPricing Regions PlanValidation Provider Ownership AppDrift DnsDiff AppDomainEdit AppHealth AppCname TroubleshootReport RollingSafe DropletReplace LoadBalancer Kubernetes Cache ApiGateway Buckets DatabaseRotation DatabaseFirewall RepairSafe StepRouter
begin

text \<open>
  A verification library for the DigitalOcean plugin: a provider of infrastructure resources that a
  host drives over gRPC. The host has a desired spec for each resource; a driver per resource type
  creates, reads, updates, deletes and compares it through the API client \<^verbatim>\<open>godo\<close>; the provider
  dispatches to the drivers; a state store on S3 keeps what was made. Paths below are relative to
  \<^verbatim>\<open>src/internal\<close>.

  Conventions. A Go function that calls the API is an operation on a world: it returns a value, an
  error or a panic and the next world, or never returns (theory Prelude). The clients are records of
  such operations, parameters of every definition that uses them; what a theorem relies on of a
  client is a locale over the client (\<open>paged_list\<close>, \<open>s3_objects\<close>, \<open>dns_zone\<close>, \<open>app_store\<close>, \<open>app_pool\<close>,
  \<open>tagged_resource\<close>, \<open>droplet_api\<close>, \<open>user_api\<close>, \<open>firewall_api\<close>, \<open>repair_world\<close> and others), and each is
  interpreted on a concrete client in memory, on which the witnesses run the code. State a driver
  keeps in memory stands beside the world (theory Stateful). Errors keep their format string and
  arguments instead of their text; \<^verbatim>\<open>errors.Is\<close> and \<^verbatim>\<open>errors.As\<close> walk them. Strings are byte strings,
  white space and letter case are those of ASCII. A float is a rational or one of the special
  values. A Go map is an association list, in the order an iteration takes.

  Shared parts.
  \<^item> Prelude, Json, DeepEqual, NetURL, NetIP: what the plugin uses of Go's standard library.
  \<^item> Resource, Errors, ConfigUtil, Heal, NextPages, Stateful, Polling: the records of the interfaces
    package, \<^verbatim>\<open>drivers/errors.go\<close>, \<^verbatim>\<open>drivers/util.go\<close> and \<^verbatim>\<open>shared.go\<close>, the lookup by name and the
    healing of stale ids that several drivers repeat, the two page loops, state, the polling loops.
    Locales \<open>differ\<close> and \<open>field_differ\<close> are the contract of every \<^verbatim>\<open>Diff\<close>, interpreted for each driver.

  Components.
  \<^item> StateBackend, StateContract, StateProtocol, StateServer: \<^verbatim>\<open>statebackend/spaces.go\<close> and
    \<^verbatim>\<open>statebackend_server.go\<close>. The store refines a map of records and a set of locks; the lock is
    exclusive under every interleaving of the S3 calls of several clients.
  \<^item> Provider, PlanValidation, Ownership, Regions, DropletPricing: \<^verbatim>\<open>provider.go\<close>, \<^verbatim>\<open>validate_plan.go\<close>,
    \<^verbatim>\<open>ownership.go\<close>, \<^verbatim>\<open>sizing.go\<close>, \<^verbatim>\<open>drivers/droplet_pricing.go\<close>, \<^verbatim>\<open>drivers/app_platform_region.go\<close>.
  \<^item> Volume, Vpc, Certificate, Firewall, SpacesKey, LoadBalancer, Kubernetes, Cache, ApiGateway,
    Buckets, Droplet and DropletReplace, DatabaseUser and DatabaseRotation, Database and
    DatabaseFirewall: the drivers of the same names under \<^verbatim>\<open>drivers/\<close> (Buckets holds the registry,
    Spaces and IAM drivers). The second theory of a pair holds what the driver achieves.
  \<^item> DnsTypes, DnsRecord, Dns, DnsZone, DnsConverge, DnsDiff: \<^verbatim>\<open>drivers/dns.go\<close>; applying the declared
    records converges, and a second time does nothing.
  \<^item> AppTypes, ImageRef, AppBuild, AppSpecBuild, AppHash, AppOutput, AppDrift, AppImages, AppDomain,
    AppDomainEdit, AppReadiness, AppDeployments, AppStore, AppPlatform, AppHealth, AppCname,
    Troubleshoot, TroubleshootReport: App Platform (\<^verbatim>\<open>drivers/app_platform*.go\<close>, \<^verbatim>\<open>app_domain.go\<close>).
  \<^item> Deploy, AppPool, RollingSafe: \<^verbatim>\<open>drivers/deploy.go\<close>; which apps a deployment may change.
  \<^item> MigrationRepair, RepairSafe: \<^verbatim>\<open>drivers/app_platform_migration_repair.go\<close>; a repair returns and
    leaves the spec of the app as it was.
  \<^item> Steps, StepRouter: \<^verbatim>\<open>steps/iac_scale.go\<close>, \<^verbatim>\<open>steps/iac_logs.go\<close>, \<^verbatim>\<open>step_router.go\<close>.

  Bounds. Page and poll loops are \<^theory_text>\<open>partial_function (option)\<close>: \<open>None\<close> means that they never return,
  and the theorems that need an answer prove that there is one, from a client that marks its last
  page, or a clock that goes on. Bounded loops carry the bound of the code: five attempts at a
  conflicting DNS record, three updates of a repair and 32 names for its job, ten pages of registry
  tags, 100 pages of sizes, three diagnosed deployments. Counters and random tokens are words of
  their width.

  Not modelled. Operations of one driver run one at a time, so its mutexes are left out; messages on
  standard error are left out, unless a theorem is about them. The conversions of the gRPC server
  (\<^verbatim>\<open>iacserver*.go\<close>, \<^verbatim>\<open>resourcedriver_server.go\<close>, \<^verbatim>\<open>ownership_server.go\<close>, \<^verbatim>\<open>logcapture_server.go\<close>) copy
  messages field by field around the operations modelled here. The job runner
  (\<^verbatim>\<open>app_platform_runner.go\<close>) keeps its state in a handle and compares digests of JSON texts, and JSON is
  modelled as documents. Log capture streams a websocket of a third-party package; the bootstrap of
  the state bucket and the list of regions are single calls of an SDK. API logging, the plugin's
  \<^verbatim>\<open>main\<close>, the generated messages, the fixture of the control plane and the policy tool of the CI
  workflows are no part of the logic of the plugin.
\<close>

section \<open>Ownership and the volume driver\<close>





section \<open>Drift of a volume by the status the API answers\<close>

text \<open>
  C19: which answers of the API let a caller prune a volume from its state. Through the provider,
  the volume driver and the error classification, a volume whose read is answered with the HTTP status
  \<open>st\<close> is reported as a ghost exactly for 404 and 405; with every other status (429, 500, 401, \<dots>) the
  whole drift detection fails, wrapping an error of the class of that status.
\<close>

theorem volume_drift_by_status:
  assumes "prov_drivers p ''infra.volume'' = Some (volume_as_driver d)" and "ref_Type ref = ''infra.volume''"
    and "ref_ProviderID ref \<noteq> []" and "GetVolume (vd_client d) (ref_ProviderID ref) w = Some (Err (GodoError (Some st) msg), w)"
  shows "if st = 404 \<or> st = 405
    then DetectDrift p [ref] w = Some (Ok [\<lparr>dr_Name = ref_Name ref, dr_Type = ''infra.volume'', dr_Drifted = True, dr_Class = DriftGhost, dr_Fields = []\<rparr>], w)
    else \<exists>e. DetectDrift p [ref] w = Some (Err e, w) \<and> (\<forall>s. errors_is e s = (sentinelForStatus st = Some s))"
proof -
  have n: "sentinelForStatus st = Some ErrResourceNotFound \<longleftrightarrow> st = 404 \<or> st = 405"
    by (auto simp: sentinelForStatus_def)
  have r: "rd_Read (volume_as_driver d) ref w = Some (Err (Wrapf ''volume read %q: %w'' [FStr (ref_Name ref)] (WrapGodoError (GodoError (Some st) msg))), w)"
    using assms(3,4) by (simp add: volume_as_driver_def volume_Read_def io_simps)
  show ?thesis
    using n by (simp add: DetectDrift_def drift_of_def provider_driver_def assms(1,2) io_simps r WrapGodoError_status drift_def)
qed

theorem volume_drift_by_status_witness:
  "\<exists>r. DetectDrift owner_provider [ex_ref ''infra.volume'' ''gone''] ex_cloud = Some (Ok [r], ex_cloud) \<and> dr_Class r = DriftGhost"
proof -
  have p: "prov_drivers owner_provider ''infra.volume'' = Some (volume_as_driver cloud_volumes)" by (simp add: owner_provider_def)
  have g: "GetVolume (vd_client cloud_volumes) (ref_ProviderID (ex_ref ''infra.volume'' ''gone'')) ex_cloud
      = Some (Err (GodoError (Some 404) ''not found''), ex_cloud)"
    by (simp add: cloud_volumes_def ex_ref_def volume_of_def ex_cloud_def)
  show ?thesis
    using volume_drift_by_status [OF p _ _ g] by (simp add: ex_ref_def)
qed

end
